(* ===== verification/Cubic_Prelude.thy ===== *)
theory Cubic_Prelude
  imports Main "HOL-Library.Word"
begin

text \<open>
  Shared vocabulary of the development: the C++ machine types, the errors a C++ function can end
  in, the result type of fallible code with its sequencing operation, byte buffers addressed by
  pointers, and the generic word and list lemmas the component theories rest on.
\<close>

unbundle bit_operations_syntax

named_theorems result_simps \<open>unfolding rules for sequenced fallible computations\<close>

section \<open>Machine types\<close>

text \<open>
  A C++ integer of width \<open>w\<close> is a \<open>w word\<close>; signed types share the representation with the
  unsigned ones and are read with \<^const>\<open>sint\<close>. \<open>float\<close> and \<open>double\<close> are kept as their IEEE bit
  patterns (\<open>f32\<close>, \<open>f64\<close>): the code modelled here only moves them. \<open>std::string\<close> is a list of
  8-bit characters, a \<open>char\<close> being one byte.
\<close>

type_synonym byte = "8 word"
type_synonym i8 = "8 word"
type_synonym i16 = "16 word"
type_synonym u16 = "16 word"
type_synonym i32 = "32 word"
type_synonym u32 = "32 word"
type_synonym i64 = "64 word"
type_synonym u64 = "64 word"
type_synonym f32 = "32 word"
type_synonym f64 = "64 word"

definition byte_of_char :: "char \<Rightarrow> byte" where
  "byte_of_char c = of_nat (of_char c)"

definition char_of_byte :: "byte \<Rightarrow> char" where
  "char_of_byte b = char_of (unat b)"

lemma char_of_byte_of_char [simp]: "char_of_byte (byte_of_char c) = c"
  by (simp add: char_of_byte_def byte_of_char_def unat_of_nat)

lemma byte_of_char_of_byte [simp]: "byte_of_char (char_of_byte b) = b"
proof -
  have "unat b < 256" using unsigned_less [of b, where ?'a = nat] by simp
  then show ?thesis by (simp add: char_of_byte_def byte_of_char_def)
qed

lemma map_char_of_byte_inverse [simp]: "map (char_of_byte \<circ> byte_of_char) s = s"
  by (induction s) simp_all

section \<open>Errors and results\<close>

text \<open>
  The ways a C++ function can fail to return normally: the exceptions the code throws
  (\<open>protocol/ParseExceptions.hpp\<close>, \<open>nbt.hpp\<close>, \<open>world_storage/DynamicStorage.hpp\<close> and the
  standard ones), a failed \<open>assert\<close>, and the undefined behaviours it can run into. Each is a value, so
  that every throw and every access outside an object is a branch of the model. \<open>OutOfFuel\<close> is no C++
  error: it marks a recursion of the model cut off by its fuel, and is proved unreachable where fuel is
  used.
\<close>

datatype ub =
    OutOfBoundsRead
  | InvalidIteratorRange
  | SignedOverflow
  | InvalidShift
  | DivisionByZero
  | NullDereference
  | FloatOutOfRange

datatype cpp_error =
    PacketEOF
  | VarIntOverflow
  | MaxLengthString
  | OutOfRangeBoolean
  | TypeMismatch
  | EmptyStorageAccess
  | RuntimeError
  | LogicError
  | StdOutOfRange
  | LengthError
  | BadFunctionCall
  | AssertionFailed
  | UB ub
  | OutOfFuel

text \<open>
  The exceptions derived from \<open>std::runtime_error\<close> (all those declared with
  \<open>DEFINE_EXCEPTION\<close>); \<open>std::out_of_range\<close> and \<open>std::length_error\<close> derive from
  \<open>std::logic_error\<close>.
\<close>

fun is_runtime_error :: "cpp_error \<Rightarrow> bool" where
  "is_runtime_error PacketEOF = True"
| "is_runtime_error VarIntOverflow = True"
| "is_runtime_error MaxLengthString = True"
| "is_runtime_error OutOfRangeBoolean = True"
| "is_runtime_error TypeMismatch = True"
| "is_runtime_error EmptyStorageAccess = True"
| "is_runtime_error RuntimeError = True"
| "is_runtime_error _ = False"

type_synonym 'a result = "cpp_error + 'a"

fun rbind :: "'a result \<Rightarrow> ('a \<Rightarrow> 'b result) \<Rightarrow> 'b result" where
  "rbind (Inl e) f = Inl e"
| "rbind (Inr x) f = f x"

lemma rbind_cong [fundef_cong]:
  "m = m' \<Longrightarrow> (\<And>x. m' = Inr x \<Longrightarrow> f x = g x) \<Longrightarrow> rbind m f = rbind m' g"
  by (cases m) auto

lemma rbind_Inr_iff: "rbind m f = Inr y \<longleftrightarrow> (\<exists>x. m = Inr x \<and> f x = Inr y)"
  by (cases m) auto

lemma rbind_Inl_iff:
  "rbind m f = Inl e \<longleftrightarrow> m = Inl e \<or> (\<exists>x. m = Inr x \<and> f x = Inl e)"
  by (cases m) auto

lemma rbind_Inr_right [simp]: "rbind m Inr = m"
  by (cases m) auto

lemma rbind_assoc: "rbind (rbind m f) g = rbind m (\<lambda>x. rbind (f x) g)"
  by (cases m) auto

lemmas rbind_iffs = rbind_Inr_iff rbind_Inl_iff

text \<open>
  An operation that cannot throw, seen at the type of one that can.
\<close>

definition nothrow :: "('s \<Rightarrow> 'a \<Rightarrow> 's) \<Rightarrow> 's \<Rightarrow> 'a \<Rightarrow> 's result" where
  "nothrow f s x = Inr (f s x)"

section \<open>Buffers and pointers\<close>

text \<open>
  A \<open>std::vector<uint8_t>\<close> is a byte list. A pointer into it is the offset from
  \<open>data()\<close>, an \<open>int\<close>: the code computes pointers before the first and past the last byte.
  Reading through a pointer outside the vector is undefined behaviour.
\<close>

type_synonym ptr = int

definition deref :: "byte list \<Rightarrow> ptr \<Rightarrow> byte result" where
  "deref b p = (if 0 \<le> p \<and> p < int (length b) then Inr (b ! nat p) else Inl (UB OutOfBoundsRead))"

text \<open>
  \<open>points b at bs\<close>: \<open>at\<close> points into \<open>b\<close> (or one past its end) and \<open>bs\<close> is what follows.
\<close>

definition points :: "byte list \<Rightarrow> ptr \<Rightarrow> byte list \<Rightarrow> bool" where
  "points b at bs \<longleftrightarrow> 0 \<le> at \<and> nat at \<le> length b \<and> drop (nat at) b = bs"

lemma points_start [simp]: "points b 0 b"
  by (simp add: points_def)

lemma points_append: "points (pre @ bs) (int (length pre)) bs"
  by (simp add: points_def)

lemma points_advance:
  assumes "points b at (bs @ rest)"
  shows "points b (at + int (length bs)) rest"
proof -
  from assms have at: "0 \<le> at" "nat at \<le> length b" and d: "drop (nat at) b = bs @ rest"
    by (auto simp: points_def)
  have "drop (nat at + length bs) b = drop (length bs) (drop (nat at) b)"
    by (simp add: add.commute)
  then have "drop (nat at + length bs) b = rest" by (simp add: d)
  moreover have "length b - nat at = length bs + length rest"
    using arg_cong [OF d, of length] by simp
  ultimately show ?thesis using at
    by (auto simp: points_def nat_add_distrib)
qed

lemma points_Cons_advance: "points b at (x # rest) \<Longrightarrow> points b (at + 1) rest"
  using points_advance [of b at "[x]" rest] by simp

lemma points_nonneg: "points b at bs \<Longrightarrow> 0 \<le> at"
  by (simp add: points_def)

lemma points_length: "points b at bs \<Longrightarrow> int (length b) = at + int (length bs)"
  by (auto simp: points_def)

lemma deref_points [simp]:
  assumes "points b at (x # rest)"
  shows "deref b at = Inr x"
proof -
  from assms have "nat at < length b" and "drop (nat at) b = x # rest" and "0 \<le> at"
    by (auto simp: points_def intro!: Nat.le_neq_implies_less)
  then have "b ! nat at = x" by (metis hd_drop_conv_nth list.sel(1))
  with \<open>nat at < length b\<close> \<open>0 \<le> at\<close> show ?thesis by (simp add: deref_def)
qed

lemma deref_in_bounds: "0 \<le> p \<Longrightarrow> p < int (length b) \<Longrightarrow> deref b p = Inr (b ! nat p)"
  by (simp add: deref_def)

lemma deref_append [simp]:
  "0 \<le> p \<Longrightarrow> p < int (length b) \<Longrightarrow> deref (b @ c) p = deref b p"
  by (auto simp: deref_def nth_append)

section \<open>Words and their bytes\<close>

text \<open>The big-endian bytes of a word and the shift-and-add loop that reads them back.\<close>

definition be_bytes :: "nat \<Rightarrow> 'a::len word \<Rightarrow> byte list" where
  "be_bytes n w = map (\<lambda>i. ucast (drop_bit (8 * (n - 1 - i)) w)) [0..<n]"

definition of_be :: "'a::len word \<Rightarrow> byte list \<Rightarrow> 'a word" where
  "of_be = foldl (\<lambda>v b. push_bit 8 v + ucast b)"

lemma length_be_bytes [simp]: "length (be_bytes n w) = n"
  by (simp add: be_bytes_def)

lemma be_bytes_Suc: "be_bytes (Suc n) w = be_bytes n (drop_bit 8 w) @ [ucast w]"
proof -
  have "map (\<lambda>i. ucast (drop_bit (8 * (n - i)) w)) [0..<n]
      = (map (\<lambda>i. ucast (drop_bit (8 * (n - 1 - i)) (drop_bit 8 w))) [0..<n] :: byte list)"
  proof (rule map_cong [OF refl])
    fix i assume "i \<in> set [0..<n]"
    then have "8 * (n - i) = 8 * (n - 1 - i) + 8" by auto
    then show "(ucast (drop_bit (8 * (n - i)) w) :: byte)
        = ucast (drop_bit (8 * (n - 1 - i)) (drop_bit 8 w))"
      by (simp add: ac_simps)
  qed
  then show ?thesis by (simp add: be_bytes_def)
qed

lemma push_add_byte:
  fixes v :: "'a::len word"
  shows "push_bit 8 v + ucast (b :: byte) = push_bit 8 v OR ucast b"
proof (rule disjunctive_add_eq_or, rule bit_word_eqI)
  fix n
  show "bit (push_bit 8 v AND ucast b) n \<longleftrightarrow> bit (0 :: 'a word) n"
    by (auto simp: bit_simps dest: bit_imp_le_length)
qed

lemma of_be_be_bytes: "of_be 0 (be_bytes n w) = take_bit (8 * n) w"
proof (induction n arbitrary: w)
  case 0
  show ?case by (simp add: be_bytes_def of_be_def)
next
  case (Suc n)
  have "of_be 0 (be_bytes (Suc n) w)
      = push_bit 8 (take_bit (8 * n) (drop_bit 8 w)) OR ucast (ucast w :: byte)"
    using Suc.IH [of "drop_bit 8 w"] by (simp add: be_bytes_Suc of_be_def push_add_byte)
  also have "\<dots> = take_bit (8 * Suc n) w"
    by (rule bit_word_eqI) (auto simp: bit_simps)
  finally show ?case .
qed

lemma of_be_full:
  fixes w :: "'a::len word"
  assumes "8 * n = LENGTH('a)"
  shows "of_be 0 (be_bytes n w) = w"
  using assms by (simp add: of_be_be_bytes)

lemma byte_of_signed_shift:
  fixes w :: "'a::len word"
  assumes "k + 8 \<le> LENGTH('a)"
  shows "(ucast (signed_drop_bit k w AND 255) :: byte) = ucast (drop_bit k w)"
proof (rule bit_word_eqI)
  fix n assume n: "n < LENGTH(8)"
  have "bit (255 :: 'a word) n"
  proof -
    have "(255 :: 'a word) = mask 8" by (simp add: mask_eq_exp_minus_1)
    moreover from n assms have "bit (mask 8 :: 'a word) n" by (simp add: bit_mask_iff)
    ultimately show ?thesis by metis
  qed
  with n assms show "bit (ucast (signed_drop_bit k w AND 255) :: byte) n
      \<longleftrightarrow> bit (ucast (drop_bit k w) :: byte) n"
    by (auto simp: bit_simps bit_signed_drop_bit_iff)
qed

end
