(* ===== verification/Structures.thy ===== *)
theory Structures
  imports Cubic_Prelude
begin

text \<open>
  The small value types the protocol and the world share: \<open>u128\<close>, \<open>Position\<close>, \<open>Position2D\<close>
  (\<open>types.hpp\<close>, \<open>types.cpp\<close>) and the inventory slot with its merge operations
  (\<open>protocol/Structures.hpp\<close>).
\<close>

section \<open>Identifiers and positions\<close>

record u128 =
  u128_most :: u64
  u128_least :: u64

definition swapEndianness :: "u128 \<Rightarrow> u128" where
  "swapEndianness u = u\<lparr>
     u128_most := drop_bit 32 (u128_most u AND 0xffffffff00000000)
       OR push_bit 32 (u128_most u AND 0x00000000ffffffff),
     u128_least := drop_bit 32 (u128_least u AND 0xffffffff00000000)
       OR push_bit 32 (u128_least u AND 0x00000000ffffffff)\<rparr>"

record Position =
  pos_x :: i64
  pos_y :: i64
  pos_z :: i64

record Position2D =
  pos2_x :: i32
  pos2_z :: i32

text \<open>
  The comparisons of a position with a scalar hold when every coordinate compares: \<open>pos >= 16\<close>
  is false as soon as one coordinate is below 16.
\<close>

definition position_ge :: "Position \<Rightarrow> int \<Rightarrow> bool" where
  "position_ge p i \<longleftrightarrow> sint (pos_x p) \<ge> i \<and> sint (pos_y p) \<ge> i \<and> sint (pos_z p) \<ge> i"

definition position_less :: "Position \<Rightarrow> int \<Rightarrow> bool" where
  "position_less p i \<longleftrightarrow> sint (pos_x p) < i \<and> sint (pos_y p) < i \<and> sint (pos_z p) < i"

text \<open>C++ integer division and remainder truncate towards zero.\<close>

definition cdiv :: "int \<Rightarrow> int \<Rightarrow> int" where
  "cdiv a b = sgn a * sgn b * (\<bar>a\<bar> div \<bar>b\<bar>)"

definition cmod :: "int \<Rightarrow> int \<Rightarrow> int" where
  "cmod a b = a - b * cdiv a b"

definition position_mod :: "Position \<Rightarrow> int \<Rightarrow> Position" where
  "position_mod p i = \<lparr>pos_x = of_int (cmod (sint (pos_x p)) i),
     pos_y = of_int (cmod (sint (pos_y p)) i), pos_z = of_int (cmod (sint (pos_z p)) i)\<rparr>"

section \<open>Inventory slots\<close>

record Slot =
  present :: bool
  itemID :: i32
  itemCount :: i8

definition empty_slot :: Slot where
  "empty_slot = \<lparr>present = False, itemID = 0, itemCount = 0\<rparr>"

text \<open>\<open>operator==\<close> ignores the count.\<close>

definition slot_eq :: "Slot \<Rightarrow> Slot \<Rightarrow> bool" where
  "slot_eq a b \<longleftrightarrow> present a = present b \<and> itemID a = itemID b"

definition slot_reset :: "Slot \<Rightarrow> Slot" where
  "slot_reset s = s\<lparr>present := False, itemID := 0, itemCount := 0\<rparr>"

text \<open>
  \<open>Slot::swap\<close> on two distinct objects: the pair is the new \<open>*this\<close> and the new \<open>other\<close>. The
  sum of two counts is computed in \<open>int\<close> and narrowed when it is stored.
\<close>

definition slot_swap :: "Slot \<Rightarrow> Slot \<Rightarrow> Slot \<times> Slot" where
  "slot_swap this other =
     (if itemID this = itemID other \<and> itemID this \<noteq> 0 then
        let rest = sint (itemCount this) + sint (itemCount other) - 64 in
        if rest > 0 then (this\<lparr>itemCount := 64\<rparr>, other\<lparr>itemCount := of_int rest\<rparr>)
        else (this\<lparr>itemCount := of_int (sint (itemCount this) + sint (itemCount other))\<rparr>,
              slot_reset other)
      else (other, this))"

definition slot_swap_count :: "Slot \<Rightarrow> Slot \<Rightarrow> i8 \<Rightarrow> Slot \<times> Slot" where
  "slot_swap_count this other x =
     (if present this \<and> present other \<and> itemID this \<noteq> itemID other then slot_swap this other
      else if sint (itemCount this) \<le> sint x then slot_swap this other
      else
        let other1 = other\<lparr>present := True, itemID := itemID this\<rparr>;
            this1 = this\<lparr>itemCount := of_int (sint (itemCount this) - sint x)\<rparr>;
            other2 = other1\<lparr>itemCount := of_int (sint (itemCount other1) + sint x)\<rparr> in
        if sint (itemCount other2) > 64 then
          (this1\<lparr>itemCount := of_int (sint (itemCount this1) + (sint (itemCount other2) - 64))\<rparr>,
           other2\<lparr>itemCount := 64\<rparr>)
        else (this1, other2))"

end
