(* ===== verification/Pop_Primary.thy ===== *)
theory Pop_Primary
  imports Structures
begin

text \<open>
  The reading side of the wire format: \<open>protocol/serialization/popPrimaryType.hpp\<close> and
  \<open>pop.hpp\<close>. A \<open>pop\<close> function takes the buffer, the pointer \<open>eof\<close> to the last byte it may read
  and the current pointer \<open>at\<close>, which the C++ code passes by reference: the result is the value
  with the new pointer, or the exception thrown.
\<close>

type_synonym 'a pop = "byte list \<Rightarrow> ptr \<Rightarrow> ptr \<Rightarrow> ('a \<times> ptr) result"

section \<open>Fixed-width integers\<close>

definition popByte :: "byte pop" where
  "popByte b eof at =
     (if eof - at < 0 then Inl PacketEOF
      else rbind (deref b at) (\<lambda>value. Inr (value, at + 1)))"

definition popBoolean :: "bool pop" where
  "popBoolean b eof at =
     rbind (popByte b eof at) (\<lambda>(value, at).
       if value \<noteq> 0 \<and> value \<noteq> 1 then Inl OutOfRangeBoolean else Inr (value = 1, at))"

definition popShort :: "u16 pop" where
  "popShort b eof at =
     (if eof - at < 1 then Inl PacketEOF
      else rbind (deref b (at + 1)) (\<lambda>lo. rbind (deref b at) (\<lambda>hi.
             Inr (ucast lo OR push_bit 8 (ucast hi), at + 2))))"

text \<open>The loop \<open>value = (value << 8) + *at++\<close>, run \<open>n\<close> times.\<close>

fun shift_add :: "nat \<Rightarrow> byte list \<Rightarrow> ptr \<Rightarrow> 'a::len word \<Rightarrow> ('a word \<times> ptr) result" where
  "shift_add 0 b at value = Inr (value, at)"
| "shift_add (Suc n) b at value =
     rbind (deref b at) (\<lambda>x. shift_add n b (at + 1) (push_bit 8 value + ucast x))"

definition popInt :: "i32 pop" where
  "popInt b eof at = (if eof - at < 3 then Inl PacketEOF else shift_add 4 b at 0)"

definition popLong :: "i64 pop" where
  "popLong b eof at = (if eof - at < 7 then Inl PacketEOF else shift_add 8 b at 0)"

section \<open>Variable-length integers\<close>

text \<open>
  The loop shared by \<open>popVarInt\<close> and \<open>popVarLong\<close>, whose bodies differ in the width only: seven
  bits per byte, least significant first, until a byte without the continue bit. \<open>position\<close>
  passes the width of the value exactly when the encoding is too long.
\<close>

function popVar_loop :: "byte list \<Rightarrow> ptr \<Rightarrow> ptr \<Rightarrow> nat \<Rightarrow> 'a::len word \<Rightarrow> ('a word \<times> ptr) result" where
  "popVar_loop b eof at position value =
     (if at > eof then Inl PacketEOF
      else rbind (deref b at) (\<lambda>currentByte.
        let value = value OR push_bit position (ucast (currentByte AND 0x7f)) in
        if currentByte AND 0x80 = 0 then Inr (value, at + 1)
        else if position + 7 \<ge> LENGTH('a) then Inl VarIntOverflow
        else popVar_loop b eof (at + 1) (position + 7) value))"
  by pat_completeness auto
termination
  by (relation "measure (\<lambda>(b, eof, at, position, value :: 'a word). LENGTH('a) - position)") auto

declare popVar_loop.simps [simp del]

definition popVarInt :: "i32 pop" where
  "popVarInt b eof at = popVar_loop b eof at 0 0"

definition popVarLong :: "i64 pop" where
  "popVarLong b eof at = popVar_loop b eof at 0 0"

section \<open>Floating point\<close>

text \<open>
  \<open>memcpy\<close> loads the bytes in the order of the host, which is little-endian on the supported
  platforms; \<open>ntoh32\<close> and \<open>ntoh64\<close> then reverse them by writing the bytes of a union in order.
\<close>

fun read_bytes :: "nat \<Rightarrow> byte list \<Rightarrow> ptr \<Rightarrow> byte list result" where
  "read_bytes 0 b at = Inr []"
| "read_bytes (Suc n) b at =
     rbind (deref b at) (\<lambda>x. rbind (read_bytes n b (at + 1)) (\<lambda>xs. Inr (x # xs)))"

definition of_le :: "byte list \<Rightarrow> 'a::len word" where
  "of_le bs = foldr (\<lambda>x v. ucast x OR push_bit 8 v) bs 0"

definition ntoh32 :: "u32 \<Rightarrow> u32" where
  "ntoh32 input = of_le [ucast (drop_bit 24 input), ucast (drop_bit 16 input),
     ucast (drop_bit 8 input), ucast input]"

definition popFloat :: "f32 pop" where
  "popFloat b eof at =
     (if eof - at < 3 then Inl PacketEOF
      else rbind (read_bytes 4 b at) (\<lambda>bs. Inr (ntoh32 (of_le bs), at + 4)))"

definition ntoh64 :: "u64 \<Rightarrow> u64" where
  "ntoh64 input = of_le [ucast (drop_bit 56 input), ucast (drop_bit 48 input),
     ucast (drop_bit 40 input), ucast (drop_bit 32 input), ucast (drop_bit 24 input),
     ucast (drop_bit 16 input), ucast (drop_bit 8 input), ucast input]"

definition popDouble :: "f64 pop" where
  "popDouble b eof at =
     (if eof - at < 7 then Inl PacketEOF
      else rbind (read_bytes 8 b at) (\<lambda>bs. Inr (ntoh64 (of_le bs), at + 8)))"

section \<open>Strings, slots, identifiers\<close>

text \<open>
  A negative size passes the length check; \<open>std::string(at, at + size)\<close> is then called on a
  reversed range.
\<close>

definition popString :: "string pop" where
  "popString b eof at =
     rbind (popVarInt b eof at) (\<lambda>(size, at).
       if sint size > eof - at + 1 then Inl PacketEOF
       else if sint size < 0 then Inl (UB InvalidIteratorRange)
       else rbind (read_bytes (nat (sint size)) b at) (\<lambda>bs.
              Inr (map char_of_byte bs, at + sint size)))"

definition popChat :: "string pop" where
  "popChat b eof at = popString b eof at"

definition popSlot :: "Slot pop" where
  "popSlot b eof at =
     rbind (popBoolean b eof at) (\<lambda>(p, at).
       let slot = empty_slot\<lparr>present := p\<rparr> in
       if p then
         rbind (popVarInt b eof at) (\<lambda>(i, at).
         rbind (popByte b eof at) (\<lambda>(c, at).
         rbind (popByte b eof at) (\<lambda>(_, at).
           Inr (slot\<lparr>itemID := i, itemCount := c\<rparr>, at))))
       else Inr (slot, at))"

definition popUUID :: "u128 pop" where
  "popUUID b eof at =
     (if eof - at < 15 then Inl PacketEOF
      else rbind (popLong b eof at) (\<lambda>(m, at).
           rbind (popLong b eof at) (\<lambda>(l, at).
             Inr (\<lparr>u128_most = m, u128_least = l\<rparr>, at))))"

section \<open>Arrays, positions, bit sets\<close>

fun popArray_loop :: "'a pop \<Rightarrow> nat \<Rightarrow> 'a list pop" where
  "popArray_loop pop 0 b eof at = Inr ([], at)"
| "popArray_loop pop (Suc n) b eof at =
     rbind (pop b eof at) (\<lambda>(x, at).
     rbind (popArray_loop pop n b eof at) (\<lambda>(xs, at). Inr (x # xs, at)))"

definition popArray :: "'a pop \<Rightarrow> 'a list pop" where
  "popArray pop b eof at =
     rbind (popVarInt b eof at) (\<lambda>(len, at). popArray_loop pop (nat (sint len)) b eof at)"

definition popPosition :: "Position pop" where
  "popPosition b eof at =
     rbind (popLong b eof at) (\<lambda>(h, at).
       Inr (\<lparr>pos_x = signed_drop_bit 38 h,
             pos_y = signed_drop_bit 52 (push_bit 52 h),
             pos_z = signed_drop_bit 38 (push_bit 26 h)\<rparr>, at))"

text \<open>
  \<open>popBitSet\<close> fills \<open>result[bit + i]\<close> with \<open>byte & (1 >> i)\<close>, eight bits per byte popped.
\<close>

function popBitSet_loop :: "nat \<Rightarrow> nat \<Rightarrow> bool list \<Rightarrow> bool list pop" where
  "popBitSet_loop sz bit0 res b eof at =
     (if bit0 < sz then
        rbind (popByte b eof at) (\<lambda>(byte, at).
          popBitSet_loop sz (bit0 + 8)
            (res @ map (\<lambda>i. byte AND drop_bit i 1 \<noteq> 0) [0..<min 8 (sz - bit0)]) b eof at)
      else Inr (res, at))"
  by pat_completeness auto
termination
  by (relation "measure (\<lambda>(sz, bit0, res, b, eof, at). sz - bit0)") auto

declare popBitSet_loop.simps [simp del]

definition popBitSet :: "nat \<Rightarrow> bool list pop" where
  "popBitSet sz b eof at = popBitSet_loop sz 0 [] b eof at"

section \<open>Compound elements\<close>

record ArgumentSignature =
  as_argument :: string
  as_signature :: "byte list"

definition popArgumentSignature :: "ArgumentSignature pop" where
  "popArgumentSignature b eof at =
     rbind (popString b eof at) (\<lambda>(a, at).
     rbind (popArray popByte b eof at) (\<lambda>(s, at).
       Inr (\<lparr>as_argument = a, as_signature = s\<rparr>, at)))"

record SlotWithIndex =
  slotNumber :: i16
  slotData :: Slot

definition popSlotWithIndex :: "SlotWithIndex pop" where
  "popSlotWithIndex b eof at =
     rbind (popShort b eof at) (\<lambda>(n, at).
     rbind (popSlot b eof at) (\<lambda>(s, at).
       Inr (\<lparr>slotNumber = n, slotData = s\<rparr>, at)))"

end
