(* ===== verification/Add_Primary.thy ===== *)
theory Add_Primary
  imports Structures
begin

text \<open>
  The writing side of the wire format: \<open>protocol/serialization/addPrimaryType.hpp\<close>. An \<open>add\<close>
  function appends to the output vector it is given; those that can throw return a result.
\<close>

section \<open>Fixed-width integers\<close>

definition addByte :: "byte list \<Rightarrow> byte \<Rightarrow> byte list" where
  "addByte out data = out @ [data]"

definition addBoolean :: "byte list \<Rightarrow> bool \<Rightarrow> byte list" where
  "addBoolean out data = (if data then addByte out 1 else addByte out 0)"

definition addShort :: "byte list \<Rightarrow> i16 \<Rightarrow> byte list" where
  "addShort out data = out @ [ucast (signed_drop_bit 8 data)] @ [ucast (data AND 0xFF)]"

definition addUShort :: "byte list \<Rightarrow> u16 \<Rightarrow> byte list" where
  "addUShort out data = out @ [ucast (drop_bit 8 data)] @ [ucast (data AND 0xFF)]"

text \<open>The loop \<open>out.push_back((data >> (8 * (n - 1) - i * 8)) & 0xFF)\<close> for \<open>i < n\<close>.\<close>

definition push_be :: "nat \<Rightarrow> (nat \<Rightarrow> 'a::len word \<Rightarrow> 'a word) \<Rightarrow> byte list \<Rightarrow> 'a word \<Rightarrow> byte list" where
  "push_be n shr out data =
     foldl (\<lambda>out i. out @ [ucast (shr (8 * (n - 1) - i * 8) data AND 0xFF)]) out [0..<n]"

definition addInt :: "byte list \<Rightarrow> i32 \<Rightarrow> byte list" where
  "addInt out data = push_be 4 signed_drop_bit out data"

definition addLong :: "byte list \<Rightarrow> i64 \<Rightarrow> byte list" where
  "addLong out data = push_be 8 signed_drop_bit out data"

definition addUnsignedLong :: "byte list \<Rightarrow> u64 \<Rightarrow> byte list" where
  "addUnsignedLong out data = push_be 8 drop_bit out data"

section \<open>Variable-length integers\<close>

text \<open>
  The loop of \<open>addVarInt\<close> and \<open>addVarLong\<close>, at both widths. The shift is on the unsigned view of
  the value, so it ends for negative values as well.
\<close>

lemma seven_bit_step:
  fixes v :: "'a::len word"
  assumes "v AND NOT 0x7f \<noteq> 0"
  shows "unat (drop_bit 7 v) < unat v"
proof -
  have "v \<noteq> 0" using assms by auto
  then have "0 < unat v" by (simp add: unat_gt_0)
  moreover have "unat (drop_bit 7 v) = unat v div 128"
    unfolding unat_drop_bit_eq by (simp add: drop_bit_eq_div)
  ultimately show ?thesis by simp
qed

function addVar :: "byte list \<Rightarrow> 'a::len word \<Rightarrow> byte list" where
  "addVar out v =
     (if v AND NOT 0x7f = 0 then out @ [ucast v]
      else addVar (out @ [ucast ((v AND 0x7f) OR 0x80)]) (drop_bit 7 v))"
  by pat_completeness auto
termination
  by (relation "measure (\<lambda>(out, v). unat v)") (auto intro: seven_bit_step)

declare addVar.simps [simp del]

definition addVarInt :: "byte list \<Rightarrow> i32 \<Rightarrow> byte list" where
  "addVarInt out data = addVar out data"

definition addVarLong :: "byte list \<Rightarrow> i64 \<Rightarrow> byte list" where
  "addVarLong out data = addVar out data"

section \<open>Floating point\<close>

text \<open>The union exposes the bytes of the value in host (little-endian) order, \<open>u[i]\<close> being the
  byte at bit \<open>8 * i\<close>; they are pushed from the last to the first.\<close>

definition push_union :: "nat \<Rightarrow> byte list \<Rightarrow> 'a::len word \<Rightarrow> byte list" where
  "push_union n out w = foldl (\<lambda>out i. out @ [ucast (drop_bit (8 * i) w)]) out (rev [0..<n])"

definition addFloat :: "byte list \<Rightarrow> f32 \<Rightarrow> byte list" where
  "addFloat out data = push_union 4 out data"

definition addDouble :: "byte list \<Rightarrow> f64 \<Rightarrow> byte list" where
  "addDouble out data = push_union 8 out data"

section \<open>Strings, slots, identifiers\<close>

definition MAX_STRING_SIZE :: nat where
  "MAX_STRING_SIZE = 32767"

definition MAX_CHAT_SIZE :: nat where
  "MAX_CHAT_SIZE = 262144"

text \<open>\<open>data.size()\<close> is narrowed to \<open>int32_t\<close> when it is passed to \<open>addVarInt\<close>.\<close>

definition addString_max :: "byte list \<Rightarrow> string \<Rightarrow> nat \<Rightarrow> byte list result" where
  "addString_max out data maxSize =
     (if length data > maxSize then Inl MaxLengthString
      else Inr (addVarInt out (of_nat (length data)) @ map byte_of_char data))"

definition addString :: "byte list \<Rightarrow> string \<Rightarrow> byte list result" where
  "addString out data = addString_max out data MAX_STRING_SIZE"

definition addChat :: "byte list \<Rightarrow> string \<Rightarrow> byte list result" where
  "addChat out data = addString_max out data MAX_CHAT_SIZE"

definition addIdentifier :: "byte list \<Rightarrow> string \<Rightarrow> byte list result" where
  "addIdentifier out data = addString out data"

definition addSlot :: "byte list \<Rightarrow> Slot \<Rightarrow> byte list" where
  "addSlot out data =
     (let out = addBoolean out (present data) in
      if present data then
        let out = addVarInt out (itemID data);
            out = addByte out (itemCount data) in
        addByte out 0
      else out)"

definition addUUID :: "byte list \<Rightarrow> u128 \<Rightarrow> byte list" where
  "addUUID out data = addLong (addLong out (u128_most data)) (u128_least data)"

section \<open>Arrays and positions\<close>

text \<open>
  \<open>addArray\<close> for \<open>std::vector\<close>, \<open>std::array\<close> and the store of a \<open>DynamicStorage\<close>: the size, then
  every element. The element serializer may throw.
\<close>

fun add_all :: "(byte list \<Rightarrow> 'a \<Rightarrow> byte list result) \<Rightarrow> byte list \<Rightarrow> 'a list \<Rightarrow> byte list result" where
  "add_all add out [] = Inr out"
| "add_all add out (x # xs) = rbind (add out x) (\<lambda>out. add_all add out xs)"

definition addArray :: "(byte list \<Rightarrow> 'a \<Rightarrow> byte list result) \<Rightarrow> byte list \<Rightarrow> 'a list \<Rightarrow> byte list result" where
  "addArray add out data = add_all add (addVarInt out (of_nat (length data))) data"

definition addPosition :: "byte list \<Rightarrow> Position \<Rightarrow> byte list" where
  "addPosition out data =
     addLong out (push_bit 38 (pos_x data AND 0x3FFFFFF) OR push_bit 12 (pos_z data AND 0x3FFFFFF)
       OR (pos_y data AND 0xFFF))"

end
