(* ===== verification/Wire.thy ===== *)
theory Wire
  imports Pop_Primary Add_Primary
begin

text \<open>
  The contracts of the wire format. Locale \<open>reader\<close> is what a packet parser relies on in every
  \<open>pop\<close> function: it reads inside the buffer only, moves the pointer forward and not past
  \<open>eof + 1\<close>, and does not depend on the bytes after those it consumes. Locale \<open>codec\<close> pairs an
  \<open>add\<close> function with the \<open>pop\<close> function that undoes it. Both are interpreted on every primitive
  of \<open>popPrimaryType.hpp\<close> and \<open>addPrimaryType.hpp\<close>, and both are closed under \<open>popArray\<close> and
  \<open>addArray\<close>.
\<close>

section \<open>Readers\<close>

locale reader =
  fixes pop :: "'a pop"
  assumes pop_in_bounds: "0 \<le> at \<Longrightarrow> eof < int (length b) \<Longrightarrow> pop b eof at \<noteq> Inl (UB OutOfBoundsRead)"
    and pop_advances: "pop b eof at = Inr (x, at') \<Longrightarrow> at \<le> at'"
    and pop_limit: "at \<le> eof + 1 \<Longrightarrow> pop b eof at = Inr (x, at') \<Longrightarrow> at' \<le> eof + 1"
    and pop_extend: "0 \<le> at \<Longrightarrow> eof < int (length b) \<Longrightarrow> pop b eof at = Inr r \<Longrightarrow>
      pop (b @ c) (eof + int (length c)) at = Inr r"
begin

lemma loop_in_bounds:
  "0 \<le> at \<Longrightarrow> eof < int (length b) \<Longrightarrow> popArray_loop pop n b eof at \<noteq> Inl (UB OutOfBoundsRead)"
proof (induction n arbitrary: at)
  case 0
  then show ?case by simp
next
  case (Suc n)
  then show ?case
    using pop_in_bounds [of at eof b]
    by (force simp: rbind_Inl_iff split: prod.splits dest: pop_advances)
qed

lemma loop_advances: "popArray_loop pop n b eof at = Inr (xs, at') \<Longrightarrow> at \<le> at'"
  by (induction n arbitrary: at xs)
    (fastforce simp: rbind_Inr_iff split: prod.splits dest: pop_advances)+

lemma loop_limit:
  "at \<le> eof + 1 \<Longrightarrow> popArray_loop pop n b eof at = Inr (xs, at') \<Longrightarrow> at' \<le> eof + 1"
  by (induction n arbitrary: at xs)
    (fastforce simp: rbind_Inr_iff split: prod.splits dest: pop_limit)+

lemma loop_extend:
  "0 \<le> at \<Longrightarrow> eof < int (length b) \<Longrightarrow> popArray_loop pop n b eof at = Inr r \<Longrightarrow>
   popArray_loop pop n (b @ c) (eof + int (length c)) at = Inr r"
proof (induction n arbitrary: at r)
  case 0
  then show ?case by simp
next
  case (Suc n)
  from Suc.prems(3) obtain x at1 xs at2 where
      x: "pop b eof at = Inr (x, at1)"
    and xs: "popArray_loop pop n b eof at1 = Inr (xs, at2)" and r: "r = (x # xs, at2)"
    by (auto simp: rbind_Inr_iff split: prod.splits)
  from x have "0 \<le> at1" using Suc.prems(1) pop_advances by fastforce
  then have "popArray_loop pop n (b @ c) (eof + int (length c)) at1 = Inr (xs, at2)"
    using Suc.IH xs Suc.prems(2) by blast
  then show ?case using pop_extend [OF Suc.prems(1,2) x] by (simp add: r)
qed

end

text \<open>Sequencing: a reader whose result chooses the next reader.\<close>

definition pop_then :: "'a pop \<Rightarrow> ('a \<Rightarrow> 'b pop) \<Rightarrow> 'b pop" where
  "pop_then p f b eof at = rbind (p b eof at) (\<lambda>(x, at). f x b eof at)"

lemma reader_pop_then:
  assumes p: "reader p" and f: "\<And>x. reader (f x)"
  shows "reader (pop_then p f)"
proof
  fix b eof at x at' r c
  show "pop_then p f b eof at \<noteq> Inl (UB OutOfBoundsRead)" if "0 \<le> at" "eof < int (length b)"
    using reader.pop_in_bounds [OF p that] reader.pop_in_bounds [OF f _ that(2)] that(1)
    by (force simp: pop_then_def rbind_Inl_iff split: prod.splits dest: reader.pop_advances [OF p])
  show "at \<le> at'" if "pop_then p f b eof at = Inr (x, at')"
    using that by (force simp: pop_then_def rbind_Inr_iff
      dest: reader.pop_advances [OF p] reader.pop_advances [OF f])
  show "at' \<le> eof + 1" if "at \<le> eof + 1" "pop_then p f b eof at = Inr (x, at')"
    using that by (force simp: pop_then_def rbind_Inr_iff
      dest: reader.pop_limit [OF p, rotated] reader.pop_limit [OF f, rotated])
  show "pop_then p f (b @ c) (eof + int (length c)) at = Inr r"
    if "0 \<le> at" "eof < int (length b)" "pop_then p f b eof at = Inr r"
  proof -
    from that(3) obtain y at1 where y: "p b eof at = Inr (y, at1)" and r: "f y b eof at1 = Inr r"
      by (auto simp: pop_then_def rbind_Inr_iff)
    have "0 \<le> at1" using that(1) reader.pop_advances [OF p y] by simp
    then show ?thesis
      using reader.pop_extend [OF p that(1,2) y] reader.pop_extend [OF f _ that(2) r]
      by (simp add: pop_then_def)
  qed
qed

lemma reader_return: "reader (\<lambda>b eof at. Inr (x, at))"
  by unfold_locales auto

lemma reader_throw: "e \<noteq> UB OutOfBoundsRead \<Longrightarrow> reader (\<lambda>b eof at. Inl e)"
  by unfold_locales auto


subsection \<open>Reading a fixed number of bytes\<close>

text \<open>
  Every fixed-width reader checks that \<open>n\<close> bytes remain, reads them and converts them.
\<close>

definition fixed_pop :: "nat \<Rightarrow> (byte list \<Rightarrow> 'a) \<Rightarrow> 'a pop" where
  "fixed_pop n f b eof at =
     (if eof - at < int n - 1 then Inl PacketEOF
      else rbind (read_bytes n b at) (\<lambda>bs. Inr (f bs, at + int n)))"

lemma read_bytes_eq:
  "0 \<le> at \<Longrightarrow> at + int n \<le> int (length b) \<Longrightarrow> read_bytes n b at = Inr (take n (drop (nat at) b))"
proof (induction n arbitrary: at)
  case 0
  then show ?case by simp
next
  case (Suc n)
  then have "nat at < length b" by auto
  then have "drop (nat at) b = b ! nat at # drop (nat (at + 1)) b"
    using Suc.prems(1) by (simp add: Cons_nth_drop_Suc nat_add_distrib)
  with Suc show ?case by (simp add: deref_in_bounds)
qed

lemma read_bytes_points: "points b at (bs @ rest) \<Longrightarrow> read_bytes (length bs) b at = Inr bs"
  using points_length [of b at "bs @ rest"] by (subst read_bytes_eq) (auto simp: points_def)

lemma reader_fixed_pop: "reader (fixed_pop n f)"
proof
  fix b eof at x at' r c
  have rd: "read_bytes n b at = Inr (take n (drop (nat at) b))"
    if "0 \<le> at" "eof < int (length b)" "\<not> eof - at < int n - 1"
    using that by (intro read_bytes_eq) auto
  show "fixed_pop n f b eof at \<noteq> Inl (UB OutOfBoundsRead)" if "0 \<le> at" "eof < int (length b)"
    using rd [OF that] by (simp add: fixed_pop_def)
  show "at \<le> at'" if "fixed_pop n f b eof at = Inr (x, at')"
    using that by (auto simp: fixed_pop_def rbind_Inr_iff split: if_splits)
  show "at' \<le> eof + 1" if "at \<le> eof + 1" "fixed_pop n f b eof at = Inr (x, at')"
    using that by (auto simp: fixed_pop_def rbind_Inr_iff split: if_splits)
  show "fixed_pop n f (b @ c) (eof + int (length c)) at = Inr r"
    if "0 \<le> at" "eof < int (length b)" "fixed_pop n f b eof at = Inr r"
  proof -
    have g: "\<not> eof - at < int n - 1" using that(3) by (auto simp: fixed_pop_def split: if_splits)
    have "read_bytes n (b @ c) at = Inr (take n (drop (nat at) b))"
      using that g by (subst read_bytes_eq) auto
    with that(3) g rd [OF that(1,2) g] show ?thesis by (simp add: fixed_pop_def)
  qed
qed

lemma fixed_pop_points:
  assumes "points b at (bs @ rest)" and "at + int (length bs) \<le> eof + 1"
  shows "fixed_pop (length bs) f b eof at = Inr (f bs, at + int (length bs))"
  using assms by (simp add: fixed_pop_def read_bytes_points)

lemma shift_add_eq:
  "shift_add n b at v = rbind (read_bytes n b at) (\<lambda>bs. Inr (of_be v bs, at + int n))"
  by (induction n arbitrary: at v) (simp_all add: of_be_def rbind_assoc algebra_simps)

lemma popByte_fixed: "popByte = fixed_pop 1 hd"
  by (intro ext) (simp add: popByte_def fixed_pop_def rbind_assoc)

lemma popShort_fixed:
  "popShort = fixed_pop 2 (\<lambda>bs. ucast (bs ! 1) OR push_bit 8 (ucast (hd bs)))"
proof (intro ext)
  fix b eof at
  show "popShort b eof at = fixed_pop 2 (\<lambda>bs. ucast (bs ! 1) OR push_bit 8 (ucast (hd bs))) b eof at"
    by (cases "deref b at"; cases "deref b (at + 1)")
      (auto simp: popShort_def fixed_pop_def numeral_2_eq_2 deref_def split: if_splits)
qed

lemma popInt_fixed: "popInt = fixed_pop 4 (of_be 0)"
  by (intro ext) (simp add: popInt_def fixed_pop_def shift_add_eq)

lemma popLong_fixed: "popLong = fixed_pop 8 (of_be 0)"
  by (intro ext) (simp add: popLong_def fixed_pop_def shift_add_eq)

lemma popFloat_fixed: "popFloat = fixed_pop 4 (\<lambda>bs. ntoh32 (of_le bs))"
  by (intro ext) (simp add: popFloat_def fixed_pop_def)

lemma popDouble_fixed: "popDouble = fixed_pop 8 (\<lambda>bs. ntoh64 (of_le bs))"
  by (intro ext) (simp add: popDouble_def fixed_pop_def)

lemmas fixed_readers =
  popByte_fixed popShort_fixed popInt_fixed popLong_fixed popFloat_fixed popDouble_fixed

interpretation rd_byte: reader popByte by (simp add: fixed_readers reader_fixed_pop)
interpretation rd_short: reader popShort by (simp add: fixed_readers reader_fixed_pop)
interpretation rd_int: reader popInt by (simp add: fixed_readers reader_fixed_pop)
interpretation rd_long: reader popLong by (simp add: fixed_readers reader_fixed_pop)
interpretation rd_float: reader popFloat by (simp add: fixed_readers reader_fixed_pop)
interpretation rd_double: reader popDouble by (simp add: fixed_readers reader_fixed_pop)

subsection \<open>Variable-length readers\<close>

lemma reader_popVar_loop: "reader (\<lambda>b eof at. popVar_loop b eof at p (v :: 'a::len word))"
proof
  fix b eof at x at' r c
  show "popVar_loop b eof at p v \<noteq> Inl (UB OutOfBoundsRead)" if "0 \<le> at" "eof < int (length b)"
    using that
    by (induction b eof at p v rule: popVar_loop.induct)
      (subst popVar_loop.simps, auto simp: deref_in_bounds Let_def)
  show "at \<le> at'" if "popVar_loop b eof at p v = Inr (x, at')"
    using that
  proof (induction b eof at p v rule: popVar_loop.induct)
    case (1 b eof at p v)
    from "1.prems" show ?case
      by (subst (asm) popVar_loop.simps)
        (auto simp: rbind_Inr_iff Let_def split: if_splits dest: "1.IH")
  qed
  show "at' \<le> eof + 1" if "at \<le> eof + 1" "popVar_loop b eof at p v = Inr (x, at')"
    using that
  proof (induction b eof at p v rule: popVar_loop.induct)
    case (1 b eof at p v)
    from "1.prems" show ?case
      by (subst (asm) popVar_loop.simps)
        (auto simp: rbind_Inr_iff Let_def split: if_splits intro: "1.IH")
  qed
  show "popVar_loop (b @ c) (eof + int (length c)) at p v = Inr r"
    if "0 \<le> at" "eof < int (length b)" "popVar_loop b eof at p v = Inr r"
    using that
  proof (induction b eof at p v rule: popVar_loop.induct)
    case (1 b eof at p v)
    from "1.prems"(3) have le: "at \<le> eof"
      by (subst (asm) popVar_loop.simps) (auto split: if_splits)
    with "1.prems" have d: "deref (b @ c) at = deref b at" by simp
    from le "1.prems" obtain y where y: "deref b at = Inr y" by (simp add: deref_in_bounds)
    let ?v = "v OR push_bit p (ucast (y AND 0x7f))"
    have unf: "popVar_loop b' e at p v =
        (if y AND 0x80 = 0 then Inr (?v, at + 1)
         else if p + 7 \<ge> LENGTH('a) then Inl VarIntOverflow
         else popVar_loop b' e (at + 1) (p + 7) ?v)"
      if "deref b' at = Inr y" "at \<le> e" for b' e
      using that by (subst popVar_loop.simps) (simp add: Let_def)
    show ?case
    proof (cases "y AND 0x80 = 0 \<or> p + 7 \<ge> LENGTH('a)")
      case True
      with "1.prems"(3) show ?thesis
        using unf [OF y le] unf [of "b @ c" "eof + int (length c)"] d y le
        by (auto split: if_splits)
    next
      case False
      with "1.prems"(3) have "popVar_loop b eof (at + 1) (p + 7) ?v = Inr r"
        using unf [OF y le] by auto
      then have "popVar_loop (b @ c) (eof + int (length c)) (at + 1) (p + 7) ?v = Inr r"
        using "1.IH" [OF _ y refl] False le "1.prems"(1,2) by auto
      with False show ?thesis
        using unf [of "b @ c" "eof + int (length c)"] d y le by auto
    qed
  qed
qed

interpretation rd_varint: reader popVarInt
  by (simp add: popVarInt_def [abs_def] reader_popVar_loop)

interpretation rd_varlong: reader popVarLong
  by (simp add: popVarLong_def [abs_def] reader_popVar_loop)

subsection \<open>Composite readers\<close>

lemma popBoolean_then:
  "popBoolean = pop_then popByte (\<lambda>v b eof at. if v \<noteq> 0 \<and> v \<noteq> 1 then Inl OutOfRangeBoolean
     else Inr (v = 1, at))"
  by (intro ext) (simp add: popBoolean_def pop_then_def)

interpretation rd_boolean: reader popBoolean
  unfolding popBoolean_then
  by (rule reader_pop_then [OF rd_byte.reader_axioms]) (unfold_locales, auto split: if_splits)

context reader
begin

lemma reader_popArray: "reader (popArray pop)"
proof -
  have "popArray pop = pop_then popVarInt (\<lambda>len. popArray_loop pop (nat (sint len)))"
    by (intro ext) (simp add: popArray_def pop_then_def)
  moreover have "reader (popArray_loop pop n)" for n
    by unfold_locales (auto dest: loop_in_bounds loop_advances loop_limit loop_extend)
  ultimately show ?thesis by (simp add: reader_pop_then rd_varint.reader_axioms)
qed

lemma reader_map: "reader (\<lambda>b eof at. rbind (pop b eof at) (\<lambda>(x, at). Inr (f x, at)))"
  using reader_pop_then [OF reader_axioms reader_return [of "f _"]]
  by (simp add: pop_then_def [abs_def])

end

lemma popString_then:
  "popString = pop_then popVarInt (\<lambda>n b eof at. if sint n < 0 then
       (if sint n > eof - at + 1 then Inl PacketEOF else Inl (UB InvalidIteratorRange))
     else fixed_pop (nat (sint n)) (map char_of_byte) b eof at)"
  by (intro ext) (auto simp: popString_def pop_then_def fixed_pop_def intro!: rbind_cong)

interpretation rd_string: reader popString
  unfolding popString_then
proof (rule reader_pop_then [OF rd_varint.reader_axioms])
  fix n :: i32
  have "reader (\<lambda>b eof at. if sint n > eof - at + 1 then Inl PacketEOF
      else Inl (UB InvalidIteratorRange))"
    by unfold_locales (auto split: if_splits)
  then show "reader (\<lambda>b eof at. if sint n < 0 then
       (if sint n > eof - at + 1 then Inl PacketEOF else Inl (UB InvalidIteratorRange))
     else fixed_pop (nat (sint n)) (map char_of_byte) b eof at)"
    by (cases "sint n < 0") (simp_all add: reader_fixed_pop)
qed


lemma popSlot_then:
  "popSlot = pop_then popBoolean (\<lambda>p. if p then
       pop_then popVarInt (\<lambda>i. pop_then popByte (\<lambda>c. pop_then popByte (\<lambda>_ b eof at.
         Inr (\<lparr>present = True, itemID = i, itemCount = c\<rparr>, at))))
     else (\<lambda>b eof at. Inr (empty_slot, at)))"
  by (intro ext) (auto simp: popSlot_def pop_then_def empty_slot_def Let_def intro!: rbind_cong)

interpretation rd_slot: reader popSlot
  unfolding popSlot_then
  by (auto intro!: reader_pop_then reader_return rd_boolean.reader_axioms rd_varint.reader_axioms
      rd_byte.reader_axioms simp: if_split)

lemma popUUID_then:
  "popUUID = (\<lambda>b eof at. if eof - at < 15 then Inl PacketEOF
     else pop_then popLong (\<lambda>m. pop_then popLong (\<lambda>l b eof at.
       Inr (\<lparr>u128_most = m, u128_least = l\<rparr>, at))) b eof at)"
  by (intro ext) (auto simp: popUUID_def pop_then_def)

text \<open>A guard that more than the consumed bytes remain keeps the contract.\<close>

context reader
begin

lemma reader_guard: "reader (\<lambda>b eof at. if eof - at < n then Inl PacketEOF else pop b eof at)"
  by unfold_locales
    (auto split: if_splits dest: pop_in_bounds pop_advances pop_limit pop_extend)

end

interpretation rd_uuid: reader popUUID
  unfolding popUUID_then
  by (intro reader.reader_guard reader_pop_then reader_return rd_long.reader_axioms)

lemma popPosition_then:
  "popPosition = pop_then popLong (\<lambda>h b eof at. Inr (\<lparr>pos_x = signed_drop_bit 38 h,
      pos_y = signed_drop_bit 52 (push_bit 52 h), pos_z = signed_drop_bit 38 (push_bit 26 h)\<rparr>, at))"
  by (intro ext) (simp add: popPosition_def pop_then_def)

interpretation rd_position: reader popPosition
  unfolding popPosition_then by (intro reader_pop_then reader_return rd_long.reader_axioms)

lemma reader_popBitSet_loop: "reader (popBitSet_loop sz i res)"
proof (induction "sz - i" arbitrary: i res rule: less_induct)
  case less
  show ?case
  proof (cases "i < sz")
    case False
    then have "popBitSet_loop sz i res = (\<lambda>b eof at. Inr (res, at))"
      by (intro ext) (subst popBitSet_loop.simps, simp)
    then show ?thesis by (simp add: reader_return)
  next
    case True
    then have "popBitSet_loop sz i res = pop_then popByte (\<lambda>byte. popBitSet_loop sz (i + 8)
        (res @ map (\<lambda>k. byte AND drop_bit k 1 \<noteq> 0) [0..<min 8 (sz - i)]))"
      by (intro ext) (subst popBitSet_loop.simps, simp add: pop_then_def)
    with True show ?thesis
      by (simp add: reader_pop_then rd_byte.reader_axioms less)
  qed
qed

interpretation rd_bitset: reader "popBitSet n"
  by (simp add: popBitSet_def [abs_def] reader_popBitSet_loop)

interpretation rd_bytes: reader "popArray popByte"
  by (rule rd_byte.reader_popArray)

interpretation rd_strings: reader "popArray popString"
  by (rule rd_string.reader_popArray)

lemma popArgumentSignature_then:
  "popArgumentSignature = pop_then popString (\<lambda>a. pop_then (popArray popByte) (\<lambda>s b eof at.
      Inr (\<lparr>as_argument = a, as_signature = s\<rparr>, at)))"
  by (intro ext) (simp add: popArgumentSignature_def pop_then_def)

interpretation rd_signature: reader popArgumentSignature
  unfolding popArgumentSignature_then by (intro reader_pop_then reader_return rd_string.reader_axioms rd_bytes.reader_axioms)

interpretation rd_signatures: reader "popArray popArgumentSignature"
  by (rule rd_signature.reader_popArray)

lemma popSlotWithIndex_then:
  "popSlotWithIndex = pop_then popShort (\<lambda>n. pop_then popSlot (\<lambda>s b eof at.
      Inr (\<lparr>slotNumber = n, slotData = s\<rparr>, at)))"
  by (intro ext) (simp add: popSlotWithIndex_def pop_then_def)

interpretation rd_slot_index: reader popSlotWithIndex
  unfolding popSlotWithIndex_then by (intro reader_pop_then reader_return rd_short.reader_axioms rd_slot.reader_axioms)

interpretation rd_slot_indexes: reader "popArray popSlotWithIndex"
  by (rule rd_slot_index.reader_popArray)

lemmas wire_readers =
  rd_byte.reader_axioms rd_boolean.reader_axioms rd_short.reader_axioms rd_int.reader_axioms
  rd_long.reader_axioms rd_varint.reader_axioms rd_varlong.reader_axioms rd_float.reader_axioms
  rd_double.reader_axioms rd_string.reader_axioms rd_slot.reader_axioms rd_uuid.reader_axioms
  rd_position.reader_axioms rd_bitset.reader_axioms rd_bytes.reader_axioms
  rd_strings.reader_axioms rd_signatures.reader_axioms rd_slot_indexes.reader_axioms


section \<open>Codecs\<close>

text \<open>
  \<open>enc x\<close> is what \<open>add\<close> appends for a valid \<open>x\<close>; \<open>pop\<close> reads it back wherever it stands in a
  buffer, whatever follows, and leaves the pointer right after it.
\<close>

locale codec =
  fixes add :: "byte list \<Rightarrow> 'a \<Rightarrow> byte list result"
    and pop :: "'a pop"
    and valid :: "'a \<Rightarrow> bool"
    and enc :: "'a \<Rightarrow> byte list"
  assumes add_enc: "valid x \<Longrightarrow> add out x = Inr (out @ enc x)"
    and pop_enc: "valid x \<Longrightarrow> points b at (enc x @ rest) \<Longrightarrow> at + int (length (enc x)) \<le> eof + 1 \<Longrightarrow>
      pop b eof at = Inr (x, at + int (length (enc x)))"
begin

lemma add_all_enc: "list_all valid xs \<Longrightarrow> add_all add out xs = Inr (out @ concat (map enc xs))"
  by (induction xs arbitrary: out) (simp_all add: add_enc)

lemma loop_enc:
  "list_all valid xs \<Longrightarrow> points b at (concat (map enc xs) @ rest) \<Longrightarrow>
   at + int (length (concat (map enc xs))) \<le> eof + 1 \<Longrightarrow>
   popArray_loop pop (length xs) b eof at = Inr (xs, at + int (length (concat (map enc xs))))"
proof (induction xs arbitrary: at)
  case Nil
  then show ?case by simp
next
  case (Cons x xs)
  then have p: "points b at (enc x @ concat (map enc xs) @ rest)" by simp
  have "popArray_loop pop (length xs) b eof (at + int (length (enc x)))
      = Inr (xs, at + int (length (enc x)) + int (length (concat (map enc xs))))"
    using Cons.prems points_advance [OF p] by (intro Cons.IH) (simp_all add: add.assoc)
  then show ?case using pop_enc [OF _ p, of eof] Cons.prems by (simp add: add.assoc)
qed

text \<open>A value popped from the bytes \<open>add\<close> produced for it alone.\<close>

lemma pop_add:
  assumes "valid x" and "add out x = Inr b"
  shows "pop b (int (length b) - 1) (int (length out)) = Inr (x, int (length b))"
proof -
  have b: "b = out @ enc x" using assms by (simp add: add_enc)
  have "points b (int (length out)) (enc x @ [])" by (simp add: b points_append)
  from pop_enc [OF assms(1) this, of "int (length b) - 1"] show ?thesis by (simp add: b)
qed

end

subsection \<open>Fixed-width codecs\<close>

lemma codec_fixed:
  assumes "\<And>out x. add out x = out @ enc x" and "\<And>x. length (enc x) = n"
    and "\<And>x. f (enc x) = x"
  shows "codec (nothrow add) (fixed_pop n f) (\<lambda>_. True) enc"
proof
  fix x b at rest eof
  assume "points b at (enc x @ rest)" and "at + int (length (enc x)) \<le> eof + 1"
  then show "fixed_pop n f b eof at = Inr (x, at + int (length (enc x)))"
    using fixed_pop_points [of b at "enc x" rest eof f] assms(2,3) by simp
qed (simp add: nothrow_def assms)

lemma foldl_push: "foldl (\<lambda>out i. out @ [f i]) out xs = out @ map f xs"
  by (induction xs arbitrary: out) simp_all

lemma push_be_signed:
  fixes w :: "'a::len word"
  assumes "8 * n \<le> LENGTH('a)"
  shows "push_be n signed_drop_bit out w = out @ be_bytes n w"
proof -
  have "(ucast (signed_drop_bit (8 * (n - 1) - i * 8) w AND 0xFF) :: byte)
      = ucast (drop_bit (8 * (n - 1 - i)) w)" if "i < n" for i
  proof -
    have "8 * (n - 1) - i * 8 = 8 * (n - 1 - i)" by (simp add: diff_mult_distrib2)
    moreover have "8 * (n - 1 - i) + 8 \<le> LENGTH('a)" using that assms by linarith
    ultimately show ?thesis by (simp only: byte_of_signed_shift)
  qed
  then show ?thesis by (simp add: push_be_def foldl_push be_bytes_def)
qed

lemma push_union_eq: "push_union n out w = out @ be_bytes n w"
proof -
  have "map (\<lambda>i. ucast (drop_bit (8 * i) w) :: byte) (rev [0..<n]) = be_bytes n w"
    by (rule nth_equalityI) (simp_all add: be_bytes_def rev_nth)
  then show ?thesis by (simp add: push_union_def foldl_push)
qed

lemma addByte_append: "addByte out x = out @ [x]"
  by (simp add: addByte_def)

lemma addInt_append: "addInt out x = out @ be_bytes 4 x"
  by (simp add: addInt_def push_be_signed)

lemma addLong_append: "addLong out x = out @ be_bytes 8 x"
  by (simp add: addLong_def push_be_signed)

lemma addFloat_append: "addFloat out x = out @ be_bytes 4 x"
  by (simp add: addFloat_def push_union_eq)

lemma addDouble_append: "addDouble out x = out @ be_bytes 8 x"
  by (simp add: addDouble_def push_union_eq)

lemma addUnsignedLong_append: "addUnsignedLong out x = out @ be_bytes 8 x"
proof -
  have "(ucast (drop_bit k x AND 0xFF) :: byte) = ucast (drop_bit k x)" for k
    by (rule bit_word_eqI) (auto simp: bit_simps less_Suc_eq numeral_eq_Suc)
  then show ?thesis
    by (simp add: addUnsignedLong_def push_be_def foldl_push be_bytes_def diff_mult_distrib2 mult.commute)
qed

lemma addShort_append: "addShort out x = out @ be_bytes 2 x"
proof -
  have "(ucast (x AND 0xFF) :: byte) = ucast x"
    using byte_of_signed_shift [of 0 x] by simp
  moreover have "(ucast (signed_drop_bit 8 x) :: byte) = ucast (drop_bit 8 x)"
    by (rule bit_word_eqI) (auto simp: bit_simps bit_signed_drop_bit_iff)
  ultimately show ?thesis by (simp add: addShort_def be_bytes_def upt_rec)
qed


interpretation cd_byte: codec "nothrow addByte" popByte "\<lambda>_. True" "\<lambda>x. [x]"
  unfolding popByte_fixed by (rule codec_fixed) (simp_all add: addByte_append)

interpretation cd_int: codec "nothrow addInt" popInt "\<lambda>_. True" "be_bytes 4"
  unfolding popInt_fixed by (rule codec_fixed) (simp_all add: addInt_append of_be_full)

interpretation cd_long: codec "nothrow addLong" popLong "\<lambda>_. True" "be_bytes 8"
  unfolding popLong_fixed by (rule codec_fixed) (simp_all add: addLong_append of_be_full)

lemma short_of_bytes: "ucast (be_bytes 2 x ! 1) OR push_bit 8 (ucast (hd (be_bytes 2 x))) = (x :: u16)"
proof -
  have "be_bytes 2 x = [ucast (drop_bit 8 x), ucast x]" by (simp add: be_bytes_def upt_rec)
  then show ?thesis
    by simp (rule bit_word_eqI, auto simp: bit_simps)
qed

interpretation cd_short: codec "nothrow addShort" popShort "\<lambda>_. True" "be_bytes 2"
  unfolding popShort_fixed
  by (rule codec_fixed) (simp_all add: addShort_append short_of_bytes del: One_nat_def)

lemma bit_of_le:
  "bit (of_le bs :: 'a::len word) n \<longleftrightarrow> n < LENGTH('a) \<and> n div 8 < length bs \<and> bit (bs ! (n div 8)) (n mod 8)"
proof (induction bs arbitrary: n)
  case Nil
  then show ?case by (simp add: of_le_def)
next
  case (Cons x bs)
  show ?case
  proof (cases "n < 8")
    case True
    then show ?thesis by (auto simp: of_le_def bit_simps)
  next
    case False
    then obtain m where n: "n = m + 8" by (metis le_add_diff_inverse2 not_less)
    have "\<not> bit x (m + 8)" using bit_imp_le_length [of x] by auto
    moreover have "(m + 8) div 8 = Suc (m div 8)" by simp
    ultimately show ?thesis using Cons.IH [of m] by (auto simp: n of_le_def bit_simps)
  qed
qed

lemma byte_of_le:
  assumes "i < length bs" and "8 * i + 8 \<le> LENGTH('a::len)"
  shows "(ucast (drop_bit (8 * i) (of_le bs :: 'a word)) :: byte) = bs ! i"
proof (rule bit_word_eqI)
  fix n assume n: "n < LENGTH(8)"
  then have "(8 * i + n) div 8 = i" and "(8 * i + n) mod 8 = n" by auto
  with n assms show "bit (ucast (drop_bit (8 * i) (of_le bs :: 'a word)) :: byte) n = bit (bs ! i) n"
    by (simp add: bit_simps bit_of_le)
qed

lemma of_le_rev: "of_le (rev bs) = of_be 0 bs"
  by (induction bs rule: rev_induct)
    (simp_all add: of_le_def of_be_def push_add_byte or.commute)

lemma ntoh32_of_le:
  assumes "length bs = 4"
  shows "ntoh32 (of_le bs) = of_be 0 bs"
proof -
  from assms obtain b0 b1 b2 b3 where bs: "bs = [b0, b1, b2, b3]"
    by (auto simp: numeral_eq_Suc length_Suc_conv)
  show ?thesis
    using byte_of_le [of 0 bs, where ?'a = 32] byte_of_le [of 1 bs, where ?'a = 32]
      byte_of_le [of 2 bs, where ?'a = 32] byte_of_le [of 3 bs, where ?'a = 32]
      of_le_rev [of bs, where ?'a = 32]
    by (simp add: ntoh32_def bs numeral_eq_Suc)
qed

lemma ntoh64_of_le:
  assumes "length bs = 8"
  shows "ntoh64 (of_le bs) = of_be 0 bs"
proof -
  from assms obtain b0 b1 b2 b3 b4 b5 b6 b7 where bs: "bs = [b0, b1, b2, b3, b4, b5, b6, b7]"
    by (auto simp: numeral_eq_Suc length_Suc_conv)
  show ?thesis
    using byte_of_le [of 0 bs, where ?'a = 64] byte_of_le [of 1 bs, where ?'a = 64]
      byte_of_le [of 2 bs, where ?'a = 64] byte_of_le [of 3 bs, where ?'a = 64]
      byte_of_le [of 4 bs, where ?'a = 64] byte_of_le [of 5 bs, where ?'a = 64]
      byte_of_le [of 6 bs, where ?'a = 64] byte_of_le [of 7 bs, where ?'a = 64]
      of_le_rev [of bs, where ?'a = 64]
    by (simp add: ntoh64_def bs)
qed

interpretation cd_float: codec "nothrow addFloat" popFloat "\<lambda>_. True" "be_bytes 4"
  unfolding popFloat_fixed
  by (rule codec_fixed) (simp_all add: addFloat_append ntoh32_of_le of_be_full)

interpretation cd_double: codec "nothrow addDouble" popDouble "\<lambda>_. True" "be_bytes 8"
  unfolding popDouble_fixed
  by (rule codec_fixed) (simp_all add: addDouble_append ntoh64_of_le of_be_full)

subsection \<open>Variable-length integers\<close>

lemma addVar_append: "addVar out v = out @ addVar [] v"
proof (induction "unat v" arbitrary: out v rule: less_induct)
  case less
  show ?case
  proof (cases "v AND NOT 0x7f = 0")
    case True
    then show ?thesis by (simp add: addVar.simps)
  next
    case False
    note IH = less [OF seven_bit_step [OF False]]
    from False show ?thesis
      by (simp add: addVar.simps [of _ v]) (simp add: IH [of "_ @ _"] IH [of "[_]"])
  qed
qed

lemma addVar_small: "v AND NOT 0x7f = 0 \<Longrightarrow> addVar [] v = [ucast v]"
  by (simp add: addVar.simps)

lemma addVar_large:
  "v AND NOT 0x7f \<noteq> 0 \<Longrightarrow> addVar [] v = ucast ((v AND 0x7f) OR 0x80) # addVar [] (drop_bit 7 v)"
  by (subst addVar.simps) (simp add: addVar_append [of "[_]"])

lemma bit_0x7f: "bit (0x7f :: int) n \<longleftrightarrow> n < 7"
proof -
  have "(0x7f :: int) = mask 7" by (simp add: mask_eq_exp_minus_1)
  then show ?thesis by (simp only: bit_mask_iff) simp
qed

lemma bit_0x80: "bit (0x80 :: int) n \<longleftrightarrow> n = 7"
proof -
  have "(0x80 :: int) = 2 ^ 7" by simp
  then show ?thesis by (simp only: bit_exp_iff) auto
qed

lemmas varint_bits = bit_0x7f bit_0x80

lemma high_bits_zero_iff: "(v :: 'a::len word) AND NOT 0x7f = 0 \<longleftrightarrow> (\<forall>n\<ge>7. \<not> bit v n)"
proof -
  have "bit (v AND NOT 0x7f) n \<longleftrightarrow> bit v n \<and> 7 \<le> n" for n
    by (simp only: bit_and_iff bit_not_iff bit_numeral_word_iff bit_0x7f)
      (auto dest: bit_imp_le_length)
  moreover have "x = 0 \<longleftrightarrow> (\<forall>n. \<not> bit x n)" for x :: "'a word"
    by (auto intro: bit_word_eqI)
  ultimately show ?thesis by metis
qed

text \<open>
  Reading back from bit \<open>p\<close> on: the value already accumulated keeps its bits, and the encoded one
  must still fit above \<open>p\<close>. Starting at \<open>p = 0\<close> every word fits.
\<close>

lemma popVar_loop_addVar:
  fixes v a :: "'a::len word"
  assumes "points b at (addVar [] v @ rest)" and "at + int (length (addVar [] v)) \<le> eof + 1"
    and "\<forall>n. bit v n \<longrightarrow> n + p < LENGTH('a)"
  shows "popVar_loop b eof at p a = Inr (a OR push_bit p v, at + int (length (addVar [] v)))"
  using assms
proof (induction "unat v" arbitrary: v at p a rule: less_induct)
  case less
  show ?case
  proof (cases "v AND NOT 0x7f = 0")
    case True
    from True less.prems(1) have d: "deref b at = Inr (ucast v)"
      by (simp add: addVar_small)
    from True have hi: "\<And>n. bit v n \<Longrightarrow> n < 7" unfolding high_bits_zero_iff
      by (metis linorder_not_le)
    have "ucast (ucast v AND (0x7f :: byte)) = v"
      by (rule bit_word_eqI) (auto simp: bit_simps varint_bits dest: hi)
    moreover have "ucast v AND (0x80 :: byte) = 0"
      by (rule bit_word_eqI) (auto simp: bit_simps varint_bits dest: hi)
    ultimately show ?thesis using d less.prems(2) True
      by (subst popVar_loop.simps) (simp add: addVar_small Let_def)
  next
    case False
    let ?x = "ucast ((v AND 0x7f) OR 0x80) :: byte" and ?w = "drop_bit 7 v"
    from False obtain n where n: "n \<ge> 7" "bit v n" unfolding high_bits_zero_iff by blast
    with less.prems(3) have p7: "p + 7 < LENGTH('a)" by fastforce
    have pts: "points b at (?x # addVar [] ?w @ rest)"
      using less.prems(1) False by (simp add: addVar_large)
    have x: "?x AND 0x80 \<noteq> 0"
    proof
      assume "?x AND 0x80 = 0"
      then have "\<not> bit (?x AND 0x80) 7" by simp
      then show False using p7 by (simp add: bit_simps varint_bits)
    qed
    have "(a OR push_bit p (ucast (?x AND 0x7f))) OR push_bit (p + 7) ?w = a OR push_bit p v"
    proof (rule bit_word_eqI)
      fix n
      have "p + 7 \<le> n \<Longrightarrow> 7 + (n - (p + 7)) = n - p" by simp
      then show "bit ((a OR push_bit p (ucast (?x AND 0x7f))) OR push_bit (p + 7) ?w) n
          \<longleftrightarrow> bit (a OR push_bit p v) n"
        by (cases "p + 7 \<le> n") (auto simp: bit_simps varint_bits)
    qed
    moreover have "popVar_loop b eof (at + 1) (p + 7) (a OR push_bit p (ucast (?x AND 0x7f)))
        = Inr ((a OR push_bit p (ucast (?x AND 0x7f))) OR push_bit (p + 7) ?w,
            at + 1 + int (length (addVar [] ?w)))"
      using less.prems(2,3) False points_Cons_advance [OF pts]
      by (intro less.hyps [OF seven_bit_step [OF False]])
        (auto simp: addVar_large bit_simps algebra_simps)
    ultimately show ?thesis
      using deref_points [OF pts] x p7 less.prems(2) False
      by (subst popVar_loop.simps) (simp add: addVar_large Let_def)
  qed
qed


interpretation cd_varint: codec "nothrow addVarInt" popVarInt "\<lambda>_. True" "addVarInt []"
proof
  fix x :: i32 and out b at rest eof
  show "nothrow addVarInt out x = Inr (out @ addVarInt [] x)"
    by (simp add: nothrow_def addVarInt_def addVar_append [of out])
  show "popVarInt b eof at = Inr (x, at + int (length (addVarInt [] x)))"
    if "points b at (addVarInt [] x @ rest)" "at + int (length (addVarInt [] x)) \<le> eof + 1"
    using that popVar_loop_addVar [of b at x rest eof 0 0]
      bit_imp_le_length [of x]
    by (simp add: popVarInt_def addVarInt_def)
qed

interpretation cd_varlong: codec "nothrow addVarLong" popVarLong "\<lambda>_. True" "addVarLong []"
proof
  fix x :: i64 and out b at rest eof
  show "nothrow addVarLong out x = Inr (out @ addVarLong [] x)"
    by (simp add: nothrow_def addVarLong_def addVar_append [of out])
  show "popVarLong b eof at = Inr (x, at + int (length (addVarLong [] x)))"
    if "points b at (addVarLong [] x @ rest)" "at + int (length (addVarLong [] x)) \<le> eof + 1"
    using that popVar_loop_addVar [of b at x rest eof 0 0]
      bit_imp_le_length [of x]
    by (simp add: popVarLong_def addVarLong_def)
qed

lemma addVarInt_append: "addVarInt out x = out @ addVarInt [] x"
  by (simp add: addVarInt_def addVar_append [of out])

subsection \<open>Booleans, strings, slots, identifiers\<close>

interpretation cd_boolean: codec "nothrow addBoolean" popBoolean "\<lambda>_. True"
  "\<lambda>x. [if x then 1 else 0]"
proof
  fix x out b at rest eof
  show "nothrow addBoolean out x = Inr (out @ [if x then 1 else 0])"
    by (simp add: nothrow_def addBoolean_def addByte_def)
  show "popBoolean b eof at = Inr (x, at + int (length [if x then 1 else 0 :: byte]))"
    if "points b at ([if x then 1 else 0] @ rest)"
      "at + int (length [if x then 1 else 0 :: byte]) \<le> eof + 1"
    using cd_byte.pop_enc [where x = "if x then 1 else 0" and b = b and at = at and rest = rest and eof = eof] that by (simp add: popBoolean_def)
qed

lemma sint_of_nat_i32: "n < 2 ^ 31 \<Longrightarrow> sint (of_nat n :: i32) = int n"
  by (simp add: signed_of_nat signed_take_bit_int_eq_self)

definition enc_string :: "string \<Rightarrow> byte list" where
  "enc_string s = addVarInt [] (of_nat (length s)) @ map byte_of_char s"

lemma popString_enc:
  assumes "length s < 2 ^ 31" and "points b at (enc_string s @ rest)"
    and "at + int (length (enc_string s)) \<le> eof + 1"
  shows "popString b eof at = Inr (s, at + int (length (enc_string s)))"
proof -
  let ?n = "of_nat (length s) :: i32"
  have p1: "points b at (addVarInt [] ?n @ map byte_of_char s @ rest)"
    using assms(2) by (simp add: enc_string_def)
  have p2: "points b (at + int (length (addVarInt [] ?n))) (map byte_of_char s @ rest)"
    by (rule points_advance [OF p1])
  have "popVarInt b eof at = Inr (?n, at + int (length (addVarInt [] ?n)))"
    using assms(3) by (intro cd_varint.pop_enc [OF TrueI p1]) (auto simp: enc_string_def)
  moreover have "read_bytes (length s) b (at + int (length (addVarInt [] ?n)))
      = Inr (map byte_of_char s)"
    using read_bytes_points [OF p2] by simp
  ultimately show ?thesis
    using assms(1,3) by (simp add: popString_def sint_of_nat_i32 enc_string_def)
qed

lemma addString_enc:
  "length s \<le> MAX_STRING_SIZE \<Longrightarrow> addString out s = Inr (out @ enc_string s)"
  by (simp add: addString_def addString_max_def enc_string_def addVarInt_append [of out])

lemma addChat_enc:
  "length s \<le> MAX_CHAT_SIZE \<Longrightarrow> addChat out s = Inr (out @ enc_string s)"
  by (simp add: addChat_def addString_max_def enc_string_def addVarInt_append [of out])

interpretation cd_string: codec addString popString "\<lambda>s. length s \<le> MAX_STRING_SIZE" enc_string
  by unfold_locales (auto simp: addString_enc MAX_STRING_SIZE_def intro!: popString_enc)

interpretation cd_chat: codec addChat popChat "\<lambda>s. length s \<le> MAX_CHAT_SIZE" enc_string
  by unfold_locales (auto simp: addChat_enc MAX_CHAT_SIZE_def popChat_def intro!: popString_enc)


lemma popBoolean_enc:
  "points b at ((if x then 1 else 0) # rest) \<Longrightarrow> at \<le> eof \<Longrightarrow> popBoolean b eof at = Inr (x, at + 1)"
  using cd_boolean.pop_enc [of b at x rest eof] by simp

lemma popByte_enc: "points b at (x # rest) \<Longrightarrow> at \<le> eof \<Longrightarrow> popByte b eof at = Inr (x, at + 1)"
  using cd_byte.pop_enc [of b at x rest eof] by simp

definition enc_slot :: "Slot \<Rightarrow> byte list" where
  "enc_slot s = (if present s then 1 # addVarInt [] (itemID s) @ [itemCount s, 0] else [0])"

definition valid_slot :: "Slot \<Rightarrow> bool" where
  "valid_slot s \<longleftrightarrow> present s \<or> s = empty_slot"

interpretation cd_slot: codec "nothrow addSlot" popSlot valid_slot enc_slot
proof
  fix s out b at rest eof
  show "nothrow addSlot out s = Inr (out @ enc_slot s)"
    by (simp add: nothrow_def addSlot_def enc_slot_def addBoolean_def addByte_def Let_def
        addVarInt_append [of "out @ _"])
  show "popSlot b eof at = Inr (s, at + int (length (enc_slot s)))"
    if v: "valid_slot s" and p: "points b at (enc_slot s @ rest)"
      and le: "at + int (length (enc_slot s)) \<le> eof + 1"
  proof (cases "present s")
    case False
    with v have s: "s = empty_slot" by (simp add: valid_slot_def)
    from False p le have "popBoolean b eof at = Inr (False, at + 1)"
      by (intro popBoolean_enc [where rest = rest]) (auto simp: enc_slot_def)
    with False show ?thesis by (simp add: popSlot_def enc_slot_def s empty_slot_def)
  next
    case True
    let ?i = "addVarInt [] (itemID s)" and ?at1 = "at + 1"
    from True p have p0: "points b at (1 # ?i @ itemCount s # 0 # rest)" by (simp add: enc_slot_def)
    then have p1: "points b ?at1 (?i @ itemCount s # 0 # rest)" by (rule points_Cons_advance)
    then have p2: "points b (?at1 + int (length ?i)) (itemCount s # 0 # rest)" by (rule points_advance)
    then have p3: "points b (?at1 + int (length ?i) + 1) (0 # rest)" by (rule points_Cons_advance)
    from True le have lim: "?at1 + int (length ?i) + 1 \<le> eof" by (simp add: enc_slot_def)
    have "popBoolean b eof at = Inr (True, ?at1)"
      using p0 lim by (intro popBoolean_enc) auto
    moreover have "popVarInt b eof ?at1 = Inr (itemID s, ?at1 + int (length ?i))"
      using lim by (intro cd_varint.pop_enc [OF TrueI p1]) simp
    moreover have "popByte b eof (?at1 + int (length ?i)) = Inr (itemCount s, ?at1 + int (length ?i) + 1)"
      using lim by (intro popByte_enc [OF p2]) simp
    moreover have "popByte b eof (?at1 + int (length ?i) + 1) = Inr (0, ?at1 + int (length ?i) + 1 + 1)"
      using lim by (intro popByte_enc [OF p3]) simp
    ultimately show ?thesis using True by (simp add: popSlot_def enc_slot_def empty_slot_def)
  qed
qed

interpretation cd_uuid: codec "nothrow addUUID" popUUID "\<lambda>_. True"
  "\<lambda>u. be_bytes 8 (u128_most u) @ be_bytes 8 (u128_least u)"
proof
  fix u :: u128 and out b at rest eof
  let ?m = "be_bytes 8 (u128_most u)" and ?l = "be_bytes 8 (u128_least u)"
  show "nothrow addUUID out u = Inr (out @ ?m @ ?l)"
    by (simp add: nothrow_def addUUID_def addLong_append)
  show "popUUID b eof at = Inr (u, at + int (length (?m @ ?l)))"
    if "points b at ((?m @ ?l) @ rest)" and le: "at + int (length (?m @ ?l)) \<le> eof + 1"
  proof -
    from that have p1: "points b at (?m @ ?l @ rest)" by simp
    from points_advance [OF p1] have p2: "points b (at + 8) (?l @ rest)" by simp
    show ?thesis
      using le cd_long.pop_enc [OF TrueI p1, of eof] cd_long.pop_enc [OF TrueI p2, of eof]
      by (simp add: popUUID_def)
  qed
qed

subsection \<open>Positions\<close>

text \<open>A position survives the trip when its coordinates fit 26, 12 and 26 signed bits.\<close>

definition valid_position :: "Position \<Rightarrow> bool" where
  "valid_position p \<longleftrightarrow> signed_take_bit 25 (pos_x p) = pos_x p
     \<and> signed_take_bit 11 (pos_y p) = pos_y p \<and> signed_take_bit 25 (pos_z p) = pos_z p"

definition packed_position :: "Position \<Rightarrow> i64" where
  "packed_position p = push_bit 38 (pos_x p AND 0x3FFFFFF) OR push_bit 12 (pos_z p AND 0x3FFFFFF)
     OR (pos_y p AND 0xFFF)"

lemma bit_packed_position:
  "bit (packed_position p) n \<longleftrightarrow>
     (if n < 12 then bit (pos_y p) n else if n < 38 then bit (pos_z p) (n - 12)
      else n < 64 \<and> bit (pos_x p) (n - 38))"
proof -
  have m: "w AND 0x3FFFFFF = take_bit 26 w" "w AND 0xFFF = take_bit 12 w" for w :: i64
    by (simp_all add: take_bit_eq_mask mask_eq_exp_minus_1)
  show ?thesis by (auto simp: packed_position_def m bit_simps)
qed

lemma unpack_x: "signed_drop_bit 38 (packed_position p) = signed_take_bit 25 (pos_x p)"
proof (rule bit_word_eqI)
  fix n assume "n < LENGTH(64)"
  then show "bit (signed_drop_bit 38 (packed_position p)) n \<longleftrightarrow> bit (signed_take_bit 25 (pos_x p)) n"
    by (cases "n < 25"; cases "n = 25")
      (auto simp: bit_packed_position bit_signed_drop_bit_iff bit_signed_take_bit_iff min_def)
qed

lemma unpack_y: "signed_drop_bit 52 (push_bit 52 (packed_position p)) = signed_take_bit 11 (pos_y p)"
proof (rule bit_word_eqI)
  fix n assume "n < LENGTH(64)"
  then show "bit (signed_drop_bit 52 (push_bit 52 (packed_position p))) n
      \<longleftrightarrow> bit (signed_take_bit 11 (pos_y p)) n"
    by (cases "n < 11"; cases "n = 11")
      (auto simp: bit_packed_position bit_simps bit_signed_drop_bit_iff bit_signed_take_bit_iff min_def)
qed

lemma unpack_z: "signed_drop_bit 38 (push_bit 26 (packed_position p)) = signed_take_bit 25 (pos_z p)"
proof (rule bit_word_eqI)
  fix n assume "n < LENGTH(64)"
  then show "bit (signed_drop_bit 38 (push_bit 26 (packed_position p))) n
      \<longleftrightarrow> bit (signed_take_bit 25 (pos_z p)) n"
    by (cases "n < 25"; cases "n = 25")
      (auto simp: bit_packed_position bit_simps bit_signed_drop_bit_iff bit_signed_take_bit_iff min_def)
qed

interpretation cd_position: codec "nothrow addPosition" popPosition valid_position
  "\<lambda>p. be_bytes 8 (packed_position p)"
proof
  fix p out b at rest eof
  show "nothrow addPosition out p = Inr (out @ be_bytes 8 (packed_position p))"
    by (simp add: nothrow_def addPosition_def addLong_append packed_position_def)
  show "popPosition b eof at = Inr (p, at + int (length (be_bytes 8 (packed_position p))))"
    if "valid_position p" and pt: "points b at (be_bytes 8 (packed_position p) @ rest)"
      and "at + int (length (be_bytes 8 (packed_position p))) \<le> eof + 1"
    using that(1,3) cd_long.pop_enc [OF TrueI pt, of eof]
    by (simp add: popPosition_def unpack_x unpack_y unpack_z valid_position_def)
qed

subsection \<open>Arrays\<close>

context codec
begin

definition enc_array :: "'a list \<Rightarrow> byte list" where
  "enc_array xs = addVarInt [] (of_nat (length xs)) @ concat (map enc xs)"

definition valid_array :: "'a list \<Rightarrow> bool" where
  "valid_array xs \<longleftrightarrow> list_all valid xs \<and> length xs < 2 ^ 31"

lemma codec_array: "codec (addArray add) (popArray pop) valid_array enc_array"
proof
  fix xs :: "'a list" and out b at rest eof
  let ?n = "addVarInt [] (of_nat (length xs))"
  assume v: "valid_array xs"
  then show "addArray add out xs = Inr (out @ enc_array xs)"
    by (simp add: addArray_def add_all_enc enc_array_def valid_array_def addVarInt_append [of out])
  assume "points b at (enc_array xs @ rest)" and le: "at + int (length (enc_array xs)) \<le> eof + 1"
  then have p1: "points b at (?n @ concat (map enc xs) @ rest)" by (simp add: enc_array_def)
  have "popVarInt b eof at = Inr (of_nat (length xs), at + int (length ?n))"
    using le by (intro cd_varint.pop_enc [OF TrueI p1]) (simp add: enc_array_def)
  moreover have "popArray_loop pop (length xs) b eof (at + int (length ?n))
      = Inr (xs, at + int (length ?n) + int (length (concat (map enc xs))))"
    using v le points_advance [OF p1]
    by (intro loop_enc) (simp_all add: valid_array_def enc_array_def)
  ultimately show "popArray pop b eof at = Inr (xs, at + int (length (enc_array xs)))"
    using v by (simp add: popArray_def sint_of_nat_i32 valid_array_def enc_array_def)
qed

end

interpretation cd_bytes: codec "addArray (nothrow addByte)" "popArray popByte"
  cd_byte.valid_array cd_byte.enc_array
  by (rule cd_byte.codec_array)

interpretation cd_strings: codec "addArray addString" "popArray popString"
  cd_string.valid_array cd_string.enc_array
  by (rule cd_string.codec_array)

end
