(* ===== verification/Packet_Utils.thy ===== *)
theory Packet_Utils
  imports Wire
begin

text \<open>
  \<open>protocol/PacketUtils.hpp\<close>: the variadic templates \<open>parse\<close> and \<open>serialize\<close> that every packet is
  built on, and \<open>finalize\<close>, which puts the length and the identifier in front of a payload.
\<close>

section \<open>The field-by-field parser\<close>

text \<open>
  \<open>parse(at, end, out, parser, &H::field, ...)\<close> stores what each parser returns in its field and
  goes on with the rest; \<open>at\<close> is threaded through by reference. A list of steps stands for the
  argument pack. \<open>parse_if c ps\<close> is a further call of \<open>parse\<close> under \<open>if (c(*h))\<close>, \<open>assign f\<close> an
  assignment to the object.
\<close>

type_synonym 'h step = "'h \<Rightarrow> 'h pop"

definition field :: "'a pop \<Rightarrow> ('a \<Rightarrow> 'h \<Rightarrow> 'h) \<Rightarrow> 'h step" where
  "field parser store h b eof at = rbind (parser b eof at) (\<lambda>(v, at). Inr (store v h, at))"

definition assign :: "('h \<Rightarrow> 'h) \<Rightarrow> 'h step" where
  "assign f h b eof at = Inr (f h, at)"

fun parse :: "'h step list \<Rightarrow> 'h step" where
  "parse [] h b eof at = Inr (h, at)"
| "parse (p # ps) h b eof at = rbind (p h b eof at) (\<lambda>(h, at). parse ps h b eof at)"

definition parse_if :: "('h \<Rightarrow> bool) \<Rightarrow> 'h step list \<Rightarrow> 'h step" where
  "parse_if c ps h b eof at = (if c h then parse ps h b eof at else Inr (h, at))"

text \<open>Every parse function starts at \<open>buffer.data()\<close> and may read up to \<open>data() + size() - 1\<close>.\<close>

definition parse_packet :: "'h step list \<Rightarrow> 'h \<Rightarrow> byte list \<Rightarrow> 'h result" where
  "parse_packet ps zero buffer =
     rbind (parse ps zero buffer (int (length buffer) - 1) 0) (\<lambda>(h, at). Inr h)"

section \<open>Serialization\<close>

text \<open>
  \<open>serialize(out, data, serializer, ...)\<close> runs each serializer on its argument. A list of writers,
  each already applied to its data, stands for the argument pack.
\<close>

type_synonym writer = "byte list \<Rightarrow> byte list result"

fun serialize_all :: "writer list \<Rightarrow> writer" where
  "serialize_all [] out = Inr out"
| "serialize_all (w # ws) out = rbind (w out) (\<lambda>out. serialize_all ws out)"

definition put :: "(byte list \<Rightarrow> 'a \<Rightarrow> byte list result) \<Rightarrow> 'a \<Rightarrow> writer" where
  "put add x out = add out x"

text \<open>
  \<open>finalize\<close>: the length of identifier and payload as a VarInt (\<open>size_t\<close> cut to \<open>int32_t\<close>), the
  identifier as a VarInt, the payload.
\<close>

definition finalize :: "byte list \<Rightarrow> byte list \<Rightarrow> i32 \<Rightarrow> byte list" where
  "finalize out payload packetId =
     (let encodedPacketId = addVarInt [] packetId;
          out = addVarInt out (of_nat (length payload + length encodedPacketId))
      in out @ encodedPacketId @ payload)"

section \<open>Parsers built from readers\<close>

text \<open>
  \<open>robust f\<close>: on no buffer does \<open>f\<close> read out of bounds, and a packet it accepts is accepted with
  the same value when more bytes follow.
\<close>

definition robust :: "(byte list \<Rightarrow> 'a result) \<Rightarrow> bool" where
  "robust f \<longleftrightarrow> (\<forall>b. f b \<noteq> Inl (UB OutOfBoundsRead)) \<and> (\<forall>b c r. f b = Inr r \<longrightarrow> f (b @ c) = Inr r)"

definition reads :: "'h step \<Rightarrow> bool" where
  "reads p \<longleftrightarrow> (\<forall>h. reader (p h))"

lemma reads_field: "reader parser \<Longrightarrow> reads (field parser store)"
  unfolding reads_def field_def [abs_def] by (auto intro: reader.reader_map)

lemma reads_assign: "reads (assign f)"
  unfolding reads_def assign_def [abs_def] by (simp add: reader_return)

lemma parse_Nil_return: "parse [] h = (\<lambda>b eof at. Inr (h, at))"
  by (intro ext) simp

lemma parse_Cons_then: "parse (p # ps) h = pop_then (p h) (parse ps)"
  by (intro ext) (simp add: pop_then_def)

lemma reader_parse: "list_all reads ps \<Longrightarrow> reader (parse ps h)"
proof (induction ps arbitrary: h)
  case Nil
  show ?case by (simp only: parse_Nil_return reader_return)
next
  case (Cons p ps)
  then show ?case unfolding parse_Cons_then by (intro reader_pop_then) (simp_all add: reads_def)
qed

lemma parse_if_cases: "parse_if c ps h = (if c h then parse ps h else parse [] h)"
  by (intro ext) (simp add: parse_if_def)

lemma reads_parse_if: "list_all reads ps \<Longrightarrow> reads (parse_if c ps)"
  unfolding reads_def [of "parse_if c ps"] parse_if_cases by (simp add: reader_parse)

lemma robust_parse_packet:
  assumes "list_all reads ps"
  shows "robust (parse_packet ps zero)"
proof -
  note rd = reader_parse [OF assms, of zero]
  have "parse_packet ps zero b \<noteq> Inl (UB OutOfBoundsRead)" for b
    using reader.pop_in_bounds [OF rd, of 0 "int (length b) - 1" b]
    by (auto simp: parse_packet_def rbind_Inl_iff)
  moreover have "parse_packet ps zero (b @ c) = Inr r" if "parse_packet ps zero b = Inr r" for b c r
  proof -
    from that obtain at where "parse ps zero b (int (length b) - 1) 0 = Inr (r, at)"
      by (auto simp: parse_packet_def rbind_Inr_iff)
    from reader.pop_extend [OF rd _ _ this, of c] show ?thesis
      by (simp add: parse_packet_def add_diff_eq add.commute)
  qed
  ultimately show ?thesis by (simp add: robust_def)
qed

section \<open>Parsing what the serializers wrote\<close>

text \<open>
  \<open>decodes p bs h h'\<close>: on the bytes \<open>bs\<close>, wherever they stand, the step \<open>p\<close> turns \<open>h\<close> into \<open>h'\<close>.
  \<open>inverse ws ps h h'\<close>: the steps \<open>ps\<close> do so on what the writers \<open>ws\<close> append.
\<close>

definition decodes :: "'h step \<Rightarrow> byte list \<Rightarrow> 'h \<Rightarrow> 'h \<Rightarrow> bool" where
  "decodes p bs h h' \<longleftrightarrow> (\<forall>b eof at rest. points b at (bs @ rest) \<longrightarrow> at + int (length bs) \<le> eof + 1 \<longrightarrow>
     p h b eof at = Inr (h', at + int (length bs)))"

definition inverse :: "writer list \<Rightarrow> 'h step list \<Rightarrow> 'h \<Rightarrow> 'h \<Rightarrow> bool" where
  "inverse ws ps h h' \<longleftrightarrow>
     (\<exists>bs. (\<forall>out. serialize_all ws out = Inr (out @ bs)) \<and> decodes (parse ps) bs h h')"

lemma decodesD:
  "decodes p bs h h' \<Longrightarrow> points b at (bs @ rest) \<Longrightarrow> at + int (length bs) \<le> eof + 1 \<Longrightarrow>
   p h b eof at = Inr (h', at + int (length bs))"
  unfolding decodes_def by blast

lemma decodes_Cons:
  assumes p: "decodes p bs h h1" and ps: "decodes (parse ps) cs h1 h2"
  shows "decodes (parse (p # ps)) (bs @ cs) h h2"
  unfolding decodes_def
proof (intro allI impI)
  fix b eof at rest
  assume pts: "points b at ((bs @ cs) @ rest)" and le: "at + int (length (bs @ cs)) \<le> eof + 1"
  have "p h b eof at = Inr (h1, at + int (length bs))"
    using pts le by (intro decodesD [OF p, of b at "cs @ rest"]) simp_all
  moreover have "points b (at + int (length bs)) (cs @ rest)"
    using points_advance [of b at bs "cs @ rest"] pts by simp
  then have "parse ps h1 b eof (at + int (length bs)) = Inr (h2, at + int (length bs) + int (length cs))"
    using le by (intro decodesD [OF ps]) simp_all
  ultimately show "parse (p # ps) h b eof at = Inr (h2, at + int (length (bs @ cs)))"
    by (simp add: add.assoc)
qed

lemma inverse_Nil: "inverse [] [] h h"
  by (auto simp: inverse_def decodes_def)

lemma inverse_skip: "\<not> c h \<Longrightarrow> inverse ws ps h h' \<Longrightarrow> inverse ws (parse_if c qs # ps) h h'"
  using decodes_Cons [of "parse_if c qs" "[]" h h ps _ h']
  by (auto simp: inverse_def) (auto simp: decodes_def parse_if_def)

lemma inverse_enter: "c h \<Longrightarrow> inverse ws (qs @ ps) h h' \<Longrightarrow> inverse ws (parse_if c qs # ps) h h'"
proof -
  assume c: "c h"
  have "parse (qs @ ps) h b eof at = rbind (parse qs h b eof at) (\<lambda>(h, at). parse ps h b eof at)"
    for b eof at
    by (induction qs arbitrary: h at) (auto simp: rbind_assoc intro!: rbind_cong)
  with c have "parse (parse_if c qs # ps) h = parse (qs @ ps) h"
    by (intro ext) (simp add: parse_if_def)
  then show "inverse ws (qs @ ps) h h' \<Longrightarrow> inverse ws (parse_if c qs # ps) h h'"
    by (simp add: inverse_def decodes_def)
qed

context codec
begin

lemma inverse_field:
  assumes "valid x" and "inverse ws ps (store x h) h'"
  shows "inverse (put add x # ws) (field pop store # ps) h h'"
proof -
  from assms(2) obtain bs where bs: "\<And>out. serialize_all ws out = Inr (out @ bs)"
      and d: "decodes (parse ps) bs (store x h) h'"
    by (auto simp: inverse_def)
  have "decodes (field pop store) (enc x) h (store x h)"
    by (simp add: decodes_def field_def pop_enc [OF assms(1)])
  from decodes_Cons [OF this d] show ?thesis
    unfolding inverse_def using bs add_enc [OF assms(1)]
    by (intro exI [of _ "enc x @ bs"]) (simp add: put_def)
qed

end

lemma parse_packet_inverse:
  assumes "inverse ws ps zero h"
  shows "\<exists>out. serialize_all ws [] = Inr out \<and> (\<forall>rest. parse_packet ps zero (out @ rest) = Inr h)"
proof -
  from assms obtain bs where "serialize_all ws [] = Inr bs" and d: "decodes (parse ps) bs zero h"
    unfolding inverse_def by (metis append_Nil)
  moreover have "parse_packet ps zero (bs @ rest) = Inr h" for rest
    using decodesD [OF d points_start, of "int (length (bs @ rest)) - 1"]
    by (simp add: parse_packet_def)
  ultimately show ?thesis by blast
qed

end
