(* ===== verification/Wire_Properties.thy ===== *)
theory Wire_Properties
  imports Packet_Utils
begin

text \<open>
  What the primitives of the wire format promise: every \<open>add\<close> function is undone by its \<open>pop\<close>
  function, the variable-length integers have bounded length and reject overlong input, and the
  frame \<open>finalize\<close> builds can be taken apart.
\<close>

section \<open>Shared lemmas\<close>

context codec
begin

lemma roundtrip:
  assumes "valid x"
  shows "\<exists>b. add out x = Inr b \<and> (\<forall>rest. pop (b @ rest) (int (length (b @ rest)) - 1) (int (length out))
    = Inr (x, int (length b)))"
proof -
  have "pop ((out @ enc x) @ rest) (int (length ((out @ enc x) @ rest)) - 1) (int (length out))
      = Inr (x, int (length out) + int (length (enc x)))" for rest
  proof (rule pop_enc [OF assms])
    show "points ((out @ enc x) @ rest) (int (length out)) (enc x @ rest)"
      using points_append [of out "enc x @ rest"] by simp
  qed simp
  then show ?thesis
    by (intro exI [of _ "out @ enc x"]) (simp only: add_enc [OF assms] length_append of_nat_add simp_thms)
qed

end

lemma addVar_length:
  fixes v :: "'a::len word"
  assumes "\<forall>n. bit v n \<longrightarrow> n < 7 * k" and "0 < k"
  shows "length (addVar [] v) \<le> k"
  using assms
proof (induction k arbitrary: v)
  case (Suc k)
  show ?case
  proof (cases "v AND NOT 0x7f = 0")
    case True
    then show ?thesis by (simp add: addVar_small)
  next
    case False
    then obtain n where "n \<ge> 7" "bit v n" unfolding high_bits_zero_iff by blast
    with Suc.prems have "0 < k" by (cases k) auto
    moreover have "\<forall>n. bit (drop_bit 7 v) n \<longrightarrow> n < 7 * k"
      using Suc.prems(1) by (auto simp: bit_simps)
    ultimately show ?thesis using Suc.IH [of "drop_bit 7 v"] False by (simp add: addVar_large)
  qed
qed simp

lemma addVarInt_length: "length (addVarInt [] v) \<le> 5"
  using bit_imp_le_length [of v] by (fastforce simp: addVarInt_def intro!: addVar_length)

lemma addVar_nonempty: "addVar [] v \<noteq> []"
  by (cases "v AND NOT 0x7f = 0") (simp_all add: addVar_small addVar_large)

lemma popVar_continue:
  assumes "points b at (x # rest)" "at \<le> eof" "x AND 0x80 \<noteq> 0"
  shows "popVar_loop b eof at p (v :: 'a::len word)
    = (if p + 7 \<ge> LENGTH('a) then Inl VarIntOverflow
       else popVar_loop b eof (at + 1) (p + 7) (v OR push_bit p (ucast (x AND 0x7f))))"
  using assms by (subst popVar_loop.simps) (simp add: Let_def)

lemma popVar_overlong:
  assumes "points b at (bs @ rest)" "at + int (length bs) \<le> eof + 1"
    and "list_all (\<lambda>x. x AND 0x80 \<noteq> 0) bs" "p + 7 * length bs \<ge> LENGTH('a)" "p < LENGTH('a)"
  shows "popVar_loop b eof at p (v :: 'a::len word) = Inl VarIntOverflow"
  using assms
proof (induction bs arbitrary: at p v)
  case (Cons x bs)
  then have x: "points b at (x # bs @ rest)" "at \<le> eof" "x AND 0x80 \<noteq> 0" by auto
  show ?case
  proof (cases "p + 7 \<ge> LENGTH('a)")
    case True
    then show ?thesis using popVar_continue [OF x, of p v] by simp
  next
    case False
    then show ?thesis
      using popVar_continue [OF x, of p v] Cons.prems points_Cons_advance [OF x(1)] Cons.IH [of "at + 1" "p + 7"]
      by simp
  qed
qed simp

section \<open>Properties\<close>

text \<open>C22: \<open>popVarInt\<close> reads back the value \<open>addVarInt\<close> wrote, whatever precedes and follows it in the
  buffer, and leaves the pointer right after it.\<close>

theorem varint_roundtrip:
  "popVarInt (addVarInt out v @ rest) (int (length (addVarInt out v @ rest)) - 1) (int (length out))
   = Inr (v, int (length (addVarInt out v)))"
  using cd_varint.roundtrip [OF TrueI, of out v] by (auto simp: nothrow_def)

text \<open>\<open>popVarLong\<close> reads back the value \<open>addVarLong\<close> wrote.\<close>

theorem varlong_roundtrip:
  "popVarLong (addVarLong out v @ rest) (int (length (addVarLong out v @ rest)) - 1) (int (length out))
   = Inr (v, int (length (addVarLong out v)))"
  using cd_varlong.roundtrip [OF TrueI, of out v] by (auto simp: nothrow_def)

text \<open>A VarInt takes one to five bytes and a VarLong one to ten, negative values included.\<close>

theorem var_length_bounds:
  "length (addVarInt [] v) \<in> {1..5} \<and> length (addVarLong [] w) \<in> {1..10}"
  using addVar_length [of v 5] addVar_length [of w 10] addVar_nonempty [of v] addVar_nonempty [of w]
    bit_imp_le_length [of v] bit_imp_le_length [of w]
  by (auto simp: addVarInt_def addVarLong_def Suc_le_eq intro!: addVar_length dest: bit_imp_le_length)

text \<open>Five bytes with the continue bit are rejected with \<open>VarIntOverflow\<close>, before a sixth is
  read.\<close>

theorem varint_overlong:
  assumes "length bs = 5" and "list_all (\<lambda>x. x AND 0x80 \<noteq> 0) bs"
  shows "popVarInt (bs @ rest) (int (length (bs @ rest)) - 1) 0 = Inl VarIntOverflow"
  unfolding popVarInt_def
  by (rule popVar_overlong [of _ _ bs rest]) (use assms in simp_all)

theorem varint_overlong_witness:
  "popVarInt ([0x80, 0x80, 0x80, 0x80, 0x80] @ [0x01]) (int (length ([0x80, 0x80, 0x80, 0x80, 0x80] @ [0x01 :: byte])) - 1) 0
   = Inl VarIntOverflow"
  by (rule varint_overlong) simp_all

text \<open>A string of at most 32767 bytes is written by \<open>addString\<close> and read back by \<open>popString\<close>; a
  longer one makes \<open>addString\<close> throw.\<close>

theorem string_roundtrip:
  "if length s \<le> MAX_STRING_SIZE
   then \<exists>b. addString out s = Inr b \<and>
     popString (b @ rest) (int (length (b @ rest)) - 1) (int (length out)) = Inr (s, int (length b))
   else addString out s = Inl MaxLengthString"
  using cd_string.roundtrip [of s out] by (auto simp: addString_def addString_max_def)

text \<open>A block position within the ranges of the protocol (26 bits for x and z, 12 for y, signed)
  survives \<open>addPosition\<close> and \<open>popPosition\<close>.\<close>

theorem position_roundtrip:
  assumes "valid_position p"
  shows "popPosition (addPosition out p @ rest) (int (length (addPosition out p @ rest)) - 1) (int (length out))
    = Inr (p, int (length (addPosition out p)))"
  using cd_position.roundtrip [OF assms, of out] by (auto simp: nothrow_def)

theorem position_roundtrip_witness:
  "popPosition (addPosition [] \<lparr>pos_x = -1, pos_y = -64, pos_z = 7\<rparr> @ [9])
     (int (length (addPosition [] \<lparr>pos_x = -1, pos_y = -64, pos_z = 7\<rparr> @ [9])) - 1) (int (length ([] :: byte list)))
   = Inr (\<lparr>pos_x = -1, pos_y = -64, pos_z = 7\<rparr>, int (length (addPosition [] \<lparr>pos_x = -1, pos_y = -64, pos_z = 7\<rparr>)))"
proof (rule position_roundtrip)
  show "valid_position \<lparr>pos_x = -1, pos_y = -64, pos_z = 7\<rparr>"
    by (simp add: valid_position_def signed_take_bit_eq_if_negative)
qed

text \<open>An inventory slot survives \<open>addSlot\<close> and \<open>popSlot\<close>, an absent one if it is the empty slot.\<close>

theorem slot_roundtrip:
  assumes "valid_slot s"
  shows "popSlot (addSlot out s @ rest) (int (length (addSlot out s @ rest)) - 1) (int (length out))
    = Inr (s, int (length (addSlot out s)))"
  using cd_slot.roundtrip [OF assms, of out] by (auto simp: nothrow_def)

theorem slot_roundtrip_witness:
  "popSlot (addSlot [] \<lparr>present = True, itemID = 300, itemCount = 64\<rparr> @ [])
     (int (length (addSlot [] \<lparr>present = True, itemID = 300, itemCount = 64\<rparr> @ [])) - 1) (int (length ([] :: byte list)))
   = Inr (\<lparr>present = True, itemID = 300, itemCount = 64\<rparr>,
       int (length (addSlot [] \<lparr>present = True, itemID = 300, itemCount = 64\<rparr>)))"
  by (rule slot_roundtrip) (simp add: valid_slot_def)

text \<open>An array of strings, its length first, survives \<open>addArray\<close> and \<open>popArray\<close>.\<close>

theorem string_array_roundtrip:
  assumes "length xs < 2 ^ 31" and "list_all (\<lambda>s. length s \<le> MAX_STRING_SIZE) xs"
  shows "\<exists>b. addArray addString out xs = Inr b \<and>
    popArray popString (b @ rest) (int (length (b @ rest)) - 1) (int (length out)) = Inr (xs, int (length b))"
  using cd_strings.roundtrip [of xs out] assms by (auto simp: cd_string.valid_array_def)

theorem string_array_roundtrip_witness:
  "\<exists>b. addArray addString [] [''a'', ''bc''] = Inr b \<and>
    popArray popString (b @ []) (int (length (b @ [])) - 1) (int (length ([] :: byte list))) = Inr ([''a'', ''bc''], int (length b))"
  by (rule string_array_roundtrip) (simp_all add: MAX_STRING_SIZE_def)

lemma finalize_eq:
  "finalize out payload i
   = out @ addVarInt [] (of_nat (length payload + length (addVarInt [] i))) @ addVarInt [] i @ payload"
  by (simp add: finalize_def Let_def addVarInt_append [of out])

lemma finalize_reads:
  assumes "length payload < 2 ^ 31 - 5"
  shows "\<exists>n k m. popVarInt (finalize [] payload i) (int (length (finalize [] payload i)) - 1) 0 = Inr (n, int k)
    \<and> sint n = int (length (finalize [] payload i)) - int k
    \<and> popVarInt (finalize [] payload i) (int (length (finalize [] payload i)) - 1) (int k) = Inr (i, int m)
    \<and> drop m (finalize [] payload i) = payload"
proof -
  let ?i = "addVarInt [] i" and ?n = "of_nat (length payload + length (addVarInt [] i)) :: i32"
  let ?l = "addVarInt [] ?n"
  have li: "length ?i \<le> 5" by (rule addVarInt_length)
  then have n: "sint ?n = int (length payload + length ?i)" using assms by (intro sint_of_nat_i32) simp
  have f: "finalize [] payload i = ?l @ ?i @ payload" by (simp add: finalize_eq)
  have p0: "points (finalize [] payload i) 0 (?l @ ?i @ payload)" by (simp add: f)
  have p1: "points (finalize [] payload i) (int (length ?l)) (?i @ payload)"
    using points_append [of ?l "?i @ payload"] by (simp add: f)
  have "popVarInt (finalize [] payload i) (int (length (finalize [] payload i)) - 1) 0 = Inr (?n, int (length ?l))"
    using cd_varint.pop_enc [OF TrueI p0] by (simp add: f)
  moreover have "popVarInt (finalize [] payload i) (int (length (finalize [] payload i)) - 1) (int (length ?l))
      = Inr (i, int (length ?l + length ?i))"
    using cd_varint.pop_enc [OF TrueI p1] by (simp add: f)
  moreover have "sint ?n = int (length (finalize [] payload i)) - int (length ?l)" using n by (simp add: f)
  moreover have "drop (length ?l + length ?i) (finalize [] payload i) = payload" by (simp add: f)
  ultimately show ?thesis by blast
qed

text \<open>A packet built by \<open>finalize\<close> starts with the number of bytes that follow the length field;
  the identifier comes next and the payload after it.\<close>

theorem finalize_frame:
  assumes "length payload < 2 ^ 31 - 5"
  shows "\<exists>n k m. popVarInt (finalize [] payload i) (int (length (finalize [] payload i)) - 1) 0 = Inr (n, int k)
    \<and> sint n = int (length (finalize [] payload i)) - int k
    \<and> popVarInt (finalize [] payload i) (int (length (finalize [] payload i)) - 1) (int k) = Inr (i, int m)
    \<and> drop m (finalize [] payload i) = payload"
  by (rule finalize_reads [OF assms])

theorem finalize_frame_witness:
  "\<exists>n k m. popVarInt (finalize [] [1, 2, 3] 36) (int (length (finalize [] [1, 2, 3] 36)) - 1) 0 = Inr (n, int k)
    \<and> sint n = int (length (finalize [] [1, 2, 3] 36)) - int k
    \<and> popVarInt (finalize [] [1, 2, 3] 36) (int (length (finalize [] [1, 2, 3] 36)) - 1) (int k) = Inr (36, int m)
    \<and> drop m (finalize [] [1, 2, 3] 36) = [1, 2, 3]"
  by (rule finalize_frame) simp

lemma popBitSet_loop_false:
  assumes "popBitSet_loop sz i res b eof at = Inr (r, at')"
    and "length res = min i sz" "i mod 8 = 0" "\<forall>k < length res. k mod 8 \<noteq> 0 \<longrightarrow> \<not> res ! k"
  shows "length r = sz \<and> (\<forall>k < sz. k mod 8 \<noteq> 0 \<longrightarrow> \<not> r ! k)"
  using assms
proof (induction sz i res b eof at rule: popBitSet_loop.induct)
  case (1 sz i res b eof at)
  show ?case
  proof (cases "i < sz")
    case False
    with "1.prems" show ?thesis by (subst (asm) popBitSet_loop.simps) auto
  next
    case True
    let ?bits = "\<lambda>x. map (\<lambda>k. x AND drop_bit k 1 \<noteq> (0 :: byte)) [0..<min 8 (sz - i)]"
    from True "1.prems"(1) obtain x at1 where x: "popByte b eof at = Inr (x, at1)"
        "popBitSet_loop sz (i + 8) (res @ ?bits x) b eof at1 = Inr (r, at')"
      by (subst (asm) popBitSet_loop.simps) (auto simp: rbind_Inr_iff)
    have "\<not> (res @ ?bits x) ! k" if "k < length (res @ ?bits x)" "k mod 8 \<noteq> 0" for k
    proof (cases "k < i")
      case True
      then show ?thesis using "1.prems"(2,4) that \<open>i < sz\<close> by (simp add: nth_append)
    next
      case False
      then have "k - i \<noteq> 0" using that(2) "1.prems"(3) by (cases "k = i") auto
      moreover have "k - i < min 8 (sz - i)" using that(1) False True "1.prems"(2) by auto
      ultimately show ?thesis using False True "1.prems"(2) by (simp add: nth_append)
    qed
    then show ?thesis
      using "1.IH" [OF True x(1) refl x(2)] True "1.prems"(2,3) by auto
  qed
qed

text \<open>Of every eight bits \<open>popBitSet\<close> fills, only the first can be set: the mask is \<open>1 >> i\<close>.\<close>

theorem popBitSet_drops_bits:
  assumes "popBitSet sz b eof at = Inr (r, at')"
  shows "\<forall>k < sz. k mod 8 \<noteq> 0 \<longrightarrow> \<not> r ! k"
  using popBitSet_loop_false [of sz 0 "[]" b eof at r at'] assms by (simp add: popBitSet_def)

lemma popBitSet_example: "popBitSet 3 [0xFF] 0 0 = Inr ([True, False, False], 1)"
  by (simp add: popBitSet_def popBitSet_loop.simps popByte_def deref_def drop_bit_eq_div upt_rec)

theorem popBitSet_drops_bits_witness:
  "popBitSet 3 [0xFF] 0 0 = Inr ([True, False, False], 1) \<and> \<not> [True, False, False] ! 1"
  using popBitSet_drops_bits [OF popBitSet_example] popBitSet_example by auto

end
