(* ===== verification/Nbt.thy ===== *)
theory Nbt
  imports Cubic_Prelude
begin

text \<open>
  The NBT tag tree of \<open>nbt.hpp\<close> with its binary serializer, and the parser of \<open>nbt.cpp\<close>. The
  class hierarchy under \<open>nbt::Base\<close> is a datatype whose constructors carry the tag's name first;
  \<open>serialize\<close> appends to the output vector, the parse functions move a pointer through a buffer
  whose last readable byte is \<open>end\<close>.
\<close>

section \<open>Tags\<close>

datatype TagType = TEnd | TByte | TShort | TInt | TLong | TFloat | TDouble | TByteArray | TString
  | TList | TCompound | TIntArray | TLongArray

datatype nbt =
    ByteTag string i8
  | ShortTag string i16
  | IntTag string i32
  | LongTag string i64
  | FloatTag string f32
  | DoubleTag string f64
  | ByteArrayTag string "i8 list"
  | StringTag string string
  | ListTag string "nbt list"
  | CompoundTag string "nbt list"
  | IntArrayTag string "i32 list"
  | LongArrayTag string "i64 list"

fun tag_code :: "TagType \<Rightarrow> byte" where
  "tag_code TEnd = 0"
| "tag_code TByte = 1"
| "tag_code TShort = 2"
| "tag_code TInt = 3"
| "tag_code TLong = 4"
| "tag_code TFloat = 5"
| "tag_code TDouble = 6"
| "tag_code TByteArray = 7"
| "tag_code TString = 8"
| "tag_code TList = 9"
| "tag_code TCompound = 10"
| "tag_code TIntArray = 11"
| "tag_code TLongArray = 12"

fun getType :: "nbt \<Rightarrow> TagType" where
  "getType (ByteTag _ _) = TByte"
| "getType (ShortTag _ _) = TShort"
| "getType (IntTag _ _) = TInt"
| "getType (LongTag _ _) = TLong"
| "getType (FloatTag _ _) = TFloat"
| "getType (DoubleTag _ _) = TDouble"
| "getType (ByteArrayTag _ _) = TByteArray"
| "getType (StringTag _ _) = TString"
| "getType (ListTag _ _) = TList"
| "getType (CompoundTag _ _) = TCompound"
| "getType (IntArrayTag _ _) = TIntArray"
| "getType (LongArrayTag _ _) = TLongArray"

fun getName :: "nbt \<Rightarrow> string" where
  "getName (ByteTag n _) = n"
| "getName (ShortTag n _) = n"
| "getName (IntTag n _) = n"
| "getName (LongTag n _) = n"
| "getName (FloatTag n _) = n"
| "getName (DoubleTag n _) = n"
| "getName (ByteArrayTag n _) = n"
| "getName (StringTag n _) = n"
| "getName (ListTag n _) = n"
| "getName (CompoundTag n _) = n"
| "getName (IntArrayTag n _) = n"
| "getName (LongArrayTag n _) = n"

section \<open>Compounds\<close>

definition addValue :: "nbt list \<Rightarrow> nbt \<Rightarrow> nbt list" where
  "addValue vals v = vals @ [v]"

fun hasValue :: "nbt list \<Rightarrow> string \<Rightarrow> bool" where
  "hasValue [] str = False"
| "hasValue (i # is) str = (if getName i = str then True else hasValue is str)"

fun getValue :: "nbt list \<Rightarrow> string \<Rightarrow> nbt option" where
  "getValue [] str = None"
| "getValue (i # is) str = (if getName i = str then Some i else getValue is str)"

text \<open>\<open>getValueAs<T>\<close> stops at the first tag of that name and throws when its type is not \<open>T\<close>.\<close>

fun getValueAs :: "TagType \<Rightarrow> nbt list \<Rightarrow> string \<Rightarrow> nbt option result" where
  "getValueAs T [] str = Inr None"
| "getValueAs T (i # is) str =
     (if getName i \<noteq> str then getValueAs T is str
      else if getType i = T then Inr (Some i)
      else Inl TypeMismatch)"

definition list_getValueAs :: "TagType \<Rightarrow> nbt list \<Rightarrow> nat \<Rightarrow> nbt result" where
  "list_getValueAs T vals index =
     (if index \<ge> length vals then Inl StdOutOfRange
      else if getType (vals ! index) \<noteq> T then Inl TypeMismatch
      else Inr (vals ! index))"

section \<open>Serialization\<close>

text \<open>\<open>size_t\<close> lengths are shifted and cut to bytes: only the low 16 (names, strings) or 32
  (arrays, lists) bits of a length are written.\<close>

definition len16 :: "nat \<Rightarrow> byte list" where
  "len16 n = [of_nat (n div 2 ^ 8), of_nat (n mod 256)]"

definition len32 :: "nat \<Rightarrow> byte list" where
  "len32 n = map (\<lambda>i. of_nat (n div 2 ^ (24 - i * 8) mod 256)) [0..<4]"

definition preSerialize :: "nbt \<Rightarrow> byte list \<Rightarrow> bool \<Rightarrow> byte list" where
  "preSerialize t data includeName =
     (if \<not> includeName then data
      else data @ [tag_code (getType t)] @ len16 (length (getName t)) @ map byte_of_char (getName t))"

text \<open>The loops \<open>data.push_back((_value >> (24 - i * 8)) & 0xFF)\<close> and their 64-bit variant.\<close>

definition put_int :: "i32 \<Rightarrow> byte list" where
  "put_int v = map (\<lambda>i. ucast (signed_drop_bit (24 - i * 8) v AND 0xFF)) [0..<4]"

definition put_long :: "i64 \<Rightarrow> byte list" where
  "put_long v = map (\<lambda>i. ucast (signed_drop_bit (56 - i * 8) v AND 0xFF)) [0..<8]"

text \<open>The bytes of a float or double in memory, from the last to the first.\<close>

definition put_union :: "nat \<Rightarrow> 'a::len word \<Rightarrow> byte list" where
  "put_union n v = map (\<lambda>i. ucast (drop_bit (8 * i) v)) (rev [0..<n])"

text \<open>The \<open>serialize\<close> methods of the tags without children.\<close>

definition serialize_byte :: "string \<Rightarrow> i8 \<Rightarrow> byte list \<Rightarrow> bool \<Rightarrow> byte list" where
  "serialize_byte n v data inc = preSerialize (ByteTag n v) data inc @ [v]"

definition serialize_short :: "string \<Rightarrow> i16 \<Rightarrow> byte list \<Rightarrow> bool \<Rightarrow> byte list" where
  "serialize_short n v data inc = preSerialize (ShortTag n v) data inc @ [ucast (signed_drop_bit 8 v), ucast (v AND 0xFF)]"

definition serialize_int :: "string \<Rightarrow> i32 \<Rightarrow> byte list \<Rightarrow> bool \<Rightarrow> byte list" where
  "serialize_int n v data inc = preSerialize (IntTag n v) data inc @ put_int v"

definition serialize_long :: "string \<Rightarrow> i64 \<Rightarrow> byte list \<Rightarrow> bool \<Rightarrow> byte list" where
  "serialize_long n v data inc = preSerialize (LongTag n v) data inc @ put_long v"

definition serialize_float :: "string \<Rightarrow> f32 \<Rightarrow> byte list \<Rightarrow> bool \<Rightarrow> byte list" where
  "serialize_float n v data inc = preSerialize (FloatTag n v) data inc @ put_union 4 v"

definition serialize_double :: "string \<Rightarrow> f64 \<Rightarrow> byte list \<Rightarrow> bool \<Rightarrow> byte list" where
  "serialize_double n v data inc = preSerialize (DoubleTag n v) data inc @ put_union 8 v"

definition serialize_byteArray :: "string \<Rightarrow> i8 list \<Rightarrow> byte list \<Rightarrow> bool \<Rightarrow> byte list" where
  "serialize_byteArray n v data inc = preSerialize (ByteArrayTag n v) data inc @ len32 (length v) @ v"

definition serialize_string :: "string \<Rightarrow> string \<Rightarrow> byte list \<Rightarrow> bool \<Rightarrow> byte list" where
  "serialize_string n v data inc = preSerialize (StringTag n v) data inc @ len16 (length v) @ map byte_of_char v"

definition serialize_intArray :: "string \<Rightarrow> i32 list \<Rightarrow> byte list \<Rightarrow> bool \<Rightarrow> byte list" where
  "serialize_intArray n v data inc = preSerialize (IntArrayTag n v) data inc @ len32 (length v) @ concat (map put_int v)"

definition serialize_longArray :: "string \<Rightarrow> i64 list \<Rightarrow> byte list \<Rightarrow> bool \<Rightarrow> byte list" where
  "serialize_longArray n v data inc = preSerialize (LongArrayTag n v) data inc @ len32 (length v) @ concat (map put_long v)"

lemmas leaf_serialize [simp] = serialize_byte_def serialize_short_def serialize_int_def serialize_long_def serialize_float_def
  serialize_double_def serialize_byteArray_def serialize_string_def serialize_intArray_def serialize_longArray_def

text \<open>
  \<open>List::serialize\<close> reads \<open>_value[0]\<close> without a check, which is undefined on an empty list, and
  throws \<open>TypeMismatch\<close> at the first element whose type differs from the first one's.
\<close>

fun serialize :: "nbt \<Rightarrow> byte list \<Rightarrow> bool \<Rightarrow> byte list result"
  and serialize_named :: "nbt list \<Rightarrow> byte list \<Rightarrow> byte list result"
  and serialize_elems :: "TagType \<Rightarrow> nbt list \<Rightarrow> byte list \<Rightarrow> byte list result"
where
  "serialize (ByteTag n v) data inc = Inr (serialize_byte n v data inc)"
| "serialize (ShortTag n v) data inc = Inr (serialize_short n v data inc)"
| "serialize (IntTag n v) data inc = Inr (serialize_int n v data inc)"
| "serialize (LongTag n v) data inc = Inr (serialize_long n v data inc)"
| "serialize (FloatTag n v) data inc = Inr (serialize_float n v data inc)"
| "serialize (DoubleTag n v) data inc = Inr (serialize_double n v data inc)"
| "serialize (ByteArrayTag n v) data inc = Inr (serialize_byteArray n v data inc)"
| "serialize (StringTag n v) data inc = Inr (serialize_string n v data inc)"
| "serialize (ListTag n v) data inc =
     (let data = preSerialize (ListTag n v) data inc in
      case v of
        [] \<Rightarrow> Inl (UB OutOfBoundsRead)
      | first # _ \<Rightarrow>
          serialize_elems TEnd v (data @ [tag_code (getType first)] @ len32 (length v)))"
| "serialize (CompoundTag n v) data inc =
     rbind (serialize_named v (preSerialize (CompoundTag n v) data inc)) (\<lambda>data. Inr (data @ [0]))"
| "serialize (IntArrayTag n v) data inc = Inr (serialize_intArray n v data inc)"
| "serialize (LongArrayTag n v) data inc = Inr (serialize_longArray n v data inc)"
| "serialize_named [] data = Inr data"
| "serialize_named (i # is) data =
     rbind (serialize i data True) (\<lambda>data. serialize_named is data)"
| "serialize_elems current [] data = Inr data"
| "serialize_elems current (i # is) data =
     (let current = (if current = TEnd then getType i else current) in
      if current \<noteq> getType i then Inl TypeMismatch
      else rbind (serialize i data False) (\<lambda>data. serialize_elems current is data))"

section \<open>Parsing\<close>

text \<open>
  A parse function returns a null pointer (\<open>Inr None\<close>) on malformed input, the tag with the new
  pointer otherwise. \<open>Inl\<close> is an exception or undefined behaviour.
\<close>

type_synonym 'a parsed = "('a \<times> ptr) option result"

definition nbind :: "'a option result \<Rightarrow> ('a \<Rightarrow> 'b option result) \<Rightarrow> 'b option result" where
  "nbind m f = rbind m (\<lambda>r. case r of None \<Rightarrow> Inr None | Some x \<Rightarrow> f x)"

lemma nbind_simps [simp]:
  "nbind (Inl e) f = Inl e" "nbind (Inr None) f = Inr None" "nbind (Inr (Some x)) f = f x"
  by (simp_all add: nbind_def)

lemma nbind_cong [fundef_cong]:
  "m = m' \<Longrightarrow> (\<And>x. m' = Inr (Some x) \<Longrightarrow> f x = g x) \<Longrightarrow> nbind m f = nbind m' g"
  by (auto simp: nbind_def split: option.splits intro!: rbind_cong)

abbreviation lift_read :: "'a result \<Rightarrow> 'a option result" where
  "lift_read m \<equiv> rbind m (\<lambda>x. Inr (Some x))"

fun read_chars :: "nat \<Rightarrow> byte list \<Rightarrow> ptr \<Rightarrow> byte list result" where
  "read_chars 0 b at = Inr []"
| "read_chars (Suc n) b at =
     rbind (deref b at) (\<lambda>x. rbind (read_chars n b (at + 1)) (\<lambda>xs. Inr (x # xs)))"

text \<open>The loop \<open>value = (value << 8) | *at++\<close>.\<close>

fun shift_or :: "nat \<Rightarrow> byte list \<Rightarrow> ptr \<Rightarrow> 'a::len word \<Rightarrow> 'a word result" where
  "shift_or 0 b at v = Inr v"
| "shift_or (Suc n) b at v =
     rbind (deref b at) (\<lambda>x. shift_or n b (at + 1) (push_bit 8 v OR ucast x))"

text \<open>The loop \<open>val.value |= ((uint32_t) (*at++)) << (i * 8)\<close>, from the highest byte down.\<close>

fun or_shifted :: "nat \<Rightarrow> byte list \<Rightarrow> ptr \<Rightarrow> 'a::len word \<Rightarrow> 'a word result" where
  "or_shifted 0 b at v = Inr v"
| "or_shifted (Suc i) b at v =
     rbind (deref b at) (\<lambda>x. or_shifted i b (at + 1) (v OR push_bit (i * 8) (ucast x)))"

definition parseName :: "byte list \<Rightarrow> ptr \<Rightarrow> ptr \<Rightarrow> string parsed" where
  "parseName b end at =
     (if at + 1 > end then Inr None
      else nbind (lift_read (deref b at)) (\<lambda>hi. nbind (lift_read (deref b (at + 1))) (\<lambda>lo.
        let nameSize = (push_bit 8 (ucast hi) OR ucast lo :: u16); at = at + 2 in
        if nameSize = 0 then Inr (Some ('''', at))
        else if at + int (unat nameSize) - 1 > end then Inr None
        else nbind (lift_read (read_chars (unat nameSize) b at)) (\<lambda>cs.
          Inr (Some (map char_of_byte cs, at + int (unat nameSize)))))))"

text \<open>
  What every parse function does first: the end check, the type byte unless the tag stands in a
  list, and the name (macro \<open>GET_NAME\<close>).
\<close>

definition parse_header :: "TagType \<Rightarrow> byte list \<Rightarrow> ptr \<Rightarrow> ptr \<Rightarrow> bool \<Rightarrow> bool \<Rightarrow> string parsed" where
  "parse_header T b end at includeName inList =
     (if at > end then Inr None
      else nbind (if \<not> inList then
                    nbind (lift_read (deref b at)) (\<lambda>x.
                      if x \<noteq> tag_code T then Inr None else Inr (Some (at + 1)))
                  else Inr (Some at)) (\<lambda>at.
        if includeName then parseName b end at else Inr (Some ('''', at))))"

definition parseByte :: "byte list \<Rightarrow> ptr \<Rightarrow> ptr \<Rightarrow> bool \<Rightarrow> bool \<Rightarrow> nbt parsed" where
  "parseByte b end at includeName inList =
     nbind (parse_header TByte b end at includeName inList) (\<lambda>(name, at).
       if end - at < 0 then Inr None
       else nbind (lift_read (deref b at)) (\<lambda>v. Inr (Some (ByteTag name v, at + 1))))"

definition parseShort :: "byte list \<Rightarrow> ptr \<Rightarrow> ptr \<Rightarrow> bool \<Rightarrow> bool \<Rightarrow> nbt parsed" where
  "parseShort b end at includeName inList =
     nbind (parse_header TShort b end at includeName inList) (\<lambda>(name, at).
       if end - at < 1 then Inr None
       else nbind (lift_read (shift_or 2 b at 0)) (\<lambda>v. Inr (Some (ShortTag name v, at + 2))))"

definition parseInt :: "byte list \<Rightarrow> ptr \<Rightarrow> ptr \<Rightarrow> bool \<Rightarrow> bool \<Rightarrow> nbt parsed" where
  "parseInt b end at includeName inList =
     nbind (parse_header TInt b end at includeName inList) (\<lambda>(name, at).
       if end - at < 3 then Inr None
       else nbind (lift_read (shift_or 4 b at 0)) (\<lambda>v. Inr (Some (IntTag name v, at + 4))))"

definition parseLong :: "byte list \<Rightarrow> ptr \<Rightarrow> ptr \<Rightarrow> bool \<Rightarrow> bool \<Rightarrow> nbt parsed" where
  "parseLong b end at includeName inList =
     nbind (parse_header TLong b end at includeName inList) (\<lambda>(name, at).
       if end - at < 7 then Inr None
       else nbind (lift_read (shift_or 8 b at 0)) (\<lambda>v. Inr (Some (LongTag name v, at + 8))))"

definition parseFloat :: "byte list \<Rightarrow> ptr \<Rightarrow> ptr \<Rightarrow> bool \<Rightarrow> bool \<Rightarrow> nbt parsed" where
  "parseFloat b end at includeName inList =
     nbind (parse_header TFloat b end at includeName inList) (\<lambda>(name, at).
       if end - at < 3 then Inr None
       else nbind (lift_read (or_shifted 4 b at 0)) (\<lambda>v. Inr (Some (FloatTag name v, at + 4))))"

definition parseDouble :: "byte list \<Rightarrow> ptr \<Rightarrow> ptr \<Rightarrow> bool \<Rightarrow> bool \<Rightarrow> nbt parsed" where
  "parseDouble b end at includeName inList =
     nbind (parse_header TDouble b end at includeName inList) (\<lambda>(name, at).
       if end - at < 7 then Inr None
       else nbind (lift_read (or_shifted 8 b at 0)) (\<lambda>v. Inr (Some (DoubleTag name v, at + 8))))"

text \<open>
  \<open>size - 1\<close> overflows for the least \<open>int32_t\<close>; \<open>data.reserve(size)\<close> converts a negative size to
  an enormous \<open>size_t\<close> and throws.
\<close>

definition parseByteArray :: "byte list \<Rightarrow> ptr \<Rightarrow> ptr \<Rightarrow> bool \<Rightarrow> bool \<Rightarrow> nbt parsed" where
  "parseByteArray b end at includeName inList =
     nbind (parse_header TByteArray b end at includeName inList) (\<lambda>(name, at).
       if end - at < 3 then Inr None
       else nbind (lift_read (shift_or 4 b at (0 :: i32))) (\<lambda>w.
         let n = sint w; at = at + 4 in
         if n - 1 < - (2 ^ 31) then Inl (UB SignedOverflow)
         else if end - at < n - 1 then Inr None
         else if n < 0 then Inl LengthError
         else nbind (lift_read (read_chars (nat n) b at)) (\<lambda>bs.
           Inr (Some (ByteArrayTag name bs, at + n)))))"

definition parseString :: "byte list \<Rightarrow> ptr \<Rightarrow> ptr \<Rightarrow> bool \<Rightarrow> bool \<Rightarrow> nbt parsed" where
  "parseString b end at includeName inList =
     nbind (parse_header TString b end at includeName inList) (\<lambda>(name, at).
       if end - at < 1 then Inr None
       else nbind (lift_read (deref b at)) (\<lambda>hi. nbind (lift_read (deref b (at + 1))) (\<lambda>lo.
         let n = int (unat (push_bit 8 (ucast hi) OR ucast lo :: u16)); at = at + 2 in
         if end - at < n - 1 then Inr None
         else nbind (lift_read (read_chars (nat n) b at)) (\<lambda>cs.
           Inr (Some (StringTag name (map char_of_byte cs), at + n))))))"

text \<open>The element loops of the array tags; \<open>size * k - 1\<close> is computed in \<open>int\<close>.\<close>

fun read_words :: "nat \<Rightarrow> nat \<Rightarrow> byte list \<Rightarrow> ptr \<Rightarrow> 'a::len word list result" where
  "read_words k 0 b at = Inr []"
| "read_words k (Suc n) b at =
     rbind (shift_or k b at 0) (\<lambda>w. rbind (read_words k n b (at + int k)) (\<lambda>ws. Inr (w # ws)))"

definition parseIntArray :: "byte list \<Rightarrow> ptr \<Rightarrow> ptr \<Rightarrow> bool \<Rightarrow> bool \<Rightarrow> nbt parsed" where
  "parseIntArray b end at includeName inList =
     nbind (parse_header TIntArray b end at includeName inList) (\<lambda>(name, at).
       if end - at < 3 then Inr None
       else nbind (lift_read (shift_or 4 b at (0 :: i32))) (\<lambda>w.
         let n = sint w; at = at + 4 in
         if n * 4 - 1 < - (2 ^ 31) \<or> n * 4 \<ge> 2 ^ 31 then Inl (UB SignedOverflow)
         else if end - at < n * 4 - 1 then Inr None
         else nbind (lift_read (read_words 4 (nat n) b at)) (\<lambda>ws.
           Inr (Some (IntArrayTag name ws, at + int (nat n) * 4)))))"

definition parseLongArray :: "byte list \<Rightarrow> ptr \<Rightarrow> ptr \<Rightarrow> bool \<Rightarrow> bool \<Rightarrow> nbt parsed" where
  "parseLongArray b end at includeName inList =
     nbind (parse_header TLongArray b end at includeName inList) (\<lambda>(name, at).
       if end - at < 3 then Inr None
       else nbind (lift_read (shift_or 4 b at (0 :: i32))) (\<lambda>w.
         let n = sint w; at = at + 4 in
         if n * 8 - 1 < - (2 ^ 31) \<or> n * 8 \<ge> 2 ^ 31 then Inl (UB SignedOverflow)
         else if end - at < n * 8 - 1 then Inr None
         else nbind (lift_read (read_words 8 (nat n) b at)) (\<lambda>ws.
           Inr (Some (LongArrayTag name ws, at + int (nat n) * 8)))))"

text \<open>
  Lists, compounds and the dispatch call each other. \<open>nbt_switch\<close> is the type switch that
  \<open>parse\<close> and the loop of \<open>parseList\<close> share: the former passes \<open>includeName = true, inList = false\<close>,
  the latter \<open>false, true\<close>. Its first argument bounds the nesting depth; \<open>parseList\<close> and
  \<open>parseCompound\<close> get the switch at the next depth as the argument \<open>sw\<close>. The \<open>for (;;)\<close> loop of
  \<open>parseCompound\<close> is cut off after as many rounds as there are bytes left, plus one.
\<close>

type_synonym switch = "byte \<Rightarrow> byte list \<Rightarrow> ptr \<Rightarrow> ptr \<Rightarrow> bool \<Rightarrow> bool \<Rightarrow> nbt parsed"

definition parse_with :: "switch \<Rightarrow> byte list \<Rightarrow> ptr \<Rightarrow> ptr \<Rightarrow> nbt parsed" where
  "parse_with sw b end at =
     (if at > end then Inr None
      else nbind (lift_read (deref b at)) (\<lambda>type. sw type b end at True False))"

fun parseList_loop :: "switch \<Rightarrow> byte \<Rightarrow> nat \<Rightarrow> nbt list \<Rightarrow> byte list \<Rightarrow> ptr \<Rightarrow> ptr \<Rightarrow> nbt list parsed" where
  "parseList_loop sw type 0 vals b end at = Inr (Some (vals, at))"
| "parseList_loop sw type (Suc n) vals b end at =
     nbind (sw type b end at False True) (\<lambda>(val, at).
       parseList_loop sw type n (vals @ [val]) b end at)"

definition parseList :: "switch \<Rightarrow> byte list \<Rightarrow> ptr \<Rightarrow> ptr \<Rightarrow> bool \<Rightarrow> bool \<Rightarrow> nbt parsed" where
  "parseList sw b end at includeName inList =
     nbind (parse_header TList b end at includeName inList) (\<lambda>(name, at).
       if at > end then Inr None
       else nbind (lift_read (deref b at)) (\<lambda>type.
         if end - (at + 1) < 3 then Inr None
         else nbind (lift_read (shift_or 4 b (at + 1) (0 :: i32))) (\<lambda>w.
           nbind (parseList_loop sw type (nat (sint w)) [] b end (at + 5)) (\<lambda>(vals, at).
             Inr (Some (ListTag name vals, at))))))"

fun parseCompound_loop :: "nat \<Rightarrow> switch \<Rightarrow> nbt list \<Rightarrow> byte list \<Rightarrow> ptr \<Rightarrow> ptr \<Rightarrow> nbt list parsed" where
  "parseCompound_loop 0 sw vals b end at = Inl OutOfFuel"
| "parseCompound_loop (Suc n) sw vals b end at =
     (if at > end then Inr None
      else nbind (lift_read (deref b at)) (\<lambda>x.
        if x = tag_code TEnd then Inr (Some (vals, at + 1))
        else nbind (parse_with sw b end at) (\<lambda>(val, at).
          parseCompound_loop n sw (vals @ [val]) b end at)))"

definition parseCompound :: "switch \<Rightarrow> byte list \<Rightarrow> ptr \<Rightarrow> ptr \<Rightarrow> bool \<Rightarrow> bool \<Rightarrow> nbt parsed" where
  "parseCompound sw b end at includeName inList =
     nbind (parse_header TCompound b end at includeName inList) (\<lambda>(name, at).
       nbind (parseCompound_loop (Suc (nat (end + 1 - at))) sw [] b end at) (\<lambda>(vals, at).
         Inr (Some (CompoundTag name vals, at))))"

primrec nbt_switch :: "nat \<Rightarrow> switch" where
  "nbt_switch 0 = (\<lambda>type b end at includeName inList. Inl OutOfFuel)"
| "nbt_switch (Suc depth) = (\<lambda>type b end at includeName inList.
     if type = tag_code TByte then parseByte b end at includeName inList
     else if type = tag_code TShort then parseShort b end at includeName inList
     else if type = tag_code TInt then parseInt b end at includeName inList
     else if type = tag_code TLong then parseLong b end at includeName inList
     else if type = tag_code TFloat then parseFloat b end at includeName inList
     else if type = tag_code TDouble then parseDouble b end at includeName inList
     else if type = tag_code TByteArray then parseByteArray b end at includeName inList
     else if type = tag_code TString then parseString b end at includeName inList
     else if type = tag_code TList then parseList (nbt_switch depth) b end at includeName inList
     else if type = tag_code TCompound then
       parseCompound (nbt_switch depth) b end at includeName inList
     else if type = tag_code TIntArray then parseIntArray b end at includeName inList
     else if type = tag_code TLongArray then parseLongArray b end at includeName inList
     else Inr None)"

text \<open>\<open>nbt::parse\<close>; the depth is enough for every buffer, as \<open>sound_nbt_switch\<close> below shows.\<close>

definition parse_nbt :: "byte list \<Rightarrow> ptr \<Rightarrow> ptr \<Rightarrow> nbt parsed" where
  "parse_nbt b end at = parse_with (nbt_switch (length b + 2)) b end at"

section \<open>Every outcome of the parser\<close>

text \<open>
  \<open>sound lo end r\<close>: the run \<open>r\<close> ended in one of the two failures the code allows, rejected
  the input, or produced a value and left the pointer between \<open>lo\<close> and one past \<open>end\<close>.
\<close>

definition sound :: "ptr \<Rightarrow> ptr \<Rightarrow> 'a parsed \<Rightarrow> bool" where
  "sound lo end r = (case r of
       Inl e \<Rightarrow> e = LengthError \<or> e = UB SignedOverflow
     | Inr None \<Rightarrow> True
     | Inr (Some (v, at)) \<Rightarrow> lo \<le> at \<and> at \<le> end + 1)"

lemma sound_simps [simp]:
  "sound lo end (Inr None)"
  "sound lo end (Inl LengthError)"
  "sound lo end (Inl (UB SignedOverflow))"
  "sound lo end (Inr (Some (v, at))) \<longleftrightarrow> lo \<le> at \<and> at \<le> end + 1"
  by (simp_all add: sound_def)

lemma sound_nbind:
  assumes "sound lo' end m"
    and "\<And>v at'. lo' \<le> at' \<Longrightarrow> at' \<le> end + 1 \<Longrightarrow> sound lo end (f (v, at'))"
  shows "sound lo end (nbind m f)"
  using assms by (cases m rule: sum.exhaust) (auto simp: sound_def nbind_def split: option.splits)

lemma sound_mono: "sound lo' end r \<Longrightarrow> lo \<le> lo' \<Longrightarrow> sound lo end r"
  by (auto simp: sound_def split: sum.splits option.splits)

lemma shift_or_total:
  "0 \<le> at \<Longrightarrow> at + int n \<le> int (length b) \<Longrightarrow> \<exists>v. shift_or n b at w = Inr v"
  by (induction n b at w rule: shift_or.induct) (auto simp: deref_in_bounds)

lemma or_shifted_total:
  "0 \<le> at \<Longrightarrow> at + int n \<le> int (length b) \<Longrightarrow> \<exists>v. or_shifted n b at w = Inr v"
  by (induction n b at w rule: or_shifted.induct) (auto simp: deref_in_bounds)

lemma read_chars_total:
  "0 \<le> at \<Longrightarrow> at + int n \<le> int (length b) \<Longrightarrow> \<exists>v. read_chars n b at = Inr v"
  by (induction n b at rule: read_chars.induct) (auto simp: deref_in_bounds)

lemma read_words_total:
  "0 \<le> at \<Longrightarrow> at + int k * int n \<le> int (length b) \<Longrightarrow>
   \<exists>v :: 'a::len word list. read_words k n b at = Inr v"
proof (induction n arbitrary: at)
  case (Suc n)
  from Suc.prems have "at + int k \<le> int (length b)"
    by (simp add: algebra_simps) (smt (verit) mult_nonneg_nonneg of_nat_0_le_iff)
  then obtain w :: "'a word" where "shift_or k b at 0 = Inr w"
    using shift_or_total [of at k b 0] Suc.prems by auto
  moreover obtain ws :: "'a word list" where "read_words k n b (at + int k) = Inr ws"
    using Suc.IH [of "at + int k"] Suc.prems by (auto simp: algebra_simps)
  ultimately show ?case by simp
qed simp

lemma sound_read:
  assumes "\<exists>v. m = Inr v" and "\<And>v. sound lo end (f v)"
  shows "sound lo end (nbind (lift_read m) f)"
  using assms by auto

lemma sound_deref:
  assumes "0 \<le> p" "p < int (length b)" "\<And>v. sound lo end (f v)"
  shows "sound lo end (nbind (lift_read (deref b p)) f)"
  using assms by (simp add: deref_in_bounds)

lemma sound_parseName:
  assumes "0 \<le> at" "end < int (length b)"
  shows "sound (at + 2) end (parseName b end at)"
  unfolding parseName_def using assms
  by (auto simp: Let_def deref_in_bounds intro!: sound_read read_chars_total)

lemma sound_parse_header:
  assumes "0 \<le> at" "end < int (length b)"
  shows "sound (at + (if inList then 0 else 1) + (if includeName then 2 else 0)) end
    (parse_header T b end at includeName inList)"
  unfolding parse_header_def using assms
  by (auto intro!: sound_deref sound_mono [OF sound_parseName] simp: nbind_def rbind_assoc deref_in_bounds)

lemma sound_after_header:
  assumes "0 \<le> at" "end < int (length b)"
    and "\<And>name at'. at + (if inList then 0 else 1) + (if includeName then 2 else 0) \<le> at' \<Longrightarrow>
      at' \<le> end + 1 \<Longrightarrow> sound lo end (f (name, at'))"
  shows "sound lo end (nbind (parse_header T b end at includeName inList) f)"
  using assms by (rule sound_nbind [OF sound_parse_header])


text \<open>Every tag parser moves the pointer by at least one byte when it produces a tag.\<close>

lemma sound_scalars:
  assumes "0 \<le> at" "end < int (length b)"
  shows "sound (at + 1) end (parseByte b end at includeName inList)"
    and "sound (at + 1) end (parseShort b end at includeName inList)"
    and "sound (at + 1) end (parseInt b end at includeName inList)"
    and "sound (at + 1) end (parseLong b end at includeName inList)"
    and "sound (at + 1) end (parseFloat b end at includeName inList)"
    and "sound (at + 1) end (parseDouble b end at includeName inList)"
  unfolding parseByte_def parseShort_def parseInt_def parseLong_def parseFloat_def parseDouble_def
  using assms
  by (auto intro!: sound_after_header sound_read shift_or_total or_shifted_total
      simp: deref_in_bounds split: if_splits)

lemma sound_arrays:
  assumes "0 \<le> at" "end < int (length b)"
  shows "sound (at + 1) end (parseByteArray b end at includeName inList)"
    and "sound (at + 1) end (parseString b end at includeName inList)"
    and "sound (at + 1) end (parseIntArray b end at includeName inList)"
    and "sound (at + 1) end (parseLongArray b end at includeName inList)"
  unfolding parseByteArray_def parseString_def parseIntArray_def parseLongArray_def
  using assms
  by (auto intro!: sound_after_header sound_read shift_or_total read_chars_total read_words_total
      simp: deref_in_bounds Let_def split: if_splits)
    (smt (verit) uint_ge_0)+

lemma sound_list_loop:
  assumes "\<And>at'. at \<le> at' \<Longrightarrow> sound (at' + 1) end (sw type b end at' False True)"
    and "at \<le> end + 1"
  shows "sound at end (parseList_loop sw type n vals b end at)"
  using assms
proof (induction n arbitrary: at vals)
  case (Suc n)
  show ?case unfolding parseList_loop.simps
  proof (rule sound_nbind [OF Suc.prems(1) [OF order_refl]], simp)
    fix v at' assume "at + 1 \<le> at'" "at' \<le> end + 1"
    then show "sound at end (parseList_loop sw type n (vals @ [v]) b end at')"
      by (intro sound_mono [OF Suc.IH]) (auto intro: Suc.prems)
  qed
qed simp

lemma sound_compound_loop:
  assumes "\<And>at' type. at \<le> at' \<Longrightarrow> at' \<le> end \<Longrightarrow> sound (at' + 1) end (sw type b end at' True False)"
    and "nat (end + 1 - at) < n" and "0 \<le> at" and "end < int (length b)"
  shows "sound (at + 1) end (parseCompound_loop n sw vals b end at)"
  using assms
proof (induction n arbitrary: at vals)
  case (Suc n)
  have "sound (at + 1) end (nbind (parse_with sw b end at) (\<lambda>(val, at).
      parseCompound_loop n sw (vals @ [val]) b end at))" if "at \<le> end"
  proof (rule sound_nbind [of "at + 1"])
    show "sound (at + 1) end (parse_with sw b end at)"
      using that Suc.prems by (auto simp: parse_with_def deref_in_bounds)
    fix v at' assume at': "at + 1 \<le> at'" "at' \<le> end + 1"
    then have "nat (end + 1 - at') < n" using Suc.prems(2) that by linarith
    with at' have "sound (at' + 1) end (parseCompound_loop n sw (vals @ [v]) b end at')"
      using Suc.prems by (intro Suc.IH) auto
    with at' show "sound (at + 1) end (case (v, at') of (val, at) \<Rightarrow>
        parseCompound_loop n sw (vals @ [val]) b end at)"
      by (auto elim: sound_mono)
  qed
  with Suc.prems show ?case by (auto simp: deref_in_bounds)
qed simp

lemma sound_parseList:
  assumes "0 \<le> at" "end < int (length b)"
    and "\<And>type at'. at + 4 \<le> end \<Longrightarrow> at + 5 \<le> at' \<Longrightarrow> sound (at' + 1) end (sw type b end at' False True)"
  shows "sound (at + 1) end (parseList sw b end at includeName inList)"
  unfolding parseList_def using assms
  by (auto intro!: sound_after_header sound_read shift_or_total
        sound_nbind [OF sound_list_loop] simp: deref_in_bounds split: if_splits)

lemma sound_parseCompound:
  assumes "0 \<le> at" "end < int (length b)"
    and "\<And>type at'. at + (if inList then 0 else 1) \<le> at' \<Longrightarrow> at' \<le> end \<Longrightarrow>
      sound (at' + 1) end (sw type b end at' True False)"
  shows "sound (at + 1) end (parseCompound sw b end at includeName inList)"
  unfolding parseCompound_def using assms
  by (intro sound_after_header) (auto simp del: parseCompound_loop.simps
      intro!: sound_nbind [OF sound_compound_loop] split: if_splits)

text \<open>A depth above the number of bytes left is never used up.\<close>

lemma sound_nbt_switch:
  assumes "end < int (length b)" "0 \<le> at"
    and "nat (end + 1 - at) + (if inList then 2 else 1) \<le> depth"
  shows "sound (at + 1) end (nbt_switch depth type b end at includeName inList)"
  using assms(2,3)
proof (induction depth arbitrary: type at includeName inList)
  case 0
  then show ?case by (auto split: if_splits)
next
  case (Suc depth)
  have "sound (at + 1) end (parseList (nbt_switch depth) b end at includeName inList)"
    using Suc.prems assms(1)
    by (intro sound_parseList Suc.IH) (auto split: if_splits)
  moreover have "sound (at + 1) end (parseCompound (nbt_switch depth) b end at includeName inList)"
    using Suc.prems assms(1)
    by (intro sound_parseCompound Suc.IH) (auto split: if_splits)
  ultimately show ?case
    using sound_scalars [OF Suc.prems(1) assms(1)] sound_arrays [OF Suc.prems(1) assms(1)]
    by simp
qed

text \<open>
  On every buffer whose readable part ends inside the vector, the parser ends: it rejects the
  input, or returns a tag having read at least one byte and none past \<open>end\<close>, or fails in one of
  the two ways the code leaves open (a negative byte-array length, an overflowing length product).
  No read is ever out of bounds.
\<close>

lemma sound_parse_nbt:
  assumes "0 \<le> at" "end < int (length b)"
  shows "sound (at + 1) end (parse_nbt b end at)"
  using assms
  by (auto simp: parse_nbt_def parse_with_def deref_in_bounds simp del: nbt_switch.simps
      intro!: sound_nbt_switch)

end
