(* ===== verification/Nbt_Roundtrip.thy ===== *)
theory Nbt_Roundtrip
  imports Nbt Wire
begin

text \<open>
  The parser of \<open>nbt.cpp\<close> reads back what the serializer of \<open>nbt.hpp\<close> writes: the pure encoding of
  a tag tree, the serializer refines it, and each parse function inverts it.
\<close>

section \<open>The encoding\<close>

fun payload :: "nbt \<Rightarrow> byte list" where
  "payload (ByteTag n v) = [v]"
| "payload (ShortTag n v) = be_bytes 2 v"
| "payload (IntTag n v) = be_bytes 4 v"
| "payload (LongTag n v) = be_bytes 8 v"
| "payload (FloatTag n v) = be_bytes 4 v"
| "payload (DoubleTag n v) = be_bytes 8 v"
| "payload (ByteArrayTag n v) = len32 (length v) @ v"
| "payload (StringTag n v) = len16 (length v) @ map byte_of_char v"
| "payload (ListTag n v) =
     [tag_code (getType (hd v))] @ len32 (length v) @ concat (map payload v)"
| "payload (CompoundTag n v) =
     concat (map (\<lambda>i. (tag_code (getType i) # len16 (length (getName i)) @
       map byte_of_char (getName i)) @ payload i) v) @ [0]"
| "payload (IntArrayTag n v) = len32 (length v) @ concat (map (be_bytes 4) v)"
| "payload (LongArrayTag n v) = len32 (length v) @ concat (map (be_bytes 8) v)"

definition header :: "nbt \<Rightarrow> byte list" where
  "header t = tag_code (getType t) # len16 (length (getName t)) @ map byte_of_char (getName t)"

lemma payload_Compound:
  "payload (CompoundTag n v) = concat (map (\<lambda>i. header i @ payload i) v) @ [0]"
  by (simp add: header_def)

text \<open>
  The trees the format can carry: names and strings below \<open>2 ^ 16\<close> bytes, arrays whose byte count
  fits an \<open>int32_t\<close>, and lists that are not empty and whose elements have no name and one type.
\<close>

fun wf_nbt :: "nbt \<Rightarrow> bool" where
  "wf_nbt (ByteArrayTag n v) \<longleftrightarrow> length n < 65536 \<and> length v < 2 ^ 31"
| "wf_nbt (StringTag n v) \<longleftrightarrow> length n < 65536 \<and> length v < 65536"
| "wf_nbt (ListTag n v) \<longleftrightarrow> length n < 65536 \<and> v \<noteq> [] \<and> length v < 2 ^ 31 \<and>
     (\<forall>x \<in> set v. wf_nbt x \<and> getType x = getType (hd v) \<and> getName x = '''')"
| "wf_nbt (CompoundTag n v) \<longleftrightarrow> length n < 65536 \<and> (\<forall>x \<in> set v. wf_nbt x)"
| "wf_nbt (IntArrayTag n v) \<longleftrightarrow> length n < 65536 \<and> length v * 4 < 2 ^ 31"
| "wf_nbt (LongArrayTag n v) \<longleftrightarrow> length n < 65536 \<and> length v * 8 < 2 ^ 31"
| "wf_nbt t \<longleftrightarrow> length (getName t) < 65536"

lemma wf_nbt_name: "wf_nbt t \<Longrightarrow> length (getName t) < 65536"
  by (cases t) auto

lemma getType_neq_TEnd [simp]: "getType t \<noteq> TEnd" "TEnd \<noteq> getType t"
  by (cases t; simp)+

lemma payload_nonempty [simp]: "payload t \<noteq> []"
  by (cases t) (auto simp: be_bytes_def len32_def len16_def)

subsection \<open>Numbers\<close>

lemma put_int_be: "put_int v = be_bytes 4 v"
  by (auto simp: put_int_def be_bytes_def byte_of_signed_shift upt_rec)

lemma put_long_be: "put_long v = be_bytes 8 v"
  by (auto simp: put_long_def be_bytes_def byte_of_signed_shift upt_rec)

lemma put_union_be: "put_union n v = be_bytes n v"
  by (rule nth_equalityI) (auto simp: put_union_def be_bytes_def rev_nth)

lemma put_short_be:
  "[ucast (signed_drop_bit 8 v), ucast (v AND 0xFF)] = be_bytes 2 (v :: i16)"
proof -
  have "(ucast (signed_drop_bit 8 v) :: byte) = ucast (drop_bit 8 v)"
    by (rule bit_word_eqI) (auto simp: bit_simps bit_signed_drop_bit_iff)
  moreover have "(ucast (v AND 0xFF) :: byte) = ucast v"
    using byte_of_signed_shift [of 0 v] by simp
  ultimately show ?thesis by (simp add: be_bytes_def upt_rec)
qed

lemma byte_of_nat_shift:
  assumes "k + 8 \<le> LENGTH('a)"
  shows "(of_nat (n div 2 ^ k) :: byte) = ucast (drop_bit k (of_nat n :: 'a::len word))"
  using assms
  by (intro bit_word_eqI) (auto simp: bit_simps simp flip: drop_bit_eq_div)

lemma byte_of_nat_mod [simp]: "(of_nat (n mod 256) :: byte) = of_nat n"
proof -
  have "n mod 256 = take_bit LENGTH(8) n" by (simp add: take_bit_eq_mod)
  then show ?thesis by (simp only: of_nat_take_bit take_bit_length_eq)
qed

lemma len32_be: "len32 n = be_bytes 4 (of_nat n :: i32)"
  by (simp add: len32_def be_bytes_def byte_of_nat_shift [where 'a = 32] upt_rec
      del: of_nat_div)

lemma len16_be: "len16 n = be_bytes 2 (of_nat n :: u16)"
  using byte_of_nat_shift [where 'a = 16, of 8 n] byte_of_nat_shift [where 'a = 16, of 0 n]
  by (simp add: len16_def be_bytes_def upt_rec)

lemma length_len [simp]: "length (len32 n) = 4" "length (len16 n) = 2"
  by (simp_all add: len32_def len16_def)

subsection \<open>The serializer writes the encoding\<close>

lemma preSerialize_header: "preSerialize t data inc = data @ (if inc then header t else [])"
  by (simp add: preSerialize_def header_def)

text \<open>All tags of a list have the given type.\<close>

definition of_type :: "TagType \<Rightarrow> nbt list \<Rightarrow> bool" where
  "of_type T ts = list_all (\<lambda>x. getType x = T) ts"

lemma of_type_simps [simp]:
  "of_type T []" "of_type T (t # ts) \<longleftrightarrow> getType t = T \<and> of_type T ts"
  by (simp_all add: of_type_def)

lemma wf_List:
  "wf_nbt (ListTag n v) \<longleftrightarrow> length n < 65536 \<and> v \<noteq> [] \<and> length v < 2 ^ 31 \<and>
     list_all wf_nbt v \<and> of_type (getType (hd v)) v \<and> list_all (\<lambda>x. getName x = '''') v"
  by (auto simp: of_type_def list_all_iff)

lemma wf_Compound: "wf_nbt (CompoundTag n v) \<longleftrightarrow> length n < 65536 \<and> list_all wf_nbt v"
  by (auto simp: list_all_iff)

declare wf_nbt.simps(3,4) [simp del]

lemma serialize_payload:
  "wf_nbt t \<Longrightarrow> serialize t data inc = Inr (data @ (if inc then header t else []) @ payload t)"
  "list_all wf_nbt ts \<Longrightarrow>
     serialize_named ts data = Inr (data @ concat (map (\<lambda>i. header i @ payload i) ts))"
  "list_all wf_nbt ts \<Longrightarrow> of_type (if T = TEnd then getType (hd ts) else T) ts \<Longrightarrow>
     serialize_elems T ts data = Inr (data @ concat (map payload ts))"
proof (induction t data inc and ts data and T ts data
    rule: serialize_serialize_named_serialize_elems.induct)
  case (9 n v data inc)
  then obtain first rest where v: "v = first # rest" by (cases v) (auto simp: wf_List)
  have "serialize_elems TEnd v (preSerialize (ListTag n v) data inc @
      [tag_code (getType first)] @ len32 (length v)) =
    Inr ((preSerialize (ListTag n v) data inc @
      [tag_code (getType first)] @ len32 (length v)) @ concat (map payload v))"
    by (rule "9.IH" [OF refl v]) (use "9.prems" in \<open>simp_all add: wf_List\<close>)
  then show ?case unfolding v serialize.simps by (simp add: preSerialize_header v Let_def)
next
  case (10 n v data inc)
  then show ?case
    by (simp add: preSerialize_header payload_Compound wf_Compound del: payload.simps)
next
  case (16 T i "is" data)
  define c where "c = (if T = TEnd then getType i else T)"
  have "c \<noteq> TEnd" by (simp add: c_def)
  moreover have "getType i = c \<and> of_type c is"
    using "16.prems"(2) by (cases "T = TEnd") (simp_all add: c_def)
  moreover have "wf_nbt i \<and> list_all wf_nbt is"
    using "16.prems"(1) by simp
  ultimately have c: "c \<noteq> TEnd" "getType i = c" "of_type c is" "wf_nbt i" "list_all wf_nbt is"
    by blast+
  then have ser: "serialize i data False = Inr (data @ payload i)"
    using "16.IH"(1) [OF c_def] by simp
  have "serialize_elems c is (data @ payload i)
      = Inr ((data @ payload i) @ concat (map payload is))"
    using "16.IH"(2) [OF c_def] c ser by simp
  with ser show ?case using c(2) by (simp add: Let_def flip: c_def)
qed (simp_all add: preSerialize_header put_int_be [abs_def] put_long_be [abs_def] put_union_be
    put_short_be)

section \<open>The parser inverts the encoding\<close>

lemma of_be_Cons: "of_be v (x # bs) = of_be (push_bit 8 v OR ucast x) bs"
  by (simp add: of_be_def push_add_byte)

lemma of_be_accumulator: "of_be v bs = push_bit (8 * length bs) v OR of_be 0 bs"
proof (induction bs arbitrary: v)
  case Nil
  show ?case by (simp add: of_be_def)
next
  case (Cons x bs)
  have "of_be v (x # bs) = push_bit (8 * length bs) (push_bit 8 v OR ucast x) OR of_be 0 bs"
    by (simp only: of_be_Cons Cons.IH [of "push_bit 8 v OR ucast x"])
  also have "\<dots> = push_bit (8 * length (x # bs)) v
      OR (push_bit (8 * length bs) (push_bit 8 0 OR ucast x) OR of_be 0 bs)"
    by (simp add: push_bit_or or.assoc ac_simps)
  also have "\<dots> = push_bit (8 * length (x # bs)) v OR of_be 0 (x # bs)"
    by (simp only: of_be_Cons Cons.IH [of "push_bit 8 0 OR ucast x"])
  finally show ?case .
qed

lemma shift_or_points:
  "points b at (bs @ rest) \<Longrightarrow> length bs = n \<Longrightarrow> shift_or n b at v = Inr (of_be v bs)"
proof (induction bs arbitrary: at v n)
  case Nil
  then show ?case by (simp add: of_be_def)
next
  case (Cons x bs)
  then show ?case
    using points_Cons_advance [of b at x "bs @ rest"] by (auto simp: of_be_Cons)
qed

lemma or_shifted_points:
  fixes v :: "'a::len word"
  shows "points b at (bs @ rest) \<Longrightarrow> length bs = n \<Longrightarrow> or_shifted n b at v = Inr (v OR of_be 0 bs)"
proof (induction bs arbitrary: at v n)
  case Nil
  then show ?case by (simp add: of_be_def)
next
  case (Cons x bs)
  then show ?case
    using points_Cons_advance [of b at x "bs @ rest"] of_be_accumulator [of "ucast x :: 'a word" bs]
    by (auto simp: of_be_Cons ac_simps)
qed

lemma read_chars_points:
  "points b at (bs @ rest) \<Longrightarrow> length bs = n \<Longrightarrow> read_chars n b at = Inr bs"
proof (induction bs arbitrary: at n)
  case (Cons x bs)
  then show ?case using points_Cons_advance [of b at x "bs @ rest"] by auto
qed simp

lemma read_words_points:
  assumes "8 * k = LENGTH('a)"
  shows "points b at (concat (map (be_bytes k) ws) @ rest) \<Longrightarrow>
    read_words k (length ws) b at = Inr (ws :: 'a::len word list)"
proof (induction ws arbitrary: at)
  case (Cons w ws)
  then show ?case
    using shift_or_points [of b at "be_bytes k w" _ k "0 :: 'a word"] of_be_full [OF assms]
      points_advance [of b at "be_bytes k w"] by auto
qed simp

text \<open>\<open>encoded b end at bs\<close>: the bytes \<open>bs\<close> stand at \<open>at\<close> and end at or before \<open>end\<close>.\<close>

definition encoded :: "byte list \<Rightarrow> ptr \<Rightarrow> ptr \<Rightarrow> byte list \<Rightarrow> bool" where
  "encoded b end at bs \<longleftrightarrow> (\<exists>rest. points b at (bs @ rest)) \<and> at + int (length bs) \<le> end + 1"

lemma encoded_append:
  "encoded b end at (xs @ ys) \<Longrightarrow> encoded b end at xs \<and> encoded b end (at + int (length xs)) ys"
  unfolding encoded_def by (auto dest: points_advance)

lemma encoded_le: "encoded b end at bs \<Longrightarrow> at + int (length bs) \<le> end + 1"
  by (simp add: encoded_def)

lemma encoded_deref: "encoded b end at (x # xs) \<Longrightarrow> deref b at = Inr x"
  by (auto simp: encoded_def)

lemma encoded_reads:
  "encoded b end at bs \<Longrightarrow> length bs = n \<Longrightarrow> shift_or n b at v = Inr (of_be v bs)"
  "encoded b end at bs \<Longrightarrow> length bs = n \<Longrightarrow> read_chars n b at = Inr bs"
  by (auto simp: encoded_def intro: shift_or_points read_chars_points)

lemma encoded_or_shifted:
  "encoded b end at bs \<Longrightarrow> length bs = n \<Longrightarrow> or_shifted n b at 0 = Inr (of_be 0 bs)"
  using or_shifted_points [of b at bs _ n 0] by (auto simp: encoded_def)

lemma encoded_word:
  fixes w :: "'a::len word"
  assumes "encoded b end at (be_bytes n w)" and "8 * n = LENGTH('a)"
  shows "shift_or n b at 0 = Inr w \<and> or_shifted n b at 0 = Inr w"
  using encoded_reads(1) [OF assms(1), of n "0 :: 'a word"] encoded_or_shifted [where 'a = 'a, OF assms(1), of n]
    of_be_full [OF assms(2)] by simp

lemma encoded_read_words:
  "encoded b end at (concat (map (be_bytes k) ws)) \<Longrightarrow> 8 * k = LENGTH('a) \<Longrightarrow>
   read_words k (length ws) b at = Inr (ws :: 'a::len word list)"
  by (auto simp: encoded_def intro: read_words_points)

definition hdr :: "bool \<Rightarrow> nbt \<Rightarrow> byte list" where
  "hdr inList t = (if inList then [] else header t)"

lemma u16_of_len16:
  assumes "n < 65536"
  shows "unat (push_bit 8 (ucast (len16 n ! 0)) OR ucast (len16 n ! 1) :: u16) = n"
proof -
  have "len16 n = [len16 n ! 0, len16 n ! 1]" by (simp add: len16_def)
  then have "of_be 0 [len16 n ! 0, len16 n ! 1] = (of_nat n :: u16)"
    using of_be_full [of 2 "of_nat n :: u16"] by (simp add: len16_be)
  then have "push_bit 8 (ucast (len16 n ! 0)) OR ucast (len16 n ! 1) = (of_nat n :: u16)"
    by (simp add: of_be_def push_add_byte)
  then show ?thesis using assms by (simp add: unat_of_nat)
qed

lemma encoded_len16:
  assumes "encoded b end at (len16 n @ bs)"
  shows "deref b at = Inr (len16 n ! 0)" and "deref b (at + 1) = Inr (len16 n ! 1)"
    and "encoded b end (at + 2) bs"
proof -
  have l: "len16 n = [len16 n ! 0, len16 n ! 1]" by (simp add: len16_def)
  have e: "encoded b end at (len16 n)" and "encoded b end (at + 2) bs"
    using encoded_append [OF assms] by auto
  then show "deref b at = Inr (len16 n ! 0)" and "deref b (at + 1) = Inr (len16 n ! 1)"
    using encoded_deref [of b "end" at "len16 n ! 0" "[len16 n ! 1]"]
      encoded_append [of b "end" at "[len16 n ! 0]" "[len16 n ! 1]"]
      encoded_deref [of b "end" "at + 1" "len16 n ! 1" "[]"] l by simp_all
  show "encoded b end (at + 2) bs" by fact
qed

lemma parseName_encoded:
  assumes "encoded b end at (len16 (length s) @ map byte_of_char s)" and "length s < 65536"
  shows "parseName b end at = Inr (Some (s, at + 2 + int (length s)))"
proof -
  note e = encoded_len16 [OF assms(1)]
  have "at + 1 \<le> end" and "at + 2 + int (length s) - 1 \<le> end"
    using encoded_le [OF assms(1)] encoded_le [OF e(3)] by simp_all
  then show ?thesis
    using e encoded_reads(2) [OF e(3), of "length s"] u16_of_len16 [OF assms(2)]
    by (auto simp: parseName_def Let_def unat_eq_0)
qed

text \<open>The name precondition: an element of a list has none.\<close>

abbreviation nameable :: "bool \<Rightarrow> nbt \<Rightarrow> bool" where
  "nameable inList t \<equiv> wf_nbt t \<and> (inList \<longrightarrow> getName t = '''')"

lemma parse_header_encoded:
  assumes "encoded b end at (hdr inList t @ payload t)" and "nameable inList t"
  shows "parse_header (getType t) b end at (\<not> inList) inList
    = Inr (Some (getName t, at + int (length (hdr inList t))))"
proof -
  have "0 < length (payload t)" by simp
  then have le: "at \<le> end" using encoded_le [OF assms(1)]
    by (simp del: length_greater_0_conv)
  show ?thesis
  proof (cases inList)
    case True
    with assms(2) le show ?thesis by (simp add: parse_header_def hdr_def)
  next
    case False
    then have "encoded b end at (tag_code (getType t) # len16 (length (getName t)) @
        map byte_of_char (getName t))"
      using encoded_append [OF assms(1)] by (simp add: hdr_def header_def)
    then have "deref b at = Inr (tag_code (getType t))"
      and "encoded b end (at + 1) (len16 (length (getName t)) @ map byte_of_char (getName t))"
      using encoded_append [of b "end" at "[tag_code (getType t)]"] by (auto dest: encoded_deref)
    with False le parseName_encoded [of b "end" "at + 1" "getName t"] assms(2) wf_nbt_name [of t]
    show ?thesis by (simp add: parse_header_def hdr_def header_def)
  qed
qed

text \<open>The pointer and the payload once the header has been read.\<close>

lemma encoded_payload:
  assumes "encoded b end at (hdr inList t @ payload t)"
  shows "encoded b end (at + int (length (hdr inList t))) (payload t)"
  using encoded_append [OF assms] by simp

lemma sint_len32:
  "n < 2 ^ 31 \<Longrightarrow> sint (of_be (0 :: i32) (len32 n)) = int n"
  by (simp add: len32_be of_be_full sint_of_nat_i32)

lemma parse_scalar_encoded:
  assumes "encoded b end at (hdr inList t @ payload t)" and "nameable inList t"
    and "getType t \<in> {TByte, TShort, TInt, TLong, TFloat, TDouble}"
  shows "nbt_switch (Suc depth) (tag_code (getType t)) b end at (\<not> inList) inList
    = Inr (Some (t, at + int (length (hdr inList t @ payload t))))"
proof -
  note h = parse_header_encoded [OF assms(1,2)] and e = encoded_payload [OF assms(1)]
  show ?thesis
    using h e encoded_le [OF e] assms(3)
    by (cases t)
      (auto simp: parseByte_def parseShort_def parseInt_def parseLong_def parseFloat_def
        parseDouble_def dest: encoded_deref encoded_word)
qed

lemma encoded_len32:
  assumes "encoded b end at (len32 n @ bs)" and "n < 2 ^ 31"
  shows "\<not> end - at < 3" and "shift_or 4 b at 0 = Inr (of_nat n :: i32)"
    and "encoded b end (at + 4) bs"
  using encoded_append [OF assms(1)] encoded_le [OF assms(1)]
    encoded_word [of b "end" at 4 "of_nat n :: i32"]
  by (auto simp: len32_be)

lemma parse_array_encoded:
  assumes "encoded b end at (hdr inList t @ payload t)" and "nameable inList t"
    and "getType t \<in> {TByteArray, TIntArray, TLongArray}"
  shows "nbt_switch (Suc depth) (tag_code (getType t)) b end at (\<not> inList) inList
    = Inr (Some (t, at + int (length (hdr inList t @ payload t))))"
proof (cases t)
  case (ByteArrayTag n v)
  with encoded_payload [OF assms(1)] assms(2)
  have e: "encoded b end (at + int (length (hdr inList t))) (len32 (length v) @ v)"
    and v: "length v < 2 ^ 31" by auto
  show ?thesis
    using parse_header_encoded [OF assms(1,2)] encoded_len32 [OF e v] encoded_le [OF e]
      encoded_reads(2) [OF encoded_len32(3) [OF e v] refl]
    by (simp add: ByteArrayTag parseByteArray_def Let_def sint_of_nat_i32 [OF v])
next
  case (IntArrayTag n v)
  with encoded_payload [OF assms(1)] assms(2)
  have e: "encoded b end (at + int (length (hdr inList t))) (len32 (length v) @ concat (map (be_bytes 4) v))"
    and v: "length v < 2 ^ 31" "length v * 4 < 2 ^ 31" by auto
  have l: "length (concat (map (be_bytes 4) v)) = 4 * length v" by (induction v) auto
  show ?thesis
    using parse_header_encoded [OF assms(1,2)] encoded_len32 [OF e v(1)] encoded_le [OF e]
      encoded_read_words [OF encoded_len32(3) [OF e v(1)]] v(2)
    by (simp add: IntArrayTag parseIntArray_def Let_def sint_of_nat_i32 [OF v(1)] l)
next
  case (LongArrayTag n v)
  with encoded_payload [OF assms(1)] assms(2)
  have e: "encoded b end (at + int (length (hdr inList t))) (len32 (length v) @ concat (map (be_bytes 8) v))"
    and v: "length v < 2 ^ 31" "length v * 8 < 2 ^ 31" by auto
  have l: "length (concat (map (be_bytes 8) v)) = 8 * length v" by (induction v) auto
  show ?thesis
    using parse_header_encoded [OF assms(1,2)] encoded_len32 [OF e v(1)] encoded_le [OF e]
      encoded_read_words [OF encoded_len32(3) [OF e v(1)]] v(2)
    by (simp add: LongArrayTag parseLongArray_def Let_def sint_of_nat_i32 [OF v(1)] l)
qed (use assms(3) in auto)

lemma parse_string_encoded:
  assumes "encoded b end at (hdr inList (StringTag n s) @ payload (StringTag n s))"
    and "nameable inList (StringTag n s)"
  shows "nbt_switch (Suc depth) (tag_code TString) b end at (\<not> inList) inList
    = Inr (Some (StringTag n s, at + int (length (hdr inList (StringTag n s) @ payload (StringTag n s)))))"
proof -
  have e: "encoded b end (at + int (length (hdr inList (StringTag n s))))
      (len16 (length s) @ map byte_of_char s)"
    using encoded_payload [OF assms(1)] by simp
  show ?thesis
    using parse_header_encoded [OF assms] encoded_len16 [OF e] encoded_le [OF e]
      encoded_reads(2) [OF encoded_len16(3) [OF e], of "length s"]
      u16_of_len16 [of "length s"] assms(2)
    by (simp add: parseString_def Let_def del: unat_eq_0 of_nat_unat)
qed

subsection \<open>Lists and compounds\<close>

lemma list_loop_encoded:
  assumes "\<And>x at. x \<in> set ts \<Longrightarrow> encoded b end at (payload x) \<Longrightarrow>
      sw c b end at False True = Inr (Some (x, at + int (length (payload x))))"
    and "encoded b end at (concat (map payload ts))"
  shows "parseList_loop sw c (length ts) vals b end at
    = Inr (Some (vals @ ts, at + int (length (concat (map payload ts)))))"
  using assms
proof (induction ts arbitrary: at vals)
  case (Cons t ts)
  have e: "encoded b end at (payload t)"
    and es: "encoded b end (at + int (length (payload t))) (concat (map payload ts))"
    using encoded_append [of b "end" at "payload t"] Cons.prems(2) by auto
  have "sw c b end at False True = Inr (Some (t, at + int (length (payload t))))"
    using e by (rule Cons.prems(1) [rotated]) simp
  with Cons.IH [OF Cons.prems(1) es, of "vals @ [t]"] show ?case by (simp add: add.assoc)
qed simp

lemma tag_code_TEnd: "tag_code (getType t) \<noteq> 0"
  by (cases t) auto

lemma compound_loop_encoded:
  assumes "\<And>x at. x \<in> set ts \<Longrightarrow> encoded b end at (header x @ payload x) \<Longrightarrow>
      sw (tag_code (getType x)) b end at True False
      = Inr (Some (x, at + int (length (header x @ payload x))))"
    and "encoded b end at (concat (map (\<lambda>i. header i @ payload i) ts) @ [0])"
    and "nat (end + 1 - at) < n"
  shows "parseCompound_loop n sw vals b end at
    = Inr (Some (vals @ ts, at + int (length (concat (map (\<lambda>i. header i @ payload i) ts) @ [0]))))"
  using assms
proof (induction ts arbitrary: at vals n)
  case Nil
  then show ?case using encoded_le [OF Nil.prems(2)] encoded_deref [of b "end" at 0 "[]"]
    by (cases n) auto
next
  case (Cons t ts)
  let ?e = "header t @ payload t" and ?es = "concat (map (\<lambda>i. header i @ payload i) ts) @ [0]"
  obtain m where n: "n = Suc m" using Cons.prems(3) by (cases n) auto
  have e: "encoded b end at ?e" and es: "encoded b end (at + int (length ?e)) ?es"
    using encoded_append [of b "end" at ?e ?es] Cons.prems(2) by auto
  have d: "deref b at = Inr (tag_code (getType t))"
    using e by (auto simp: header_def dest: encoded_deref)
  have le: "at \<le> end" and m: "nat (end + 1 - (at + int (length ?e))) < m"
    using encoded_le [OF e] Cons.prems(3) by (auto simp: n header_def)
  have "parse_with sw b end at = Inr (Some (t, at + int (length ?e)))"
    using Cons.prems(1) [of t at] e d le by (simp add: parse_with_def)
  with Cons.IH [OF Cons.prems(1) es m, of "vals @ [t]"] d le show ?case
    by (simp add: n tag_code_TEnd add.assoc)
qed

lemma parse_leaf_encoded:
  assumes "nameable inList t" and "encoded b end at (hdr inList t @ payload t)"
    and "0 < depth" and "getType t \<notin> {TList, TCompound}"
  shows "nbt_switch depth (tag_code (getType t)) b end at (\<not> inList) inList
    = Inr (Some (t, at + int (length (hdr inList t @ payload t))))"
proof -
  obtain d where d: "depth = Suc d" using assms(3) by (cases depth) auto
  consider n s where "t = StringTag n s" | "getType t \<in> {TByteArray, TIntArray, TLongArray}"
    | "getType t \<in> {TByte, TShort, TInt, TLong, TFloat, TDouble}"
    using assms(4) by (cases t) auto
  then show ?thesis
  proof cases
    case 1
    then show ?thesis using parse_string_encoded assms(1,2) unfolding d by simp
  next
    case 2
    then show ?thesis unfolding d by (intro parse_array_encoded assms(1,2))
  next
    case 3
    then show ?thesis unfolding d by (intro parse_scalar_encoded assms(1,2))
  qed
qed

text \<open>The whole switch, by induction on the tree; the depth bound is the one of \<open>parse_nbt\<close>.\<close>

lemma nbt_switch_encoded:
  assumes "nameable inList t" and "encoded b end at (hdr inList t @ payload t)"
    and "length (hdr inList t @ payload t) + (if inList then 2 else 1) \<le> depth"
  shows "nbt_switch depth (tag_code (getType t)) b end at (\<not> inList) inList
    = Inr (Some (t, at + int (length (hdr inList t @ payload t))))"
  using assms
proof (induction t arbitrary: inList at depth)
  case (ListTag n v)
  let ?t = "ListTag n v" and ?c = "tag_code (getType (hd v))" and ?ps = "concat (map payload v)"
  let ?at = "at + int (length (hdr inList ?t))"
  obtain d where d: "depth = Suc d" using ListTag.prems(3) by (cases depth) auto
  from ListTag.prems(1) have v: "length v < 2 ^ 31" "\<forall>x \<in> set v. getType x = getType (hd v) \<and> nameable True x"
    unfolding wf_nbt.simps by blast+
  have e: "encoded b end ?at ([?c] @ len32 (length v) @ ?ps)"
    using encoded_payload [OF ListTag.prems(2)] by simp
  have c: "deref b ?at = Inr ?c" using e by (auto dest: encoded_deref)
  have "encoded b end (?at + 1) (len32 (length v) @ ?ps)" using encoded_append [OF e] by simp
  note l = encoded_len32 [OF this v(1)]
  have "parseList_loop (nbt_switch d) ?c (length v) [] b end (?at + 1 + 4)
      = Inr (Some ([] @ v, ?at + 1 + 4 + int (length ?ps)))"
  proof (rule list_loop_encoded [OF _ l(3)])
    fix x at' assume x: "x \<in> set v" "encoded b end at' (payload x)"
    have "length (payload x) \<le> length ?ps" using x(1) by (induction v) auto
    then have "length (payload x) + 2 \<le> d" using ListTag.prems(3) by (auto simp: d split: if_splits)
    moreover have "getType x = getType (hd v)" "nameable True x" using v(2) x(1) by blast+
    ultimately show "nbt_switch d ?c b end at' False True = Inr (Some (x, at' + int (length (payload x))))"
      using ListTag.IH [OF x(1), of True at' d] x(2) by (simp add: hdr_def)
  qed
  then show ?case
    using parse_header_encoded [OF ListTag.prems(2,1)] c l(1,2) encoded_le [OF e]
    by (simp add: d parseList_def sint_of_nat_i32 [OF v(1)] add.assoc)
next
  case (CompoundTag n v)
  let ?t = "CompoundTag n v" and ?es = "concat (map (\<lambda>i. header i @ payload i) v) @ [0]"
  let ?at = "at + int (length (hdr inList ?t))"
  obtain d where d: "depth = Suc d" using CompoundTag.prems(3) by (cases depth) auto
  from CompoundTag.prems(1) have v: "\<forall>x \<in> set v. nameable False x"
    by (auto simp: wf_nbt.simps)
  have e: "encoded b end ?at ?es"
    using encoded_payload [OF CompoundTag.prems(2)] by (simp add: payload_Compound del: payload.simps)
  have "parseCompound_loop (Suc (nat (end + 1 - ?at))) (nbt_switch d) [] b end ?at
      = Inr (Some ([] @ v, ?at + int (length ?es)))"
  proof (rule compound_loop_encoded [OF _ e])
    fix x at' assume x: "x \<in> set v" "encoded b end at' (header x @ payload x)"
    have "length (header x @ payload x) < length ?es" using x(1) by (induction v) auto
    then have "length (header x @ payload x) + 1 \<le> d" using CompoundTag.prems(3)
      by (auto simp: d payload_Compound simp del: payload.simps split: if_splits)
    then show "nbt_switch d (tag_code (getType x)) b end at' True False
        = Inr (Some (x, at' + int (length (header x @ payload x))))"
      using CompoundTag.IH [OF x(1), of False at' d] x v by (simp add: hdr_def)
  qed simp
  then show ?case
    using parse_header_encoded [OF CompoundTag.prems(2,1)]
    by (simp add: d parseCompound_def payload_Compound add.assoc
        del: payload.simps parseCompound_loop.simps)
qed (rule parse_leaf_encoded; (assumption | simp split: if_splits))+

text \<open>\<open>parse\<close> on the output of \<open>serialize\<close>: the pair of lemmas above, put together.\<close>

lemma parse_nbt_encoded:
  assumes "wf_nbt t" and "encoded b end at (header t @ payload t)" and "end < int (length b)" "0 \<le> at"
  shows "parse_nbt b end at = Inr (Some (t, at + int (length (header t @ payload t))))"
proof -
  have "deref b at = Inr (tag_code (getType t))"
    using assms(2) by (auto simp: header_def dest: encoded_deref)
  moreover have "at \<le> end" and "length (header t @ payload t) + 1 \<le> length b + 2"
    using encoded_le [OF assms(2)] assms(3,4) by (auto simp: header_def)
  ultimately show ?thesis
    using nbt_switch_encoded [of t False b "end" at "length b + 2"] assms(1,2)
    by (simp add: parse_nbt_def parse_with_def hdr_def del: nbt_switch.simps)
qed

section \<open>Properties\<close>

text \<open>C5: on every buffer whose readable part ends inside the vector, \<open>nbt::parse\<close> ends. It rejects
  the input, or returns a tag having moved the pointer forward and not past the end, or fails in one of
  the two ways the code leaves open: a negative byte-array length (\<open>std::length_error\<close>) and a length
  whose product with the element size overflows. It never reads out of bounds.\<close>

theorem nbt_parse_safe:
  assumes "0 \<le> at" and "end < int (length b)"
  shows "case parse_nbt b end at of
      Inl e \<Rightarrow> e = LengthError \<or> e = UB SignedOverflow
    | Inr None \<Rightarrow> True
    | Inr (Some (t, at')) \<Rightarrow> at < at' \<and> at' \<le> end + 1"
  using sound_parse_nbt [OF assms] by (auto simp: sound_def split: sum.splits option.splits)

theorem nbt_parse_safe_witness:
  "case parse_nbt [9, 0, 0, 8, 0, 0, 0, 2, 0, 5] 9 0 of
      Inl e \<Rightarrow> e = LengthError \<or> e = UB SignedOverflow
    | Inr None \<Rightarrow> True
    | Inr (Some (t, at')) \<Rightarrow> 0 < at' \<and> at' \<le> 9 + 1"
  by (rule nbt_parse_safe) simp_all

text \<open>C14: \<open>nbt::parse\<close> reads back every well-formed tag tree \<open>serialize\<close> wrote, wherever it stands in
  a buffer, and leaves the pointer right after it.\<close>

theorem nbt_roundtrip:
  assumes "wf_nbt t"
  shows "\<exists>out. serialize t data True = Inr (data @ out) \<and>
    parse_nbt (data @ out @ rest) (int (length (data @ out)) - 1) (int (length data))
      = Inr (Some (t, int (length (data @ out))))"
proof -
  let ?out = "header t @ payload t"
  have "points (data @ ?out @ rest) (int (length data)) (?out @ rest)"
    by (rule points_append)
  then have "encoded (data @ ?out @ rest) (int (length (data @ ?out)) - 1) (int (length data)) ?out"
    by (auto simp: encoded_def)
  from parse_nbt_encoded [OF assms this] serialize_payload(1) [OF assms, of data True]
  show ?thesis by (intro exI [of _ ?out]) simp
qed

theorem nbt_roundtrip_witness:
  "\<exists>out. serialize (CompoundTag ''root'' [ListTag ''l'' [IntTag '''' 5, IntTag '''' 6], StringTag ''s'' ''x''])
      [7] True = Inr ([7] @ out) \<and>
    parse_nbt ([7] @ out @ [1]) (int (length ([7] @ out)) - 1) (int (length [7 :: byte]))
      = Inr (Some (CompoundTag ''root'' [ListTag ''l'' [IntTag '''' 5, IntTag '''' 6], StringTag ''s'' ''x''],
          int (length ([7] @ out))))"
  by (rule nbt_roundtrip) (simp add: wf_List wf_Compound)

lemma serialize_elems_mismatch:
  assumes "T \<noteq> TEnd" and "list_all wf_nbt ts" and "\<not> of_type T ts"
  shows "serialize_elems T ts data = Inl TypeMismatch"
  using assms(2,3)
proof (induction ts arbitrary: data)
  case (Cons t ts)
  then show ?case
    using assms(1) serialize_payload(1) [of t data False] by (cases "getType t = T") (auto simp: Let_def)
qed simp

text \<open>A list whose elements do not all have the type of the first is refused with
  \<open>TypeMismatch\<close>.\<close>

theorem nbt_list_mismatch:
  assumes "list_all wf_nbt (t # ts)" and "\<not> of_type (getType t) ts"
  shows "serialize (ListTag n (t # ts)) data inc = Inl TypeMismatch"
proof -
  have "serialize t d False = Inr (d @ payload t)" for d
    using serialize_payload(1) [of t d False] assms(1) by simp
  then show ?thesis using serialize_elems_mismatch [of "getType t" ts] assms by (simp add: Let_def)
qed

theorem nbt_list_mismatch_witness:
  "serialize (ListTag ''l'' [IntTag '''' 5, ByteTag '''' 1]) [] True = Inl TypeMismatch"
  by (rule nbt_list_mismatch) simp_all

text \<open>A seven-byte int array that announces \<open>2 ^ 29\<close> elements makes the parser overflow \<open>int\<close>
  instead of rejecting it.\<close>

theorem nbt_int_array_overflow:
  "parse_nbt [11, 0, 0, 0x20, 0, 0, 0] 6 0 = Inl (UB SignedOverflow)"
proof -
  have "deref [11, 0, 0, 0x20, 0, 0, 0 :: byte] 0 = Inr 11" by (simp add: deref_def)
  moreover have "parseIntArray [11, 0, 0, 0x20, 0, 0, 0] 6 0 True False = Inl (UB SignedOverflow)"
    by code_simp
  ultimately show ?thesis by (simp add: parse_nbt_def parse_with_def)
qed

end
