(* ===== verification/Server_Packets.thy ===== *)
theory Server_Packets
  imports Packet_Utils
begin

text \<open>
  The packets a client sends: the structs of \<open>protocol/ServerPackets.hpp\<close> as records and their
  parse functions from \<open>protocol/ServerPackets.cpp\<close>, over the template \<open>parse\<close> of
  \<open>Packet_Utils\<close>. A field is prefixed by the name of its struct. Scoped enumerations keep the
  integer the cast stores, because the code casts without checking the range; the enumerators the
  parsers compare with are named constants. \<open>zero_X\<close> is the value-initialised object that
  \<open>std::make_unique<X>()\<close> starts from.
\<close>

section \<open>Packets and their parse functions\<close>

definition Interact_Type_Attack :: i32 where "Interact_Type_Attack = 1"
definition Interact_Type_InteractAt :: i32 where "Interact_Type_InteractAt = 2"
definition SeenAdvancements_Action_OpenedTab :: i32 where "SeenAdvancements_Action_OpenedTab = 0"

record Handshake =
  Handshake_protVersion :: i32
  Handshake_addr :: string
  Handshake_port :: u16
  Handshake_nextState :: i32

definition zero_Handshake :: Handshake where
  "zero_Handshake = \<lparr>Handshake_protVersion = 0,
     Handshake_addr = '''',
     Handshake_port = 0,
     Handshake_nextState = 0\<rparr>"

definition parseHandshake :: "byte list \<Rightarrow> Handshake result" where
  "parseHandshake buffer = parse_packet [
      field popVarInt (\<lambda>v h. h\<lparr>Handshake_protVersion := v\<rparr>),
      field popString (\<lambda>v h. h\<lparr>Handshake_addr := v\<rparr>),
      field popShort (\<lambda>v h. h\<lparr>Handshake_port := v\<rparr>),
      field popVarInt (\<lambda>v h. h\<lparr>Handshake_nextState := v\<rparr>)] zero_Handshake buffer"

record PingRequest =
  PingRequest_payload :: i64

definition zero_PingRequest :: PingRequest where
  "zero_PingRequest = \<lparr>PingRequest_payload = 0\<rparr>"

definition parsePingRequest :: "byte list \<Rightarrow> PingRequest result" where
  "parsePingRequest buffer = parse_packet [
      field popLong (\<lambda>v h. h\<lparr>PingRequest_payload := v\<rparr>)] zero_PingRequest buffer"

record LoginStart =
  LoginStart_name :: string
  LoginStart_hasPlayerUuid :: bool
  LoginStart_playerUuid :: u128

definition zero_LoginStart :: LoginStart where
  "zero_LoginStart = \<lparr>LoginStart_name = '''',
     LoginStart_hasPlayerUuid = False,
     LoginStart_playerUuid = \<lparr>u128_most = 0, u128_least = 0\<rparr>\<rparr>"

definition parseLoginStart :: "byte list \<Rightarrow> LoginStart result" where
  "parseLoginStart buffer = parse_packet [
      field popString (\<lambda>v h. h\<lparr>LoginStart_name := v\<rparr>),
      field popBoolean (\<lambda>v h. h\<lparr>LoginStart_hasPlayerUuid := v\<rparr>),
      parse_if LoginStart_hasPlayerUuid [
        field popUUID (\<lambda>v h. h\<lparr>LoginStart_playerUuid := v\<rparr>)]] zero_LoginStart buffer"

record EncryptionResponse =
  EncryptionResponse_sharedSecret :: "byte list"
  EncryptionResponse_verifyToken :: "byte list"

definition zero_EncryptionResponse :: EncryptionResponse where
  "zero_EncryptionResponse = \<lparr>EncryptionResponse_sharedSecret = [],
     EncryptionResponse_verifyToken = []\<rparr>"

definition parseEncryptionResponse :: "byte list \<Rightarrow> EncryptionResponse result" where
  "parseEncryptionResponse buffer = parse_packet [
      field (popArray popByte) (\<lambda>v h. h\<lparr>EncryptionResponse_sharedSecret := v\<rparr>),
      field (popArray popByte) (\<lambda>v h. h\<lparr>EncryptionResponse_verifyToken := v\<rparr>)] zero_EncryptionResponse buffer"

record ConfirmTeleportation =
  ConfirmTeleportation_teleportId :: i32

definition zero_ConfirmTeleportation :: ConfirmTeleportation where
  "zero_ConfirmTeleportation = \<lparr>ConfirmTeleportation_teleportId = 0\<rparr>"

definition parseConfirmTeleportation :: "byte list \<Rightarrow> ConfirmTeleportation result" where
  "parseConfirmTeleportation buffer = parse_packet [
      field popVarInt (\<lambda>v h. h\<lparr>ConfirmTeleportation_teleportId := v\<rparr>)] zero_ConfirmTeleportation buffer"

record QueryBlockEntityTag =
  QueryBlockEntityTag_transactionId :: i32
  QueryBlockEntityTag_location :: Position

definition zero_QueryBlockEntityTag :: QueryBlockEntityTag where
  "zero_QueryBlockEntityTag = \<lparr>QueryBlockEntityTag_transactionId = 0,
     QueryBlockEntityTag_location = \<lparr>pos_x = 0, pos_y = 0, pos_z = 0\<rparr>\<rparr>"

definition parseQueryBlockEntityTag :: "byte list \<Rightarrow> QueryBlockEntityTag result" where
  "parseQueryBlockEntityTag buffer = parse_packet [
      field popVarInt (\<lambda>v h. h\<lparr>QueryBlockEntityTag_transactionId := v\<rparr>),
      field popPosition (\<lambda>v h. h\<lparr>QueryBlockEntityTag_location := v\<rparr>)] zero_QueryBlockEntityTag buffer"

record ChangeDifficulty =
  ChangeDifficulty_newDifficulty :: byte

definition zero_ChangeDifficulty :: ChangeDifficulty where
  "zero_ChangeDifficulty = \<lparr>ChangeDifficulty_newDifficulty = 0\<rparr>"

definition parseChangeDifficulty :: "byte list \<Rightarrow> ChangeDifficulty result" where
  "parseChangeDifficulty buffer = parse_packet [
      field popByte (\<lambda>v h. h\<lparr>ChangeDifficulty_newDifficulty := v\<rparr>)] zero_ChangeDifficulty buffer"

record MessageAcknowledgement =
  MessageAcknowledgement_messageCount :: i32

definition zero_MessageAcknowledgement :: MessageAcknowledgement where
  "zero_MessageAcknowledgement = \<lparr>MessageAcknowledgement_messageCount = 0\<rparr>"

definition parseMessageAcknowledgement :: "byte list \<Rightarrow> MessageAcknowledgement result" where
  "parseMessageAcknowledgement buffer = parse_packet [
      field popVarInt (\<lambda>v h. h\<lparr>MessageAcknowledgement_messageCount := v\<rparr>)] zero_MessageAcknowledgement buffer"

record ChatCommand =
  ChatCommand_command :: string
  ChatCommand_timestamp :: i64
  ChatCommand_salt :: i64
  ChatCommand_argumentSignatures :: "ArgumentSignature list"
  ChatCommand_messageCount :: i32
  ChatCommand_acknowledged :: "bool list"

definition zero_ChatCommand :: ChatCommand where
  "zero_ChatCommand = \<lparr>ChatCommand_command = '''',
     ChatCommand_timestamp = 0,
     ChatCommand_salt = 0,
     ChatCommand_argumentSignatures = [],
     ChatCommand_messageCount = 0,
     ChatCommand_acknowledged = replicate 20 False\<rparr>"

definition parseChatCommand :: "byte list \<Rightarrow> ChatCommand result" where
  "parseChatCommand buffer = parse_packet [
      field popString (\<lambda>v h. h\<lparr>ChatCommand_command := v\<rparr>),
      field popLong (\<lambda>v h. h\<lparr>ChatCommand_timestamp := v\<rparr>),
      field popLong (\<lambda>v h. h\<lparr>ChatCommand_salt := v\<rparr>),
      field (popArray popArgumentSignature) (\<lambda>v h. h\<lparr>ChatCommand_argumentSignatures := v\<rparr>),
      field popVarInt (\<lambda>v h. h\<lparr>ChatCommand_messageCount := v\<rparr>),
      field (popBitSet 20) (\<lambda>v h. h\<lparr>ChatCommand_acknowledged := v\<rparr>)] zero_ChatCommand buffer"

record ChatMessage =
  ChatMessage_message :: string
  ChatMessage_timestamp :: i64
  ChatMessage_salt :: i64
  ChatMessage_isSigned :: bool
  ChatMessage_signature :: "byte list"
  ChatMessage_messageCount :: i32
  ChatMessage_acknowledged :: "bool list"

definition zero_ChatMessage :: ChatMessage where
  "zero_ChatMessage = \<lparr>ChatMessage_message = '''',
     ChatMessage_timestamp = 0,
     ChatMessage_salt = 0,
     ChatMessage_isSigned = False,
     ChatMessage_signature = [],
     ChatMessage_messageCount = 0,
     ChatMessage_acknowledged = replicate 20 False\<rparr>"

definition parseChatMessage :: "byte list \<Rightarrow> ChatMessage result" where
  "parseChatMessage buffer = parse_packet [
      field popString (\<lambda>v h. h\<lparr>ChatMessage_message := v\<rparr>),
      field popLong (\<lambda>v h. h\<lparr>ChatMessage_timestamp := v\<rparr>),
      field popLong (\<lambda>v h. h\<lparr>ChatMessage_salt := v\<rparr>),
      field popBoolean (\<lambda>v h. h\<lparr>ChatMessage_isSigned := v\<rparr>),
      parse_if ChatMessage_isSigned [
        field (popArray popByte) (\<lambda>v h. h\<lparr>ChatMessage_signature := v\<rparr>)],
      field (popBitSet 20) (\<lambda>v h. h\<lparr>ChatMessage_acknowledged := v\<rparr>)] zero_ChatMessage buffer"

record ClientCommand =
  ClientCommand_actionId :: i32

definition zero_ClientCommand :: ClientCommand where
  "zero_ClientCommand = \<lparr>ClientCommand_actionId = 0\<rparr>"

definition parseClientCommand :: "byte list \<Rightarrow> ClientCommand result" where
  "parseClientCommand buffer = parse_packet [
      field popVarInt (\<lambda>v h. h\<lparr>ClientCommand_actionId := v\<rparr>)] zero_ClientCommand buffer"

record ClientInformation =
  ClientInformation_locale :: string
  ClientInformation_viewDistance :: byte
  ClientInformation_chatMode :: i32
  ClientInformation_chatColors :: bool
  ClientInformation_displayedSkinParts :: byte
  ClientInformation_mainHand :: i32
  ClientInformation_enableTextFiltering :: bool
  ClientInformation_allowServerListings :: bool

definition zero_ClientInformation :: ClientInformation where
  "zero_ClientInformation = \<lparr>ClientInformation_locale = '''',
     ClientInformation_viewDistance = 0,
     ClientInformation_chatMode = 0,
     ClientInformation_chatColors = False,
     ClientInformation_displayedSkinParts = 0,
     ClientInformation_mainHand = 0,
     ClientInformation_enableTextFiltering = False,
     ClientInformation_allowServerListings = False\<rparr>"

definition parseClientInformation :: "byte list \<Rightarrow> ClientInformation result" where
  "parseClientInformation buffer = parse_packet [
      field popString (\<lambda>v h. h\<lparr>ClientInformation_locale := v\<rparr>),
      field popByte (\<lambda>v h. h\<lparr>ClientInformation_viewDistance := v\<rparr>),
      field popVarInt (\<lambda>v h. h\<lparr>ClientInformation_chatMode := v\<rparr>),
      field popBoolean (\<lambda>v h. h\<lparr>ClientInformation_chatColors := v\<rparr>),
      field popByte (\<lambda>v h. h\<lparr>ClientInformation_displayedSkinParts := v\<rparr>),
      field popVarInt (\<lambda>v h. h\<lparr>ClientInformation_mainHand := v\<rparr>),
      field popBoolean (\<lambda>v h. h\<lparr>ClientInformation_enableTextFiltering := v\<rparr>),
      field popBoolean (\<lambda>v h. h\<lparr>ClientInformation_allowServerListings := v\<rparr>)] zero_ClientInformation buffer"

record CommandSuggestionRequest =
  CommandSuggestionRequest_transactionId :: i32
  CommandSuggestionRequest_text :: string

definition zero_CommandSuggestionRequest :: CommandSuggestionRequest where
  "zero_CommandSuggestionRequest = \<lparr>CommandSuggestionRequest_transactionId = 0,
     CommandSuggestionRequest_text = ''''\<rparr>"

definition parseCommandSuggestionRequest :: "byte list \<Rightarrow> CommandSuggestionRequest result" where
  "parseCommandSuggestionRequest buffer = parse_packet [
      field popVarInt (\<lambda>v h. h\<lparr>CommandSuggestionRequest_transactionId := v\<rparr>),
      field popString (\<lambda>v h. h\<lparr>CommandSuggestionRequest_text := v\<rparr>)] zero_CommandSuggestionRequest buffer"

record ClickContainerButton =
  ClickContainerButton_windowId :: byte
  ClickContainerButton_buttonId :: byte

definition zero_ClickContainerButton :: ClickContainerButton where
  "zero_ClickContainerButton = \<lparr>ClickContainerButton_windowId = 0,
     ClickContainerButton_buttonId = 0\<rparr>"

definition parseClickContainerButton :: "byte list \<Rightarrow> ClickContainerButton result" where
  "parseClickContainerButton buffer = parse_packet [
      field popByte (\<lambda>v h. h\<lparr>ClickContainerButton_windowId := v\<rparr>),
      field popByte (\<lambda>v h. h\<lparr>ClickContainerButton_buttonId := v\<rparr>)] zero_ClickContainerButton buffer"

record ClickContainer =
  ClickContainer_windowId :: byte
  ClickContainer_stateId :: i32
  ClickContainer_slot :: i16
  ClickContainer_button :: i8
  ClickContainer_mode :: i32
  ClickContainer_arrayOfSlots :: "SlotWithIndex list"
  ClickContainer_carriedItem :: Slot

definition zero_ClickContainer :: ClickContainer where
  "zero_ClickContainer = \<lparr>ClickContainer_windowId = 0,
     ClickContainer_stateId = 0,
     ClickContainer_slot = 0,
     ClickContainer_button = 0,
     ClickContainer_mode = 0,
     ClickContainer_arrayOfSlots = [],
     ClickContainer_carriedItem = empty_slot\<rparr>"

definition parseClickContainer :: "byte list \<Rightarrow> ClickContainer result" where
  "parseClickContainer buffer = parse_packet [
      field popByte (\<lambda>v h. h\<lparr>ClickContainer_windowId := v\<rparr>),
      field popVarInt (\<lambda>v h. h\<lparr>ClickContainer_stateId := v\<rparr>),
      field popShort (\<lambda>v h. h\<lparr>ClickContainer_slot := v\<rparr>),
      field popByte (\<lambda>v h. h\<lparr>ClickContainer_button := v\<rparr>),
      field popVarInt (\<lambda>v h. h\<lparr>ClickContainer_mode := v\<rparr>),
      field (popArray popSlotWithIndex) (\<lambda>v h. h\<lparr>ClickContainer_arrayOfSlots := v\<rparr>),
      field popSlot (\<lambda>v h. h\<lparr>ClickContainer_carriedItem := v\<rparr>)] zero_ClickContainer buffer"

record CloseContainerRequest =
  CloseContainerRequest_windowId :: byte

definition zero_CloseContainerRequest :: CloseContainerRequest where
  "zero_CloseContainerRequest = \<lparr>CloseContainerRequest_windowId = 0\<rparr>"

definition parseCloseContainerRequest :: "byte list \<Rightarrow> CloseContainerRequest result" where
  "parseCloseContainerRequest buffer = parse_packet [
      field popByte (\<lambda>v h. h\<lparr>CloseContainerRequest_windowId := v\<rparr>)] zero_CloseContainerRequest buffer"

record PluginMessage =
  PluginMessage_channel :: string
  PluginMessage_data :: "byte list"

definition zero_PluginMessage :: PluginMessage where
  "zero_PluginMessage = \<lparr>PluginMessage_channel = '''',
     PluginMessage_data = []\<rparr>"

definition parsePluginMessage :: "byte list \<Rightarrow> PluginMessage result" where
  "parsePluginMessage buffer = parse_packet [
      field popString (\<lambda>v h. h\<lparr>PluginMessage_channel := v\<rparr>),
      assign (\<lambda>h. h\<lparr>PluginMessage_data := []\<rparr>)] zero_PluginMessage buffer"

record EditBook =
  EditBook_slot :: i32
  EditBook_entries :: "string list"
  EditBook_hasTitle :: bool
  EditBook_title :: string

definition zero_EditBook :: EditBook where
  "zero_EditBook = \<lparr>EditBook_slot = 0,
     EditBook_entries = [],
     EditBook_hasTitle = False,
     EditBook_title = ''''\<rparr>"

definition parseEditBook :: "byte list \<Rightarrow> EditBook result" where
  "parseEditBook buffer = parse_packet [
      field popVarInt (\<lambda>v h. h\<lparr>EditBook_slot := v\<rparr>),
      field (popArray popString) (\<lambda>v h. h\<lparr>EditBook_entries := v\<rparr>),
      field popBoolean (\<lambda>v h. h\<lparr>EditBook_hasTitle := v\<rparr>),
      parse_if EditBook_hasTitle [
        field popString (\<lambda>v h. h\<lparr>EditBook_title := v\<rparr>)]] zero_EditBook buffer"

record QueryEntityTag =
  QueryEntityTag_transactionId :: i32
  QueryEntityTag_entityId :: i32

definition zero_QueryEntityTag :: QueryEntityTag where
  "zero_QueryEntityTag = \<lparr>QueryEntityTag_transactionId = 0,
     QueryEntityTag_entityId = 0\<rparr>"

definition parseQueryEntityTag :: "byte list \<Rightarrow> QueryEntityTag result" where
  "parseQueryEntityTag buffer = parse_packet [
      field popVarInt (\<lambda>v h. h\<lparr>QueryEntityTag_transactionId := v\<rparr>),
      field popVarInt (\<lambda>v h. h\<lparr>QueryEntityTag_entityId := v\<rparr>)] zero_QueryEntityTag buffer"

record Interact =
  Interact_entityId :: i32
  Interact_type :: i32
  Interact_targetX :: f32
  Interact_targetY :: f32
  Interact_targetZ :: f32
  Interact_hand :: i32
  Interact_sneaking :: bool

definition zero_Interact :: Interact where
  "zero_Interact = \<lparr>Interact_entityId = 0,
     Interact_type = 0,
     Interact_targetX = 0,
     Interact_targetY = 0,
     Interact_targetZ = 0,
     Interact_hand = 0,
     Interact_sneaking = False\<rparr>"

definition parseInteract :: "byte list \<Rightarrow> Interact result" where
  "parseInteract buffer = parse_packet [
      field popVarInt (\<lambda>v h. h\<lparr>Interact_entityId := v\<rparr>),
      field popVarInt (\<lambda>v h. h\<lparr>Interact_type := v\<rparr>),
      parse_if (\<lambda>h. Interact_type h = Interact_Type_InteractAt) [
        field popFloat (\<lambda>v h. h\<lparr>Interact_targetX := v\<rparr>),
        field popFloat (\<lambda>v h. h\<lparr>Interact_targetY := v\<rparr>),
        field popFloat (\<lambda>v h. h\<lparr>Interact_targetZ := v\<rparr>)],
      parse_if (\<lambda>h. Interact_type h \<noteq> Interact_Type_Attack) [
        field popVarInt (\<lambda>v h. h\<lparr>Interact_hand := v\<rparr>)],
      field popBoolean (\<lambda>v h. h\<lparr>Interact_sneaking := v\<rparr>)] zero_Interact buffer"

record JigsawGenerate =
  JigsawGenerate_location :: Position
  JigsawGenerate_levels :: i32
  JigsawGenerate_keepJigsaws :: bool

definition zero_JigsawGenerate :: JigsawGenerate where
  "zero_JigsawGenerate = \<lparr>JigsawGenerate_location = \<lparr>pos_x = 0, pos_y = 0, pos_z = 0\<rparr>,
     JigsawGenerate_levels = 0,
     JigsawGenerate_keepJigsaws = False\<rparr>"

definition parseJigsawGenerate :: "byte list \<Rightarrow> JigsawGenerate result" where
  "parseJigsawGenerate buffer = parse_packet [
      field popPosition (\<lambda>v h. h\<lparr>JigsawGenerate_location := v\<rparr>),
      field popVarInt (\<lambda>v h. h\<lparr>JigsawGenerate_levels := v\<rparr>),
      field popBoolean (\<lambda>v h. h\<lparr>JigsawGenerate_keepJigsaws := v\<rparr>)] zero_JigsawGenerate buffer"

record KeepAliveResponse =
  KeepAliveResponse_keepAliveId :: i64

definition zero_KeepAliveResponse :: KeepAliveResponse where
  "zero_KeepAliveResponse = \<lparr>KeepAliveResponse_keepAliveId = 0\<rparr>"

definition parseKeepAliveResponse :: "byte list \<Rightarrow> KeepAliveResponse result" where
  "parseKeepAliveResponse buffer = parse_packet [
      field popLong (\<lambda>v h. h\<lparr>KeepAliveResponse_keepAliveId := v\<rparr>)] zero_KeepAliveResponse buffer"

record LockDifficulty =
  LockDifficulty_locked :: bool

definition zero_LockDifficulty :: LockDifficulty where
  "zero_LockDifficulty = \<lparr>LockDifficulty_locked = False\<rparr>"

definition parseLockDifficulty :: "byte list \<Rightarrow> LockDifficulty result" where
  "parseLockDifficulty buffer = parse_packet [
      field popBoolean (\<lambda>v h. h\<lparr>LockDifficulty_locked := v\<rparr>)] zero_LockDifficulty buffer"

record SetPlayerPosition =
  SetPlayerPosition_x :: f64
  SetPlayerPosition_feetY :: f64
  SetPlayerPosition_z :: f64
  SetPlayerPosition_onGround :: bool

definition zero_SetPlayerPosition :: SetPlayerPosition where
  "zero_SetPlayerPosition = \<lparr>SetPlayerPosition_x = 0,
     SetPlayerPosition_feetY = 0,
     SetPlayerPosition_z = 0,
     SetPlayerPosition_onGround = False\<rparr>"

definition parseSetPlayerPosition :: "byte list \<Rightarrow> SetPlayerPosition result" where
  "parseSetPlayerPosition buffer = parse_packet [
      field popDouble (\<lambda>v h. h\<lparr>SetPlayerPosition_x := v\<rparr>),
      field popDouble (\<lambda>v h. h\<lparr>SetPlayerPosition_feetY := v\<rparr>),
      field popDouble (\<lambda>v h. h\<lparr>SetPlayerPosition_z := v\<rparr>),
      field popBoolean (\<lambda>v h. h\<lparr>SetPlayerPosition_onGround := v\<rparr>)] zero_SetPlayerPosition buffer"

record SetPlayerPositionAndRotation =
  SetPlayerPositionAndRotation_x :: f64
  SetPlayerPositionAndRotation_feetY :: f64
  SetPlayerPositionAndRotation_z :: f64
  SetPlayerPositionAndRotation_yaw :: f32
  SetPlayerPositionAndRotation_pitch :: f32
  SetPlayerPositionAndRotation_onGround :: bool

definition zero_SetPlayerPositionAndRotation :: SetPlayerPositionAndRotation where
  "zero_SetPlayerPositionAndRotation = \<lparr>SetPlayerPositionAndRotation_x = 0,
     SetPlayerPositionAndRotation_feetY = 0,
     SetPlayerPositionAndRotation_z = 0,
     SetPlayerPositionAndRotation_yaw = 0,
     SetPlayerPositionAndRotation_pitch = 0,
     SetPlayerPositionAndRotation_onGround = False\<rparr>"

definition parseSetPlayerPositionAndRotation :: "byte list \<Rightarrow> SetPlayerPositionAndRotation result" where
  "parseSetPlayerPositionAndRotation buffer = parse_packet [
      field popDouble (\<lambda>v h. h\<lparr>SetPlayerPositionAndRotation_x := v\<rparr>),
      field popDouble (\<lambda>v h. h\<lparr>SetPlayerPositionAndRotation_feetY := v\<rparr>),
      field popDouble (\<lambda>v h. h\<lparr>SetPlayerPositionAndRotation_z := v\<rparr>),
      field popFloat (\<lambda>v h. h\<lparr>SetPlayerPositionAndRotation_yaw := v\<rparr>),
      field popFloat (\<lambda>v h. h\<lparr>SetPlayerPositionAndRotation_pitch := v\<rparr>),
      field popBoolean (\<lambda>v h. h\<lparr>SetPlayerPositionAndRotation_onGround := v\<rparr>)] zero_SetPlayerPositionAndRotation buffer"

record SetPlayerRotation =
  SetPlayerRotation_yaw :: f32
  SetPlayerRotation_pitch :: f32
  SetPlayerRotation_onGround :: bool

definition zero_SetPlayerRotation :: SetPlayerRotation where
  "zero_SetPlayerRotation = \<lparr>SetPlayerRotation_yaw = 0,
     SetPlayerRotation_pitch = 0,
     SetPlayerRotation_onGround = False\<rparr>"

definition parseSetPlayerRotation :: "byte list \<Rightarrow> SetPlayerRotation result" where
  "parseSetPlayerRotation buffer = parse_packet [
      field popFloat (\<lambda>v h. h\<lparr>SetPlayerRotation_yaw := v\<rparr>),
      field popFloat (\<lambda>v h. h\<lparr>SetPlayerRotation_pitch := v\<rparr>),
      field popBoolean (\<lambda>v h. h\<lparr>SetPlayerRotation_onGround := v\<rparr>)] zero_SetPlayerRotation buffer"

record SetPlayerOnGround =
  SetPlayerOnGround_onGround :: bool

definition zero_SetPlayerOnGround :: SetPlayerOnGround where
  "zero_SetPlayerOnGround = \<lparr>SetPlayerOnGround_onGround = False\<rparr>"

definition parseSetPlayerOnGround :: "byte list \<Rightarrow> SetPlayerOnGround result" where
  "parseSetPlayerOnGround buffer = parse_packet [
      field popBoolean (\<lambda>v h. h\<lparr>SetPlayerOnGround_onGround := v\<rparr>)] zero_SetPlayerOnGround buffer"

record MoveVehicle =
  MoveVehicle_x :: f64
  MoveVehicle_y :: f64
  MoveVehicle_z :: f64
  MoveVehicle_yaw :: f32
  MoveVehicle_pitch :: f32

definition zero_MoveVehicle :: MoveVehicle where
  "zero_MoveVehicle = \<lparr>MoveVehicle_x = 0,
     MoveVehicle_y = 0,
     MoveVehicle_z = 0,
     MoveVehicle_yaw = 0,
     MoveVehicle_pitch = 0\<rparr>"

definition parseMoveVehicle :: "byte list \<Rightarrow> MoveVehicle result" where
  "parseMoveVehicle buffer = parse_packet [
      field popDouble (\<lambda>v h. h\<lparr>MoveVehicle_x := v\<rparr>),
      field popDouble (\<lambda>v h. h\<lparr>MoveVehicle_y := v\<rparr>),
      field popDouble (\<lambda>v h. h\<lparr>MoveVehicle_z := v\<rparr>),
      field popFloat (\<lambda>v h. h\<lparr>MoveVehicle_yaw := v\<rparr>),
      field popFloat (\<lambda>v h. h\<lparr>MoveVehicle_pitch := v\<rparr>)] zero_MoveVehicle buffer"

record PaddleBoat =
  PaddleBoat_leftPaddleTurning :: bool
  PaddleBoat_rightPaddleTurning :: bool

definition zero_PaddleBoat :: PaddleBoat where
  "zero_PaddleBoat = \<lparr>PaddleBoat_leftPaddleTurning = False,
     PaddleBoat_rightPaddleTurning = False\<rparr>"

definition parsePaddleBoat :: "byte list \<Rightarrow> PaddleBoat result" where
  "parsePaddleBoat buffer = parse_packet [
      field popBoolean (\<lambda>v h. h\<lparr>PaddleBoat_leftPaddleTurning := v\<rparr>),
      field popBoolean (\<lambda>v h. h\<lparr>PaddleBoat_rightPaddleTurning := v\<rparr>)] zero_PaddleBoat buffer"

record PickItem =
  PickItem_slotToUse :: i32

definition zero_PickItem :: PickItem where
  "zero_PickItem = \<lparr>PickItem_slotToUse = 0\<rparr>"

definition parsePickItem :: "byte list \<Rightarrow> PickItem result" where
  "parsePickItem buffer = parse_packet [
      field popVarInt (\<lambda>v h. h\<lparr>PickItem_slotToUse := v\<rparr>)] zero_PickItem buffer"

record PlaceRecipe =
  PlaceRecipe_windowId :: byte
  PlaceRecipe_recipe :: string
  PlaceRecipe_makeAll :: bool

definition zero_PlaceRecipe :: PlaceRecipe where
  "zero_PlaceRecipe = \<lparr>PlaceRecipe_windowId = 0,
     PlaceRecipe_recipe = '''',
     PlaceRecipe_makeAll = False\<rparr>"

definition parsePlaceRecipe :: "byte list \<Rightarrow> PlaceRecipe result" where
  "parsePlaceRecipe buffer = parse_packet [
      field popByte (\<lambda>v h. h\<lparr>PlaceRecipe_windowId := v\<rparr>),
      field popString (\<lambda>v h. h\<lparr>PlaceRecipe_recipe := v\<rparr>),
      field popBoolean (\<lambda>v h. h\<lparr>PlaceRecipe_makeAll := v\<rparr>)] zero_PlaceRecipe buffer"

record PlayerAbilities =
  PlayerAbilities_flags :: byte

definition zero_PlayerAbilities :: PlayerAbilities where
  "zero_PlayerAbilities = \<lparr>PlayerAbilities_flags = 0\<rparr>"

definition parsePlayerAbilities :: "byte list \<Rightarrow> PlayerAbilities result" where
  "parsePlayerAbilities buffer = parse_packet [
      field popByte (\<lambda>v h. h\<lparr>PlayerAbilities_flags := v\<rparr>)] zero_PlayerAbilities buffer"

record PlayerAction =
  PlayerAction_status :: i32
  PlayerAction_location :: Position
  PlayerAction_face :: byte
  PlayerAction_sequence :: i32

definition zero_PlayerAction :: PlayerAction where
  "zero_PlayerAction = \<lparr>PlayerAction_status = 0,
     PlayerAction_location = \<lparr>pos_x = 0, pos_y = 0, pos_z = 0\<rparr>,
     PlayerAction_face = 0,
     PlayerAction_sequence = 0\<rparr>"

definition parsePlayerAction :: "byte list \<Rightarrow> PlayerAction result" where
  "parsePlayerAction buffer = parse_packet [
      field popVarInt (\<lambda>v h. h\<lparr>PlayerAction_status := v\<rparr>),
      field popPosition (\<lambda>v h. h\<lparr>PlayerAction_location := v\<rparr>),
      field popByte (\<lambda>v h. h\<lparr>PlayerAction_face := v\<rparr>),
      field popVarInt (\<lambda>v h. h\<lparr>PlayerAction_sequence := v\<rparr>)] zero_PlayerAction buffer"

record PlayerCommand =
  PlayerCommand_entityId :: i32
  PlayerCommand_actionId :: i32
  PlayerCommand_jumpBoost :: i32

definition zero_PlayerCommand :: PlayerCommand where
  "zero_PlayerCommand = \<lparr>PlayerCommand_entityId = 0,
     PlayerCommand_actionId = 0,
     PlayerCommand_jumpBoost = 0\<rparr>"

definition parsePlayerCommand :: "byte list \<Rightarrow> PlayerCommand result" where
  "parsePlayerCommand buffer = parse_packet [
      field popVarInt (\<lambda>v h. h\<lparr>PlayerCommand_entityId := v\<rparr>),
      field popVarInt (\<lambda>v h. h\<lparr>PlayerCommand_actionId := v\<rparr>),
      field popVarInt (\<lambda>v h. h\<lparr>PlayerCommand_jumpBoost := v\<rparr>)] zero_PlayerCommand buffer"

record PlayerInput =
  PlayerInput_sideways :: f32
  PlayerInput_forward :: f32
  PlayerInput_flags :: byte

definition zero_PlayerInput :: PlayerInput where
  "zero_PlayerInput = \<lparr>PlayerInput_sideways = 0,
     PlayerInput_forward = 0,
     PlayerInput_flags = 0\<rparr>"

definition parsePlayerInput :: "byte list \<Rightarrow> PlayerInput result" where
  "parsePlayerInput buffer = parse_packet [
      field popFloat (\<lambda>v h. h\<lparr>PlayerInput_sideways := v\<rparr>),
      field popFloat (\<lambda>v h. h\<lparr>PlayerInput_forward := v\<rparr>),
      field popByte (\<lambda>v h. h\<lparr>PlayerInput_flags := v\<rparr>)] zero_PlayerInput buffer"

record Pong =
  Pong_id :: i32

definition zero_Pong :: Pong where
  "zero_Pong = \<lparr>Pong_id = 0\<rparr>"

definition parsePong :: "byte list \<Rightarrow> Pong result" where
  "parsePong buffer = parse_packet [
      field popInt (\<lambda>v h. h\<lparr>Pong_id := v\<rparr>)] zero_Pong buffer"

record PlayerSession =
  PlayerSession_uuid :: u128
  PlayerSession_expiresAt :: i64
  PlayerSession_publicKey :: "byte list"
  PlayerSession_signature :: "byte list"

definition zero_PlayerSession :: PlayerSession where
  "zero_PlayerSession = \<lparr>PlayerSession_uuid = \<lparr>u128_most = 0, u128_least = 0\<rparr>,
     PlayerSession_expiresAt = 0,
     PlayerSession_publicKey = [],
     PlayerSession_signature = []\<rparr>"

definition parsePlayerSession :: "byte list \<Rightarrow> PlayerSession result" where
  "parsePlayerSession buffer = parse_packet [
      field popUUID (\<lambda>v h. h\<lparr>PlayerSession_uuid := v\<rparr>),
      field popLong (\<lambda>v h. h\<lparr>PlayerSession_expiresAt := v\<rparr>),
      field (popArray popByte) (\<lambda>v h. h\<lparr>PlayerSession_publicKey := v\<rparr>),
      field (popArray popByte) (\<lambda>v h. h\<lparr>PlayerSession_signature := v\<rparr>)] zero_PlayerSession buffer"

record ChangeRecipeBookSettings =
  ChangeRecipeBookSettings_bookId :: i32
  ChangeRecipeBookSettings_bookOpen :: bool
  ChangeRecipeBookSettings_filterActive :: bool

definition zero_ChangeRecipeBookSettings :: ChangeRecipeBookSettings where
  "zero_ChangeRecipeBookSettings = \<lparr>ChangeRecipeBookSettings_bookId = 0,
     ChangeRecipeBookSettings_bookOpen = False,
     ChangeRecipeBookSettings_filterActive = False\<rparr>"

definition parseChangeRecipeBookSettings :: "byte list \<Rightarrow> ChangeRecipeBookSettings result" where
  "parseChangeRecipeBookSettings buffer = parse_packet [
      field popVarInt (\<lambda>v h. h\<lparr>ChangeRecipeBookSettings_bookId := v\<rparr>),
      field popBoolean (\<lambda>v h. h\<lparr>ChangeRecipeBookSettings_bookOpen := v\<rparr>),
      field popBoolean (\<lambda>v h. h\<lparr>ChangeRecipeBookSettings_filterActive := v\<rparr>)] zero_ChangeRecipeBookSettings buffer"

record SetSeenRecipe =
  SetSeenRecipe_recipeId :: string

definition zero_SetSeenRecipe :: SetSeenRecipe where
  "zero_SetSeenRecipe = \<lparr>SetSeenRecipe_recipeId = ''''\<rparr>"

definition parseSetSeenRecipe :: "byte list \<Rightarrow> SetSeenRecipe result" where
  "parseSetSeenRecipe buffer = parse_packet [
      field popString (\<lambda>v h. h\<lparr>SetSeenRecipe_recipeId := v\<rparr>)] zero_SetSeenRecipe buffer"

record RenameItem =
  RenameItem_itemName :: string

definition zero_RenameItem :: RenameItem where
  "zero_RenameItem = \<lparr>RenameItem_itemName = ''''\<rparr>"

definition parseRenameItem :: "byte list \<Rightarrow> RenameItem result" where
  "parseRenameItem buffer = parse_packet [
      field popString (\<lambda>v h. h\<lparr>RenameItem_itemName := v\<rparr>)] zero_RenameItem buffer"

record ResourcePack =
  ResourcePack_result :: i32

definition zero_ResourcePack :: ResourcePack where
  "zero_ResourcePack = \<lparr>ResourcePack_result = 0\<rparr>"

definition parseResourcePack :: "byte list \<Rightarrow> ResourcePack result" where
  "parseResourcePack buffer = parse_packet [
      field popVarInt (\<lambda>v h. h\<lparr>ResourcePack_result := v\<rparr>)] zero_ResourcePack buffer"

record SeenAdvancements =
  SeenAdvancements_action :: i32
  SeenAdvancements_tabId :: string

definition zero_SeenAdvancements :: SeenAdvancements where
  "zero_SeenAdvancements = \<lparr>SeenAdvancements_action = 0,
     SeenAdvancements_tabId = ''''\<rparr>"

definition parseSeenAdvancements :: "byte list \<Rightarrow> SeenAdvancements result" where
  "parseSeenAdvancements buffer = parse_packet [
      field popVarInt (\<lambda>v h. h\<lparr>SeenAdvancements_action := v\<rparr>),
      parse_if (\<lambda>h. SeenAdvancements_action h = SeenAdvancements_Action_OpenedTab) [
        field popString (\<lambda>v h. h\<lparr>SeenAdvancements_tabId := v\<rparr>)]] zero_SeenAdvancements buffer"

record SelectTrade =
  SelectTrade_selectedSlot :: i32

definition zero_SelectTrade :: SelectTrade where
  "zero_SelectTrade = \<lparr>SelectTrade_selectedSlot = 0\<rparr>"

definition parseSelectTrade :: "byte list \<Rightarrow> SelectTrade result" where
  "parseSelectTrade buffer = parse_packet [
      field popVarInt (\<lambda>v h. h\<lparr>SelectTrade_selectedSlot := v\<rparr>)] zero_SelectTrade buffer"

record SetBeaconEffect =
  SetBeaconEffect_primaryEffectPresent :: bool
  SetBeaconEffect_primaryEffect :: i32
  SetBeaconEffect_secondaryEffectPresent :: bool
  SetBeaconEffect_secondaryEffect :: i32

definition zero_SetBeaconEffect :: SetBeaconEffect where
  "zero_SetBeaconEffect = \<lparr>SetBeaconEffect_primaryEffectPresent = False,
     SetBeaconEffect_primaryEffect = 0,
     SetBeaconEffect_secondaryEffectPresent = False,
     SetBeaconEffect_secondaryEffect = 0\<rparr>"

definition parseSetBeaconEffect :: "byte list \<Rightarrow> SetBeaconEffect result" where
  "parseSetBeaconEffect buffer = parse_packet [
      field popBoolean (\<lambda>v h. h\<lparr>SetBeaconEffect_primaryEffectPresent := v\<rparr>),
      field popVarInt (\<lambda>v h. h\<lparr>SetBeaconEffect_primaryEffect := v\<rparr>),
      field popBoolean (\<lambda>v h. h\<lparr>SetBeaconEffect_secondaryEffectPresent := v\<rparr>),
      field popVarInt (\<lambda>v h. h\<lparr>SetBeaconEffect_secondaryEffect := v\<rparr>)] zero_SetBeaconEffect buffer"

record SetHeldItem =
  SetHeldItem_slot :: u16

definition zero_SetHeldItem :: SetHeldItem where
  "zero_SetHeldItem = \<lparr>SetHeldItem_slot = 0\<rparr>"

definition parseSetHeldItem :: "byte list \<Rightarrow> SetHeldItem result" where
  "parseSetHeldItem buffer = parse_packet [
      field popShort (\<lambda>v h. h\<lparr>SetHeldItem_slot := v\<rparr>)] zero_SetHeldItem buffer"

record ProgramCommandBlock =
  ProgramCommandBlock_location :: Position
  ProgramCommandBlock_command :: string
  ProgramCommandBlock_mode :: i32
  ProgramCommandBlock_flags :: byte

definition zero_ProgramCommandBlock :: ProgramCommandBlock where
  "zero_ProgramCommandBlock = \<lparr>ProgramCommandBlock_location = \<lparr>pos_x = 0, pos_y = 0, pos_z = 0\<rparr>,
     ProgramCommandBlock_command = '''',
     ProgramCommandBlock_mode = 0,
     ProgramCommandBlock_flags = 0\<rparr>"

definition parseProgramCommandBlock :: "byte list \<Rightarrow> ProgramCommandBlock result" where
  "parseProgramCommandBlock buffer = parse_packet [
      field popPosition (\<lambda>v h. h\<lparr>ProgramCommandBlock_location := v\<rparr>),
      field popString (\<lambda>v h. h\<lparr>ProgramCommandBlock_command := v\<rparr>),
      field popVarInt (\<lambda>v h. h\<lparr>ProgramCommandBlock_mode := v\<rparr>),
      field popByte (\<lambda>v h. h\<lparr>ProgramCommandBlock_flags := v\<rparr>)] zero_ProgramCommandBlock buffer"

record ProgramCommandBlockMinecart =
  ProgramCommandBlockMinecart_entityId :: i32
  ProgramCommandBlockMinecart_command :: string
  ProgramCommandBlockMinecart_trackOutput :: bool

definition zero_ProgramCommandBlockMinecart :: ProgramCommandBlockMinecart where
  "zero_ProgramCommandBlockMinecart = \<lparr>ProgramCommandBlockMinecart_entityId = 0,
     ProgramCommandBlockMinecart_command = '''',
     ProgramCommandBlockMinecart_trackOutput = False\<rparr>"

definition parseProgramCommandBlockMinecart :: "byte list \<Rightarrow> ProgramCommandBlockMinecart result" where
  "parseProgramCommandBlockMinecart buffer = parse_packet [
      field popVarInt (\<lambda>v h. h\<lparr>ProgramCommandBlockMinecart_entityId := v\<rparr>),
      field popString (\<lambda>v h. h\<lparr>ProgramCommandBlockMinecart_command := v\<rparr>),
      field popBoolean (\<lambda>v h. h\<lparr>ProgramCommandBlockMinecart_trackOutput := v\<rparr>)] zero_ProgramCommandBlockMinecart buffer"

record SetCreativeModeSlot =
  SetCreativeModeSlot_slot :: i16
  SetCreativeModeSlot_clickedItem :: Slot

definition zero_SetCreativeModeSlot :: SetCreativeModeSlot where
  "zero_SetCreativeModeSlot = \<lparr>SetCreativeModeSlot_slot = 0,
     SetCreativeModeSlot_clickedItem = empty_slot\<rparr>"

definition parseSetCreativeModeSlot :: "byte list \<Rightarrow> SetCreativeModeSlot result" where
  "parseSetCreativeModeSlot buffer = parse_packet [
      field popShort (\<lambda>v h. h\<lparr>SetCreativeModeSlot_slot := v\<rparr>),
      field popSlot (\<lambda>v h. h\<lparr>SetCreativeModeSlot_clickedItem := v\<rparr>)] zero_SetCreativeModeSlot buffer"

record ProgramJigsawBlock =
  ProgramJigsawBlock_location :: Position
  ProgramJigsawBlock_name :: string
  ProgramJigsawBlock_target :: string
  ProgramJigsawBlock_pool :: string
  ProgramJigsawBlock_finalState :: string
  ProgramJigsawBlock_jointType :: string

definition zero_ProgramJigsawBlock :: ProgramJigsawBlock where
  "zero_ProgramJigsawBlock = \<lparr>ProgramJigsawBlock_location = \<lparr>pos_x = 0, pos_y = 0, pos_z = 0\<rparr>,
     ProgramJigsawBlock_name = '''',
     ProgramJigsawBlock_target = '''',
     ProgramJigsawBlock_pool = '''',
     ProgramJigsawBlock_finalState = '''',
     ProgramJigsawBlock_jointType = ''''\<rparr>"

definition parseProgramJigsawBlock :: "byte list \<Rightarrow> ProgramJigsawBlock result" where
  "parseProgramJigsawBlock buffer = parse_packet [
      field popPosition (\<lambda>v h. h\<lparr>ProgramJigsawBlock_location := v\<rparr>),
      field popString (\<lambda>v h. h\<lparr>ProgramJigsawBlock_name := v\<rparr>),
      field popString (\<lambda>v h. h\<lparr>ProgramJigsawBlock_target := v\<rparr>),
      field popString (\<lambda>v h. h\<lparr>ProgramJigsawBlock_pool := v\<rparr>),
      field popString (\<lambda>v h. h\<lparr>ProgramJigsawBlock_finalState := v\<rparr>),
      field popString (\<lambda>v h. h\<lparr>ProgramJigsawBlock_jointType := v\<rparr>)] zero_ProgramJigsawBlock buffer"

record ProgramStructureBlock =
  ProgramStructureBlock_location :: Position
  ProgramStructureBlock_action :: i32
  ProgramStructureBlock_mode :: i32
  ProgramStructureBlock_name :: string
  ProgramStructureBlock_offsetX :: byte
  ProgramStructureBlock_offsetY :: byte
  ProgramStructureBlock_offsetZ :: byte
  ProgramStructureBlock_sizeX :: byte
  ProgramStructureBlock_sizeY :: byte
  ProgramStructureBlock_sizeZ :: byte
  ProgramStructureBlock_mirror :: i32
  ProgramStructureBlock_rotation :: i32
  ProgramStructureBlock_metadata :: string
  ProgramStructureBlock_integrity :: f32
  ProgramStructureBlock_seed :: i64
  ProgramStructureBlock_flags :: byte

definition zero_ProgramStructureBlock :: ProgramStructureBlock where
  "zero_ProgramStructureBlock = \<lparr>ProgramStructureBlock_location = \<lparr>pos_x = 0, pos_y = 0, pos_z = 0\<rparr>,
     ProgramStructureBlock_action = 0,
     ProgramStructureBlock_mode = 0,
     ProgramStructureBlock_name = '''',
     ProgramStructureBlock_offsetX = 0,
     ProgramStructureBlock_offsetY = 0,
     ProgramStructureBlock_offsetZ = 0,
     ProgramStructureBlock_sizeX = 0,
     ProgramStructureBlock_sizeY = 0,
     ProgramStructureBlock_sizeZ = 0,
     ProgramStructureBlock_mirror = 0,
     ProgramStructureBlock_rotation = 0,
     ProgramStructureBlock_metadata = '''',
     ProgramStructureBlock_integrity = 0,
     ProgramStructureBlock_seed = 0,
     ProgramStructureBlock_flags = 0\<rparr>"

definition parseProgramStructureBlock :: "byte list \<Rightarrow> ProgramStructureBlock result" where
  "parseProgramStructureBlock buffer = parse_packet [
      field popPosition (\<lambda>v h. h\<lparr>ProgramStructureBlock_location := v\<rparr>),
      field popVarInt (\<lambda>v h. h\<lparr>ProgramStructureBlock_action := v\<rparr>),
      field popVarInt (\<lambda>v h. h\<lparr>ProgramStructureBlock_mode := v\<rparr>),
      field popByte (\<lambda>v h. h\<lparr>ProgramStructureBlock_offsetX := v\<rparr>),
      field popByte (\<lambda>v h. h\<lparr>ProgramStructureBlock_offsetY := v\<rparr>),
      field popByte (\<lambda>v h. h\<lparr>ProgramStructureBlock_offsetZ := v\<rparr>),
      field popByte (\<lambda>v h. h\<lparr>ProgramStructureBlock_sizeX := v\<rparr>),
      field popByte (\<lambda>v h. h\<lparr>ProgramStructureBlock_sizeY := v\<rparr>),
      field popByte (\<lambda>v h. h\<lparr>ProgramStructureBlock_sizeZ := v\<rparr>),
      field popVarInt (\<lambda>v h. h\<lparr>ProgramStructureBlock_mirror := v\<rparr>),
      field popVarInt (\<lambda>v h. h\<lparr>ProgramStructureBlock_rotation := v\<rparr>),
      field popString (\<lambda>v h. h\<lparr>ProgramStructureBlock_metadata := v\<rparr>),
      field popFloat (\<lambda>v h. h\<lparr>ProgramStructureBlock_integrity := v\<rparr>),
      field popVarLong (\<lambda>v h. h\<lparr>ProgramStructureBlock_seed := v\<rparr>),
      field popByte (\<lambda>v h. h\<lparr>ProgramStructureBlock_flags := v\<rparr>)] zero_ProgramStructureBlock buffer"

record UpdateSign =
  UpdateSign_location :: Position
  UpdateSign_line1 :: string
  UpdateSign_line2 :: string
  UpdateSign_line3 :: string
  UpdateSign_line4 :: string

definition zero_UpdateSign :: UpdateSign where
  "zero_UpdateSign = \<lparr>UpdateSign_location = \<lparr>pos_x = 0, pos_y = 0, pos_z = 0\<rparr>,
     UpdateSign_line1 = '''',
     UpdateSign_line2 = '''',
     UpdateSign_line3 = '''',
     UpdateSign_line4 = ''''\<rparr>"

definition parseUpdateSign :: "byte list \<Rightarrow> UpdateSign result" where
  "parseUpdateSign buffer = parse_packet [
      field popPosition (\<lambda>v h. h\<lparr>UpdateSign_location := v\<rparr>),
      field popString (\<lambda>v h. h\<lparr>UpdateSign_line1 := v\<rparr>),
      field popString (\<lambda>v h. h\<lparr>UpdateSign_line2 := v\<rparr>),
      field popString (\<lambda>v h. h\<lparr>UpdateSign_line3 := v\<rparr>),
      field popString (\<lambda>v h. h\<lparr>UpdateSign_line4 := v\<rparr>)] zero_UpdateSign buffer"

record SwingArm =
  SwingArm_hand :: i32

definition zero_SwingArm :: SwingArm where
  "zero_SwingArm = \<lparr>SwingArm_hand = 0\<rparr>"

definition parseSwingArm :: "byte list \<Rightarrow> SwingArm result" where
  "parseSwingArm buffer = parse_packet [
      field popVarInt (\<lambda>v h. h\<lparr>SwingArm_hand := v\<rparr>)] zero_SwingArm buffer"

record TeleportToEntity =
  TeleportToEntity_targetPlayer :: u128

definition zero_TeleportToEntity :: TeleportToEntity where
  "zero_TeleportToEntity = \<lparr>TeleportToEntity_targetPlayer = \<lparr>u128_most = 0, u128_least = 0\<rparr>\<rparr>"

definition parseTeleportToEntity :: "byte list \<Rightarrow> TeleportToEntity result" where
  "parseTeleportToEntity buffer = parse_packet [
      field popUUID (\<lambda>v h. h\<lparr>TeleportToEntity_targetPlayer := v\<rparr>)] zero_TeleportToEntity buffer"

record UseItemOn =
  UseItemOn_hand :: i32
  UseItemOn_location :: Position
  UseItemOn_face :: i32
  UseItemOn_cursorPositionX :: f32
  UseItemOn_cursorPositionY :: f32
  UseItemOn_cursorPositionZ :: f32
  UseItemOn_insideBlock :: bool
  UseItemOn_sequence :: i32

definition zero_UseItemOn :: UseItemOn where
  "zero_UseItemOn = \<lparr>UseItemOn_hand = 0,
     UseItemOn_location = \<lparr>pos_x = 0, pos_y = 0, pos_z = 0\<rparr>,
     UseItemOn_face = 0,
     UseItemOn_cursorPositionX = 0,
     UseItemOn_cursorPositionY = 0,
     UseItemOn_cursorPositionZ = 0,
     UseItemOn_insideBlock = False,
     UseItemOn_sequence = 0\<rparr>"

definition parseUseItemOn :: "byte list \<Rightarrow> UseItemOn result" where
  "parseUseItemOn buffer = parse_packet [
      field popVarInt (\<lambda>v h. h\<lparr>UseItemOn_hand := v\<rparr>),
      field popPosition (\<lambda>v h. h\<lparr>UseItemOn_location := v\<rparr>),
      field popVarInt (\<lambda>v h. h\<lparr>UseItemOn_face := v\<rparr>),
      field popFloat (\<lambda>v h. h\<lparr>UseItemOn_cursorPositionX := v\<rparr>),
      field popFloat (\<lambda>v h. h\<lparr>UseItemOn_cursorPositionY := v\<rparr>),
      field popFloat (\<lambda>v h. h\<lparr>UseItemOn_cursorPositionZ := v\<rparr>),
      field popBoolean (\<lambda>v h. h\<lparr>UseItemOn_insideBlock := v\<rparr>),
      field popVarInt (\<lambda>v h. h\<lparr>UseItemOn_sequence := v\<rparr>)] zero_UseItemOn buffer"

record UseItem =
  UseItem_hand :: i32
  UseItem_sequence :: i32

definition zero_UseItem :: UseItem where
  "zero_UseItem = \<lparr>UseItem_hand = 0,
     UseItem_sequence = 0\<rparr>"

definition parseUseItem :: "byte list \<Rightarrow> UseItem result" where
  "parseUseItem buffer = parse_packet [
      field popVarInt (\<lambda>v h. h\<lparr>UseItem_hand := v\<rparr>),
      field popVarInt (\<lambda>v h. h\<lparr>UseItem_sequence := v\<rparr>)] zero_UseItem buffer"

end
