(* ===== verification/Server_Dispatch.thy ===== *)
theory Server_Dispatch
  imports Server_Packets
begin

text \<open>
  The four tables of \<open>protocol/ServerPackets.hpp\<close> that send a packet identifier to its parse
  function, one per connection state, and what holds of every parser they can select.
\<close>

datatype (plugins only: code) server_packet =
    SP_Handshake Handshake
  | SP_PingRequest PingRequest
  | SP_LoginStart LoginStart
  | SP_EncryptionResponse EncryptionResponse
  | SP_ConfirmTeleportation ConfirmTeleportation
  | SP_QueryBlockEntityTag QueryBlockEntityTag
  | SP_ChangeDifficulty ChangeDifficulty
  | SP_MessageAcknowledgement MessageAcknowledgement
  | SP_ChatCommand ChatCommand
  | SP_ChatMessage ChatMessage
  | SP_ClientCommand ClientCommand
  | SP_ClientInformation ClientInformation
  | SP_CommandSuggestionRequest CommandSuggestionRequest
  | SP_ClickContainerButton ClickContainerButton
  | SP_ClickContainer ClickContainer
  | SP_CloseContainerRequest CloseContainerRequest
  | SP_PluginMessage PluginMessage
  | SP_EditBook EditBook
  | SP_QueryEntityTag QueryEntityTag
  | SP_Interact Interact
  | SP_JigsawGenerate JigsawGenerate
  | SP_KeepAliveResponse KeepAliveResponse
  | SP_LockDifficulty LockDifficulty
  | SP_SetPlayerPosition SetPlayerPosition
  | SP_SetPlayerPositionAndRotation SetPlayerPositionAndRotation
  | SP_SetPlayerRotation SetPlayerRotation
  | SP_SetPlayerOnGround SetPlayerOnGround
  | SP_MoveVehicle MoveVehicle
  | SP_PaddleBoat PaddleBoat
  | SP_PickItem PickItem
  | SP_PlaceRecipe PlaceRecipe
  | SP_PlayerAbilities PlayerAbilities
  | SP_PlayerAction PlayerAction
  | SP_PlayerCommand PlayerCommand
  | SP_PlayerInput PlayerInput
  | SP_Pong Pong
  | SP_PlayerSession PlayerSession
  | SP_ChangeRecipeBookSettings ChangeRecipeBookSettings
  | SP_SetSeenRecipe SetSeenRecipe
  | SP_RenameItem RenameItem
  | SP_ResourcePack ResourcePack
  | SP_SeenAdvancements SeenAdvancements
  | SP_SelectTrade SelectTrade
  | SP_SetBeaconEffect SetBeaconEffect
  | SP_SetHeldItem SetHeldItem
  | SP_ProgramCommandBlock ProgramCommandBlock
  | SP_ProgramCommandBlockMinecart ProgramCommandBlockMinecart
  | SP_SetCreativeModeSlot SetCreativeModeSlot
  | SP_ProgramJigsawBlock ProgramJigsawBlock
  | SP_ProgramStructureBlock ProgramStructureBlock
  | SP_UpdateSign UpdateSign
  | SP_SwingArm SwingArm
  | SP_TeleportToEntity TeleportToEntity
  | SP_UseItemOn UseItemOn
  | SP_UseItem UseItem

text \<open>\<open>std::function\<close> converts the typed pointer to one to the base class; \<open>parseStatusRequest\<close>
  returns \<open>{}\<close>, a null pointer, which is \<open>None\<close> here.\<close>

definition upcast :: "('h \<Rightarrow> server_packet) \<Rightarrow> (byte list \<Rightarrow> 'h result) \<Rightarrow> byte list \<Rightarrow> server_packet option result" where
  "upcast C f buffer = rbind (f buffer) (\<lambda>h. Inr (Some (C h)))"

definition parseStatusRequest :: "byte list \<Rightarrow> server_packet option result" where
  "parseStatusRequest buffer = Inr None"

type_synonym parser_table = "(i32 \<times> (byte list \<Rightarrow> server_packet option result)) list"

definition packetIDToParseInitial :: parser_table where
  "packetIDToParseInitial = [
     (0x00, upcast SP_Handshake parseHandshake)]"

definition packetIDToParseStatus :: parser_table where
  "packetIDToParseStatus = [
     (0x00, parseStatusRequest),
     (0x01, upcast SP_PingRequest parsePingRequest)]"

definition packetIDToParseLogin :: parser_table where
  "packetIDToParseLogin = [
     (0x00, upcast SP_LoginStart parseLoginStart),
     (0x01, upcast SP_EncryptionResponse parseEncryptionResponse)]"

definition packetIDToParsePlay :: parser_table where
  "packetIDToParsePlay = [
     (0x00, upcast SP_ConfirmTeleportation parseConfirmTeleportation),
     (0x01, upcast SP_QueryBlockEntityTag parseQueryBlockEntityTag),
     (0x02, upcast SP_ChangeDifficulty parseChangeDifficulty),
     (0x03, upcast SP_MessageAcknowledgement parseMessageAcknowledgement),
     (0x04, upcast SP_ChatCommand parseChatCommand),
     (0x05, upcast SP_ChatMessage parseChatMessage),
     (0x06, upcast SP_ClientCommand parseClientCommand),
     (0x07, upcast SP_ClientInformation parseClientInformation),
     (0x08, upcast SP_CommandSuggestionRequest parseCommandSuggestionRequest),
     (0x09, upcast SP_ClickContainerButton parseClickContainerButton),
     (0x0a, upcast SP_ClickContainer parseClickContainer),
     (0x0b, upcast SP_CloseContainerRequest parseCloseContainerRequest),
     (0x0c, upcast SP_PluginMessage parsePluginMessage),
     (0x0d, upcast SP_EditBook parseEditBook),
     (0x0e, upcast SP_QueryEntityTag parseQueryEntityTag),
     (0x0f, upcast SP_Interact parseInteract),
     (0x10, upcast SP_JigsawGenerate parseJigsawGenerate),
     (0x11, upcast SP_KeepAliveResponse parseKeepAliveResponse),
     (0x12, upcast SP_LockDifficulty parseLockDifficulty),
     (0x13, upcast SP_SetPlayerPosition parseSetPlayerPosition),
     (0x14, upcast SP_SetPlayerPositionAndRotation parseSetPlayerPositionAndRotation),
     (0x15, upcast SP_SetPlayerRotation parseSetPlayerRotation),
     (0x16, upcast SP_SetPlayerOnGround parseSetPlayerOnGround),
     (0x17, upcast SP_MoveVehicle parseMoveVehicle),
     (0x18, upcast SP_PaddleBoat parsePaddleBoat),
     (0x19, upcast SP_PickItem parsePickItem),
     (0x1a, upcast SP_PlaceRecipe parsePlaceRecipe),
     (0x1b, upcast SP_PlayerAbilities parsePlayerAbilities),
     (0x1c, upcast SP_PlayerAction parsePlayerAction),
     (0x1d, upcast SP_PlayerCommand parsePlayerCommand),
     (0x1e, upcast SP_PlayerInput parsePlayerInput),
     (0x1f, upcast SP_Pong parsePong),
     (0x20, upcast SP_PlayerSession parsePlayerSession),
     (0x21, upcast SP_ChangeRecipeBookSettings parseChangeRecipeBookSettings),
     (0x22, upcast SP_SetSeenRecipe parseSetSeenRecipe),
     (0x23, upcast SP_RenameItem parseRenameItem),
     (0x24, upcast SP_ResourcePack parseResourcePack),
     (0x25, upcast SP_SeenAdvancements parseSeenAdvancements),
     (0x26, upcast SP_SelectTrade parseSelectTrade),
     (0x27, upcast SP_SetBeaconEffect parseSetBeaconEffect),
     (0x28, upcast SP_SetHeldItem parseSetHeldItem),
     (0x29, upcast SP_ProgramCommandBlock parseProgramCommandBlock),
     (0x2a, upcast SP_ProgramCommandBlockMinecart parseProgramCommandBlockMinecart),
     (0x2b, upcast SP_SetCreativeModeSlot parseSetCreativeModeSlot),
     (0x2c, upcast SP_ProgramJigsawBlock parseProgramJigsawBlock),
     (0x2d, upcast SP_ProgramStructureBlock parseProgramStructureBlock),
     (0x2e, upcast SP_UpdateSign parseUpdateSign),
     (0x2f, upcast SP_SwingArm parseSwingArm),
     (0x30, upcast SP_TeleportToEntity parseTeleportToEntity),
     (0x31, upcast SP_UseItemOn parseUseItemOn),
     (0x32, upcast SP_UseItem parseUseItem)]"

section \<open>Every parser reads inside its buffer\<close>

lemma robust_upcast: "robust f \<Longrightarrow> robust (upcast C f)"
  by (auto simp: robust_def upcast_def rbind_iffs)

lemma robust_parseStatusRequest: "robust parseStatusRequest"
  by (simp add: robust_def parseStatusRequest_def)

lemmas server_parser_defs =
  parseHandshake_def parsePingRequest_def parseLoginStart_def parseEncryptionResponse_def
  parseConfirmTeleportation_def parseQueryBlockEntityTag_def parseChangeDifficulty_def
  parseMessageAcknowledgement_def parseChatCommand_def parseChatMessage_def
  parseClientCommand_def parseClientInformation_def parseCommandSuggestionRequest_def
  parseClickContainerButton_def parseClickContainer_def parseCloseContainerRequest_def
  parsePluginMessage_def parseEditBook_def parseQueryEntityTag_def parseInteract_def
  parseJigsawGenerate_def parseKeepAliveResponse_def parseLockDifficulty_def
  parseSetPlayerPosition_def parseSetPlayerPositionAndRotation_def parseSetPlayerRotation_def
  parseSetPlayerOnGround_def parseMoveVehicle_def parsePaddleBoat_def parsePickItem_def
  parsePlaceRecipe_def parsePlayerAbilities_def parsePlayerAction_def parsePlayerCommand_def
  parsePlayerInput_def parsePong_def parsePlayerSession_def parseChangeRecipeBookSettings_def
  parseSetSeenRecipe_def parseRenameItem_def parseResourcePack_def parseSeenAdvancements_def
  parseSelectTrade_def parseSetBeaconEffect_def parseSetHeldItem_def
  parseProgramCommandBlock_def parseProgramCommandBlockMinecart_def
  parseSetCreativeModeSlot_def parseProgramJigsawBlock_def parseProgramStructureBlock_def
  parseUpdateSign_def parseSwingArm_def parseTeleportToEntity_def parseUseItemOn_def
  parseUseItem_def

lemmas robust_rules = robust_upcast robust_parseStatusRequest robust_parse_packet
  reads_field reads_assign reads_parse_if wire_readers

definition all_tables :: parser_table where
  "all_tables = packetIDToParseInitial @ packetIDToParseStatus @ packetIDToParseLogin @ packetIDToParsePlay"

lemma tables_robust:
  "list_all (\<lambda>(packetId, f). robust f) all_tables"
  by (simp add: all_tables_def packetIDToParseInitial_def packetIDToParseStatus_def
      packetIDToParseLogin_def packetIDToParsePlay_def server_parser_defs [abs_def] robust_rules)


lemma map_of_consecutive:
  assumes "map fst (xs :: (i32 \<times> 'b) list) = map of_nat [0..<n]" and "n < 2 ^ 32"
  shows "map_of xs i = None \<longleftrightarrow> n \<le> unat i"
proof -
  have "fst ` set xs = set (map of_nat [0..<n])" by (simp flip: assms(1))
  then have "map_of xs i = None \<longleftrightarrow> i \<notin> of_nat ` {0..<n}" by (simp add: map_of_eq_None_iff)
  moreover have "i \<in> of_nat ` {0..<n} \<longleftrightarrow> unat i < n"
    using assms(2) by (auto simp: unat_of_nat intro!: image_eqI [of _ _ "unat i"])
  ultimately show ?thesis by auto
qed

text \<open>Each table covers a gap-free range of identifiers starting at 0, up to 0x32 in the play
  state, and has no other entry.\<close>

theorem parser_tables_complete:
  "(map_of packetIDToParseInitial i = None \<longleftrightarrow> 1 \<le> unat i)
   \<and> (map_of packetIDToParseStatus i = None \<longleftrightarrow> 2 \<le> unat i)
   \<and> (map_of packetIDToParseLogin i = None \<longleftrightarrow> 2 \<le> unat i)
   \<and> (map_of packetIDToParsePlay i = None \<longleftrightarrow> 0x33 \<le> unat i)"
proof (intro conjI)
  show "map_of packetIDToParseInitial i = None \<longleftrightarrow> 1 \<le> unat i"
    by (rule map_of_consecutive) (simp_all add: packetIDToParseInitial_def)
  show "map_of packetIDToParseStatus i = None \<longleftrightarrow> 2 \<le> unat i"
    by (rule map_of_consecutive) (simp_all add: packetIDToParseStatus_def upt_rec)
  show "map_of packetIDToParseLogin i = None \<longleftrightarrow> 2 \<le> unat i"
    by (rule map_of_consecutive) (simp_all add: packetIDToParseLogin_def upt_rec)
  show "map_of packetIDToParsePlay i = None \<longleftrightarrow> 0x33 \<le> unat i"
    by (rule map_of_consecutive) (simp_all add: packetIDToParsePlay_def upt_rec)
qed

end
