(* ===== verification/Server_Roundtrip.thy ===== *)
theory Server_Roundtrip
  imports Server_Packets
begin

text \<open>
  The parse functions of \<open>ServerPackets.cpp\<close> read back packets laid out by the field serializers of
  \<open>addPrimaryType.hpp\<close> in the order of the protocol.
\<close>

lemmas wire_inverses =
  cd_byte.inverse_field [OF TrueI] cd_short.inverse_field [OF TrueI] cd_int.inverse_field [OF TrueI]
  cd_long.inverse_field [OF TrueI] cd_varint.inverse_field [OF TrueI]
  cd_varlong.inverse_field [OF TrueI] cd_float.inverse_field [OF TrueI]
  cd_double.inverse_field [OF TrueI] cd_boolean.inverse_field [OF TrueI]
  cd_uuid.inverse_field [OF TrueI] cd_string.inverse_field cd_slot.inverse_field
  cd_position.inverse_field cd_bytes.inverse_field cd_strings.inverse_field inverse_Nil

text \<open>\<open>parseHandshake\<close> returns the fields a handshake was written with, in the order of the
  protocol, whatever follows in the buffer.\<close>

theorem parseHandshake_written:
  assumes "length addr \<le> MAX_STRING_SIZE"
  shows "\<exists>out. serialize_all [put (nothrow addVarInt) version, put addString addr,
        put (nothrow addShort) port, put (nothrow addVarInt) state] [] = Inr out
      \<and> (\<forall>rest. parseHandshake (out @ rest) = Inr \<lparr>Handshake_protVersion = version,
           Handshake_addr = addr, Handshake_port = port, Handshake_nextState = state\<rparr>)"
  unfolding parseHandshake_def
  by (intro parse_packet_inverse)
    (use assms in \<open>simp add: wire_inverses zero_Handshake_def\<close>)

theorem parseHandshake_written_witness:
  "\<exists>out. serialize_all [put (nothrow addVarInt) 761, put addString ''localhost'',
        put (nothrow addShort) 25565, put (nothrow addVarInt) 2] [] = Inr out
      \<and> (\<forall>rest. parseHandshake (out @ rest) = Inr \<lparr>Handshake_protVersion = 761,
           Handshake_addr = ''localhost'', Handshake_port = 25565, Handshake_nextState = 2\<rparr>)"
  by (rule parseHandshake_written) (simp add: MAX_STRING_SIZE_def)

text \<open>\<open>parseLoginStart\<close> returns the name and, exactly when the flag is set, the UUID; without the
  flag the UUID stays zero.\<close>

theorem parseLoginStart_written:
  assumes "length name \<le> MAX_STRING_SIZE"
  shows "\<exists>out. serialize_all ([put addString name, put (nothrow addBoolean) has] @
        (if has then [put (nothrow addUUID) uuid] else [])) [] = Inr out
      \<and> (\<forall>rest. parseLoginStart (out @ rest) = Inr \<lparr>LoginStart_name = name,
           LoginStart_hasPlayerUuid = has,
           LoginStart_playerUuid = (if has then uuid else \<lparr>u128_most = 0, u128_least = 0\<rparr>)\<rparr>)"
  unfolding parseLoginStart_def
  by (intro parse_packet_inverse)
    (use assms in \<open>simp add: wire_inverses inverse_skip inverse_enter zero_LoginStart_def\<close>)

theorem parseLoginStart_written_witness:
  "\<exists>out. serialize_all ([put addString ''Steve'', put (nothrow addBoolean) True] @
        (if True then [put (nothrow addUUID) \<lparr>u128_most = 1, u128_least = 2\<rparr>] else [])) [] = Inr out
      \<and> (\<forall>rest. parseLoginStart (out @ rest) = Inr \<lparr>LoginStart_name = ''Steve'',
           LoginStart_hasPlayerUuid = True,
           LoginStart_playerUuid = (if True then \<lparr>u128_most = 1, u128_least = 2\<rparr>
             else \<lparr>u128_most = 0, u128_least = 0\<rparr>)\<rparr>)"
  by (rule parseLoginStart_written) (simp add: MAX_STRING_SIZE_def)

text \<open>\<open>parseInteract\<close> reads the target only for \<open>InteractAt\<close> and the hand for every type but
  \<open>Attack\<close>, and returns the fields that were written.\<close>

theorem parseInteract_written:
  shows "\<exists>out. serialize_all ([put (nothrow addVarInt) entity, put (nothrow addVarInt) type] @
        (if type = Interact_Type_InteractAt then
           [put (nothrow addFloat) x, put (nothrow addFloat) y, put (nothrow addFloat) z] else []) @
        (if type \<noteq> Interact_Type_Attack then [put (nothrow addVarInt) hand] else []) @
        [put (nothrow addBoolean) sneaking]) [] = Inr out
      \<and> (\<forall>rest. parseInteract (out @ rest) = Inr \<lparr>Interact_entityId = entity, Interact_type = type,
           Interact_targetX = (if type = Interact_Type_InteractAt then x else 0),
           Interact_targetY = (if type = Interact_Type_InteractAt then y else 0),
           Interact_targetZ = (if type = Interact_Type_InteractAt then z else 0),
           Interact_hand = (if type \<noteq> Interact_Type_Attack then hand else 0),
           Interact_sneaking = sneaking\<rparr>)"
proof -
  have "Interact_Type_InteractAt \<noteq> Interact_Type_Attack"
    by (simp add: Interact_Type_InteractAt_def Interact_Type_Attack_def)
  then show ?thesis
    unfolding parseInteract_def
    by (intro parse_packet_inverse)
      (simp add: wire_inverses inverse_skip inverse_enter zero_Interact_def)
qed

text \<open>\<open>parseUseItemOn\<close> returns the fields it was written with, the packed block position
  included.\<close>

theorem parseUseItemOn_written:
  assumes "valid_position location"
  shows "\<exists>out. serialize_all [put (nothrow addVarInt) hand, put (nothrow addPosition) location,
        put (nothrow addVarInt) face, put (nothrow addFloat) x, put (nothrow addFloat) y,
        put (nothrow addFloat) z, put (nothrow addBoolean) inside, put (nothrow addVarInt) sequence] []
        = Inr out
      \<and> (\<forall>rest. parseUseItemOn (out @ rest) = Inr \<lparr>UseItemOn_hand = hand,
           UseItemOn_location = location, UseItemOn_face = face, UseItemOn_cursorPositionX = x,
           UseItemOn_cursorPositionY = y, UseItemOn_cursorPositionZ = z,
           UseItemOn_insideBlock = inside, UseItemOn_sequence = sequence\<rparr>)"
  unfolding parseUseItemOn_def
  by (intro parse_packet_inverse)
    (use assms in \<open>simp add: wire_inverses zero_UseItemOn_def\<close>)

theorem parseUseItemOn_written_witness:
  "\<exists>out. serialize_all [put (nothrow addVarInt) 0, put (nothrow addPosition) \<lparr>pos_x = -5, pos_y = 70, pos_z = 3\<rparr>,
        put (nothrow addVarInt) 1, put (nothrow addFloat) 0, put (nothrow addFloat) 0,
        put (nothrow addFloat) 0, put (nothrow addBoolean) False, put (nothrow addVarInt) 9] []
        = Inr out
      \<and> (\<forall>rest. parseUseItemOn (out @ rest) = Inr \<lparr>UseItemOn_hand = 0,
           UseItemOn_location = \<lparr>pos_x = -5, pos_y = 70, pos_z = 3\<rparr>, UseItemOn_face = 1,
           UseItemOn_cursorPositionX = 0, UseItemOn_cursorPositionY = 0, UseItemOn_cursorPositionZ = 0,
           UseItemOn_insideBlock = False, UseItemOn_sequence = 9\<rparr>)"
  by (rule parseUseItemOn_written) (simp add: valid_position_def signed_take_bit_eq_if_negative)

text \<open>\<open>parseSetCreativeModeSlot\<close> returns the slot number and the item.\<close>

theorem parseSetCreativeModeSlot_written:
  assumes "valid_slot item"
  shows "\<exists>out. serialize_all [put (nothrow addShort) slot, put (nothrow addSlot) item] [] = Inr out
      \<and> (\<forall>rest. parseSetCreativeModeSlot (out @ rest) = Inr \<lparr>SetCreativeModeSlot_slot = slot,
           SetCreativeModeSlot_clickedItem = item\<rparr>)"
  unfolding parseSetCreativeModeSlot_def
  by (intro parse_packet_inverse)
    (use assms in \<open>simp add: wire_inverses zero_SetCreativeModeSlot_def\<close>)

theorem parseSetCreativeModeSlot_written_witness:
  "\<exists>out. serialize_all [put (nothrow addShort) 36,
        put (nothrow addSlot) \<lparr>present = True, itemID = 1, itemCount = 64\<rparr>] [] = Inr out
      \<and> (\<forall>rest. parseSetCreativeModeSlot (out @ rest) = Inr \<lparr>SetCreativeModeSlot_slot = 36,
           SetCreativeModeSlot_clickedItem = \<lparr>present = True, itemID = 1, itemCount = 64\<rparr>\<rparr>)"
  by (rule parseSetCreativeModeSlot_written) (simp add: valid_slot_def)

definition keeps :: "('h \<Rightarrow> 'v) \<Rightarrow> 'h step \<Rightarrow> bool" where
  "keeps f p \<longleftrightarrow> (\<forall>h b eof at h' at'. p h b eof at = Inr (h', at') \<longrightarrow> f h' = f h)"

lemma keeps_field: "(\<And>v h. f (store v h) = f h) \<Longrightarrow> keeps f (field parser store)"
  by (auto simp: keeps_def field_def rbind_Inr_iff)

lemma parse_keeps:
  assumes "parse ps h b eof at = Inr (h', at')" and "list_all (keeps f) ps"
  shows "f h' = f h"
  using assms
proof (induction ps arbitrary: h at)
  case (Cons p ps)
  from Cons.prems(1) obtain h1 at1 where p: "p h b eof at = Inr (h1, at1)"
      and ps: "parse ps h1 b eof at1 = Inr (h', at')"
    by (auto simp: rbind_Inr_iff)
  from Cons.prems(2) p have "f h1 = f h" unfolding keeps_def list.pred_inject by blast
  with Cons.IH [OF ps] Cons.prems(2) show ?case by simp
qed simp

lemma keeps_parse_if: "list_all (keeps f) ps \<Longrightarrow> keeps f (parse_if c ps)"
  by (auto simp: keeps_def [of f "parse_if c ps"] parse_if_def dest: parse_keeps split: if_splits)

lemma parse_packet_keeps:
  "parse_packet ps zero b = Inr h \<Longrightarrow> list_all (keeps f) ps \<Longrightarrow> f h = f zero"
  by (auto simp: parse_packet_def rbind_Inr_iff dest: parse_keeps)

text \<open>Two structs have a field their parser never reads: whatever the buffer, an accepted chat
  message has \<open>messageCount = 0\<close> and an accepted structure-block packet an empty \<open>name\<close>.\<close>

theorem parsed_unread_fields:
  "(\<forall>b h. parseChatMessage b = Inr h \<longrightarrow> ChatMessage_messageCount h = 0) \<and>
   (\<forall>b h. parseProgramStructureBlock b = Inr h \<longrightarrow> ProgramStructureBlock_name h = '''')"
proof (intro conjI allI impI)
  fix b h assume "parseChatMessage b = Inr h"
  then show "ChatMessage_messageCount h = 0"
    using parse_packet_keeps [of _ zero_ChatMessage b h ChatMessage_messageCount]
    by (simp add: parseChatMessage_def keeps_field keeps_parse_if zero_ChatMessage_def)
next
  fix b h assume "parseProgramStructureBlock b = Inr h"
  then show "ProgramStructureBlock_name h = ''''"
    using parse_packet_keeps [of _ zero_ProgramStructureBlock b h ProgramStructureBlock_name]
    by (simp add: parseProgramStructureBlock_def keeps_field zero_ProgramStructureBlock_def)
qed

lemma parseProgramStructureBlock_example:
  "\<exists>h. parseProgramStructureBlock (replicate 8 0 @ [0, 0, 0, 0, 0, 0, 0, 0, 0, 0, 0, 0, 0, 0, 0, 0, 0]) = Inr h"
proof -
  have "case parseProgramStructureBlock (replicate 8 0 @ [0, 0, 0, 0, 0, 0, 0, 0, 0, 0, 0, 0, 0, 0, 0, 0, 0]) of
      Inl e \<Rightarrow> False | Inr h \<Rightarrow> True"
    by code_simp
  then show ?thesis by (simp split: sum.splits)
qed

theorem parsed_unread_fields_witness:
  "\<exists>h. parseProgramStructureBlock (replicate 8 0 @ [0, 0, 0, 0, 0, 0, 0, 0, 0, 0, 0, 0, 0, 0, 0, 0, 0]) = Inr h
     \<and> ProgramStructureBlock_name h = ''''"
  using parsed_unread_fields parseProgramStructureBlock_example by blast

end
