(* ===== verification/Dynamic_Storage.thy ===== *)
theory Dynamic_Storage
  imports Cubic_Prelude
begin

text \<open>
  \<open>world_storage/DynamicStorage.hpp\<close>: an array of \<open>ArraySize\<close> unsigned entries of \<open>valueSize\<close> bits
  packed into words of type \<open>StoreType\<close>, no entry spanning two words. The word type is the type
  variable \<open>'a\<close>, the template argument \<open>ArraySize\<close> the argument \<open>N\<close>. The class refines a plain
  array: locale \<open>packed_array\<close> states that contract.
\<close>

section \<open>The class\<close>

record (overloaded) 'a DynamicStorage =
  ds_store :: "'a::len word list"
  ds_valueSize :: nat

definition newDynamicStorage :: "nat \<Rightarrow> nat \<Rightarrow> 'a::len DynamicStorage result" where
  "newDynamicStorage N valueSize =
     (if valueSize > LENGTH('a) then Inl LogicError
      else if valueSize = 0 then Inr \<lparr>ds_store = [], ds_valueSize = 0\<rparr>
      else let n = LENGTH('a) div valueSize in
        Inr \<lparr>ds_store = replicate (N div n + (if N mod n \<noteq> 0 then 1 else 0)) 0,
             ds_valueSize = valueSize\<rparr>)"

text \<open>
  \<open>(1 << _valueSize) - 1\<close> is \<open>int\<close> arithmetic whatever the store type: a shift by 32 or more is
  undefined and so is the subtraction from \<open>1 << 31\<close>.
\<close>

definition value_mask :: "nat \<Rightarrow> nat result" where
  "value_mask valueSize =
     (if valueSize \<ge> 32 then Inl (UB InvalidShift)
      else if valueSize = 31 then Inl (UB SignedOverflow)
      else Inr (2 ^ valueSize - 1))"

definition ds_set :: "nat \<Rightarrow> 'a::len DynamicStorage \<Rightarrow> nat \<Rightarrow> 'a word \<Rightarrow> 'a DynamicStorage result" where
  "ds_set N s idx value =
     (if ds_valueSize s = 0 then Inr s
      else if idx \<ge> N then Inl StdOutOfRange
      else rbind (value_mask (ds_valueSize s)) (\<lambda>m.
        if unat value > m then Inl StdOutOfRange
        else let n = LENGTH('a) div ds_valueSize s;
                 entryNumber = idx div n;
                 startOffset = (idx mod n) * ds_valueSize s;
                 mask = (of_nat m :: 'a word);
                 value = value AND mask
             in if entryNumber \<ge> length (ds_store s) then Inl StdOutOfRange
                else Inr (s\<lparr>ds_store := (ds_store s)[entryNumber :=
                       (ds_store s ! entryNumber AND NOT (push_bit startOffset mask))
                       OR push_bit startOffset value]\<rparr>)))"

definition ds_get :: "nat \<Rightarrow> 'a::len DynamicStorage \<Rightarrow> nat \<Rightarrow> 'a word result" where
  "ds_get N s idx =
     (if ds_valueSize s = 0 then Inl EmptyStorageAccess
      else if idx \<ge> N then Inl StdOutOfRange
      else let valuePerEntry = LENGTH('a) div ds_valueSize s;
               entryNumber = idx div valuePerEntry;
               startOffset = (idx mod valuePerEntry) * ds_valueSize s
           in rbind (value_mask (ds_valueSize s)) (\<lambda>m.
             if entryNumber \<ge> length (ds_store s) then Inl StdOutOfRange
             else Inr (drop_bit startOffset (ds_store s ! entryNumber) AND of_nat m)))"

text \<open>The loop of \<open>setValueSize\<close>: copy every entry into the new storage, from index \<open>i\<close> on.\<close>

fun ds_copy :: "nat \<Rightarrow> 'a::len DynamicStorage \<Rightarrow> nat list \<Rightarrow> 'a DynamicStorage \<Rightarrow> 'a DynamicStorage result" where
  "ds_copy N s [] newStore = Inr newStore"
| "ds_copy N s (i # is) newStore =
     rbind (ds_get N s i) (\<lambda>v. rbind (ds_set N newStore i v) (\<lambda>newStore. ds_copy N s is newStore))"

definition setValueSize :: "nat \<Rightarrow> 'a::len DynamicStorage \<Rightarrow> nat \<Rightarrow> 'a DynamicStorage result" where
  "setValueSize N s valueSize =
     (if valueSize = ds_valueSize s then Inr s
      else if valueSize > LENGTH('a) then Inl RuntimeError
      else if valueSize = 0 then Inr \<lparr>ds_store = [], ds_valueSize = 0\<rparr>
      else rbind (newDynamicStorage N valueSize) (\<lambda>newStore.
        if ds_valueSize s = 0 then Inr newStore
        else ds_copy N s [0..<N] newStore))"

definition canContainData :: "'a::len DynamicStorage \<Rightarrow> bool" where
  "canContainData s \<longleftrightarrow> ds_valueSize s \<noteq> 0"

section \<open>Invariant\<close>

text \<open>
  The storage is empty and has width 0, or has a width the arithmetic supports and exactly the words
  its constructor allocates.
\<close>

definition wf_ds :: "nat \<Rightarrow> 'a::len DynamicStorage \<Rightarrow> bool" where
  "wf_ds N s \<longleftrightarrow>
     (if ds_valueSize s = 0 then ds_store s = []
      else ds_valueSize s \<le> 30 \<and> ds_valueSize s \<le> LENGTH('a) \<and>
        N \<le> length (ds_store s) * (LENGTH('a) div ds_valueSize s))"

lemma mask_of_nat: "(of_nat (2 ^ w - Suc 0) :: 'a::len word) = mask w"
  by (metis One_nat_def mask_eq_exp_minus_1 of_nat_mask_eq)

lemma small_AND_mask:
  fixes v :: "'a::len word"
  assumes "unat v < 2 ^ w"
  shows "v AND mask w = v"
proof -
  have "take_bit w (unat v) = unat v" using assms by (simp add: take_bit_nat_eq_self)
  then have "take_bit w v = v" by (metis unsigned_take_bit_eq word_unat_eq_iff)
  then show ?thesis by (simp add: take_bit_eq_mask)
qed

lemma unat_AND_mask:
  fixes v :: "'a::len word"
  shows "unat (v AND mask w) < 2 ^ w"
proof -
  have "unat (v AND mask w) = take_bit w (unat v)"
    by (simp add: unsigned_take_bit_eq flip: take_bit_eq_mask)
  then show ?thesis by simp
qed

definition get_field :: "nat \<Rightarrow> nat \<Rightarrow> 'a::len word \<Rightarrow> 'a word" where
  "get_field off w x = drop_bit off x AND mask w"

definition put_field :: "nat \<Rightarrow> nat \<Rightarrow> 'a::len word \<Rightarrow> 'a word \<Rightarrow> 'a word" where
  "put_field off w v x = (x AND NOT (push_bit off (mask w))) OR push_bit off (v AND mask w)"

lemma field_same:
  fixes x :: "'a::len word"
  assumes "off + w \<le> LENGTH('a)" and "unat v < 2 ^ w"
  shows "get_field off w (put_field off w v x) = v"
proof -
  have "get_field off w (put_field off w v x) = v AND mask w"
    using assms(1) unfolding get_field_def put_field_def
    by (intro bit_word_eqI) (auto simp: bit_simps)
  then show ?thesis by (simp add: small_AND_mask [OF assms(2)])
qed

lemma field_other:
  fixes x :: "'a::len word"
  assumes "off' + w \<le> off \<or> off + w \<le> off'"
  shows "get_field off' w (put_field off w v x) = get_field off' w x"
  using assms unfolding get_field_def put_field_def
  by (intro bit_word_eqI) (auto simp: bit_simps dest: bit_imp_le_length)

lemma get_field_bound: "unat (get_field off w x) < 2 ^ w"
  by (simp add: get_field_def unat_AND_mask)

text \<open>Two different entries of one word do not overlap.\<close>

lemma offsets_disjoint:
  fixes i j n w :: nat
  assumes "i div n = j div n" and "i \<noteq> j"
  shows "(j mod n) * w + w \<le> (i mod n) * w \<or> (i mod n) * w + w \<le> (j mod n) * w"
proof -
  have "i mod n \<noteq> j mod n" using assms by (metis div_mult_mod_eq)
  then consider "Suc (j mod n) \<le> i mod n" | "Suc (i mod n) \<le> j mod n" by linarith
  then show ?thesis
  proof cases
    case 1
    from mult_le_mono1 [OF this, of w] show ?thesis by simp
  next
    case 2
    from mult_le_mono1 [OF this, of w] show ?thesis by simp
  qed
qed

lemma offset_fits:
  fixes i w L :: nat
  assumes "0 < w" "w \<le> L"
  shows "(i mod (L div w)) * w + w \<le> L"
proof -
  have "0 < L div w" using assms by (simp add: div_greater_zero_iff)
  then have "Suc (i mod (L div w)) \<le> L div w" by (simp add: Suc_leI)
  then have "Suc (i mod (L div w)) * w \<le> (L div w) * w" by (rule mult_le_mono1)
  also have "\<dots> \<le> L" by simp
  finally show ?thesis by simp
qed

lemma entry_in_store:
  assumes "wf_ds N (s :: 'a::len DynamicStorage)" "ds_valueSize s \<noteq> 0" "i < N"
  shows "i div (LENGTH('a) div ds_valueSize s) < length (ds_store s)"
  using assms by (simp add: wf_ds_def less_mult_imp_div_less)

section \<open>The operations on well-formed storages\<close>

lemma value_mask_ok: "w \<le> 30 \<Longrightarrow> value_mask w = Inr (2 ^ w - 1)"
  by (simp add: value_mask_def)

lemma wf_dsD:
  assumes "wf_ds N (s :: 'a::len DynamicStorage)" "ds_valueSize s \<noteq> 0"
  shows "ds_valueSize s \<le> 30" "ds_valueSize s \<le> LENGTH('a)"
  using assms by (simp_all add: wf_ds_def)

lemma ds_get_eq:
  fixes s :: "'a::len DynamicStorage"
  assumes "wf_ds N s" "ds_valueSize s \<noteq> 0" "i < N"
  shows "ds_get N s i = Inr (get_field ((i mod (LENGTH('a) div ds_valueSize s)) * ds_valueSize s)
    (ds_valueSize s) (ds_store s ! (i div (LENGTH('a) div ds_valueSize s))))"
  using assms entry_in_store [OF assms] wf_dsD [OF assms(1,2)]
  by (simp add: ds_get_def value_mask_ok Let_def mask_of_nat get_field_def del: of_nat_diff)

lemma ds_set_eq:
  fixes s :: "'a::len DynamicStorage"
  assumes "wf_ds N s" "ds_valueSize s \<noteq> 0" "i < N" "unat v < 2 ^ ds_valueSize s"
  shows "ds_set N s i v = Inr (s\<lparr>ds_store := (ds_store s)[i div (LENGTH('a) div ds_valueSize s) :=
      put_field ((i mod (LENGTH('a) div ds_valueSize s)) * ds_valueSize s) (ds_valueSize s) v
        (ds_store s ! (i div (LENGTH('a) div ds_valueSize s)))]\<rparr>)"
proof -
  have "\<not> unat v > 2 ^ ds_valueSize s - 1" using assms(4) by linarith
  then show ?thesis
    using assms entry_in_store [OF assms(1-3)] wf_dsD [OF assms(1,2)]
    by (simp add: ds_set_def value_mask_ok Let_def mask_of_nat put_field_def del: of_nat_diff)
qed

section \<open>The contract of a packed array\<close>

text \<open>
  What \<open>Section\<close> relies on: on a storage of non-zero width every index below \<open>N\<close> can be read, a
  value of that width can be written, reads back at its index and leaves every other entry alone.
  \<open>entries\<close> is the plain array the storage stands for.
\<close>

locale packed_array =
  fixes N :: nat
    and get :: "'s \<Rightarrow> nat \<Rightarrow> 'v::len word result"
    and set :: "'s \<Rightarrow> nat \<Rightarrow> 'v word \<Rightarrow> 's result"
    and invar :: "'s \<Rightarrow> bool"
    and width :: "'s \<Rightarrow> nat"
  assumes get_total: "invar s \<Longrightarrow> width s \<noteq> 0 \<Longrightarrow> i < N \<Longrightarrow>
      \<exists>v. get s i = Inr v \<and> unat v < 2 ^ width s"
    and set_total: "invar s \<Longrightarrow> width s \<noteq> 0 \<Longrightarrow> i < N \<Longrightarrow> unat v < 2 ^ width s \<Longrightarrow>
      \<exists>s'. set s i v = Inr s' \<and> invar s' \<and> width s' = width s"
    and get_set: "invar s \<Longrightarrow> width s \<noteq> 0 \<Longrightarrow> i < N \<Longrightarrow> j < N \<Longrightarrow> unat v < 2 ^ width s \<Longrightarrow>
      set s i v = Inr s' \<Longrightarrow> get s' j = (if j = i then Inr v else get s j)"
begin

definition entry :: "'s \<Rightarrow> nat \<Rightarrow> 'v word" where
  "entry s i = (case get s i of Inl e \<Rightarrow> 0 | Inr v \<Rightarrow> v)"

definition entries :: "'s \<Rightarrow> 'v word list" where
  "entries s = map (entry s) [0..<N]"

lemma get_entry: "invar s \<Longrightarrow> width s \<noteq> 0 \<Longrightarrow> i < N \<Longrightarrow> get s i = Inr (entry s i)"
  using get_total [of s i] by (auto simp: entry_def)

lemma entry_bound: "invar s \<Longrightarrow> width s \<noteq> 0 \<Longrightarrow> i < N \<Longrightarrow> unat (entry s i) < 2 ^ width s"
  using get_total [of s i] by (auto simp: entry_def)

lemma entries_nth: "i < N \<Longrightarrow> entries s ! i = entry s i"
  by (simp add: entries_def)

lemma entry_set:
  assumes "invar s" "width s \<noteq> 0" "i < N" "j < N" "unat v < 2 ^ width s" "set s i v = Inr s'"
  shows "entry s' j = (if j = i then v else entry s j)"
  using get_set [OF assms] by (simp add: entry_def)

text \<open>The refinement: writing the storage is updating the array.\<close>

lemma entries_set:
  assumes "invar s" "width s \<noteq> 0" "i < N" "unat v < 2 ^ width s"
  shows "\<exists>s'. set s i v = Inr s' \<and> invar s' \<and> width s' = width s \<and> entries s' = (entries s)[i := v]"
proof -
  obtain s' where s': "set s i v = Inr s'" "invar s'" "width s' = width s"
    using set_total [OF assms] by blast
  moreover have "entries s' = (entries s)[i := v]"
    by (rule nth_equalityI)
      (auto simp: entries_def nth_list_update entry_set [OF assms(1-3) _ assms(4) s'(1)])
  ultimately show ?thesis by blast
qed

end

lemma ds_set_total:
  fixes s :: "'a::len DynamicStorage"
  assumes "wf_ds N s" "ds_valueSize s \<noteq> 0" "i < N" "unat v < 2 ^ ds_valueSize s"
  shows "\<exists>s'. ds_set N s i v = Inr s' \<and> wf_ds N s' \<and> ds_valueSize s' = ds_valueSize s"
  using assms(1) by (simp add: ds_set_eq [OF assms] wf_ds_def)

lemma ds_get_set:
  fixes s :: "'a::len DynamicStorage"
  assumes "wf_ds N s" "ds_valueSize s \<noteq> 0" "i < N" "j < N" "unat v < 2 ^ ds_valueSize s"
    and "ds_set N s i v = Inr s'"
  shows "ds_get N s' j = (if j = i then Inr v else ds_get N s j)"
proof -
  let ?w = "ds_valueSize s" and ?n = "LENGTH('a) div ds_valueSize s"
  have s': "s' = s\<lparr>ds_store := (ds_store s)[i div ?n :=
      put_field ((i mod ?n) * ?w) ?w v (ds_store s ! (i div ?n))]\<rparr>"
    using assms(6) ds_set_eq [OF assms(1-3,5)] by simp
  have wf: "wf_ds N s'" "ds_valueSize s' \<noteq> 0"
    using assms(1,2) by (simp_all add: s' wf_ds_def)
  have ent: "i div ?n < length (ds_store s)" "j div ?n < length (ds_store s)"
    using entry_in_store [OF assms(1,2)] assms(3,4) by auto
  have fit: "(j mod ?n) * ?w + ?w \<le> LENGTH('a)"
    using offset_fits [of ?w] wf_dsD [OF assms(1,2)] assms(2) by simp
  note g' = ds_get_eq [OF wf assms(4)] and g = ds_get_eq [OF assms(1,2,4)]
  show ?thesis
  proof (cases "j = i")
    case True
    then show ?thesis using ent g' field_same [OF fit assms(5)] by (simp add: s')
  next
    case False
    show ?thesis
    proof (cases "j div ?n = i div ?n")
      case True
      with False have "(j mod ?n) * ?w + ?w \<le> (i mod ?n) * ?w \<or> (i mod ?n) * ?w + ?w \<le> (j mod ?n) * ?w"
        using offsets_disjoint [of i ?n j ?w] by simp
      from field_other [OF this] show ?thesis
        using True False ent g g' by (simp add: s')
    next
      case neq: False
      then show ?thesis using False g g' by (simp add: s')
    qed
  qed
qed

interpretation ds: packed_array N "ds_get N" "ds_set N" "wf_ds N" ds_valueSize
  for N
proof
  fix s :: "'a::len DynamicStorage" and i
  assume "wf_ds N s" "ds_valueSize s \<noteq> 0" "i < N"
  from ds_get_eq [OF this] show "\<exists>v. ds_get N s i = Inr v \<and> unat v < 2 ^ ds_valueSize s"
    by (simp add: get_field_bound)
qed (rule ds_set_total ds_get_set; assumption)+

section \<open>Construction and resizing\<close>

abbreviation ds_entry :: "nat \<Rightarrow> 'a::len DynamicStorage \<Rightarrow> nat \<Rightarrow> 'a word" where
  "ds_entry \<equiv> ds.entry"

lemma enough_words:
  fixes N n :: nat
  assumes "0 < n"
  shows "N \<le> (N div n + (if N mod n \<noteq> 0 then 1 else 0)) * n"
proof (cases "N mod n = 0")
  case False
  have "N mod n < n" using assms by simp
  then have "N \<le> N div n * n + n" using div_mult_mod_eq [of N n] by linarith
  then show ?thesis using False by (simp add: add_mult_distrib)
qed (use div_mult_mod_eq [of N n] in simp)

lemma newDynamicStorage_ok:
  assumes "0 < w" "w \<le> 30" "w \<le> LENGTH('a::len)"
  shows "\<exists>s :: 'a DynamicStorage. newDynamicStorage N w = Inr s \<and> wf_ds N s \<and> ds_valueSize s = w
    \<and> (\<forall>i < N. ds_entry N s i = 0)"
proof -
  let ?n = "LENGTH('a) div w"
  let ?s = "\<lparr>ds_store = replicate (N div ?n + (if N mod ?n \<noteq> 0 then 1 else 0)) 0, ds_valueSize = w\<rparr>
    :: 'a DynamicStorage"
  have n: "0 < ?n" using assms by (simp add: div_greater_zero_iff)
  have new: "newDynamicStorage N w = Inr ?s"
    using assms by (simp add: newDynamicStorage_def Let_def)
  have wf: "wf_ds N ?s" using assms enough_words [OF n, of N] by (simp add: wf_ds_def)
  have "ds_entry N ?s i = 0" if "i < N" for i
  proof -
    have "i div ?n < length (ds_store ?s)" using entry_in_store [OF wf _ that] assms(1) by simp
    then show ?thesis
      using ds_get_eq [OF wf _ that] assms(1) by (simp add: ds.entry_def get_field_def)
  qed
  with new wf show ?thesis by (intro exI [of _ ?s]) simp
qed

lemma ds_copy_ok:
  assumes s: "wf_ds N s" "ds_valueSize s \<noteq> 0"
    and "wf_ds N t" "ds_valueSize t = w" "0 < w"
    and "\<forall>i \<in> set is. i < N \<and> unat (ds_entry N s i) < 2 ^ w"
  shows "\<exists>t'. ds_copy N s is t = Inr t' \<and> wf_ds N t' \<and> ds_valueSize t' = w
    \<and> (\<forall>j < N. ds_entry N t' j = (if j \<in> set is then ds_entry N s j else ds_entry N t j))"
  using assms(3-6)
proof (induction "is" arbitrary: t)
  case (Cons i "is")
  then have i: "i < N" "unat (ds_entry N s i) < 2 ^ ds_valueSize t" "ds_valueSize t \<noteq> 0" by auto
  obtain u where u: "ds_set N t i (ds_entry N s i) = Inr u" "wf_ds N u" "ds_valueSize u = w"
    using ds.set_total [OF Cons.prems(1) i(3,1,2)] Cons.prems(2) by auto
  from Cons.IH [OF u(2,3)] Cons.prems obtain t' where t': "ds_copy N s is u = Inr t'" "wf_ds N t'"
      "ds_valueSize t' = w"
      "\<forall>j < N. ds_entry N t' j = (if j \<in> set is then ds_entry N s j else ds_entry N u j)"
    by auto
  with u ds.get_entry [OF s i(1)] ds.entry_set [OF Cons.prems(1) i(3,1) _ i(2) u(1)]
  show ?case by (intro exI [of _ t']) auto
qed simp

lemma setValueSize_ok:
  fixes s :: "'a::len DynamicStorage"
  assumes wf: "wf_ds N s" and w: "0 < w" "w \<le> 30" "w \<le> LENGTH('a)"
    and fits: "ds_valueSize s \<noteq> 0 \<Longrightarrow> \<forall>i < N. unat (ds_entry N s i) < 2 ^ w"
  shows "\<exists>t. setValueSize N s w = Inr t \<and> wf_ds N t \<and> ds_valueSize t = w
    \<and> (\<forall>i < N. ds_entry N t i = (if ds_valueSize s = 0 then 0 else ds_entry N s i))"
proof (cases "w = ds_valueSize s")
  case True
  with wf w(1) show ?thesis by (simp add: setValueSize_def)
next
  case neq: False
  obtain t :: "'a DynamicStorage" where t: "newDynamicStorage N w = Inr t" "wf_ds N t"
      "ds_valueSize t = w" "\<forall>i < N. ds_entry N t i = 0"
    using newDynamicStorage_ok [OF w, of N] by blast
  show ?thesis
  proof (cases "ds_valueSize s = 0")
    case True
    with neq w t show ?thesis by (simp add: setValueSize_def)
  next
    case False
    from ds_copy_ok [OF wf False t(2,3) w(1), of "[0..<N]"] fits [OF False] t(1) neq w False
    show ?thesis by (auto simp: setValueSize_def)
  qed
qed

section \<open>Properties\<close>

text \<open>C26: a packed storage refines a plain array: writing an entry that fits the width is the update of
  one array element, and keeps the invariant and the width.\<close>

theorem ds_refines_array:
  fixes s :: "'a::len DynamicStorage"
  assumes "wf_ds N s" and "ds_valueSize s \<noteq> 0" and "i < N" and "unat v < 2 ^ ds_valueSize s"
  shows "\<exists>s'. ds_set N s i v = Inr s' \<and> wf_ds N s' \<and> ds_valueSize s' = ds_valueSize s
    \<and> ds.entries N s' = (ds.entries N s)[i := v]"
  by (rule ds.entries_set [OF assms])

theorem ds_refines_array_witness:
  "\<exists>s'. ds_set 10 \<lparr>ds_store = [1, 2, 3, 4, 5 :: byte], ds_valueSize = 4\<rparr> 7 9 = Inr s'
    \<and> wf_ds 10 s' \<and> ds_valueSize s' = ds_valueSize \<lparr>ds_store = [1, 2, 3, 4, 5 :: byte], ds_valueSize = 4\<rparr>
    \<and> ds.entries 10 s' = (ds.entries 10 \<lparr>ds_store = [1, 2, 3, 4, 5 :: byte], ds_valueSize = 4\<rparr>)[7 := 9]"
  by (rule ds_refines_array) (simp_all add: wf_ds_def)

text \<open>An index past the array and a value wider than the entries are refused with
  \<open>std::out_of_range\<close>; a storage of width 0 ignores writes and refuses reads.\<close>

theorem ds_set_errors:
  fixes s :: "'a::len DynamicStorage"
  assumes "wf_ds N s"
  shows "if ds_valueSize s = 0 then ds_set N s i v = Inr s \<and> ds_get N s i = Inl EmptyStorageAccess
    else (N \<le> i \<or> 2 ^ ds_valueSize s \<le> unat v) = (ds_set N s i v = Inl StdOutOfRange)"
proof (cases "ds_valueSize s = 0")
  case True
  then show ?thesis by (simp add: ds_set_def ds_get_def)
next
  case nz: False
  note m = value_mask_ok [OF wf_dsD(1) [OF assms nz]]
  have big: "2 ^ ds_valueSize s - Suc 0 < unat v \<longleftrightarrow> 2 ^ ds_valueSize s \<le> unat v"
    using zero_less_power [of "2 :: nat" "ds_valueSize s"] by linarith
  show ?thesis
  proof (cases "N \<le> i \<or> 2 ^ ds_valueSize s \<le> unat v")
    case True
    then show ?thesis using nz m big by (auto simp: ds_set_def)
  next
    case False
    with ds_set_eq [OF assms nz, of i v] nz show ?thesis by simp
  qed
qed

theorem ds_set_errors_witness:
  "if ds_valueSize \<lparr>ds_store = [1, 2, 3, 4, 5 :: byte], ds_valueSize = 4\<rparr> = 0
   then ds_set 10 \<lparr>ds_store = [1, 2, 3, 4, 5 :: byte], ds_valueSize = 4\<rparr> 3 16
       = Inr \<lparr>ds_store = [1, 2, 3, 4, 5 :: byte], ds_valueSize = 4\<rparr>
     \<and> ds_get 10 \<lparr>ds_store = [1, 2, 3, 4, 5 :: byte], ds_valueSize = 4\<rparr> 3 = Inl EmptyStorageAccess
   else (10 \<le> (3 :: nat) \<or> 2 ^ ds_valueSize \<lparr>ds_store = [1, 2, 3, 4, 5 :: byte], ds_valueSize = 4\<rparr> \<le> unat (16 :: byte))
     = (ds_set 10 \<lparr>ds_store = [1, 2, 3, 4, 5 :: byte], ds_valueSize = 4\<rparr> 3 16 = Inl StdOutOfRange)"
  by (rule ds_set_errors) (simp add: wf_ds_def)

text \<open>\<open>setValueSize\<close> to a width that holds every entry succeeds and leaves the array as it was; from
  width 0 it yields zeros.\<close>

theorem setValueSize_keeps_entries:
  fixes s :: "'a::len DynamicStorage"
  assumes "wf_ds N s" and "0 < w" and "w \<le> 30" and "w \<le> LENGTH('a)"
    and "list_all (\<lambda>v. unat v < 2 ^ w) (ds.entries N s)"
  shows "\<exists>t. setValueSize N s w = Inr t \<and> wf_ds N t \<and> ds_valueSize t = w
    \<and> ds.entries N t = (if ds_valueSize s = 0 then replicate N 0 else ds.entries N s)"
proof -
  have "\<forall>i < N. unat (ds_entry N s i) < 2 ^ w"
    using assms(5) by (auto simp: ds.entries_def list_all_iff)
  from setValueSize_ok [OF assms(1-4) this] obtain t where t: "setValueSize N s w = Inr t" "wf_ds N t"
      "ds_valueSize t = w" "\<forall>i < N. ds_entry N t i = (if ds_valueSize s = 0 then 0 else ds_entry N s i)"
    by blast
  then have "ds.entries N t = (if ds_valueSize s = 0 then replicate N 0 else ds.entries N s)"
    by (intro nth_equalityI) (auto simp: ds.entries_def)
  with t show ?thesis by blast
qed

theorem setValueSize_keeps_entries_witness:
  "\<exists>t. setValueSize 3 \<lparr>ds_store = [0x21, 0x03 :: byte], ds_valueSize = 4\<rparr> 2 = Inr t \<and> wf_ds 3 t \<and> ds_valueSize t = 2
    \<and> ds.entries 3 t = (if ds_valueSize \<lparr>ds_store = [0x21, 0x03 :: byte], ds_valueSize = 4\<rparr> = 0 then replicate 3 0
        else ds.entries 3 \<lparr>ds_store = [0x21, 0x03 :: byte], ds_valueSize = 4\<rparr>)"
proof (rule setValueSize_keeps_entries)
  show "list_all (\<lambda>v. unat v < 2 ^ 2) (ds.entries 3 \<lparr>ds_store = [0x21, 0x03 :: byte], ds_valueSize = 4\<rparr>)"
    by (simp add: ds.entries_def ds.entry_def ds_get_def value_mask_def upt_rec Let_def drop_bit_eq_div)
qed (simp_all add: wf_ds_def)

end
