(* ===== verification/Palette.thy ===== *)
theory Palette
  imports Dynamic_Storage
begin

text \<open>
  \<open>world_storage/Palette.hpp\<close> and \<open>Palette.cpp\<close>: the list of global identifiers a section uses, in
  the order they were first added; the position in the list is the local identifier stored in the
  packed array. The mutex guards each operation as a whole and is left out.
\<close>

type_synonym palette = "i32 list"

function bitsNeeded :: "nat \<Rightarrow> nat" where
  "bitsNeeded n = (if n \<le> 1 then 0 else 1 + bitsNeeded ((n + 1) div 2))"
  by pat_completeness auto
termination
  by (relation "measure id") auto

declare bitsNeeded.simps [simp del]

text \<open>\<open>std::find\<close>: the distance from \<open>begin()\<close>, the length when the value is missing.\<close>

fun find_idx :: "'a list \<Rightarrow> 'a \<Rightarrow> nat" where
  "find_idx [] x = 0"
| "find_idx (y # ys) x = (if y = x then 0 else Suc (find_idx ys x))"

definition getId :: "palette \<Rightarrow> i32 \<Rightarrow> u64" where
  "getId p globalId = (if find_idx p globalId = length p then -1 else of_nat (find_idx p globalId))"

definition getGlobalId :: "palette \<Rightarrow> u64 \<Rightarrow> i32" where
  "getGlobalId p localId = (if unat localId \<ge> length p then -1 else p ! unat localId)"

definition palette_add :: "palette \<Rightarrow> i32 \<Rightarrow> palette" where
  "palette_add p globalId = (if find_idx p globalId = length p then p @ [globalId] else p)"

text \<open>Only an identifier in the last place is removed, so that the others keep their position.\<close>

definition palette_removeAll :: "palette \<Rightarrow> i32 \<Rightarrow> palette" where
  "palette_removeAll p globalId =
     (if find_idx p globalId \<noteq> length p \<and> find_idx p globalId = length p - 1 then butlast p else p)"

function palette_remove :: "palette \<Rightarrow> i32 \<Rightarrow> palette" where
  "palette_remove p globalId =
     (if find_idx p globalId \<noteq> length p \<and> find_idx p globalId = length p - 1
      then palette_remove (butlast p) globalId else p)"
  by pat_completeness auto
termination
proof (relation "measure (\<lambda>(p, g). length p)", goal_cases)
  case (2 p globalId)
  then show ?case by (cases p) auto
qed simp

declare palette_remove.simps [simp del]

definition newPalette :: palette where
  "newPalette = [0]"

definition block_getBits :: "palette \<Rightarrow> nat" where
  "block_getBits p =
     (if length p \<le> 1 then 0
      else let bytePerBlock = bitsNeeded (length p) in
        if bytePerBlock \<le> 4 then 4 else if bytePerBlock \<le> 8 then bytePerBlock else 15)"

definition biome_getBits :: "palette \<Rightarrow> nat" where
  "biome_getBits p =
     (if length p \<le> 1 then 0
      else let bytePerBlock = bitsNeeded (length p) in
        if bytePerBlock \<le> 3 then bytePerBlock else 3)"

section \<open>Local and global identifiers\<close>

lemma find_idx_le: "find_idx p x \<le> length p"
  by (induction p) auto

lemma find_idx_eq_length: "find_idx p x = length p \<longleftrightarrow> x \<notin> set p"
  by (induction p) auto

lemma find_idx_less: "x \<in> set p \<longleftrightarrow> find_idx p x < length p"
  by (induction p) auto

lemma nth_find_idx: "x \<in> set p \<Longrightarrow> p ! find_idx p x = x"
  by (induction p) auto

lemma find_idx_nth: "distinct p \<Longrightarrow> i < length p \<Longrightarrow> find_idx p (p ! i) = i"
proof (induction p arbitrary: i)
  case (Cons y p)
  then show ?case by (cases i) auto
qed simp

lemma find_idx_append: "x \<in> set p \<Longrightarrow> find_idx (p @ q) x = find_idx p x"
  by (induction p) auto

lemma palette_add_set: "set (palette_add p x) = insert x (set p)"
  by (auto simp: palette_add_def find_idx_eq_length)

lemma palette_add_distinct: "distinct p \<Longrightarrow> distinct (palette_add p x)"
  by (auto simp: palette_add_def find_idx_eq_length)

lemma palette_add_nth: "i < length p \<Longrightarrow> palette_add p x ! i = p ! i"
  by (simp add: palette_add_def nth_append)

lemma palette_add_length: "length p \<le> length (palette_add p x)"
  by (simp add: palette_add_def)

lemma palette_add_hd: "p \<noteq> [] \<Longrightarrow> palette_add p x \<noteq> [] \<and> hd (palette_add p x) = hd p"
  by (simp add: palette_add_def)

text \<open>\<open>remove\<close> and \<open>removeAll\<close> agree on a palette without duplicates.\<close>

lemma palette_remove_distinct: "distinct p \<Longrightarrow> palette_remove p x = palette_removeAll p x"
proof -
  assume d: "distinct p"
  show ?thesis
  proof (cases "find_idx p x \<noteq> length p \<and> find_idx p x = length p - 1")
    case True
    then have "x \<in> set p" by (metis find_idx_eq_length)
    then obtain q y where p: "p = q @ [y]" by (cases p rule: rev_cases) auto
    with True d \<open>x \<in> set p\<close> have "y = x" using nth_find_idx [of x p] by (simp add: nth_append)
    with d p have "find_idx q x = length q" by (simp add: find_idx_eq_length)
    then have "palette_remove q x = q" by (subst palette_remove.simps) simp
    with True p show ?thesis by (subst palette_remove.simps) (simp add: palette_removeAll_def)
  next
    case False
    then show ?thesis by (subst palette_remove.simps) (auto simp: palette_removeAll_def)
  qed
qed

lemma getGlobalId_getId:
  assumes "x \<in> set p" and "length p < 2 ^ 64"
  shows "getGlobalId p (getId p x) = x" and "unat (getId p x) = find_idx p x"
proof -
  have lt: "find_idx p x < length p" using assms(1) by (simp add: find_idx_less)
  then have "unat (of_nat (find_idx p x) :: u64) = find_idx p x"
    using assms(2) by (simp add: unat_of_nat)
  with lt show "unat (getId p x) = find_idx p x" by (simp add: getId_def)
  with lt show "getGlobalId p (getId p x) = x"
    using nth_find_idx [OF assms(1)] by (simp add: getGlobalId_def)
qed

section \<open>Widths\<close>

lemma bitsNeeded_bounds: "n \<le> 2 ^ bitsNeeded n \<and> (1 < n \<longrightarrow> 2 ^ (bitsNeeded n - 1) < n)"
proof (induction n rule: bitsNeeded.induct)
  case (1 n)
  show ?case
  proof (cases "n \<le> 1")
    case True
    then show ?thesis by (simp add: bitsNeeded.simps)
  next
    case False
    define m where "m = (n + 1) div 2"
    have b: "bitsNeeded n = Suc (bitsNeeded m)" using False by (simp add: bitsNeeded.simps [of n] m_def)
    have m: "n \<le> 2 * m" "2 * m \<le> n + 1" unfolding m_def by linarith+
    from "1.IH" [OF False] have IH: "m \<le> 2 ^ bitsNeeded m" "1 < m \<longrightarrow> 2 ^ (bitsNeeded m - 1) < m"
      by (simp_all add: m_def)
    have "2 ^ bitsNeeded m < n"
    proof (cases "1 < m")
      case True
      then have "bitsNeeded m \<noteq> 0" by (simp add: bitsNeeded.simps [of m])
      then have "(2::nat) ^ bitsNeeded m = 2 * 2 ^ (bitsNeeded m - 1)"
        by (metis power_Suc Suc_pred' not_gr_zero)
      moreover have "2 ^ (bitsNeeded m - 1) < m" using IH(2) True by simp
      moreover have "even ((2::nat) ^ bitsNeeded m)" using \<open>bitsNeeded m \<noteq> 0\<close> by simp
      ultimately show ?thesis using m(2) by presburger
    next
      case False
      then have "bitsNeeded m = 0" by (simp add: bitsNeeded.simps [of m])
      then show ?thesis using \<open>\<not> n \<le> 1\<close> by simp
    qed
    with IH(1) m(1) show ?thesis by (simp add: b)
  qed
qed

lemma bitsNeeded_pos: "1 < n \<Longrightarrow> 0 < bitsNeeded n"
  by (simp add: bitsNeeded.simps [of n])

text \<open>
  What the packed array needs of \<open>getBits\<close>: width 0 for at most one entry, a positive width within
  the arithmetic of the storage otherwise, and room for every local identifier up to the capacity.
\<close>

locale palette_width =
  fixes bits :: "palette \<Rightarrow> nat" and cap :: nat
  assumes bits_zero: "bits p = 0 \<longleftrightarrow> length p \<le> 1"
    and bits_le: "bits p \<le> 30"
    and bits_cap: "length p \<le> cap \<Longrightarrow> 1 < length p \<Longrightarrow> length p \<le> 2 ^ bits p"
    and cap_le: "cap < 2 ^ 64"

interpretation block_bits: palette_width block_getBits "2 ^ 15"
proof
  fix p :: palette
  show "block_getBits p = 0 \<longleftrightarrow> length p \<le> 1"
    by (auto simp: block_getBits_def Let_def)
  show "block_getBits p \<le> 30"
    by (auto simp: block_getBits_def Let_def)
  assume "length p \<le> 2 ^ 15" "1 < length p"
  then show "length p \<le> 2 ^ block_getBits p"
    using bitsNeeded_bounds [of "length p"] power_increasing [of "bitsNeeded (length p)" 4 "2 :: nat"]
    by (auto simp: block_getBits_def Let_def)
qed simp

interpretation biome_bits: palette_width biome_getBits "2 ^ 3"
proof
  fix p :: palette
  show "biome_getBits p = 0 \<longleftrightarrow> length p \<le> 1"
    using bitsNeeded_pos [of "length p"] by (auto simp: biome_getBits_def Let_def)
  show "biome_getBits p \<le> 30"
    by (auto simp: biome_getBits_def Let_def)
  assume "length p \<le> 2 ^ 3" "1 < length p"
  then show "length p \<le> 2 ^ biome_getBits p"
    using bitsNeeded_bounds [of "length p"] by (auto simp: biome_getBits_def Let_def)
qed simp

section \<open>Properties\<close>

text \<open>\<open>bitsNeeded(n)\<close> is the least number of bits that numbers \<open>n\<close> values.\<close>

theorem bitsNeeded_least:
  "n \<le> 2 ^ bitsNeeded n \<and> (n \<le> 2 ^ k) = (bitsNeeded n \<le> k)"
proof (cases "1 < n")
  case True
  note b = bitsNeeded_bounds [of n]
  have "n \<le> 2 ^ k \<longleftrightarrow> bitsNeeded n \<le> k"
  proof
    assume n: "n \<le> 2 ^ k"
    with b True have "(2 :: nat) ^ (bitsNeeded n - 1) < 2 ^ k" by linarith
    then have "bitsNeeded n - 1 < k" by (rule power_less_imp_less_exp [rotated]) simp
    then show "bitsNeeded n \<le> k" by simp
  next
    assume "bitsNeeded n \<le> k"
    then have "(2 :: nat) ^ bitsNeeded n \<le> 2 ^ k" by (rule power_increasing) simp
    then show "n \<le> 2 ^ k" using b by linarith
  qed
  with b show ?thesis by blast
next
  case False
  moreover have "(1 :: nat) \<le> 2 ^ k" by simp
  ultimately have "n \<le> 2 ^ k" by linarith
  with False show ?thesis by (simp add: bitsNeeded.simps)
qed

text \<open>An added identifier can be found, and its local identifier leads back to it; the local
  identifiers given out before stay valid.\<close>

theorem palette_add_getId:
  assumes "length (palette_add p x) < 2 ^ 64"
  shows "getGlobalId (palette_add p x) (getId (palette_add p x) x) = x
    \<and> take (length p) (palette_add p x) = p"
proof -
  have "x \<in> set (palette_add p x)" by (simp add: palette_add_set)
  from getGlobalId_getId(1) [OF this assms] show ?thesis by (simp add: palette_add_def)
qed

theorem palette_add_getId_witness:
  "getGlobalId (palette_add [0, 9] 5) (getId (palette_add [0, 9] 5) 5) = 5 \<and> take (length [0, 9 :: i32]) (palette_add [0, 9] 5) = [0, 9]"
  by (rule palette_add_getId) (simp add: palette_add_def)

end
