(* ===== verification/Section.thy ===== *)
theory Section
  imports Palette Structures
begin

text \<open>
  \<open>world_storage/Section.hpp\<close> and \<open>Section.cpp\<close>: a cube of blocks and biomes, each a packed array of
  local palette identifiers, and two packed arrays of light levels with counters of the lit blocks.
  An operation that can throw after it has changed the section returns the section it leaves behind
  next to its outcome.
\<close>

section \<open>State\<close>

definition CHUNK_HEIGHT_MIN :: int where "CHUNK_HEIGHT_MIN = -64"
definition CHUNK_HEIGHT_MAX :: int where "CHUNK_HEIGHT_MAX = 320"
definition CHUNK_HEIGHT :: int where "CHUNK_HEIGHT = CHUNK_HEIGHT_MAX - CHUNK_HEIGHT_MIN"
definition SECTION_WIDTH :: int where "SECTION_WIDTH = 16"
definition SECTION_2D_SIZE :: int where "SECTION_2D_SIZE = SECTION_WIDTH * SECTION_WIDTH"
definition SECTION_3D_SIZE :: nat where "SECTION_3D_SIZE = nat (SECTION_2D_SIZE * SECTION_WIDTH)"
definition NB_OF_PLAYABLE_SECTIONS :: int where
  "NB_OF_PLAYABLE_SECTIONS = CHUNK_HEIGHT div SECTION_WIDTH
     + (if CHUNK_HEIGHT mod SECTION_WIDTH \<noteq> 0 then 1 else 0)"
definition NB_OF_SECTIONS :: int where "NB_OF_SECTIONS = NB_OF_PLAYABLE_SECTIONS + 2"
definition BIOME_SECTION_WIDTH :: int where "BIOME_SECTION_WIDTH = 4"
definition BIOME_HEIGHT_MIN :: int where "BIOME_HEIGHT_MIN = cdiv CHUNK_HEIGHT_MIN 4"
definition BIOME_HEIGHT_MAX :: int where "BIOME_HEIGHT_MAX = cdiv CHUNK_HEIGHT_MAX 4"
definition BIOME_SECTION_2D_SIZE :: int where
  "BIOME_SECTION_2D_SIZE = BIOME_SECTION_WIDTH * BIOME_SECTION_WIDTH"
definition BIOME_SECTION_3D_SIZE :: nat where
  "BIOME_SECTION_3D_SIZE = nat (BIOME_SECTION_2D_SIZE * BIOME_SECTION_WIDTH)"

lemmas section_sizes = CHUNK_HEIGHT_MIN_def CHUNK_HEIGHT_MAX_def CHUNK_HEIGHT_def SECTION_WIDTH_def
  SECTION_2D_SIZE_def SECTION_3D_SIZE_def NB_OF_PLAYABLE_SECTIONS_def NB_OF_SECTIONS_def
  BIOME_SECTION_WIDTH_def BIOME_HEIGHT_MIN_def BIOME_HEIGHT_MAX_def BIOME_SECTION_2D_SIZE_def
  BIOME_SECTION_3D_SIZE_def

definition calculateSectionBlockIdx :: "Position \<Rightarrow> u64" where
  "calculateSectionBlockIdx pos =
     pos_x pos + pos_z pos * of_int SECTION_WIDTH + pos_y pos * of_int SECTION_2D_SIZE"

definition calculateSectionBiomeIdx :: "Position \<Rightarrow> u64" where
  "calculateSectionBiomeIdx pos =
     pos_x pos + pos_z pos * of_int BIOME_SECTION_WIDTH + pos_y pos * of_int BIOME_SECTION_2D_SIZE"

record Section =
  blocks :: "64 DynamicStorage"
  biomes :: "64 DynamicStorage"
  blockPalette :: palette
  biomePalette :: palette
  skyLight :: "8 DynamicStorage"
  blockLight :: "8 DynamicStorage"
  skyLightCount :: u64
  blockLightCount :: u64

definition newSection :: "Section result" where
  "newSection =
     rbind (newDynamicStorage SECTION_3D_SIZE 0) (\<lambda>bl.
     rbind (newDynamicStorage BIOME_SECTION_3D_SIZE 0) (\<lambda>bi.
     rbind (newDynamicStorage SECTION_3D_SIZE 4) (\<lambda>sl.
     rbind (newDynamicStorage SECTION_3D_SIZE 4) (\<lambda>bll.
       Inr \<lparr>blocks = bl, biomes = bi, blockPalette = newPalette, biomePalette = newPalette,
            skyLight = sl, blockLight = bll, skyLightCount = 0, blockLightCount = 0\<rparr>))))"

section \<open>Blocks and biomes\<close>

text \<open>
  The body \<open>setBlock\<close> and \<open>setBiome\<close> share: add the identifier to the palette, widen the array when
  the palette needs more bits, store the local identifier.
\<close>

definition paletted_set :: "nat \<Rightarrow> (palette \<Rightarrow> nat) \<Rightarrow> palette \<Rightarrow> 64 DynamicStorage \<Rightarrow> nat \<Rightarrow> i32
    \<Rightarrow> (palette \<times> 64 DynamicStorage) \<times> unit result" where
  "paletted_set N getBits p ds idx v =
     (let oldBits = getBits p; p' = palette_add p v in
      case (if oldBits \<noteq> getBits p' \<and> getBits p' \<noteq> 0 then setValueSize N ds (getBits p') else Inr ds) of
        Inl e \<Rightarrow> ((p', ds), Inl e)
      | Inr ds1 \<Rightarrow>
          (case ds_set N ds1 idx (getId p' v) of
             Inl e \<Rightarrow> ((p', ds1), Inl e)
           | Inr ds2 \<Rightarrow> ((p', ds2), Inr ())))"

definition paletted_get :: "nat \<Rightarrow> palette \<Rightarrow> 64 DynamicStorage \<Rightarrow> nat \<Rightarrow> i32 result" where
  "paletted_get N p ds idx =
     (if \<not> canContainData ds then Inr 0
      else rbind (ds_get N ds idx) (\<lambda>l. Inr (getGlobalId p l)))"

definition setBlock :: "Section \<Rightarrow> Position \<Rightarrow> i32 \<Rightarrow> Section \<times> unit result" where
  "setBlock s pos block =
     (if position_ge pos SECTION_WIDTH \<or> position_less pos 0 then (s, Inl StdOutOfRange)
      else case paletted_set SECTION_3D_SIZE block_getBits (blockPalette s) (blocks s)
             (unat (calculateSectionBlockIdx pos)) block of
        ((p, ds), r) \<Rightarrow> (s\<lparr>blockPalette := p, blocks := ds\<rparr>, r))"

definition updateBlock :: "Section \<Rightarrow> Position \<Rightarrow> i32 \<Rightarrow> Section \<times> unit result" where
  "updateBlock s pos block =
     (if position_ge pos SECTION_WIDTH \<or> position_less pos 0 then (s, Inl StdOutOfRange)
      else setBlock s pos block)"

definition setBiome :: "Section \<Rightarrow> Position \<Rightarrow> i32 \<Rightarrow> Section \<times> unit result" where
  "setBiome s pos biome =
     (if position_ge pos BIOME_SECTION_WIDTH \<or> position_less pos 0 then (s, Inl StdOutOfRange)
      else case paletted_set BIOME_SECTION_3D_SIZE biome_getBits (biomePalette s) (biomes s)
             (unat (calculateSectionBiomeIdx pos)) biome of
        ((p, ds), r) \<Rightarrow> (s\<lparr>biomePalette := p, biomes := ds\<rparr>, r))"

definition updateBiome :: "Section \<Rightarrow> Position \<Rightarrow> i32 \<Rightarrow> Section \<times> unit result" where
  "updateBiome s pos biome =
     (if position_ge pos BIOME_SECTION_WIDTH \<or> position_less pos 0 then (s, Inl StdOutOfRange)
      else setBiome s pos biome)"

definition getBlock :: "Section \<Rightarrow> Position \<Rightarrow> i32 result" where
  "getBlock s pos =
     (if position_ge pos SECTION_WIDTH then Inl StdOutOfRange
      else paletted_get SECTION_3D_SIZE (blockPalette s) (blocks s) (unat (calculateSectionBlockIdx pos)))"

definition getBiome :: "Section \<Rightarrow> Position \<Rightarrow> i32 result" where
  "getBiome s pos =
     (if position_ge pos BIOME_SECTION_WIDTH then Inl StdOutOfRange
      else paletted_get BIOME_SECTION_3D_SIZE (biomePalette s) (biomes s) (unat (calculateSectionBiomeIdx pos)))"

definition getBlock_idx :: "Section \<Rightarrow> u64 \<Rightarrow> i32 result" where
  "getBlock_idx s idx = paletted_get SECTION_3D_SIZE (blockPalette s) (blocks s) (unat idx)"

definition getBiome_idx :: "Section \<Rightarrow> u64 \<Rightarrow> i32 result" where
  "getBiome_idx s idx = paletted_get BIOME_SECTION_3D_SIZE (biomePalette s) (biomes s) (unat idx)"

section \<open>Light\<close>

definition setSkyLight :: "Section \<Rightarrow> Position \<Rightarrow> byte \<Rightarrow> Section \<times> unit result" where
  "setSkyLight s pos light =
     (let idx = unat (calculateSectionBlockIdx pos) in
      case ds_get SECTION_3D_SIZE (skyLight s) idx of
        Inl e \<Rightarrow> (s, Inl e)
      | Inr l \<Rightarrow>
          let s1 = (if l \<noteq> 0 \<and> light = 0 then s\<lparr>skyLightCount := skyLightCount s - 1\<rparr> else s);
              s2 = (if l = 0 \<and> light \<noteq> 0 then s1\<lparr>skyLightCount := skyLightCount s1 + 1\<rparr> else s1)
          in case ds_set SECTION_3D_SIZE (skyLight s2) idx light of
               Inl e \<Rightarrow> (s2, Inl e)
             | Inr ds \<Rightarrow> (s2\<lparr>skyLight := ds\<rparr>, Inr ()))"

definition getSkyLight :: "Section \<Rightarrow> Position \<Rightarrow> byte result" where
  "getSkyLight s pos =
     (if position_ge pos SECTION_WIDTH then Inl StdOutOfRange
      else ds_get SECTION_3D_SIZE (skyLight s) (unat (calculateSectionBlockIdx pos)))"

definition getBlockLight :: "Section \<Rightarrow> Position \<Rightarrow> byte result" where
  "getBlockLight s pos =
     (if position_ge pos SECTION_WIDTH then Inl StdOutOfRange
      else ds_get SECTION_3D_SIZE (blockLight s) (unat (calculateSectionBlockIdx pos)))"

definition setBlockLight :: "Section \<Rightarrow> Position \<Rightarrow> byte \<Rightarrow> Section \<times> unit result" where
  "setBlockLight s pos light =
     (case getBlockLight s pos of
        Inl e \<Rightarrow> (s, Inl e)
      | Inr l \<Rightarrow>
          let s1 = (if l \<noteq> 0 \<and> light = 0 then s\<lparr>blockLightCount := blockLightCount s - 1\<rparr> else s)
          in case getBlockLight s1 pos of
               Inl e \<Rightarrow> (s1, Inl e)
             | Inr l1 \<Rightarrow>
                 let s2 = (if l1 = 0 \<and> light \<noteq> 0 then s1\<lparr>blockLightCount := blockLightCount s1 + 1\<rparr>
                           else s1)
                 in case ds_set SECTION_3D_SIZE (blockLight s2) (unat (calculateSectionBlockIdx pos)) light of
                      Inl e \<Rightarrow> (s2, Inl e)
                    | Inr ds \<Rightarrow> (s2\<lparr>blockLight := ds\<rparr>, Inr ()))"

definition updateSkyLight :: "Section \<Rightarrow> Position \<Rightarrow> byte \<Rightarrow> Section \<times> unit result" where
  "updateSkyLight s pos light = setSkyLight s pos light"

definition updateBlockLight :: "Section \<Rightarrow> Position \<Rightarrow> byte \<Rightarrow> Section \<times> unit result" where
  "updateBlockLight s pos light = setBlockLight s pos light"

text \<open>The loop over the bytes of a light array; every byte holds two levels.\<close>

definition count_nibbles :: "byte list \<Rightarrow> u64" where
  "count_nibbles bs = foldl (\<lambda>n i. n + ((if uint (i AND 0xF0) \<ge> 1 then 1 else 0)
     + (if uint (i AND 0x0F) \<ge> 1 then 1 else 0))) 0 bs"

definition recalculateSkyLightCount :: "Section \<Rightarrow> Section" where
  "recalculateSkyLightCount s = s\<lparr>skyLightCount := count_nibbles (ds_store (skyLight s))\<rparr>"

definition recalculateBlockLightCount :: "Section \<Rightarrow> Section" where
  "recalculateBlockLightCount s = s\<lparr>blockLightCount := count_nibbles (ds_store (blockLight s))\<rparr>"

definition recalculateSkyLight :: "Section \<Rightarrow> Section" where
  "recalculateSkyLight s = recalculateSkyLightCount
     (s\<lparr>skyLight := (skyLight s)\<lparr>ds_store := map (\<lambda>_. 0xFF) (ds_store (skyLight s))\<rparr>\<rparr>)"

definition recalculateBlockLight :: "Section \<Rightarrow> Section" where
  "recalculateBlockLight s = s"

definition hasBlocks :: "Section \<Rightarrow> bool" where
  "hasBlocks s \<longleftrightarrow> block_getBits (blockPalette s) \<noteq> 0"

definition hasBiomes :: "Section \<Rightarrow> bool" where
  "hasBiomes s \<longleftrightarrow> biome_getBits (biomePalette s) \<noteq> 0"

definition hasSkyLight :: "Section \<Rightarrow> bool" where
  "hasSkyLight s \<longleftrightarrow> skyLightCount s > 0"

definition hasBlockLight :: "Section \<Rightarrow> bool" where
  "hasBlockLight s \<longleftrightarrow> blockLightCount s > 0"

section \<open>A packed array and its palette\<close>

definition paletted :: "nat \<Rightarrow> (palette \<Rightarrow> nat) \<Rightarrow> palette \<Rightarrow> 64 DynamicStorage \<Rightarrow> bool" where
  "paletted N bits p ds \<longleftrightarrow> wf_ds N ds \<and> distinct p \<and> p \<noteq> [] \<and> hd p = 0 \<and> ds_valueSize ds = bits p
     \<and> (bits p \<noteq> 0 \<longrightarrow> (\<forall>i < N. unat (ds_entry N ds i) < length p))"

context palette_width
begin

lemma paletted_get_eq:
  assumes "paletted N bits p ds" "i < N"
  shows "paletted_get N p ds i = Inr (if bits p = 0 then 0 else p ! unat (ds_entry N ds i))"
  using assms ds.get_entry [of N ds i]
  by (auto simp: paletted_def paletted_get_def canContainData_def getGlobalId_def not_le)

text \<open>The array after the palette has grown: the same local identifiers, at the new width.\<close>

lemma paletted_widen:
  assumes inv: "paletted N bits p ds" and cap: "length (palette_add p v) \<le> cap"
    and pos: "bits (palette_add p v) \<noteq> 0"
  shows "\<exists>ds1. (if bits p \<noteq> bits (palette_add p v) \<and> bits (palette_add p v) \<noteq> 0
        then setValueSize N ds (bits (palette_add p v)) else Inr ds) = Inr ds1
      \<and> wf_ds N ds1 \<and> ds_valueSize ds1 = bits (palette_add p v)
      \<and> (\<forall>i < N. ds_entry N ds1 i = (if bits p = 0 then 0 else ds_entry N ds i))"
proof -
  have w: "0 < bits (palette_add p v)" "bits (palette_add p v) \<le> 30" "bits (palette_add p v) \<le> LENGTH(64)"
    using pos bits_le [of "palette_add p v"] by auto
  have fits: "\<forall>i < N. unat (ds_entry N ds i) < 2 ^ bits (palette_add p v)" if "ds_valueSize ds \<noteq> 0"
  proof (intro allI impI)
    fix i assume "i < N"
    then have "unat (ds_entry N ds i) < length p" using inv that by (auto simp: paletted_def)
    also have "\<dots> \<le> length (palette_add p v)" by (rule palette_add_length)
    also have "\<dots> \<le> 2 ^ bits (palette_add p v)"
      using bits_cap [OF cap] bits_zero [of "palette_add p v"] pos by linarith
    finally show "unat (ds_entry N ds i) < 2 ^ bits (palette_add p v)" .
  qed
  show ?thesis
  proof (cases "bits p = bits (palette_add p v)")
    case True
    then show ?thesis using inv pos by (auto simp: paletted_def)
  next
    case False
    with setValueSize_ok [of N ds, OF _ w fits] inv pos show ?thesis by (auto simp: paletted_def)
  qed
qed

text \<open>
  The refinement: \<open>paletted_set\<close> writes one element of the array of global identifiers.
\<close>

lemma paletted_set_ok:
  assumes inv: "paletted N bits p ds" and i: "i < N" and cap: "length (palette_add p v) \<le> cap"
  shows "\<exists>ds'. paletted_set N bits p ds i v = ((palette_add p v, ds'), Inr ())
      \<and> paletted N bits (palette_add p v) ds'
      \<and> (\<forall>j < N. paletted_get N (palette_add p v) ds' j = (if j = i then Inr v else paletted_get N p ds j))"
proof (cases "bits (palette_add p v) = 0")
  case True
  then have len: "length (palette_add p v) \<le> 1" by (simp add: bits_zero)
  have "v \<in> set (palette_add p v)" by (simp add: palette_add_set)
  moreover obtain y where "palette_add p v = [y]" using inv len palette_add_length [of p v]
    by (cases "palette_add p v") (auto simp: paletted_def)
  ultimately have p': "palette_add p v = [v]" by simp
  then have p: "p = [v]" "v = 0"
    using inv by (auto simp: palette_add_def paletted_def split: if_splits)
  then have w0: "ds_valueSize ds = 0" using inv True by (simp add: paletted_def palette_add_def)
  then have "paletted_set N bits p ds i v = ((palette_add p v, ds), Inr ())"
    using True by (simp add: paletted_set_def Let_def ds_set_def)
  then show ?thesis using inv w0 p
    by (intro exI [of _ ds]) (auto simp: palette_add_def paletted_get_def canContainData_def)
next
  case False
  let ?p = "palette_add p v"
  obtain ds1 where ds1: "(if bits p \<noteq> bits ?p \<and> bits ?p \<noteq> 0 then setValueSize N ds (bits ?p) else Inr ds) = Inr ds1"
      "wf_ds N ds1" "ds_valueSize ds1 = bits ?p"
      "\<forall>i < N. ds_entry N ds1 i = (if bits p = 0 then 0 else ds_entry N ds i)"
    using paletted_widen [OF inv cap False] by blast
  have v: "v \<in> set ?p" by (simp add: palette_add_set)
  have lt: "length ?p < 2 ^ 64" using cap cap_le by linarith
  have le2: "length ?p \<le> 2 ^ bits ?p"
    using bits_cap [OF cap] bits_zero [of ?p] False by linarith
  have id: "unat (getId ?p v) = find_idx ?p v" "find_idx ?p v < length ?p"
    using getGlobalId_getId(2) [OF v lt] v find_idx_less [of v ?p] by auto
  then have fit: "unat (getId ?p v) < 2 ^ ds_valueSize ds1" using le2 ds1(3) by simp
  have nz: "ds_valueSize ds1 \<noteq> 0" using False ds1(3) by simp
  obtain ds2 where ds2: "ds_set N ds1 i (getId ?p v) = Inr ds2" "wf_ds N ds2"
      "ds_valueSize ds2 = bits ?p"
    using ds.set_total [OF ds1(2) nz i fit] ds1(3) by auto
  have ent: "ds_entry N ds2 j = (if j = i then getId ?p v else if bits p = 0 then 0 else ds_entry N ds j)"
    if "j < N" for j
    using ds.entry_set [OF ds1(2) nz i that fit ds2(1)] ds1(4) that by simp
  have old: "unat (ds_entry N ds j) < length p" if "j < N" "bits p \<noteq> 0" for j
    using inv that by (simp add: paletted_def)
  have ne: "p \<noteq> []" "hd p = 0" using inv by (auto simp: paletted_def)
  have hd: "?p ! 0 = 0" using ne palette_add_nth [of 0 p v] by (simp add: hd_conv_nth)
  have inv2: "paletted N bits ?p ds2"
  proof -
    have "unat (ds_entry N ds2 j) < length ?p" if "j < N" for j
      using ent [OF that] id old [OF that] palette_add_length [of p v] ne
      by (cases "j = i"; cases "bits p = 0") (auto intro: less_le_trans)
    then show ?thesis using ds2(2,3) inv palette_add_distinct [of p v] palette_add_hd [of p v]
      by (auto simp: paletted_def)
  qed
  have "paletted_get N ?p ds2 j = (if j = i then Inr v else paletted_get N p ds j)" if j: "j < N" for j
    using paletted_get_eq [OF inv2 j] paletted_get_eq [OF inv j] ent [OF j] id(1) hd False
      nth_find_idx [OF v] palette_add_nth [OF old [OF j], of v] by auto
  moreover have "paletted_set N bits p ds i v = ((?p, ds2), Inr ())"
    using ds1(1) ds2(1) by (simp add: paletted_set_def Let_def)
  ultimately show ?thesis using inv2 by blast
qed

end

section \<open>Sections\<close>

definition in_cube :: "int \<Rightarrow> Position \<Rightarrow> bool" where
  "in_cube w pos \<longleftrightarrow> 0 \<le> sint (pos_x pos) \<and> sint (pos_x pos) < w \<and> 0 \<le> sint (pos_y pos)
     \<and> sint (pos_y pos) < w \<and> 0 \<le> sint (pos_z pos) \<and> sint (pos_z pos) < w"

lemma sint_nonneg_uint:
  fixes x :: "'a::len word"
  assumes "0 \<le> sint x"
  shows "uint x = sint x"
proof -
  have "sint x < 2 ^ (LENGTH('a) - 1)" by (rule sint_lt)
  also have "\<dots> \<le> (2 :: int) ^ LENGTH('a)" by (rule power_increasing) simp_all
  finally have "take_bit LENGTH('a) (sint x) = sint x" using assms by (simp add: take_bit_int_eq_self)
  then show ?thesis by (simp add: uint_sint)
qed

lemma unat_block_idx:
  assumes "in_cube 16 pos"
  shows "unat (calculateSectionBlockIdx pos)
    = nat (sint (pos_x pos) + sint (pos_z pos) * 16 + sint (pos_y pos) * 256)"
proof -
  have u: "uint (pos_x pos) = sint (pos_x pos)" "uint (pos_y pos) = sint (pos_y pos)"
      "uint (pos_z pos) = sint (pos_z pos)"
    using assms by (simp_all add: in_cube_def sint_nonneg_uint)
  have "uint (calculateSectionBlockIdx pos)
      = (uint (pos_x pos) + uint (pos_z pos) * 16 + uint (pos_y pos) * 256) mod 2 ^ 64"
    by (simp add: calculateSectionBlockIdx_def section_sizes uint_word_ariths mod_simps)
  also have "\<dots> = sint (pos_x pos) + sint (pos_z pos) * 16 + sint (pos_y pos) * 256"
    using assms by (simp add: u in_cube_def)
  finally show ?thesis by (simp add: unat_eq_nat_uint)
qed

lemma unat_biome_idx:
  assumes "in_cube 4 pos"
  shows "unat (calculateSectionBiomeIdx pos)
    = nat (sint (pos_x pos) + sint (pos_z pos) * 4 + sint (pos_y pos) * 16)"
proof -
  have u: "uint (pos_x pos) = sint (pos_x pos)" "uint (pos_y pos) = sint (pos_y pos)"
      "uint (pos_z pos) = sint (pos_z pos)"
    using assms by (simp_all add: in_cube_def sint_nonneg_uint)
  have "uint (calculateSectionBiomeIdx pos)
      = (uint (pos_x pos) + uint (pos_z pos) * 4 + uint (pos_y pos) * 16) mod 2 ^ 64"
    by (simp add: calculateSectionBiomeIdx_def section_sizes uint_word_ariths mod_simps)
  also have "\<dots> = sint (pos_x pos) + sint (pos_z pos) * 4 + sint (pos_y pos) * 16"
    using assms by (simp add: u in_cube_def)
  finally show ?thesis by (simp add: unat_eq_nat_uint)
qed

lemma position_sint_eqI:
  assumes "sint (pos_x p) = sint (pos_x q)" "sint (pos_y p) = sint (pos_y q)"
    "sint (pos_z p) = sint (pos_z q)"
  shows "p = (q :: Position)"
  using assms by (intro Position.equality) (simp_all add: signed_word_eqI)

lemma radix_inj:
  fixes x y z x' y' z' :: int
  assumes "0 \<le> x" "x < w" "0 \<le> z" "z < w" "0 \<le> x'" "x' < w" "0 \<le> z'" "z' < w"
    and "x + z * w + y * (w * w) = x' + z' * w + y' * (w * w)"
  shows "x = x' \<and> y = y' \<and> z = z'"
proof -
  have split: "a + b * w + c * (w * w) = a + w * (b + w * c)" for a b c :: int
    by (simp add: algebra_simps)
  have "x = x'"
    using arg_cong [OF assms(9), of "\<lambda>t. t mod w"] assms(1,2,5,6) by (simp add: split)
  moreover from this have "z + w * y = z' + w * y'"
    using assms(1,2,9) unfolding split by simp
  from arg_cong [OF this, of "\<lambda>t. t mod w"] arg_cong [OF this, of "\<lambda>t. t div w"]
  have "z = z'" "y = y'" using assms(3,4,7,8) by simp_all
  ultimately show ?thesis by simp
qed

lemma block_idx_less: "in_cube 16 pos \<Longrightarrow> unat (calculateSectionBlockIdx pos) < SECTION_3D_SIZE"
  by (simp add: unat_block_idx in_cube_def section_sizes nat_less_iff)

lemma biome_idx_less: "in_cube 4 pos \<Longrightarrow> unat (calculateSectionBiomeIdx pos) < BIOME_SECTION_3D_SIZE"
  by (simp add: unat_biome_idx in_cube_def section_sizes nat_less_iff)

lemma block_idx_inj:
  assumes "in_cube 16 p" "in_cube 16 q"
  shows "unat (calculateSectionBlockIdx p) = unat (calculateSectionBlockIdx q) \<longleftrightarrow> p = q"
proof
  assume "unat (calculateSectionBlockIdx p) = unat (calculateSectionBlockIdx q)"
  then have "sint (pos_x p) + sint (pos_z p) * 16 + sint (pos_y p) * 256
      = sint (pos_x q) + sint (pos_z q) * 16 + sint (pos_y q) * 256"
    using assms by (simp add: unat_block_idx in_cube_def eq_nat_nat_iff)
  with assms radix_inj [of "sint (pos_x p)" 16 "sint (pos_z p)" "sint (pos_x q)" "sint (pos_z q)"
      "sint (pos_y p)" "sint (pos_y q)"]
  show "p = q" by (intro position_sint_eqI) (simp_all add: in_cube_def)
qed simp

lemma biome_idx_inj:
  assumes "in_cube 4 p" "in_cube 4 q"
  shows "unat (calculateSectionBiomeIdx p) = unat (calculateSectionBiomeIdx q) \<longleftrightarrow> p = q"
proof
  assume "unat (calculateSectionBiomeIdx p) = unat (calculateSectionBiomeIdx q)"
  then have "sint (pos_x p) + sint (pos_z p) * 4 + sint (pos_y p) * 16
      = sint (pos_x q) + sint (pos_z q) * 4 + sint (pos_y q) * 16"
    using assms by (simp add: unat_biome_idx in_cube_def eq_nat_nat_iff)
  with assms radix_inj [of "sint (pos_x p)" 4 "sint (pos_z p)" "sint (pos_x q)" "sint (pos_z q)"
      "sint (pos_y p)" "sint (pos_y q)"]
  show "p = q" by (intro position_sint_eqI) (simp_all add: in_cube_def)
qed simp

lemma in_cube_guards:
  "in_cube 16 pos \<Longrightarrow> \<not> position_ge pos SECTION_WIDTH \<and> \<not> position_less pos 0"
  "in_cube 4 pos \<Longrightarrow> \<not> position_ge pos BIOME_SECTION_WIDTH \<and> \<not> position_less pos 0"
  by (auto simp: in_cube_def position_ge_def position_less_def section_sizes)

subsection \<open>Light levels\<close>

definition lit :: "8 DynamicStorage \<Rightarrow> nat" where
  "lit ds = card {i. i < SECTION_3D_SIZE \<and> ds_entry SECTION_3D_SIZE ds i \<noteq> 0}"

definition wf_light :: "8 DynamicStorage \<Rightarrow> bool" where
  "wf_light ds \<longleftrightarrow> ds_valueSize ds = 4 \<and> length (ds_store ds) = 2048"

lemma wf_light_ds: "wf_light ds \<Longrightarrow> wf_ds SECTION_3D_SIZE ds"
  by (simp add: wf_light_def wf_ds_def section_sizes)

lemma card_flip:
  fixes P Q :: "nat \<Rightarrow> bool"
  assumes "i < N" and "\<And>j. j < N \<Longrightarrow> j \<noteq> i \<Longrightarrow> P j = Q j"
  shows "card {j. j < N \<and> P j} + of_bool (Q i) = card {j. j < N \<and> Q j} + of_bool (P i)"
proof -
  let ?R = "{j. j < N \<and> j \<noteq> i \<and> Q j}"
  have f: "finite ?R" "i \<notin> ?R" by auto
  have "{j. j < N \<and> P j} = (if P i then insert i ?R else ?R)"
    "{j. j < N \<and> Q j} = (if Q i then insert i ?R else ?R)"
    using assms by auto
  then show ?thesis using f by simp
qed

lemma lit_set:
  assumes wf: "wf_light ds" and i: "i < SECTION_3D_SIZE" and v: "unat v < 16"
  shows "\<exists>ds'. ds_set SECTION_3D_SIZE ds i v = Inr ds' \<and> wf_light ds'
      \<and> (\<forall>j < SECTION_3D_SIZE. ds_entry SECTION_3D_SIZE ds' j = (if j = i then v else ds_entry SECTION_3D_SIZE ds j))
      \<and> lit ds' + of_bool (ds_entry SECTION_3D_SIZE ds i \<noteq> 0) = lit ds + of_bool (v \<noteq> 0)"
proof -
  have w: "ds_valueSize ds \<noteq> 0" "unat v < 2 ^ ds_valueSize ds" using wf v by (simp_all add: wf_light_def)
  note eq = ds_set_eq [OF wf_light_ds [OF wf] w(1) i w(2)]
  then obtain ds' where ds': "ds_set SECTION_3D_SIZE ds i v = Inr ds'" "wf_light ds'"
    using wf by (simp add: wf_light_def)
  have e: "ds_entry SECTION_3D_SIZE ds' j = (if j = i then v else ds_entry SECTION_3D_SIZE ds j)"
    if "j < SECTION_3D_SIZE" for j
    using ds.entry_set [OF wf_light_ds [OF wf] w(1) i that w(2) ds'(1)] .
  from card_flip [OF i, of "\<lambda>j. ds_entry SECTION_3D_SIZE ds' j \<noteq> 0" "\<lambda>j. ds_entry SECTION_3D_SIZE ds j \<noteq> 0"]
  have "lit ds' + of_bool (ds_entry SECTION_3D_SIZE ds i \<noteq> 0) = lit ds + of_bool (v \<noteq> 0)"
    by (simp add: lit_def e i)
  with ds' e show ?thesis by blast
qed

text \<open>The byte loop counts what the counters count.\<close>

definition nibbles :: "byte \<Rightarrow> nat" where
  "nibbles b = of_bool (get_field 0 4 b \<noteq> 0) + of_bool (get_field 4 4 b \<noteq> 0)"

lemma uint_pos_iff: "1 \<le> uint (b :: 'a::len word) \<longleftrightarrow> b \<noteq> 0"
  by (metis uint_0_iff int_one_le_iff_zero_less order_less_le uint_ge_0)

lemma low_nibble: "1 \<le> uint (b AND 0x0F :: byte) \<longleftrightarrow> get_field 0 4 b \<noteq> 0"
  by (simp add: uint_pos_iff get_field_def mask_eq_exp_minus_1)

lemma high_nibble: "1 \<le> uint (b AND 0xF0 :: byte) \<longleftrightarrow> get_field 4 4 b \<noteq> 0"
proof -
  have m: "(0xF0 :: byte) = NOT (mask 4)" by (simp add: mask_eq_exp_minus_1)
  have "get_field 4 4 b = drop_bit 4 b"
  proof (rule bit_word_eqI)
    fix n show "bit (get_field 4 4 b) n \<longleftrightarrow> bit (drop_bit 4 b) n"
      using bit_imp_le_length [of b "4 + n"] by (auto simp: get_field_def bit_simps)
  qed
  moreover have "drop_bit 4 b = 0 \<longleftrightarrow> b AND NOT (mask 4) = 0"
  proof
    assume d: "drop_bit 4 b = 0"
    have "\<not> bit b n" if "4 \<le> n" for n
      using arg_cong [OF d, of "\<lambda>w. bit w (n - 4)"] that by (simp add: bit_simps)
    then show "b AND NOT (mask 4) = 0" by (intro bit_word_eqI) (auto simp: bit_simps not_less)
  next
    assume d: "b AND NOT (mask 4) = 0"
    have "\<not> bit b (4 + n)" for n
      using arg_cong [OF d, of "\<lambda>w. bit w (4 + n)"] bit_imp_le_length [of b "4 + n"]
      by (auto simp: bit_simps)
    then show "drop_bit 4 b = 0" by (intro bit_word_eqI) (auto simp: bit_simps)
  qed
  ultimately show ?thesis by (simp only: uint_pos_iff m)
qed

lemma count_nibbles_sum: "count_nibbles bs = of_nat (sum_list (map nibbles bs))"
proof -
  have "foldl (\<lambda>n i. n + ((if uint (i AND 0xF0) \<ge> 1 then 1 else 0)
      + (if uint (i AND 0x0F) \<ge> 1 then 1 else 0))) a bs = a + of_nat (sum_list (map nibbles bs))" for a :: u64
    by (induction bs arbitrary: a) (simp_all add: nibbles_def high_nibble low_nibble)
  then show ?thesis by (simp add: count_nibbles_def)
qed

lemma card_pairs:
  fixes P :: "nat \<Rightarrow> bool"
  shows "card {i. i < 2 * n \<and> P i} = (\<Sum>k<n. of_bool (P (2 * k)) + of_bool (P (2 * k + 1)))"
proof (induction n)
  case (Suc n)
  have "{i. i < 2 * Suc n \<and> P i} = {i. i < 2 * n \<and> P i} \<union> ({2 * n, 2 * n + 1} \<inter> {i. P i})"
    by (auto simp: less_Suc_eq)
  moreover have "card ({2 * n, 2 * n + 1} \<inter> {i. P i}) = of_bool (P (2 * n)) + of_bool (P (2 * n + 1))"
    by (cases "P (2 * n)"; cases "P (2 * n + 1)") (simp_all add: Int_insert_left)
  ultimately show ?case using Suc
    by (simp add: card_Un_disjoint disjoint_iff)
qed simp

lemma lit_count:
  assumes "wf_light ds"
  shows "count_nibbles (ds_store ds) = of_nat (lit ds)"
proof -
  have w: "ds_valueSize ds = 4" and l: "length (ds_store ds) = 2048"
    using assms by (simp_all add: wf_light_def)
  have e: "ds_entry SECTION_3D_SIZE ds i = get_field ((i mod 2) * 4) 4 (ds_store ds ! (i div 2))"
    if "i < SECTION_3D_SIZE" for i
    using ds_get_eq [OF wf_light_ds [OF assms] _ that] w by (simp add: ds.entry_def)
  have "SECTION_3D_SIZE = 2 * 2048" by (simp add: section_sizes)
  then have "lit ds = (\<Sum>k<2048. of_bool (ds_entry SECTION_3D_SIZE ds (2 * k) \<noteq> 0)
      + of_bool (ds_entry SECTION_3D_SIZE ds (2 * k + 1) \<noteq> 0))"
    unfolding lit_def using card_pairs [of 2048 "\<lambda>i. ds_entry SECTION_3D_SIZE ds i \<noteq> 0"] by metis
  also have "\<dots> = (\<Sum>k<2048. nibbles (ds_store ds ! k))"
  proof (rule sum.cong)
    fix k :: nat assume "k \<in> {..<2048}"
    then have "2 * k < SECTION_3D_SIZE" "2 * k + 1 < SECTION_3D_SIZE" by (auto simp: section_sizes)
    from e [OF this(1)] e [OF this(2)]
    show "of_bool (ds_entry SECTION_3D_SIZE ds (2 * k) \<noteq> 0)
        + of_bool (ds_entry SECTION_3D_SIZE ds (2 * k + 1) \<noteq> 0) = nibbles (ds_store ds ! k)"
      by (simp add: nibbles_def)
  qed simp
  also have "\<dots> = sum_list (map nibbles (ds_store ds))"
    by (simp add: sum_list_sum_nth l atLeast0LessThan)
  finally show ?thesis by (simp add: count_nibbles_sum)
qed

subsection \<open>The invariant of a section\<close>

definition wf_section :: "Section \<Rightarrow> bool" where
  "wf_section s \<longleftrightarrow>
     paletted SECTION_3D_SIZE block_getBits (blockPalette s) (blocks s)
     \<and> paletted BIOME_SECTION_3D_SIZE biome_getBits (biomePalette s) (biomes s)
     \<and> wf_light (skyLight s) \<and> wf_light (blockLight s)
     \<and> skyLightCount s = of_nat (lit (skyLight s)) \<and> blockLightCount s = of_nat (lit (blockLight s))"

lemma new_light_wf:
  "\<exists>ds. newDynamicStorage SECTION_3D_SIZE 4 = Inr ds \<and> wf_light ds \<and> lit ds = 0"
proof -
  obtain ds :: "8 DynamicStorage" where ds: "newDynamicStorage SECTION_3D_SIZE 4 = Inr ds"
      "\<forall>i < SECTION_3D_SIZE. ds_entry SECTION_3D_SIZE ds i = 0"
    using newDynamicStorage_ok [of 4, where 'a = 8 and N = SECTION_3D_SIZE] by auto
  from ds(1) have "wf_light ds"
    by (auto simp: newDynamicStorage_def Let_def wf_light_def section_sizes)
  moreover have "lit ds = 0" using ds(2) by (simp add: lit_def)
  ultimately show ?thesis using ds(1) by blast
qed

lemma wf_newSection: "\<exists>s. newSection = Inr s \<and> wf_section s"
proof -
  obtain ds where "newDynamicStorage SECTION_3D_SIZE 4 = Inr ds" "wf_light ds" "lit ds = 0"
    using new_light_wf by blast
  then show ?thesis
    by (simp add: newSection_def newDynamicStorage_def [of _ 0] wf_section_def paletted_def wf_ds_def
        newPalette_def block_getBits_def biome_getBits_def)
qed

lemma setBlock_ok:
  assumes wf: "wf_section s" and pos: "in_cube 16 pos"
    and cap: "length (palette_add (blockPalette s) b) \<le> 2 ^ 15"
  shows "\<exists>s'. setBlock s pos b = (s', Inr ()) \<and> wf_section s'
      \<and> biomes s' = biomes s \<and> biomePalette s' = biomePalette s
      \<and> skyLight s' = skyLight s \<and> blockLight s' = blockLight s
      \<and> (\<forall>q. in_cube 16 q \<longrightarrow> getBlock s' q = (if q = pos then Inr b else getBlock s q))"
proof -
  have inv: "paletted SECTION_3D_SIZE block_getBits (blockPalette s) (blocks s)"
    using wf by (simp add: wf_section_def)
  obtain ds where ds: "paletted_set SECTION_3D_SIZE block_getBits (blockPalette s) (blocks s)
        (unat (calculateSectionBlockIdx pos)) b = ((palette_add (blockPalette s) b, ds), Inr ())"
      "paletted SECTION_3D_SIZE block_getBits (palette_add (blockPalette s) b) ds"
      "\<forall>j < SECTION_3D_SIZE. paletted_get SECTION_3D_SIZE (palette_add (blockPalette s) b) ds j
        = (if j = unat (calculateSectionBlockIdx pos) then Inr b
           else paletted_get SECTION_3D_SIZE (blockPalette s) (blocks s) j)"
    using block_bits.paletted_set_ok [OF inv block_idx_less [OF pos] cap] by blast
  let ?s = "s\<lparr>blockPalette := palette_add (blockPalette s) b, blocks := ds\<rparr>"
  have "setBlock s pos b = (?s, Inr ())" using in_cube_guards(1) [OF pos] ds(1) by (simp add: setBlock_def)
  moreover have "wf_section ?s" using wf ds(2) by (simp add: wf_section_def)
  moreover have "getBlock ?s q = (if q = pos then Inr b else getBlock s q)" if "in_cube 16 q" for q
    using in_cube_guards(1) [OF that] ds(3) block_idx_less [OF that] block_idx_inj [OF that pos]
    by (auto simp: getBlock_def)
  ultimately show ?thesis by (intro exI [of _ ?s]) simp
qed

lemma setBiome_ok:
  assumes wf: "wf_section s" and pos: "in_cube 4 pos"
    and cap: "length (palette_add (biomePalette s) b) \<le> 2 ^ 3"
  shows "\<exists>s'. setBiome s pos b = (s', Inr ()) \<and> wf_section s'
      \<and> blocks s' = blocks s \<and> blockPalette s' = blockPalette s
      \<and> skyLight s' = skyLight s \<and> blockLight s' = blockLight s
      \<and> (\<forall>q. in_cube 4 q \<longrightarrow> getBiome s' q = (if q = pos then Inr b else getBiome s q))"
proof -
  have inv: "paletted BIOME_SECTION_3D_SIZE biome_getBits (biomePalette s) (biomes s)"
    using wf by (simp add: wf_section_def)
  obtain ds where ds: "paletted_set BIOME_SECTION_3D_SIZE biome_getBits (biomePalette s) (biomes s)
        (unat (calculateSectionBiomeIdx pos)) b = ((palette_add (biomePalette s) b, ds), Inr ())"
      "paletted BIOME_SECTION_3D_SIZE biome_getBits (palette_add (biomePalette s) b) ds"
      "\<forall>j < BIOME_SECTION_3D_SIZE. paletted_get BIOME_SECTION_3D_SIZE (palette_add (biomePalette s) b) ds j
        = (if j = unat (calculateSectionBiomeIdx pos) then Inr b
           else paletted_get BIOME_SECTION_3D_SIZE (biomePalette s) (biomes s) j)"
    using biome_bits.paletted_set_ok [OF inv biome_idx_less [OF pos] cap] by blast
  let ?s = "s\<lparr>biomePalette := palette_add (biomePalette s) b, biomes := ds\<rparr>"
  have "setBiome s pos b = (?s, Inr ())" using in_cube_guards(2) [OF pos] ds(1) by (simp add: setBiome_def)
  moreover have "wf_section ?s" using wf ds(2) by (simp add: wf_section_def)
  moreover have "getBiome ?s q = (if q = pos then Inr b else getBiome s q)" if "in_cube 4 q" for q
    using in_cube_guards(2) [OF that] ds(3) biome_idx_less [OF that] biome_idx_inj [OF that pos]
    by (auto simp: getBiome_def)
  ultimately show ?thesis by (intro exI [of _ ?s]) simp
qed

subsection \<open>Light operations\<close>

lemma count_step:
  fixes c :: u64
  assumes "c = of_nat m" and "n + of_bool a = m + of_bool b"
  shows "(let c1 = (if a \<and> \<not> b then c - 1 else c) in if \<not> a \<and> b then c1 + 1 else c1) = of_nat n"
proof -
  have "of_nat (n + of_bool a) = (of_nat (m + of_bool b) :: u64)" by (simp only: assms(2))
  then have "of_nat n + of_bool a = c + (of_bool b :: u64)" by (simp add: assms(1))
  then show ?thesis by (cases a; cases b) (auto simp: algebra_simps)
qed

lemma setSkyLight_ok:
  assumes wf: "wf_section s" and pos: "in_cube 16 pos" and v: "unat v < 16"
  shows "\<exists>s'. setSkyLight s pos v = (s', Inr ()) \<and> wf_section s'
      \<and> (\<forall>q. in_cube 16 q \<longrightarrow> getSkyLight s' q = (if q = pos then Inr v else getSkyLight s q))"
proof -
  let ?i = "unat (calculateSectionBlockIdx pos)" and ?N = SECTION_3D_SIZE
  let ?l = "ds_entry ?N (skyLight s) ?i"
  have w: "wf_light (skyLight s)" and cnt: "skyLightCount s = of_nat (lit (skyLight s))"
    using wf by (simp_all add: wf_section_def)
  have nz: "ds_valueSize (skyLight s) \<noteq> 0" using w by (simp add: wf_light_def)
  have g: "ds_get ?N (skyLight s) ?i = Inr ?l"
    using ds.get_entry [OF wf_light_ds [OF w] nz block_idx_less [OF pos]] .
  obtain ds' where ds': "ds_set ?N (skyLight s) ?i v = Inr ds'" "wf_light ds'"
      "\<forall>j < ?N. ds_entry ?N ds' j = (if j = ?i then v else ds_entry ?N (skyLight s) j)"
      "lit ds' + of_bool (?l \<noteq> 0) = lit (skyLight s) + of_bool (v \<noteq> 0)"
    using lit_set [OF w block_idx_less [OF pos] v] by blast
  let ?s = "s\<lparr>skyLightCount := of_nat (lit ds'), skyLight := ds'\<rparr>"
  have nz': "ds_valueSize ds' \<noteq> 0" using ds'(2) by (simp add: wf_light_def)
  have "setSkyLight s pos v = (?s, Inr ())"
    using g ds'(1) count_step [OF cnt ds'(4)] by (auto simp: setSkyLight_def Let_def split: if_splits)
  moreover have "wf_section ?s" using wf ds'(2) by (simp add: wf_section_def)
  moreover have "getSkyLight ?s q = (if q = pos then Inr v else getSkyLight s q)" if "in_cube 16 q" for q
    using in_cube_guards(1) [OF that] ds'(3) block_idx_less [OF that] block_idx_inj [OF that pos]
      ds.get_entry [OF wf_light_ds [OF w] nz block_idx_less [OF that]]
      ds.get_entry [OF wf_light_ds [OF ds'(2)] nz' block_idx_less [OF that]]
    by (auto simp: getSkyLight_def)
  ultimately show ?thesis by (intro exI [of _ ?s]) simp
qed

lemma setBlockLight_ok:
  assumes wf: "wf_section s" and pos: "in_cube 16 pos" and v: "unat v < 16"
  shows "\<exists>s'. setBlockLight s pos v = (s', Inr ()) \<and> wf_section s'
      \<and> (\<forall>q. in_cube 16 q \<longrightarrow> getBlockLight s' q = (if q = pos then Inr v else getBlockLight s q))"
proof -
  let ?i = "unat (calculateSectionBlockIdx pos)" and ?N = SECTION_3D_SIZE
  let ?l = "ds_entry ?N (blockLight s) ?i"
  have w: "wf_light (blockLight s)" and cnt: "blockLightCount s = of_nat (lit (blockLight s))"
    using wf by (simp_all add: wf_section_def)
  have nz: "ds_valueSize (blockLight s) \<noteq> 0" using w by (simp add: wf_light_def)
  have g: "getBlockLight (s\<lparr>blockLightCount := c\<rparr>) pos = Inr ?l" "getBlockLight s pos = Inr ?l" for c
    using ds.get_entry [OF wf_light_ds [OF w] nz block_idx_less [OF pos]] in_cube_guards(1) [OF pos]
    by (simp_all add: getBlockLight_def)
  obtain ds' where ds': "ds_set ?N (blockLight s) ?i v = Inr ds'" "wf_light ds'"
      "\<forall>j < ?N. ds_entry ?N ds' j = (if j = ?i then v else ds_entry ?N (blockLight s) j)"
      "lit ds' + of_bool (?l \<noteq> 0) = lit (blockLight s) + of_bool (v \<noteq> 0)"
    using lit_set [OF w block_idx_less [OF pos] v] by blast
  let ?s = "s\<lparr>blockLightCount := of_nat (lit ds'), blockLight := ds'\<rparr>"
  have nz': "ds_valueSize ds' \<noteq> 0" using ds'(2) by (simp add: wf_light_def)
  have "setBlockLight s pos v = (s\<lparr>blockLightCount := (let c1 = (if ?l \<noteq> 0 \<and> \<not> v \<noteq> 0 then blockLightCount s - 1 else blockLightCount s)
      in if \<not> ?l \<noteq> 0 \<and> v \<noteq> 0 then c1 + 1 else c1), blockLight := ds'\<rparr>, Inr ())"
    using g ds'(1) by (cases "?l = 0"; cases "v = 0") (simp_all add: setBlockLight_def Let_def)
  then have "setBlockLight s pos v = (?s, Inr ())" by (simp only: count_step [OF cnt ds'(4)])
  moreover have "wf_section ?s" using wf ds'(2) by (simp add: wf_section_def)
  moreover have "getBlockLight ?s q = (if q = pos then Inr v else getBlockLight s q)" if "in_cube 16 q" for q
    using in_cube_guards(1) [OF that] ds'(3) block_idx_less [OF that] block_idx_inj [OF that pos]
      ds.get_entry [OF wf_light_ds [OF w] nz block_idx_less [OF that]]
      ds.get_entry [OF wf_light_ds [OF ds'(2)] nz' block_idx_less [OF that]]
    by (auto simp: getBlockLight_def)
  ultimately show ?thesis by (intro exI [of _ ?s]) simp
qed

lemma recalculate_counts:
  assumes "wf_section s"
  shows "recalculateSkyLightCount s = s" and "recalculateBlockLightCount s = s"
  using assms lit_count
  by (simp_all add: wf_section_def recalculateSkyLightCount_def recalculateBlockLightCount_def)

lemma recalculateSkyLight_ok:
  assumes "wf_section s"
  shows "wf_section (recalculateSkyLight s)"
  using assms lit_count [of "(skyLight s)\<lparr>ds_store := map (\<lambda>_. 0xFF) (ds_store (skyLight s))\<rparr>"]
  by (simp add: wf_section_def recalculateSkyLight_def recalculateSkyLightCount_def wf_light_def)

section \<open>Where the guards are too weak\<close>

lemma setBlock_overhang:
  "setBlock s \<lparr>pos_x = 16, pos_y = 0, pos_z = 0\<rparr> b = setBlock s \<lparr>pos_x = 0, pos_y = 0, pos_z = 1\<rparr> b"
  by (simp add: setBlock_def position_ge_def position_less_def calculateSectionBlockIdx_def section_sizes)

lemma setBiome_ninth:
  assumes wf: "wf_section s" and pos: "in_cube 4 pos"
    and full: "length (biomePalette s) = 8" and new: "b \<notin> set (biomePalette s)"
  shows "snd (setBiome s pos b) = Inl StdOutOfRange"
proof -
  let ?p = "biomePalette s" and ?i = "unat (calculateSectionBiomeIdx pos)"
  have add: "palette_add ?p b = ?p @ [b]" using new by (simp add: palette_add_def find_idx_eq_length)
  have "find_idx (?p @ [b]) ((?p @ [b]) ! 8) = 8"
    using wf new full by (intro find_idx_nth) (auto simp: wf_section_def paletted_def)
  then have id: "getId (palette_add ?p b) b = 8" using full by (simp add: add getId_def nth_append)
  have b8: "bitsNeeded 8 = 3" "bitsNeeded 9 = 4" by (simp_all add: bitsNeeded.simps)
  then have bits: "biome_getBits ?p = 3" "biome_getBits (palette_add ?p b) = 3"
    using full by (simp_all add: add biome_getBits_def)
  have v3: "ds_valueSize (biomes s) = 3" using wf bits by (simp add: wf_section_def paletted_def)
  then have "ds_set BIOME_SECTION_3D_SIZE (biomes s) ?i 8 = Inl StdOutOfRange"
    using biome_idx_less [OF pos] by (simp add: ds_set_def value_mask_def)
  then show ?thesis
    using in_cube_guards(2) [OF pos] bits id by (simp add: setBiome_def paletted_set_def Let_def)
qed

section \<open>Properties\<close>

text \<open>C19: a section refines an array of block identifiers: writing inside the cube succeeds, keeps the
  invariant and changes that block only, as long as the palette keeps to fifteen bits; the biomes and
  the light are untouched.\<close>

theorem section_setBlock:
  assumes "wf_section s" and "in_cube 16 pos" and "length (palette_add (blockPalette s) b) \<le> 2 ^ 15"
  shows "\<exists>s'. setBlock s pos b = (s', Inr ()) \<and> wf_section s'
      \<and> biomes s' = biomes s \<and> biomePalette s' = biomePalette s
      \<and> skyLight s' = skyLight s \<and> blockLight s' = blockLight s
      \<and> (\<forall>q. in_cube 16 q \<longrightarrow> getBlock s' q = (if q = pos then Inr b else getBlock s q))"
  by (rule setBlock_ok [OF assms])

theorem section_setBlock_witness:
  "\<exists>s s'. newSection = Inr s \<and> setBlock s \<lparr>pos_x = 15, pos_y = 3, pos_z = 7\<rparr> 9 = (s', Inr ())
     \<and> wf_section s' \<and> getBlock s' \<lparr>pos_x = 15, pos_y = 3, pos_z = 7\<rparr> = Inr 9"
proof -
  obtain s where s: "newSection = Inr s" "wf_section s" using wf_newSection by blast
  then have "length (palette_add (blockPalette s) 9) \<le> 2 ^ 15"
    by (auto simp: newSection_def rbind_Inr_iff newPalette_def palette_add_def)
  moreover have "in_cube 16 \<lparr>pos_x = 15, pos_y = 3, pos_z = 7\<rparr>" by (simp add: in_cube_def)
  ultimately show ?thesis using section_setBlock [OF s(2), of "\<lparr>pos_x = 15, pos_y = 3, pos_z = 7\<rparr>" 9] s(1)
    by fastforce
qed

text \<open>The same for the biomes, on the four by four by four cube and up to eight different biomes.\<close>

theorem section_setBiome:
  assumes "wf_section s" and "in_cube 4 pos" and "length (palette_add (biomePalette s) b) \<le> 2 ^ 3"
  shows "\<exists>s'. setBiome s pos b = (s', Inr ()) \<and> wf_section s'
      \<and> blocks s' = blocks s \<and> blockPalette s' = blockPalette s
      \<and> skyLight s' = skyLight s \<and> blockLight s' = blockLight s
      \<and> (\<forall>q. in_cube 4 q \<longrightarrow> getBiome s' q = (if q = pos then Inr b else getBiome s q))"
  by (rule setBiome_ok [OF assms])

theorem section_setBiome_witness:
  "\<exists>s s'. newSection = Inr s \<and> setBiome s \<lparr>pos_x = 3, pos_y = 0, pos_z = 2\<rparr> 40 = (s', Inr ())
     \<and> wf_section s' \<and> getBiome s' \<lparr>pos_x = 3, pos_y = 0, pos_z = 2\<rparr> = Inr 40"
proof -
  obtain s where s: "newSection = Inr s" "wf_section s" using wf_newSection by blast
  then have "length (palette_add (biomePalette s) 40) \<le> 2 ^ 3"
    by (auto simp: newSection_def rbind_Inr_iff newPalette_def palette_add_def)
  moreover have "in_cube 4 \<lparr>pos_x = 3, pos_y = 0, pos_z = 2\<rparr>" by (simp add: in_cube_def)
  ultimately show ?thesis using section_setBiome [OF s(2), of "\<lparr>pos_x = 3, pos_y = 0, pos_z = 2\<rparr>" 40] s(1)
    by fastforce
qed

text \<open>C27: a light level written inside the cube is read back and no other changes, and the counters stay
  the number of lit blocks: counting the lit blocks again, as \<open>recalculateSkyLightCount\<close> and
  \<open>recalculateBlockLightCount\<close> do, changes nothing.\<close>

theorem section_light:
  assumes "wf_section s" and "in_cube 16 pos" and "unat v < 16"
  shows "\<exists>s' s''. setSkyLight s pos v = (s', Inr ()) \<and> setBlockLight s' pos v = (s'', Inr ()) \<and> wf_section s''
      \<and> recalculateSkyLightCount s' = s' \<and> recalculateBlockLightCount s'' = s''
      \<and> (\<forall>q. in_cube 16 q \<longrightarrow> getSkyLight s' q = (if q = pos then Inr v else getSkyLight s q)
           \<and> getBlockLight s'' q = (if q = pos then Inr v else getBlockLight s' q))"
proof -
  obtain s' where s': "setSkyLight s pos v = (s', Inr ())" "wf_section s'"
      "\<forall>q. in_cube 16 q \<longrightarrow> getSkyLight s' q = (if q = pos then Inr v else getSkyLight s q)"
    using setSkyLight_ok [OF assms] by blast
  obtain s'' where "setBlockLight s' pos v = (s'', Inr ())" "wf_section s''"
      "\<forall>q. in_cube 16 q \<longrightarrow> getBlockLight s'' q = (if q = pos then Inr v else getBlockLight s' q)"
    using setBlockLight_ok [OF s'(2) assms(2,3)] by blast
  with s' recalculate_counts show ?thesis by blast
qed

theorem section_light_witness:
  "\<exists>s s' s''. newSection = Inr s \<and> setSkyLight s \<lparr>pos_x = 1, pos_y = 2, pos_z = 3\<rparr> 15 = (s', Inr ())
     \<and> setBlockLight s' \<lparr>pos_x = 1, pos_y = 2, pos_z = 3\<rparr> 15 = (s'', Inr ())
     \<and> getSkyLight s' \<lparr>pos_x = 1, pos_y = 2, pos_z = 3\<rparr> = Inr 15 \<and> recalculateSkyLightCount s' = s'"
proof -
  obtain s where s: "newSection = Inr s" "wf_section s" using wf_newSection by blast
  have "in_cube 16 \<lparr>pos_x = 1, pos_y = 2, pos_z = 3\<rparr>" "unat (15 :: byte) < 16" by (simp_all add: in_cube_def)
  from section_light [OF s(2) this] s(1) this(1) show ?thesis by metis
qed

text \<open>The guards of \<open>setBlock\<close> refuse a position only when all of its coordinates leave the cube: the
  block at x = 16 is written to the next row.\<close>

theorem section_setBlock_overhang:
  "setBlock s \<lparr>pos_x = 16, pos_y = 0, pos_z = 0\<rparr> b = setBlock s \<lparr>pos_x = 0, pos_y = 0, pos_z = 1\<rparr> b"
  by (rule setBlock_overhang)

end
