(* ===== verification/Actions.thy ===== *)
theory Actions
  imports Cubic_Prelude
begin

text \<open>
  Methods that change their object and may throw, as functions on the state, with sequencing and
  loops. The world storage, the containers and the players share them.
\<close>

section \<open>Actions\<close>

text \<open>
  A method that changes its object and may throw: the object it leaves behind and its outcome. A
  sequence stops at the first exception.
\<close>

type_synonym 's act = "'s \<Rightarrow> 's \<times> unit result"

definition act_then :: "'s act \<Rightarrow> 's act \<Rightarrow> 's act" where
  "act_then f g s = (case f s of (s', Inl e) \<Rightarrow> (s', Inl e) | (s', Inr _) \<Rightarrow> g s')"

definition act_skip :: "'s act" where
  "act_skip s = (s, Inr ())"

definition act_do :: "('s \<Rightarrow> 's) \<Rightarrow> 's act" where
  "act_do f s = (f s, Inr ())"

text \<open>\<open>for\<close> loops over a list of values.\<close>

fun act_for :: "'a list \<Rightarrow> ('a \<Rightarrow> 's act) \<Rightarrow> 's act" where
  "act_for [] body s = (s, Inr ())"
| "act_for (x # xs) body s =
     (case body x s of (s', Inl e) \<Rightarrow> (s', Inl e) | (s', Inr _) \<Rightarrow> act_for xs body s')"

section \<open>Laws\<close>

lemma act_then_Inr:
  "act_then f g s = (s', Inr ()) \<longleftrightarrow> (\<exists>s1. f s = (s1, Inr ()) \<and> g s1 = (s', Inr ()))"
  by (auto simp: act_then_def split: prod.splits sum.splits unit.splits)

lemma act_for_append:
  "act_for (xs @ ys) body s
   = (case act_for xs body s of (s', Inl e) \<Rightarrow> (s', Inl e) | (s', Inr _) \<Rightarrow> act_for ys body s')"
  by (induction xs arbitrary: s) (auto split: prod.splits sum.splits unit.splits)

lemma act_for_concat:
  "act_for xs (\<lambda>x. act_for (ys x) (body x)) s = act_for (concat (map (\<lambda>x. map (Pair x) (ys x)) xs)) (\<lambda>(x, y). body x y) s"
proof -
  have m: "act_for (map (Pair x) zs) (\<lambda>(x, y). body x y) s = act_for zs (body x) s" for x zs s
    by (induction zs arbitrary: s) (auto split: prod.splits sum.splits unit.splits)
  show ?thesis
    by (induction xs arbitrary: s) (simp_all add: act_for_append m split: prod.splits sum.splits unit.splits)
qed

end
