(* ===== verification/Chunk_Column.thy ===== *)
theory Chunk_Column
  imports Section Nbt Actions
begin

text \<open>
  \<open>world_storage/ChunkColumn.hpp\<close> and \<open>ChunkColumn.cpp\<close>: a column of 26 sections (the 24 playable
  ones, one below and one above), the dispatch of block, light and biome accesses to a section, the
  height map, and the state machine that generates a column step by step.

  The protocol identifiers of the blocks come from \<open>blocks.hpp\<close>, a file the build generates: they
  are an argument, the record \<open>block_ids\<close>. The terrain generator and the oak trees of
  \<open>generation/\<close> are arguments as well.
\<close>

section \<open>State\<close>

definition HEIGHTMAP_BITS :: nat where
  "HEIGHTMAP_BITS = bitsNeeded (nat (CHUNK_HEIGHT + 1))"

definition HEIGHTMAP_ARRAY_SIZE :: nat where
  "HEIGHTMAP_ARRAY_SIZE = nat SECTION_2D_SIZE * HEIGHTMAP_BITS div 64
     + (if nat SECTION_2D_SIZE * HEIGHTMAP_BITS mod 64 \<noteq> 0 then 1 else 0)"

datatype GenerationState = INITIALIZED | RAW_GENERATION | LAKES | LOCAL_MODIFICATIONS
  | UNDERGROUND_STRUCTURES | SURFACE_STRUCTURES | STRONGHOLDS | UNDERGROUND_ORES
  | UNDERGROUND_DECORATION | FLUID_SPRINGS | VEGETAL_DECORATION | TOP_LAYER_MODIFICATION | READY

fun state_code :: "GenerationState \<Rightarrow> nat" where
  "state_code INITIALIZED = 0"
| "state_code RAW_GENERATION = 1"
| "state_code LAKES = 2"
| "state_code LOCAL_MODIFICATIONS = 3"
| "state_code UNDERGROUND_STRUCTURES = 4"
| "state_code SURFACE_STRUCTURES = 5"
| "state_code STRONGHOLDS = 6"
| "state_code UNDERGROUND_ORES = 7"
| "state_code UNDERGROUND_DECORATION = 8"
| "state_code FLUID_SPRINGS = 9"
| "state_code VEGETAL_DECORATION = 10"
| "state_code TOP_LAYER_MODIFICATION = 11"
| "state_code READY = 12"

datatype WorldType = WT_DEFAULT | WT_SUPERFLAT | WT_LARGEBIOME | WT_AMPLIFIED | WT_SINGLEBIOME
  | WT_DEBUG | WT_SUPERFLAT_CUBIC_SERVER

datatype DimensionType = OVERWORLD | NETHER | END

record ChunkColumn =
  sections :: "Section list"
  tickData :: i64
  chunkPos :: Position2D
  heightMap :: "nbt list"
  currentState :: GenerationState

text \<open>\<open>_tickData\<close> is not initialised by the constructor: its first value is the argument \<open>t\<close>.\<close>

definition newChunkColumn :: "i64 \<Rightarrow> Position2D \<Rightarrow> ChunkColumn result" where
  "newChunkColumn t pos = rbind newSection (\<lambda>s.
     Inr \<lparr>sections = replicate (nat NB_OF_SECTIONS) s, tickData = t, chunkPos = pos,
       heightMap = map (\<lambda>n. ListTag n (replicate HEIGHTMAP_ARRAY_SIZE (LongTag '''' 0)))
         [''MOTION_BLOCKING'', ''WORLD_SURFACE''],
       currentState = INITIALIZED\<rparr>)"

section \<open>Access to the sections\<close>

text \<open>The index is computed in \<open>int64_t\<close> with truncating division and cut to \<open>uint8_t\<close>.\<close>

definition getSectionIndex :: "Position \<Rightarrow> nat" where
  "getSectionIndex pos =
     nat (cdiv (sint (pos_y pos) - CHUNK_HEIGHT_MIN + SECTION_WIDTH) SECTION_WIDTH mod 256)"

definition getBiomeSectionIndex :: "Position \<Rightarrow> nat" where
  "getBiomeSectionIndex pos =
     nat (cdiv (sint (pos_y pos) - BIOME_HEIGHT_MIN + BIOME_SECTION_WIDTH) BIOME_SECTION_WIDTH mod 256)"

definition block_in_section :: "Position \<Rightarrow> Position" where
  "block_in_section pos = position_mod (pos\<lparr>pos_y := pos_y pos - of_int CHUNK_HEIGHT_MIN\<rparr>) SECTION_WIDTH"

definition biome_in_section :: "Position \<Rightarrow> Position" where
  "biome_in_section pos =
     position_mod (pos\<lparr>pos_y := pos_y pos - of_int BIOME_HEIGHT_MIN\<rparr>) BIOME_SECTION_WIDTH"

text \<open>\<open>_sections.at(i)\<close> followed by a method of the section that changes it, or that reads it.\<close>

definition on_section :: "nat \<Rightarrow> Section act \<Rightarrow> ChunkColumn act" where
  "on_section i f c =
     (if i \<ge> length (sections c) then (c, Inl StdOutOfRange)
      else case f (sections c ! i) of (s, r) \<Rightarrow> (c\<lparr>sections := (sections c)[i := s]\<rparr>, r))"

definition from_section :: "nat \<Rightarrow> (Section \<Rightarrow> 'a result) \<Rightarrow> ChunkColumn \<Rightarrow> 'a result" where
  "from_section i f c = (if i \<ge> length (sections c) then Inl StdOutOfRange else f (sections c ! i))"

definition column_updateBlock :: "Position \<Rightarrow> i32 \<Rightarrow> ChunkColumn act" where
  "column_updateBlock pos blockId =
     on_section (getSectionIndex pos) (\<lambda>s. updateBlock s (block_in_section pos) blockId)"

definition column_getBlock :: "ChunkColumn \<Rightarrow> Position \<Rightarrow> i32 result" where
  "column_getBlock c pos = from_section (getSectionIndex pos) (\<lambda>s. getBlock s (block_in_section pos)) c"

definition column_getSkyLight :: "ChunkColumn \<Rightarrow> Position \<Rightarrow> byte result" where
  "column_getSkyLight c pos =
     from_section (getSectionIndex pos) (\<lambda>s. getSkyLight s (block_in_section pos)) c"

definition column_updateSkyLight :: "Position \<Rightarrow> byte \<Rightarrow> ChunkColumn act" where
  "column_updateSkyLight pos light =
     on_section (getSectionIndex pos) (\<lambda>s. updateSkyLight s (block_in_section pos) light)"

definition column_updateBlockLight :: "Position \<Rightarrow> byte \<Rightarrow> ChunkColumn act" where
  "column_updateBlockLight pos light =
     on_section (getSectionIndex pos) (\<lambda>s. updateBlockLight s (block_in_section pos) light)"

definition column_getBlockLight :: "ChunkColumn \<Rightarrow> Position \<Rightarrow> byte result" where
  "column_getBlockLight c pos =
     from_section (getSectionIndex pos) (\<lambda>s. getBlockLight s (block_in_section pos)) c"

text \<open>
  A biome is a \<open>uint8_t\<close> here and an \<open>int32_t\<close> in the section. \<open>getBiome\<close> takes the remainder of the
  position itself, not of the position above the bottom of the column.
\<close>

definition column_updateBiome :: "Position \<Rightarrow> byte \<Rightarrow> ChunkColumn act" where
  "column_updateBiome pos biome =
     on_section (getBiomeSectionIndex pos) (\<lambda>s. updateBiome s (biome_in_section pos) (ucast biome))"

definition column_getBiome :: "ChunkColumn \<Rightarrow> Position \<Rightarrow> byte result" where
  "column_getBiome c pos =
     rbind (from_section (getBiomeSectionIndex pos)
       (\<lambda>s. getBiome s (position_mod pos BIOME_SECTION_WIDTH)) c) (\<lambda>b. Inr (ucast b))"

definition isReady :: "ChunkColumn \<Rightarrow> bool" where
  "isReady c \<longleftrightarrow> currentState c = READY"

definition column_recalculateSkyLight :: "ChunkColumn \<Rightarrow> ChunkColumn" where
  "column_recalculateSkyLight c = c\<lparr>sections := map recalculateSkyLight (sections c)\<rparr>"

definition column_recalculateBlockLight :: "ChunkColumn \<Rightarrow> ChunkColumn" where
  "column_recalculateBlockLight c = c\<lparr>sections := map recalculateBlockLight (sections c)\<rparr>"

section \<open>The height map\<close>

text \<open>
  \<open>_heightMap.getValueAs<nbt::List>("WORLD_SURFACE")->getValueAs<nbt::Long>(idx)->setValue(v)\<close>: the
  first tag of that name, a list, and in it an element that has to be a long.
\<close>

fun set_surface :: "nbt list \<Rightarrow> nat \<Rightarrow> i64 \<Rightarrow> nbt list result" where
  "set_surface [] idx v = Inl (UB NullDereference)"
| "set_surface (t # ts) idx v =
     (if getName t \<noteq> ''WORLD_SURFACE'' then rbind (set_surface ts idx v) (\<lambda>ts. Inr (t # ts))
      else case t of
        ListTag n vals \<Rightarrow> rbind (list_getValueAs TLong vals idx) (\<lambda>e.
          Inr (ListTag n (vals[idx := LongTag (getName e) v]) # ts))
      | _ \<Rightarrow> Inl TypeMismatch)"

text \<open>The innermost loop, from the top of the section down to the first block that is not air.\<close>

fun column_top :: "Section \<Rightarrow> int \<Rightarrow> int \<Rightarrow> int list \<Rightarrow> int option result" where
  "column_top s x z [] = Inr None"
| "column_top s x z (y # ys) =
     rbind (getBlock s \<lparr>pos_x = of_int x, pos_y = of_int y, pos_z = of_int z\<rparr>) (\<lambda>b.
       if b \<noteq> 0 then Inr (Some y) else column_top s x z ys)"

definition updateHeightMap :: "ChunkColumn act" where
  "updateHeightMap c =
     act_for (sections c) (\<lambda>s. act_for [0..15] (\<lambda>x. act_for [0..15] (\<lambda>z c.
       case column_top s x z (rev [0..15]) of
         Inl e \<Rightarrow> (c, Inl e)
       | Inr None \<Rightarrow> (c, Inr ())
       | Inr (Some y) \<Rightarrow>
           (case set_surface (heightMap c) (nat (x + z * SECTION_WIDTH)) (of_int (y + 1)) of
              Inl e \<Rightarrow> (c, Inl e)
            | Inr hm \<Rightarrow> (c\<lparr>heightMap := hm\<rparr>, Inr ()))))) c"

section \<open>Generation\<close>

record block_ids =
  Air :: i32
  Bedrock :: i32
  Dirt :: i32
  GrassBlock :: i32
  OakLog :: i32
  OakLeaves :: i32
  Water :: i32
  Stone :: i32
  Sand :: i32

record generator =
  gen_getBlock :: "int \<Rightarrow> int \<Rightarrow> int \<Rightarrow> i32"
  gen_getBiome :: "int \<Rightarrow> int \<Rightarrow> int \<Rightarrow> byte"

definition mkpos :: "int \<Rightarrow> int \<Rightarrow> int \<Rightarrow> Position" where
  "mkpos x y z = \<lparr>pos_x = of_int x, pos_y = of_int y, pos_z = of_int z\<rparr>"

definition set_state :: "GenerationState \<Rightarrow> ChunkColumn act" where
  "set_state st = act_do (\<lambda>c. c\<lparr>currentState := st\<rparr>)"

text \<open>The positions of three nested \<open>for\<close> loops over \<open>y\<close>, \<open>z\<close> and \<open>x\<close>.\<close>

definition loop_yzx :: "int list \<Rightarrow> int list \<Rightarrow> int list \<Rightarrow> (int \<Rightarrow> int \<Rightarrow> int \<Rightarrow> 's act) \<Rightarrow> 's act" where
  "loop_yzx ys zs xs body = act_for ys (\<lambda>y. act_for zs (\<lambda>z. act_for xs (\<lambda>x. body x y z)))"

definition flat_block :: "block_ids \<Rightarrow> int \<Rightarrow> int \<Rightarrow> int \<Rightarrow> i32 option" where
  "flat_block B x y z =
     (if y = 0 then Some (Bedrock B)
      else if y = 1 \<or> y = 2 then Some (Dirt B)
      else if y = 3 then Some (GrassBlock B)
      else None)"

definition place :: "(int \<Rightarrow> int \<Rightarrow> int \<Rightarrow> i32 option) \<Rightarrow> int \<Rightarrow> int \<Rightarrow> int \<Rightarrow> ChunkColumn act" where
  "place layer x y z =
     (case layer x y z of None \<Rightarrow> act_skip
      | Some b \<Rightarrow> column_updateBlock (mkpos x (y + CHUNK_HEIGHT_MIN) z) b)"

definition generateFlat :: "block_ids \<Rightarrow> ChunkColumn act" where
  "generateFlat B = act_then (loop_yzx [0..10] [0..15] [0..15] (place (flat_block B))) (set_state READY)"

definition cubic_block :: "block_ids \<Rightarrow> int \<Rightarrow> int \<Rightarrow> int \<Rightarrow> i32 option" where
  "cubic_block B x y z =
     (if y = 0 then Some (Bedrock B)
      else if y = 1 \<or> y = 2 then Some (Dirt B)
      else if y = 3 then Some (GrassBlock B)
      else if (y = 4 \<or> y = 5 \<or> y = 6) \<and> z = 8 \<and> x = 8 then Some (OakLog B)
      else if y = 7 \<or> y = 8 then
        (let i = x + z * 16 in
         if i \<in> set [6 + 6 * 16, 7 + 6 * 16, 8 + 6 * 16, 9 + 6 * 16, 10 + 6 * 16,
                    6 + 7 * 16, 7 + 7 * 16, 8 + 7 * 16, 9 + 7 * 16, 10 + 7 * 16,
                    6 + 8 * 16, 7 + 8 * 16, 9 + 8 * 16, 10 + 8 * 16,
                    6 + 9 * 16, 7 + 9 * 16, 8 + 9 * 16, 9 + 9 * 16, 10 + 9 * 16,
                    6 + 10 * 16, 7 + 10 * 16, 8 + 10 * 16, 9 + 10 * 16, 10 + 10 * 16] then Some (OakLeaves B)
         else if i = 8 + 8 * 16 then Some (OakLog B) else None)
      else if y = 9 \<or> y = 10 then
        (if x + z * 16 \<in> set [8 + 7 * 16, 7 + 8 * 16, 9 + 8 * 16, 8 + 9 * 16, 8 + 8 * 16]
         then Some (OakLeaves B) else None)
      else None)"

definition generateFlatCubicServer :: "block_ids \<Rightarrow> ChunkColumn act" where
  "generateFlatCubicServer B =
     act_then (loop_yzx [0..10] [0..15] [0..15] (place (cubic_block B))) (set_state READY)"

text \<open>The static counter of \<open>_generateDebug\<close> is threaded next to the column.\<close>

definition generateDebug :: "(ChunkColumn \<times> nat) act" where
  "generateDebug =
     act_then
       (act_for [0..NB_OF_PLAYABLE_SECTIONS - 1] (\<lambda>i (c, block).
          case column_updateBlock (mkpos 7 (7 + i * 16 - 64) 7) (of_nat block) c of
            (c, r) \<Rightarrow> ((c, case r of Inl e \<Rightarrow> block + 1
                          | Inr _ \<Rightarrow> if block + 1 > 23231 then 0 else block + 1), r)))
       (act_do (\<lambda>(c, block). (c\<lparr>currentState := READY\<rparr>, block)))"

definition generateRawGeneration :: "block_ids \<Rightarrow> generator \<Rightarrow> ChunkColumn act" where
  "generateRawGeneration B g c =
     act_then (loop_yzx [CHUNK_HEIGHT_MIN..CHUNK_HEIGHT_MAX - 1] [0..15] [0..15] (\<lambda>x y z.
         column_updateBlock (mkpos x y z)
           (gen_getBlock g (x + sint (pos2_x (chunkPos c)) * SECTION_WIDTH) y
              (z + sint (pos2_z (chunkPos c)) * SECTION_WIDTH))))
     (act_then (act_for [0..15] (\<lambda>x. act_for [0..15] (\<lambda>z.
         column_updateBlock (mkpos x (0 + CHUNK_HEIGHT_MIN) z) (Bedrock B))))
     (act_then (loop_yzx [0..BIOME_HEIGHT_MAX - 1] [0..3] [0..3] (\<lambda>x y z.
         column_updateBiome (mkpos x (y + BIOME_HEIGHT_MIN) z) (gen_getBiome g x y z)))
     (set_state RAW_GENERATION))) c"

text \<open>The loop down from the water level, left at the first stone.\<close>

fun fill_water :: "block_ids \<Rightarrow> int \<Rightarrow> int \<Rightarrow> int list \<Rightarrow> ChunkColumn act" where
  "fill_water B x z [] c = (c, Inr ())"
| "fill_water B x z (y # ys) c =
     (case column_getBlock c (mkpos x y z) of
        Inl e \<Rightarrow> (c, Inl e)
      | Inr b \<Rightarrow> if b = 1 then (c, Inr ())
          else act_then (column_updateBlock (mkpos x y z) (Water B)) (fill_water B x z ys) c)"

definition generateLakes :: "block_ids \<Rightarrow> ChunkColumn act" where
  "generateLakes B =
     act_then (act_for [0..15] (\<lambda>z. act_for [0..15] (\<lambda>x. fill_water B x z (rev [1..86]))))
       (set_state LAKES)"

fun cover_ground :: "block_ids \<Rightarrow> int \<Rightarrow> int \<Rightarrow> i32 \<Rightarrow> int list \<Rightarrow> ChunkColumn act" where
  "cover_ground B x z lastBlock [] c = (c, Inr ())"
| "cover_ground B x z lastBlock (y # ys) c =
     (case column_getBlock c (mkpos x y z) of
        Inl e \<Rightarrow> (c, Inl e)
      | Inr b \<Rightarrow>
          if b = Air B then cover_ground B x z lastBlock ys c
          else if b = Water B then cover_ground B x z (Water B) ys c
          else if b = Stone B \<and> lastBlock = Water B then column_updateBlock (mkpos x y z) (Sand B) c
          else if b = Stone B \<and> lastBlock = Air B then
            act_then (column_updateBlock (mkpos x y z) (GrassBlock B))
            (act_then (if y - 1 \<ge> CHUNK_HEIGHT_MIN then column_updateBlock (mkpos x (y - 1) z) (Dirt B)
                       else act_skip)
                      (if y - 2 \<ge> CHUNK_HEIGHT_MIN then column_updateBlock (mkpos x (y - 2) z) (Dirt B)
                       else act_skip)) c
          else cover_ground B x z lastBlock ys c)"

definition generateLocalModifications :: "block_ids \<Rightarrow> ChunkColumn act" where
  "generateLocalModifications B =
     act_then (act_for [0..15] (\<lambda>z. act_for [0..15] (\<lambda>x.
         cover_ground B x z 0 (rev [CHUNK_HEIGHT_MIN..CHUNK_HEIGHT_MAX - 2]))))
       (set_state LOCAL_MODIFICATIONS)"

section \<open>The generation state machine\<close>

text \<open>
  One turn of the loop of \<open>_generateOverworld\<close>. The oak trees of \<open>_generateVegetalDecoration\<close> are the
  argument \<open>trees\<close>.
\<close>

fun overworld_step :: "block_ids \<Rightarrow> generator \<Rightarrow> ChunkColumn act \<Rightarrow> GenerationState \<Rightarrow> ChunkColumn act" where
  "overworld_step B g trees INITIALIZED = generateRawGeneration B g"
| "overworld_step B g trees RAW_GENERATION = generateLakes B"
| "overworld_step B g trees LAKES = generateLocalModifications B"
| "overworld_step B g trees LOCAL_MODIFICATIONS = set_state UNDERGROUND_STRUCTURES"
| "overworld_step B g trees UNDERGROUND_STRUCTURES = set_state SURFACE_STRUCTURES"
| "overworld_step B g trees SURFACE_STRUCTURES = set_state STRONGHOLDS"
| "overworld_step B g trees STRONGHOLDS = set_state UNDERGROUND_ORES"
| "overworld_step B g trees UNDERGROUND_ORES = set_state UNDERGROUND_DECORATION"
| "overworld_step B g trees UNDERGROUND_DECORATION = set_state FLUID_SPRINGS"
| "overworld_step B g trees FLUID_SPRINGS = act_then trees (set_state VEGETAL_DECORATION)"
| "overworld_step B g trees VEGETAL_DECORATION = set_state TOP_LAYER_MODIFICATION"
| "overworld_step B g trees TOP_LAYER_MODIFICATION = set_state READY"
| "overworld_step B g trees READY = act_skip"

lemma set_state_eq: "set_state st c = (c\<lparr>currentState := st\<rparr>, Inr ())"
  by (simp add: set_state_def act_do_def)

lemma overworld_step_advances:
  assumes "overworld_step B g trees (currentState c) c = (c', Inr ())" and "currentState c \<noteq> READY"
  shows "state_code (currentState c') = Suc (state_code (currentState c))"
  using assms
  by (cases "currentState c")
    (auto simp: generateRawGeneration_def generateLakes_def generateLocalModifications_def
      act_then_Inr set_state_eq)

lemma state_code_le: "state_code st \<le> 12"
  by (cases st) auto

lemma state_code_READY: "state_code st = 12 \<longleftrightarrow> st = READY"
  by (cases st) auto

function generateOverworld :: "block_ids \<Rightarrow> generator \<Rightarrow> ChunkColumn act \<Rightarrow> GenerationState \<Rightarrow> ChunkColumn act" where
  "generateOverworld B g trees goalState c =
     (if state_code (currentState c) < state_code goalState then
        (case overworld_step B g trees (currentState c) c of
           (c', Inl e) \<Rightarrow> (c', Inl e)
         | (c', Inr _) \<Rightarrow> generateOverworld B g trees goalState c')
      else (c, Inr ()))"
  by pat_completeness auto
termination
proof (relation "measure (\<lambda>(B, g, trees, goalState, c). 12 - state_code (currentState c))", goal_cases)
  case (2 B g trees goalState c c' r)
  then have step: "overworld_step B g trees (currentState c) c = (c', Inr ())" by simp
  have "state_code (currentState c) < 12" using 2(1) state_code_le [of goalState] by linarith
  moreover from this have "currentState c \<noteq> READY" by auto
  from overworld_step_advances [OF step this] have "state_code (currentState c') = Suc (state_code (currentState c))" .
  ultimately show ?case by simp
qed simp

declare generateOverworld.simps [simp del]

text \<open>
  \<open>generate\<close>: the world type and the dimension type choose the generator; the types that are not
  implemented only log. The sky light is recomputed unless an exception left the function.
\<close>

definition generate :: "block_ids \<Rightarrow> generator \<Rightarrow> ChunkColumn act \<Rightarrow> WorldType \<Rightarrow> DimensionType \<Rightarrow>
    GenerationState \<Rightarrow> (ChunkColumn \<times> nat) act" where
  "generate B g trees wt dt goalState =
     act_then (\<lambda>(c, block).
       (let lift = (\<lambda>f. case f c of (c', r) \<Rightarrow> ((c', block), r)) in
        case wt of
          WT_DEFAULT \<Rightarrow> (case dt of OVERWORLD \<Rightarrow> lift (generateOverworld B g trees goalState)
                         | NETHER \<Rightarrow> lift act_skip | END \<Rightarrow> lift act_skip)
        | WT_SUPERFLAT \<Rightarrow> lift (generateFlat B)
        | WT_LARGEBIOME \<Rightarrow> lift act_skip
        | WT_AMPLIFIED \<Rightarrow> lift act_skip
        | WT_SINGLEBIOME \<Rightarrow> lift act_skip
        | WT_DEBUG \<Rightarrow> generateDebug (c, block)
        | WT_SUPERFLAT_CUBIC_SERVER \<Rightarrow> lift (generateFlatCubicServer B)))
     (act_do (\<lambda>(c, block). (column_recalculateSkyLight c, block)))"

lemma generateOverworld_reaches:
  "generateOverworld B g trees goalState c = (c', Inr ()) \<Longrightarrow>
   state_code (currentState c') = max (state_code (currentState c)) (state_code goalState)"
proof (induction B g trees goalState c rule: generateOverworld.induct)
  case (1 B g trees goalState c)
  show ?case
  proof (cases "state_code (currentState c) < state_code goalState")
    case True
    with "1.prems" obtain c1 where step: "overworld_step B g trees (currentState c) c = (c1, Inr ())"
        and rest: "generateOverworld B g trees goalState c1 = (c', Inr ())"
      by (subst (asm) generateOverworld.simps) (auto split: prod.splits sum.splits unit.splits)
    have "currentState c \<noteq> READY" using True state_code_le [of goalState] by auto
    with overworld_step_advances [OF step] "1.IH" [OF True step [symmetric] refl rest] True
    show ?thesis by simp
  next
    case False
    with "1.prems" show ?thesis by (subst (asm) generateOverworld.simps) auto
  qed
qed

section \<open>A column as an array of blocks\<close>

definition in_column :: "Position \<Rightarrow> bool" where
  "in_column pos \<longleftrightarrow> 0 \<le> sint (pos_x pos) \<and> sint (pos_x pos) < 16
     \<and> -64 \<le> sint (pos_y pos) \<and> sint (pos_y pos) < 320
     \<and> 0 \<le> sint (pos_z pos) \<and> sint (pos_z pos) < 16"

definition wf_column :: "ChunkColumn \<Rightarrow> bool" where
  "wf_column c \<longleftrightarrow> length (sections c) = 26 \<and> list_all wf_section (sections c)"

lemma cdiv_nonneg: "0 \<le> a \<Longrightarrow> 0 < b \<Longrightarrow> cdiv a b = a div b"
  by (cases "a = 0") (simp_all add: cdiv_def)

lemma cmod_nonneg: "0 \<le> a \<Longrightarrow> 0 < b \<Longrightarrow> cmod a b = a mod b"
  by (simp add: cmod_def cdiv_nonneg minus_mult_div_eq_mod)

lemma sint_of_int_small: "- (2 ^ 63) \<le> k \<Longrightarrow> k < 2 ^ 63 \<Longrightarrow> sint (of_int k :: i64) = k"
  by (simp add: signed_of_int signed_take_bit_int_eq_self)

lemma shift_y:
  assumes "in_column pos"
  shows "sint (pos_y pos - of_int CHUNK_HEIGHT_MIN) = sint (pos_y pos) + 64"
proof -
  have "pos_y pos - of_int CHUNK_HEIGHT_MIN = of_int (sint (pos_y pos) + 64)"
    by (simp add: CHUNK_HEIGHT_MIN_def)
  moreover have "sint (of_int (sint (pos_y pos) + 64) :: i64) = sint (pos_y pos) + 64"
    using assms by (intro sint_of_int_small) (auto simp: in_column_def)
  ultimately show ?thesis by metis
qed

lemma block_in_section_sint:
  assumes "in_column pos"
  shows "sint (pos_x (block_in_section pos)) = sint (pos_x pos)"
    and "sint (pos_y (block_in_section pos)) = (sint (pos_y pos) + 64) mod 16"
    and "sint (pos_z (block_in_section pos)) = sint (pos_z pos)"
proof -
  have sm: "sint (of_int (k mod 16) :: i64) = k mod 16" for k :: int
  proof (rule sint_of_int_small)
    have "0 \<le> k mod 16" "k mod 16 < 16" by simp_all
    then show "- (2 ^ 63) \<le> k mod 16" "k mod 16 < 2 ^ 63" by simp_all
  qed
  have y: "cmod (sint (pos_y pos) + 64) 16 = (sint (pos_y pos) + 64) mod 16"
    using assms by (intro cmod_nonneg) (auto simp: in_column_def)
  have x: "cmod (sint (pos_x pos)) 16 = sint (pos_x pos) mod 16"
    and z: "cmod (sint (pos_z pos)) 16 = sint (pos_z pos) mod 16"
    using assms by (simp_all add: cmod_nonneg in_column_def)
  show "sint (pos_x (block_in_section pos)) = sint (pos_x pos)"
    using assms x sm [of "sint (pos_x pos)"]
    by (simp add: block_in_section_def position_mod_def SECTION_WIDTH_def in_column_def)
  show "sint (pos_y (block_in_section pos)) = (sint (pos_y pos) + 64) mod 16"
    using y sm [of "sint (pos_y pos) + 64"] shift_y [OF assms]
    by (simp add: block_in_section_def position_mod_def SECTION_WIDTH_def)
  show "sint (pos_z (block_in_section pos)) = sint (pos_z pos)"
    using assms z sm [of "sint (pos_z pos)"]
    by (simp add: block_in_section_def position_mod_def SECTION_WIDTH_def in_column_def)
qed

lemma block_in_section_cube: "in_column pos \<Longrightarrow> in_cube 16 (block_in_section pos)"
  by (auto simp: in_cube_def block_in_section_sint) (auto simp: in_column_def)

lemma section_of_y: "in_column pos \<Longrightarrow>
   0 \<le> (sint (pos_y pos) + 64) div 16 \<and> (sint (pos_y pos) + 64) div 16 < 24"
  unfolding in_column_def by presburger

lemma getSectionIndex_eq:
  assumes "in_column pos"
  shows "getSectionIndex pos = nat ((sint (pos_y pos) + 64) div 16 + 1)"
proof -
  have "cdiv (sint (pos_y pos) + 80) 16 = (sint (pos_y pos) + 64 + 16) div 16"
    using assms by (subst cdiv_nonneg) (auto simp: in_column_def)
  also have "\<dots> = (sint (pos_y pos) + 64) div 16 + 1" by simp
  finally have c: "cdiv (sint (pos_y pos) + 80) 16 = (sint (pos_y pos) + 64) div 16 + 1" .
  have "0 \<le> (sint (pos_y pos) + 64) div 16 + 1" "(sint (pos_y pos) + 64) div 16 + 1 < 256"
    using section_of_y [OF assms] by auto
  then show ?thesis
    by (simp add: getSectionIndex_def CHUNK_HEIGHT_MIN_def SECTION_WIDTH_def c add.commute [of 80])
qed

lemma getSectionIndex_range: "in_column pos \<Longrightarrow> 1 \<le> getSectionIndex pos \<and> getSectionIndex pos \<le> 24"
  using section_of_y [of pos] by (auto simp: getSectionIndex_eq)

lemma column_pos_inj:
  assumes "in_column p" "in_column q" "getSectionIndex p = getSectionIndex q"
    "block_in_section p = block_in_section q"
  shows "p = q"
proof (rule position_sint_eqI)
  show "sint (pos_x p) = sint (pos_x q)" "sint (pos_z p) = sint (pos_z q)"
    using assms(4) block_in_section_sint(1,3) [OF assms(1)] block_in_section_sint(1,3) [OF assms(2)]
    by simp_all
  have m: "(sint (pos_y p) + 64) mod 16 = (sint (pos_y q) + 64) mod 16"
    using assms(4) block_in_section_sint(2) [OF assms(1)] block_in_section_sint(2) [OF assms(2)] by simp
  have "0 \<le> (sint (pos_y p) + 64) div 16" "0 \<le> (sint (pos_y q) + 64) div 16"
    using section_of_y assms(1,2) by auto
  with assms(3) have "(sint (pos_y p) + 64) div 16 = (sint (pos_y q) + 64) div 16"
    by (simp add: getSectionIndex_eq assms(1,2))
  with m have "sint (pos_y p) + 64 = sint (pos_y q) + 64" by (metis div_mult_mod_eq)
  then show "sint (pos_y p) = sint (pos_y q)" by simp
qed

lemma column_section:
  assumes "wf_column c" "in_column pos"
  shows "getSectionIndex pos < length (sections c)" "wf_section (sections c ! getSectionIndex pos)"
  using assms getSectionIndex_range [OF assms(2)] by (auto simp: wf_column_def list_all_length)

text \<open>The refinement at the level of a column.\<close>

lemma column_updateBlock_ok:
  assumes wf: "wf_column c" and pos: "in_column pos"
    and cap: "length (palette_add (blockPalette (sections c ! getSectionIndex pos)) b) \<le> 2 ^ 15"
  shows "\<exists>s'. column_updateBlock pos b c = (c\<lparr>sections := (sections c)[getSectionIndex pos := s']\<rparr>, Inr ())
      \<and> wf_section s' \<and> blockPalette s' = palette_add (blockPalette (sections c ! getSectionIndex pos)) b
      \<and> (\<forall>q. in_column q \<longrightarrow>
           column_getBlock (c\<lparr>sections := (sections c)[getSectionIndex pos := s']\<rparr>) q
           = (if q = pos then Inr b else column_getBlock c q))"
proof -
  note sec = column_section [OF wf pos] and cube = block_in_section_cube [OF pos]
  obtain s' where s': "setBlock (sections c ! getSectionIndex pos) (block_in_section pos) b = (s', Inr ())"
      "wf_section s'" "\<forall>q. in_cube 16 q \<longrightarrow>
        getBlock s' q = (if q = block_in_section pos then Inr b else getBlock (sections c ! getSectionIndex pos) q)"
    using setBlock_ok [OF sec(2) cube cap] by blast
  then have pal: "blockPalette s' = palette_add (blockPalette (sections c ! getSectionIndex pos)) b"
    using in_cube_guards(1) [OF cube]
    by (auto simp: setBlock_def paletted_set_def Let_def split: prod.splits sum.splits if_splits)
  let ?c = "c\<lparr>sections := (sections c)[getSectionIndex pos := s']\<rparr>"
  have "column_updateBlock pos b c = (?c, Inr ())"
    using sec(1) s'(1) in_cube_guards(1) [OF cube]
    by (simp add: column_updateBlock_def on_section_def updateBlock_def)
  moreover have "column_getBlock ?c q = (if q = pos then Inr b else column_getBlock c q)"
    if q: "in_column q" for q
  proof (cases "getSectionIndex q = getSectionIndex pos")
    case True
    then have "block_in_section q = block_in_section pos \<longleftrightarrow> q = pos"
      using column_pos_inj [OF q pos True] by auto
    with True sec(1) s'(3) block_in_section_cube [OF q] show ?thesis
      by (auto simp: column_getBlock_def from_section_def)
  next
    case False
    then have "q \<noteq> pos" by auto
    with False show ?thesis by (simp add: column_getBlock_def from_section_def)
  qed
  ultimately show ?thesis using s'(2) pal by blast
qed

section \<open>Filling a column\<close>

text \<open>
  The palettes draw on a set \<open>S\<close> of at most \<open>2 ^ 15\<close> identifiers, so that the widths always suffice.
\<close>

definition column_inv :: "i32 set \<Rightarrow> ChunkColumn \<Rightarrow> bool" where
  "column_inv S c \<longleftrightarrow> wf_column c \<and> (\<forall>s \<in> set (sections c). set (blockPalette s) \<subseteq> S)"

lemma palette_cap:
  assumes "wf_section s" "set (blockPalette s) \<subseteq> S" "finite S" "card S \<le> 2 ^ 15" "b \<in> S"
  shows "length (palette_add (blockPalette s) b) \<le> 2 ^ 15"
proof -
  have "distinct (palette_add (blockPalette s) b)"
    using assms(1) by (simp add: wf_section_def paletted_def palette_add_distinct)
  then have "length (palette_add (blockPalette s) b) = card (set (palette_add (blockPalette s) b))"
    by (simp add: distinct_card)
  also have "\<dots> \<le> card S" using assms by (intro card_mono) (auto simp: palette_add_set)
  finally show ?thesis using assms(4) by simp
qed

lemma column_updateBlock_inv:
  assumes inv: "column_inv S c" and S: "finite S" "card S \<le> 2 ^ 15" "b \<in> S" and pos: "in_column pos"
  shows "\<exists>c'. column_updateBlock pos b c = (c', Inr ()) \<and> column_inv S c'
      \<and> (\<forall>q. in_column q \<longrightarrow> column_getBlock c' q = (if q = pos then Inr b else column_getBlock c q))"
proof -
  have wf: "wf_column c" using inv by (simp add: column_inv_def)
  note sec = column_section [OF wf pos]
  have sub: "set (blockPalette (sections c ! getSectionIndex pos)) \<subseteq> S"
    using inv sec(1) by (auto simp: column_inv_def)
  obtain s' where s': "column_updateBlock pos b c = (c\<lparr>sections := (sections c)[getSectionIndex pos := s']\<rparr>, Inr ())"
      "wf_section s'" "blockPalette s' = palette_add (blockPalette (sections c ! getSectionIndex pos)) b"
      "\<forall>q. in_column q \<longrightarrow> column_getBlock (c\<lparr>sections := (sections c)[getSectionIndex pos := s']\<rparr>) q
           = (if q = pos then Inr b else column_getBlock c q)"
    using column_updateBlock_ok [OF wf pos palette_cap [OF sec(2) sub S]] by blast
  have "set (blockPalette s') \<subseteq> S" using s'(3) sub S(3) by (auto simp: palette_add_set)
  then have "set (blockPalette s) \<subseteq> S \<and> wf_section s"
    if "s \<in> set ((sections c)[getSectionIndex pos := s'])" for s
    using inv s'(2) that set_update_subset_insert [of "sections c" "getSectionIndex pos" s']
    unfolding column_inv_def wf_column_def list_all_iff by blast
  then have "column_inv S (c\<lparr>sections := (sections c)[getSectionIndex pos := s']\<rparr>)"
    using wf by (simp add: column_inv_def wf_column_def list_all_iff)
  with s' show ?thesis by blast
qed

definition cells :: "int list \<Rightarrow> int list \<Rightarrow> int list \<Rightarrow> (int \<times> int \<times> int) list" where
  "cells ys zs xs = concat (map (\<lambda>y. map (Pair y) (concat (map (\<lambda>z. map (Pair z) xs) zs))) ys)"

lemma loop_yzx_cells: "loop_yzx ys zs xs body = act_for (cells ys zs xs) (\<lambda>(y, z, x). body x y z)"
proof (intro ext)
  fix s
  have "(\<lambda>y. act_for zs (\<lambda>z. act_for xs (\<lambda>x. body x y z)))
      = (\<lambda>y. act_for (concat (map (\<lambda>z. map (Pair z) xs) zs)) (\<lambda>(z, x). body x y z))"
    by (intro ext) (rule act_for_concat)
  then show "loop_yzx ys zs xs body s = act_for (cells ys zs xs) (\<lambda>(y, z, x). body x y z) s"
    using act_for_concat [of ys "\<lambda>_. concat (map (\<lambda>z. map (Pair z) xs) zs)" "\<lambda>y (z, x). body x y z" s]
    by (simp add: loop_yzx_def cells_def)
qed

lemma set_cells: "set (cells ys zs xs) = set ys \<times> set zs \<times> set xs"
  by (auto simp: cells_def)

definition column_cell :: "int \<Rightarrow> int \<Rightarrow> int \<Rightarrow> bool" where
  "column_cell x y z \<longleftrightarrow> 0 \<le> x \<and> x < 16 \<and> 0 \<le> y \<and> y < 384 \<and> 0 \<le> z \<and> z < 16"

abbreviation cell_pos :: "int \<Rightarrow> int \<Rightarrow> int \<Rightarrow> Position" where
  "cell_pos x y z \<equiv> mkpos x (y + CHUNK_HEIGHT_MIN) z"

lemma mkpos_sint:
  "column_cell x y z \<Longrightarrow> sint (pos_x (cell_pos x y z)) = x \<and> sint (pos_y (cell_pos x y z)) = y - 64
     \<and> sint (pos_z (cell_pos x y z)) = z"
proof -
  assume cell: "column_cell x y z"
  have "sint (of_int (y + CHUNK_HEIGHT_MIN) :: i64) = y + CHUNK_HEIGHT_MIN"
    using cell by (intro sint_of_int_small) (simp_all add: column_cell_def CHUNK_HEIGHT_MIN_def)
  moreover have "sint (of_int x :: i64) = x" "sint (of_int z :: i64) = z"
    using cell by (auto intro!: sint_of_int_small simp: column_cell_def)
  ultimately show ?thesis
    by (simp only: mkpos_def Position.select_convs) (simp add: CHUNK_HEIGHT_MIN_def)
qed

lemma cell_in_column: "column_cell x y z \<Longrightarrow> in_column (cell_pos x y z)"
  using mkpos_sint [of x y z] by (simp add: in_column_def column_cell_def)

lemma cell_pos_inj:
  "column_cell x y z \<Longrightarrow> column_cell x' y' z' \<Longrightarrow> cell_pos x y z = cell_pos x' y' z' \<longleftrightarrow> x = x' \<and> y = y' \<and> z = z'"
  using mkpos_sint [of x y z] mkpos_sint [of x' y' z'] by auto

text \<open>Placing a layer over a list of cells writes each of them once and nothing else.\<close>

lemma place_cells:
  assumes S: "finite S" "card S \<le> 2 ^ 15" and layer: "\<And>x y z b. layer x y z = Some b \<Longrightarrow> b \<in> S"
    and "column_inv S c" and "\<forall>(y, z, x) \<in> set ts. column_cell x y z"
  shows "\<exists>c'. act_for ts (\<lambda>(y, z, x). place layer x y z) c = (c', Inr ()) \<and> column_inv S c'
      \<and> (\<forall>x y z. column_cell x y z \<longrightarrow> column_getBlock c' (cell_pos x y z)
           = (if (y, z, x) \<in> set ts then case layer x y z of None \<Rightarrow> column_getBlock c (cell_pos x y z) | Some b \<Rightarrow> Inr b
              else column_getBlock c (cell_pos x y z)))"
  using assms(4,5)
proof (induction ts arbitrary: c)
  case (Cons t ts)
  obtain y z x where t: "t = (y, z, x)" by (cases t)
  have cell: "column_cell x y z" using Cons.prems(2) t by auto
  obtain c1 where c1: "place layer x y z c = (c1, Inr ())" "column_inv S c1"
      "\<And>x' y' z'. column_cell x' y' z' \<Longrightarrow> column_getBlock c1 (cell_pos x' y' z')
        = (if x' = x \<and> y' = y \<and> z' = z then case layer x y z of None \<Rightarrow> column_getBlock c (cell_pos x' y' z') | Some b \<Rightarrow> Inr b
           else column_getBlock c (cell_pos x' y' z'))"
  proof (cases "layer x y z")
    case None
    then show ?thesis using that [of c] Cons.prems(1) by (simp add: place_def act_skip_def)
  next
    case (Some b)
    from column_updateBlock_inv [OF Cons.prems(1) S layer [OF Some] cell_in_column [OF cell]]
    obtain c1 where "column_updateBlock (cell_pos x y z) b c = (c1, Inr ())" "column_inv S c1"
        "\<forall>q. in_column q \<longrightarrow> column_getBlock c1 q = (if q = cell_pos x y z then Inr b else column_getBlock c q)"
      by blast
    then show ?thesis using that [of c1] Some cell_in_column cell_pos_inj [OF _ cell]
      by (simp add: place_def)
  qed
  from Cons.IH [OF c1(2)] Cons.prems(2) obtain c2 where
      c2: "act_for ts (\<lambda>(y, z, x). place layer x y z) c1 = (c2, Inr ())" "column_inv S c2"
      "\<forall>x y z. column_cell x y z \<longrightarrow> column_getBlock c2 (cell_pos x y z)
           = (if (y, z, x) \<in> set ts then case layer x y z of None \<Rightarrow> column_getBlock c1 (cell_pos x y z) | Some b \<Rightarrow> Inr b
              else column_getBlock c1 (cell_pos x y z))"
    by auto
  have "column_getBlock c2 (cell_pos x' y' z')
      = (if (y', z', x') \<in> set (t # ts) then case layer x' y' z' of None \<Rightarrow> column_getBlock c (cell_pos x' y' z') | Some b \<Rightarrow> Inr b
         else column_getBlock c (cell_pos x' y' z'))" if "column_cell x' y' z'" for x' y' z'
    using c2(3) [rule_format, OF that] c1(3) [OF that]
    by (cases "x' = x \<and> y' = y \<and> z' = z"; cases "(y', z', x') \<in> set ts"; cases "layer x' y' z'")
      (auto simp: t)
  with c1(1) c2(1,2) show ?case by (intro exI [of _ c2]) (simp add: t)
qed simp


lemma newChunkColumn_ok:
  "\<exists>c. newChunkColumn t pos = Inr c \<and> column_inv {0} c \<and> currentState c = INITIALIZED
     \<and> (\<forall>q. in_column q \<longrightarrow> column_getBlock c q = Inr 0)"
proof -
  obtain s where s: "newSection = Inr s" "wf_section s" using wf_newSection by blast
  have p: "blockPalette s = [0]" "blocks s = \<lparr>ds_store = [], ds_valueSize = 0\<rparr>"
    using s(1) by (auto simp: newSection_def newDynamicStorage_def newPalette_def rbind_Inr_iff)
  have "\<exists>c. newChunkColumn t pos = Inr c \<and> sections c = replicate 26 s \<and> currentState c = INITIALIZED"
    unfolding newChunkColumn_def s(1) by (simp add: section_sizes)
  then obtain c where c: "newChunkColumn t pos = Inr c" "sections c = replicate 26 s"
      "currentState c = INITIALIZED" by blast
  have "column_getBlock c q = Inr 0" if "in_column q" for q
    using getSectionIndex_range [OF that] in_cube_guards(1) [OF block_in_section_cube [OF that]] p
    by (simp add: column_getBlock_def from_section_def c(2) getBlock_def paletted_get_def canContainData_def)
  with c s(2) p show ?thesis
    by (auto simp: column_inv_def wf_column_def list_all_iff)
qed

lemma column_inv_mono: "column_inv S c \<Longrightarrow> S \<subseteq> T \<Longrightarrow> column_inv T c"
  by (auto simp: column_inv_def)

text \<open>A layered generator on a new column: exactly the blocks of its layers, air elsewhere.\<close>

lemma generate_layers:
  assumes S: "finite S" "card S < 2 ^ 15" and layer: "\<And>x y z b. layer x y z = Some b \<Longrightarrow> b \<in> S"
    and top: "\<And>x y z. 10 < y \<Longrightarrow> layer x y z = None"
    and new: "newChunkColumn t pos = Inr c"
  shows "\<exists>c'. act_then (loop_yzx [0..10] [0..15] [0..15] (place layer)) (set_state READY) c = (c', Inr ())
      \<and> wf_column c' \<and> isReady c'
      \<and> (\<forall>x y z. column_cell x y z \<longrightarrow> column_getBlock c' (cell_pos x y z)
            = Inr (case layer x y z of None \<Rightarrow> 0 | Some b \<Rightarrow> b))"
proof -
  obtain c0 where "newChunkColumn t pos = Inr c0" "column_inv {0} c0"
      "\<forall>q. in_column q \<longrightarrow> column_getBlock c0 q = Inr 0"
    using newChunkColumn_ok by blast
  then have inv: "column_inv (insert 0 S) c" and air: "\<And>q. in_column q \<Longrightarrow> column_getBlock c q = Inr 0"
    using new by (auto intro: column_inv_mono)
  have S': "finite (insert 0 S)" "card (insert 0 S) \<le> 2 ^ 15"
    using S by (simp_all add: card_insert_if)
  have cells: "\<forall>(y, z, x) \<in> set (cells [0..10] [0..15] [0..15]). column_cell x y z"
    by (auto simp: set_cells column_cell_def)
  obtain c1 where c1: "act_for (cells [0..10] [0..15] [0..15]) (\<lambda>(y, z, x). place layer x y z) c = (c1, Inr ())"
      "column_inv (insert 0 S) c1"
      "\<forall>x y z. column_cell x y z \<longrightarrow> column_getBlock c1 (cell_pos x y z)
           = (if (y, z, x) \<in> set (cells [0..10] [0..15] [0..15])
              then case layer x y z of None \<Rightarrow> column_getBlock c (cell_pos x y z) | Some b \<Rightarrow> Inr b
              else column_getBlock c (cell_pos x y z))"
    using place_cells [OF S' _ inv cells, of layer] layer by blast
  have blk: "column_getBlock c1 (cell_pos x y z) = Inr (case layer x y z of None \<Rightarrow> 0 | Some b \<Rightarrow> b)"
    if "column_cell x y z" for x y z
  proof (cases "y \<le> 10")
    case True
    then have "(y, z, x) \<in> set (cells [0..10] [0..15] [0..15])"
      using that by (auto simp: set_cells column_cell_def)
    then show ?thesis using c1(3) that air [OF cell_in_column [OF that]] by (auto split: option.splits)
  next
    case False
    then show ?thesis using c1(3) that air [OF cell_in_column [OF that]] top by (auto split: option.splits)
  qed
  have "column_getBlock (c1\<lparr>currentState := READY\<rparr>) q = column_getBlock c1 q" for q
    by (simp add: column_getBlock_def from_section_def)
  with c1(1,2) blk show ?thesis
    by (intro exI [of _ "c1\<lparr>currentState := READY\<rparr>"])
      (simp add: act_then_def loop_yzx_cells set_state_eq column_inv_def wf_column_def isReady_def)
qed

lemma flat_block_ids: "flat_block B x y z = Some b \<Longrightarrow> b \<in> {Bedrock B, Dirt B, GrassBlock B}"
  by (auto simp: flat_block_def split: if_splits)

lemma cubic_block_ids:
  "cubic_block B x y z = Some b \<Longrightarrow> b \<in> {Bedrock B, Dirt B, GrassBlock B, OakLog B, OakLeaves B}"
  by (auto simp: cubic_block_def Let_def split: if_splits)

lemma high_cells_air: "10 < y \<Longrightarrow> flat_block B x y z = None" "10 < y \<Longrightarrow> cubic_block B x y z = None"
  by (simp_all add: flat_block_def cubic_block_def)

lemma card_le_length: "set xs = S \<Longrightarrow> card S \<le> length xs"
  using card_length by blast

lemma generateFlat_ok:
  assumes "newChunkColumn t pos = Inr c"
  shows "\<exists>c'. generateFlat B c = (c', Inr ()) \<and> wf_column c' \<and> isReady c'
      \<and> (\<forall>x y z. column_cell x y z \<longrightarrow> column_getBlock c' (cell_pos x y z)
            = Inr (case flat_block B x y z of None \<Rightarrow> 0 | Some b \<Rightarrow> b))"
  unfolding generateFlat_def
proof (rule generate_layers [OF _ _ _ _ assms])
  show "card {Bedrock B, Dirt B, GrassBlock B} < 2 ^ 15"
    using card_le_length [of "[Bedrock B, Dirt B, GrassBlock B]"] by fastforce
qed (rule flat_block_ids high_cells_air finite.intros; assumption?)+

lemma generateFlatCubicServer_ok:
  assumes "newChunkColumn t pos = Inr c"
  shows "\<exists>c'. generateFlatCubicServer B c = (c', Inr ()) \<and> wf_column c' \<and> isReady c'
      \<and> (\<forall>x y z. column_cell x y z \<longrightarrow> column_getBlock c' (cell_pos x y z)
            = Inr (case cubic_block B x y z of None \<Rightarrow> 0 | Some b \<Rightarrow> b))"
  unfolding generateFlatCubicServer_def
proof (rule generate_layers [OF _ _ _ _ assms])
  show "card {Bedrock B, Dirt B, GrassBlock B, OakLog B, OakLeaves B} < 2 ^ 15"
    using card_le_length [of "[Bedrock B, Dirt B, GrassBlock B, OakLog B, OakLeaves B]"] by fastforce
qed (rule cubic_block_ids high_cells_air finite.intros; assumption?)+

section \<open>Where the column and its parts disagree\<close>

lemma column_getBiome_negative:
  assumes "wf_column c" and "hasBiomes (sections c ! 4)"
  shows "column_getBiome c (mkpos 0 (-1) 0) = Inl StdOutOfRange"
proof -
  have idx: "getBiomeSectionIndex (mkpos 0 (-1) 0) = 4"
    by (simp add: getBiomeSectionIndex_def mkpos_def section_sizes cdiv_def)
  have pos: "position_mod (mkpos 0 (-1) 0) BIOME_SECTION_WIDTH = mkpos 0 (-1) 0"
    by (simp add: position_mod_def mkpos_def section_sizes cdiv_def cmod_def)
  have i: "unat (calculateSectionBiomeIdx (mkpos 0 (-1) 0)) \<ge> BIOME_SECTION_3D_SIZE"
    by (simp add: calculateSectionBiomeIdx_def mkpos_def section_sizes)
  have wf: "wf_section (sections c ! 4)" "4 < length (sections c)"
    using assms(1) by (simp_all add: wf_column_def list_all_length)
  then have "ds_valueSize (biomes (sections c ! 4)) \<noteq> 0"
    using assms(2) by (simp add: wf_section_def paletted_def hasBiomes_def)
  then have "getBiome (sections c ! 4) (mkpos 0 (-1) 0) = Inl StdOutOfRange"
    using i by (simp add: getBiome_def paletted_get_def canContainData_def ds_get_def position_ge_def
        mkpos_def section_sizes)
  then show ?thesis using wf(2) by (simp add: column_getBiome_def from_section_def idx pos)
qed

lemma set_surface_new:
  assumes "newChunkColumn t pos = Inr c" and "36 \<le> idx"
  shows "set_surface (heightMap c) idx v = Inl StdOutOfRange"
proof -
  have "HEIGHTMAP_ARRAY_SIZE = 36"
    by (simp add: HEIGHTMAP_ARRAY_SIZE_def HEIGHTMAP_BITS_def section_sizes bitsNeeded.simps)
  with assms show ?thesis
    by (auto simp: newChunkColumn_def rbind_Inr_iff list_getValueAs_def)
qed

section \<open>Properties\<close>

text \<open>C6: a column refines an array of blocks over its 16 by 384 by 16 positions: as long as the block
  identifiers in use come from a set of at most \<open>2 ^ 15\<close>, \<open>updateBlock\<close> succeeds, keeps the invariant
  and changes that block only, whatever section it falls in.\<close>

theorem column_refines_array:
  assumes "column_inv S c" and "finite S" "card S \<le> 2 ^ 15" "b \<in> S" and "in_column pos"
  shows "\<exists>c'. column_updateBlock pos b c = (c', Inr ()) \<and> column_inv S c'
      \<and> (\<forall>q. in_column q \<longrightarrow> column_getBlock c' q = (if q = pos then Inr b else column_getBlock c q))"
  by (rule column_updateBlock_inv [OF assms])

theorem column_refines_array_witness:
  "\<exists>c c'. newChunkColumn 0 \<lparr>pos2_x = 0, pos2_z = 0\<rparr> = Inr c \<and> column_updateBlock (mkpos 3 (-64) 15) 7 c = (c', Inr ())
     \<and> column_getBlock c' (mkpos 3 (-64) 15) = Inr 7 \<and> column_getBlock c' (mkpos 3 (-48) 15) = Inr 0"
proof -
  obtain c where c: "newChunkColumn 0 \<lparr>pos2_x = 0, pos2_z = 0\<rparr> = Inr c" "column_inv {0} c"
      "\<forall>q. in_column q \<longrightarrow> column_getBlock c q = Inr 0"
    using newChunkColumn_ok by blast
  have "in_column (mkpos 3 (-64) 15)" "in_column (mkpos 3 (-48) 15)" by (simp_all add: in_column_def mkpos_def)
  moreover have "mkpos 3 (-48) 15 \<noteq> mkpos 3 (-64) 15" by (simp add: mkpos_def)
  ultimately show ?thesis
    using column_refines_array [of "{0, 7}" c 7 "mkpos 3 (-64) 15"] c column_inv_mono [OF c(2), of "{0, 7}"]
    by auto
qed



text \<open>C29: the flat generators never throw on a new column and leave it ready, with exactly the layers and
  the tree of the code above the bottom of the world and air everywhere else.\<close>

theorem flat_worlds:
  assumes "newChunkColumn t pos = Inr c"
  shows "(\<exists>c'. generateFlat B c = (c', Inr ()) \<and> wf_column c' \<and> isReady c'
      \<and> (\<forall>x y z. column_cell x y z \<longrightarrow> column_getBlock c' (cell_pos x y z)
            = Inr (case flat_block B x y z of None \<Rightarrow> 0 | Some b \<Rightarrow> b)))
    \<and> (\<exists>c'. generateFlatCubicServer B c = (c', Inr ()) \<and> wf_column c' \<and> isReady c'
      \<and> (\<forall>x y z. column_cell x y z \<longrightarrow> column_getBlock c' (cell_pos x y z)
            = Inr (case cubic_block B x y z of None \<Rightarrow> 0 | Some b \<Rightarrow> b)))"
  by (intro conjI generateFlat_ok [OF assms] generateFlatCubicServer_ok [OF assms])

theorem flat_worlds_witness:
  "\<exists>c c' c''. newChunkColumn 0 \<lparr>pos2_x = 0, pos2_z = 0\<rparr> = Inr c
     \<and> generateFlat \<lparr>Air = 0, Bedrock = 79, Dirt = 10, GrassBlock = 9, OakLog = 131, OakLeaves = 260,
         Water = 80, Stone = 1, Sand = 112\<rparr> c = (c', Inr ()) \<and> isReady c'
     \<and> column_getBlock c' (mkpos 0 (-64) 0) = Inr 79
     \<and> generateFlatCubicServer \<lparr>Air = 0, Bedrock = 79, Dirt = 10, GrassBlock = 9, OakLog = 131,
         OakLeaves = 260, Water = 80, Stone = 1, Sand = 112\<rparr> c = (c'', Inr ())
     \<and> column_getBlock c'' (mkpos 8 (-60) 8) = Inr 131"
proof -
  obtain c where c: "newChunkColumn 0 \<lparr>pos2_x = 0, pos2_z = 0\<rparr> = Inr c"
    using newChunkColumn_ok by blast
  let ?B = "\<lparr>Air = 0, Bedrock = 79, Dirt = 10, GrassBlock = 9, OakLog = 131, OakLeaves = 260,
         Water = 80, Stone = 1, Sand = 112\<rparr>"
  have cells: "column_cell 0 0 0" "column_cell 8 4 8" by (simp_all add: column_cell_def)
  have layers: "flat_block ?B 0 0 0 = Some 79" "cubic_block ?B 8 4 8 = Some 131"
    by (simp_all add: flat_block_def cubic_block_def)
  obtain c1 where c1: "generateFlat ?B c = (c1, Inr ())" "isReady c1"
      "\<forall>x y z. column_cell x y z \<longrightarrow> column_getBlock c1 (cell_pos x y z)
            = Inr (case flat_block ?B x y z of None \<Rightarrow> 0 | Some b \<Rightarrow> b)"
    using conjunct1 [OF flat_worlds [OF c]] by blast
  obtain c2 where c2: "generateFlatCubicServer ?B c = (c2, Inr ())"
      "\<forall>x y z. column_cell x y z \<longrightarrow> column_getBlock c2 (cell_pos x y z)
            = Inr (case cubic_block ?B x y z of None \<Rightarrow> 0 | Some b \<Rightarrow> b)"
    using conjunct2 [OF flat_worlds [OF c]] by blast
  have "column_getBlock c1 (mkpos 0 (-64) 0) = Inr 79" "column_getBlock c2 (mkpos 8 (-60) 8) = Inr 131"
    using c1(3) [rule_format, OF cells(1)] c2(2) [rule_format, OF cells(2)]
    by (simp_all only: layers option.case) (simp_all add: CHUNK_HEIGHT_MIN_def)
  with c c1(1,2) c2(1) show ?thesis by blast
qed

end
