(* ===== verification/Containers.thy ===== *)
theory Containers
  imports Actions Pop_Primary
begin

text \<open>
  \<open>protocol/container/Container\<close> and \<open>Inventory\<close>: the slots of an open window, the item under the
  player's cursor and the clicks that move items between them. Slots are addressed by references,
  because \<open>at(-1)\<close> is the cursor itself and two operands of a swap may be the same object. The virtual
  methods of \<open>Container\<close> are a record of functions the operations take; the items a click throws into
  the world (\<open>makeEntity<Item>(slot)->dropItem(...)\<close>) are collected in the field \<open>dropped\<close>.
\<close>

section \<open>Container\<close>

datatype State = Normal | LeftDrag | RightDrag | MiddleDrag

record Container =
  c_id :: i32
  c_type :: i32
  c_state :: State
  c_title :: string
  c_cursor :: Slot
  c_cariedItemIndex :: i16
  dropped :: "Slot list"

text \<open>
  \<open>m_at\<close> is the virtual \<open>at\<close>, which returns a reference or throws; \<open>m_get\<close> and \<open>m_put\<close> read and write
  the slot behind a reference; \<open>m_cursor\<close> is the reference to \<open>_cursor\<close>.
\<close>

record ('c, 'r) slot_methods =
  m_at :: "i16 \<Rightarrow> 'r result"
  m_get :: "'c \<Rightarrow> 'r \<Rightarrow> Slot"
  m_put :: "'r \<Rightarrow> Slot \<Rightarrow> 'c \<Rightarrow> 'c"
  m_size :: nat
  m_cursor :: 'r

definition m_upd :: "('c, 'r) slot_methods \<Rightarrow> 'r \<Rightarrow> (Slot \<Rightarrow> Slot) \<Rightarrow> 'c \<Rightarrow> 'c" where
  "m_upd m r f c = m_put m r (f (m_get m c r)) c"

definition with_at :: "('c, 'r) slot_methods \<Rightarrow> i16 \<Rightarrow> ('r \<Rightarrow> 'c act) \<Rightarrow> 'c act" where
  "with_at m index f c = (case m_at m index of Inl e \<Rightarrow> (c, Inl e) | Inr r \<Rightarrow> f r c)"

definition count_set :: "int \<Rightarrow> Slot \<Rightarrow> Slot" where
  "count_set n s = s\<lparr>itemCount := of_int n\<rparr>"

definition count_dec :: "Slot \<Rightarrow> Slot" where
  "count_dec s = s\<lparr>itemCount := itemCount s - 1\<rparr>"

text \<open>
  \<open>Slot::swap\<close> on two references, assignment by assignment: the second sees what the first wrote.
\<close>

definition swap_at :: "('c, 'r) slot_methods \<Rightarrow> 'r \<Rightarrow> 'r \<Rightarrow> 'c \<Rightarrow> 'c" where
  "swap_at m a b c =
     (let this = m_get m c a; other = m_get m c b in
      if itemID this = itemID other \<and> itemID this \<noteq> 0 then
        let rest = sint (itemCount this) + sint (itemCount other) - 64 in
        if rest > 0 then m_upd m b (count_set rest) (m_upd m a (count_set 64) c)
        else m_upd m b slot_reset
               (m_upd m a (count_set (sint (itemCount this) + sint (itemCount other))) c)
      else m_put m b this (m_put m a other c))"

definition swap_count_at :: "('c, 'r) slot_methods \<Rightarrow> 'r \<Rightarrow> 'r \<Rightarrow> int \<Rightarrow> 'c \<Rightarrow> 'c" where
  "swap_count_at m a b x c =
     (let this = m_get m c a; other = m_get m c b in
      if present this \<and> present other \<and> itemID this \<noteq> itemID other then swap_at m a b c
      else if sint (itemCount this) \<le> x then swap_at m a b c
      else
        let c1 = m_upd m b (\<lambda>s. s\<lparr>present := True, itemID := itemID this\<rparr>) c;
            c2 = m_upd m a (\<lambda>s. count_set (sint (itemCount s) - x) s) c1;
            c3 = m_upd m b (\<lambda>s. count_set (sint (itemCount s) + x) s) c2;
            n = sint (itemCount (m_get m c3 b)) in
        if n > 64 then m_upd m b (count_set 64) (m_upd m a (\<lambda>s. count_set (sint (itemCount s) + (n - 64)) s) c3)
        else c3)"

definition drop_item :: "Slot \<Rightarrow> ('a Container_scheme) \<Rightarrow> 'a Container_scheme" where
  "drop_item s c = c\<lparr>dropped := dropped c @ [s]\<rparr>"

definition container_close :: "('a Container_scheme, 'r) slot_methods \<Rightarrow> 'a Container_scheme \<Rightarrow> 'a Container_scheme" where
  "container_close m c =
     (let cur = m_get m c (m_cursor m) in
      if present cur then m_upd m (m_cursor m) slot_reset (drop_item cur c) else c)"

section \<open>Clicks\<close>

text \<open>\<open>ClickMode::Click\<close> outside the window (index -999): drop the cursor, or one item of it.\<close>

definition click_outside :: "('a Container_scheme, 'r) slot_methods \<Rightarrow> byte \<Rightarrow> 'a Container_scheme act" where
  "click_outside m buttonId c =
     (let cur = m_get m c (m_cursor m) in
      if \<not> present cur then (c, Inr ())
      else if buttonId = 0 then (m_upd m (m_cursor m) slot_reset (drop_item cur c), Inr ())
      else
        let c1 = drop_item \<lparr>present = True, itemID = itemID cur, itemCount = 1\<rparr> c;
            c2 = m_upd m (m_cursor m) count_dec c1 in
        (if itemCount (m_get m c2 (m_cursor m)) = 0 then m_upd m (m_cursor m) slot_reset c2 else c2, Inr ()))"

definition click_slot :: "('a Container_scheme, 'r) slot_methods \<Rightarrow> i16 \<Rightarrow> byte \<Rightarrow> 'a Container_scheme act" where
  "click_slot m index buttonId = with_at m index (\<lambda>r c.
     (if buttonId = 0 then swap_at m r (m_cursor m) c
      else if \<not> present (m_get m c (m_cursor m))
        then swap_count_at m r (m_cursor m) (sint (of_int (cdiv (sint (itemCount (m_get m c r))) 2) :: i8)) c
      else swap_count_at m (m_cursor m) r 1 c, Inr ()))"

definition middle_click :: "('a Container_scheme, 'r) slot_methods \<Rightarrow> bool \<Rightarrow> i16 \<Rightarrow> 'a Container_scheme act" where
  "middle_click m isCreative index = with_at m index (\<lambda>r c.
     (if \<not> isCreative then c
      else m_upd m (m_cursor m) (count_set 64) (m_put m (m_cursor m) (m_get m c r) c), Inr ()))"

definition drop_button :: "('a Container_scheme, 'r) slot_methods \<Rightarrow> i16 \<Rightarrow> byte \<Rightarrow> 'a Container_scheme act" where
  "drop_button m index buttonId c =
     (if present (m_get m c (m_cursor m)) then (c, Inr ())
      else with_at m index (\<lambda>r c.
        (if \<not> present (m_get m c r) then c
         else
           let c1 = (if buttonId = 0 then
                 let c2 = m_upd m r count_dec
                       (drop_item \<lparr>present = True, itemID = itemID (m_get m c r), itemCount = 1\<rparr> c) in
                 if itemCount (m_get m c2 r) = 0 then m_upd m r slot_reset c2 else c2
               else m_upd m r slot_reset (drop_item (m_get m c r) c)) in
           if itemCount (m_get m c1 r) = 0 then m_upd m r slot_reset c1 else c1, Inr ())) c)"

text \<open>
  The loop that ends a left drag; \<open>rest\<close> and \<open>addedStack\<close> are \<open>int16_t\<close>, counts are narrowed to
  \<open>int8_t\<close> when they are stored. It returns the final \<open>rest\<close>.
\<close>

fun drag_loop :: "('a Container_scheme, 'r) slot_methods \<Rightarrow> SlotWithIndex list \<Rightarrow> i16 \<Rightarrow> i16 \<Rightarrow>
    'a Container_scheme \<Rightarrow> 'a Container_scheme \<times> i16 result" where
  "drag_loop m [] rest addedStack c = (c, Inr rest)"
| "drag_loop m (u # us) rest addedStack c =
     (case m_at m (slotNumber u) of
        Inl e \<Rightarrow> (c, Inl e)
      | Inr r \<Rightarrow>
          let s = m_get m c r; cur = m_get m c (m_cursor m) in
          if present s then
            if itemID s = itemID cur \<and> sint (itemCount s) < 64 then
              let c1 = m_upd m r (count_set (sint (itemCount s) + sint addedStack)) c;
                  n = sint (itemCount (m_get m c1 r)) in
              if n > 64 then drag_loop m us (rest + of_int (n - 64)) addedStack (m_upd m r (count_set 64) c1)
              else drag_loop m us rest 0 c1
            else drag_loop m us rest addedStack c
          else drag_loop m us rest addedStack (m_put m r (count_set (sint addedStack) cur) c))"

text \<open>The count is converted to \<open>size_t\<close> for the division by the number of updates.\<close>

definition end_drag :: "('a Container_scheme, 'r) slot_methods \<Rightarrow> SlotWithIndex list \<Rightarrow> 'a Container_scheme act" where
  "end_drag m updates c =
     (if updates = [] then (c, Inl (UB DivisionByZero))
      else
        let n = unat (of_int (sint (itemCount (m_get m c (m_cursor m)))) :: u64) in
        case drag_loop m updates (of_nat (n mod length updates)) (of_nat (n div length updates)) c of
          (c1, Inl e) \<Rightarrow> (c1, Inl e)
        | (c1, Inr rest) \<Rightarrow>
            ((if sint rest > 0 then m_upd m (m_cursor m) (count_set (sint rest)) c1
              else m_upd m (m_cursor m) slot_reset c1)\<lparr>c_state := Normal\<rparr>, Inr ()))"

definition drag :: "('a Container_scheme, 'r) slot_methods \<Rightarrow> bool \<Rightarrow> i16 \<Rightarrow> byte \<Rightarrow> SlotWithIndex list \<Rightarrow>
    'a Container_scheme act" where
  "drag m isCreative index buttonId updates c =
     (let start = (\<lambda>st. if present (m_get m c (m_cursor m)) then (c\<lparr>c_state := st\<rparr>, Inr ()) else (c, Inr ())) in
      if buttonId = 0 \<and> index = -999 \<and> c_state c = Normal then start LeftDrag
      else if buttonId = 4 \<and> index = -999 \<and> c_state c = Normal then start RightDrag
      else if buttonId = 8 \<and> index = -999 \<and> c_state c = Normal \<and> isCreative then start MiddleDrag
      else if buttonId = 1 \<and> c_state c = LeftDrag then (c, Inr ())
      else if buttonId = 2 \<and> index = -999 \<and> c_state c = LeftDrag then end_drag m updates c
      else (c\<lparr>c_state := Normal\<rparr>, Inr ()))"

text \<open>The loop of a double click gathers equal items under the cursor.\<close>

definition gather_step :: "('c, 'r) slot_methods \<Rightarrow> nat \<Rightarrow> 'c act" where
  "gather_step m i = with_at m (of_nat i) (\<lambda>r c.
     (if slot_eq (m_get m c (m_cursor m)) (m_get m c r) then
        let c1 = m_upd m (m_cursor m) (\<lambda>s. count_set (sint (itemCount s) + sint (itemCount (m_get m c r))) s) c;
            n = sint (itemCount (m_get m c1 (m_cursor m))) in
        if n > 64 then m_upd m (m_cursor m) (count_set 64) (m_upd m r (count_set (n - 64)) c1)
        else m_upd m r slot_reset c1
      else c, Inr ()))"

definition double_click :: "('c, 'r) slot_methods \<Rightarrow> i16 \<Rightarrow> 'c act" where
  "double_click m index = with_at m index (\<lambda>r c.
     let cur = m_get m c (m_cursor m) in
     if present (m_get m c r) \<or> itemCount cur = 64 \<or> \<not> present cur then (c, Inr ())
     else act_for [0..<m_size m] (gather_step m) c)"

definition container_onClick :: "('a Container_scheme, 'r) slot_methods \<Rightarrow> bool \<Rightarrow> i16 \<Rightarrow> byte \<Rightarrow> byte \<Rightarrow>
    SlotWithIndex list \<Rightarrow> 'a Container_scheme act" where
  "container_onClick m isCreative index buttonId mode updates =
     (if mode = 0 then (if index = -999 then click_outside m buttonId else click_slot m index buttonId)
      else if mode = 3 then middle_click m isCreative index
      else if mode = 4 then drop_button m index buttonId
      else if mode = 5 then drag m isCreative index buttonId updates
      else if mode = 6 then double_click m index
      else act_skip)"

section \<open>Inventory\<close>

definition INVENTORY_SIZE :: nat where "INVENTORY_SIZE = 27"
definition HOTBAR_SIZE :: nat where "HOTBAR_SIZE = 9"
definition ARMOR_SIZE :: nat where "ARMOR_SIZE = 4"
definition CRAFTING_GRID_2X2 :: nat where "CRAFTING_GRID_2X2 = 5"
definition HOTBAR_OFFSET :: nat where
  "HOTBAR_OFFSET = INVENTORY_SIZE + ARMOR_SIZE + CRAFTING_GRID_2X2"

lemmas inventory_sizes = INVENTORY_SIZE_def HOTBAR_SIZE_def ARMOR_SIZE_def CRAFTING_GRID_2X2_def
  HOTBAR_OFFSET_def

record Inventory = Container +
  playerInventory :: "Slot list"
  hotbar :: "Slot list"
  armor :: "Slot list"
  offhand :: Slot
  craftingGrid :: "Slot list"

datatype slot_ref = CursorRef | CraftingRef nat | ArmorRef nat | PlayerRef nat | HotbarRef nat | OffhandRef

definition newInventory :: Inventory where
  "newInventory = \<lparr>c_id = 0, c_type = 0, c_state = Normal, c_title = ''Inventory'', c_cursor = empty_slot,
     c_cariedItemIndex = 0, dropped = [], playerInventory = replicate INVENTORY_SIZE empty_slot,
     hotbar = replicate HOTBAR_SIZE empty_slot, armor = replicate ARMOR_SIZE empty_slot,
     offhand = empty_slot, craftingGrid = replicate CRAFTING_GRID_2X2 empty_slot\<rparr>"

text \<open>A negative index other than -1 is out of the range of the first array.\<close>

definition inventory_at :: "i16 \<Rightarrow> slot_ref result" where
  "inventory_at index =
     (let i = sint index in
      if i = -1 then Inr CursorRef
      else if i < 5 then (if i < 0 then Inl StdOutOfRange else Inr (CraftingRef (nat i)))
      else if i < 9 then Inr (ArmorRef (nat (i - 5)))
      else if i < 36 then Inr (PlayerRef (nat (i - 9)))
      else if i < 45 then Inr (HotbarRef (nat (i - 36)))
      else if i = 45 then Inr OffhandRef
      else Inl StdOutOfRange)"

fun inventory_get :: "Inventory \<Rightarrow> slot_ref \<Rightarrow> Slot" where
  "inventory_get c CursorRef = c_cursor c"
| "inventory_get c (CraftingRef i) = craftingGrid c ! i"
| "inventory_get c (ArmorRef i) = armor c ! i"
| "inventory_get c (PlayerRef i) = playerInventory c ! i"
| "inventory_get c (HotbarRef i) = hotbar c ! i"
| "inventory_get c OffhandRef = offhand c"

fun inventory_put :: "slot_ref \<Rightarrow> Slot \<Rightarrow> Inventory \<Rightarrow> Inventory" where
  "inventory_put CursorRef s c = c\<lparr>c_cursor := s\<rparr>"
| "inventory_put (CraftingRef i) s c = c\<lparr>craftingGrid := (craftingGrid c)[i := s]\<rparr>"
| "inventory_put (ArmorRef i) s c = c\<lparr>armor := (armor c)[i := s]\<rparr>"
| "inventory_put (PlayerRef i) s c = c\<lparr>playerInventory := (playerInventory c)[i := s]\<rparr>"
| "inventory_put (HotbarRef i) s c = c\<lparr>hotbar := (hotbar c)[i := s]\<rparr>"
| "inventory_put OffhandRef s c = c\<lparr>offhand := s\<rparr>"

definition inventory_size :: nat where
  "inventory_size = INVENTORY_SIZE + HOTBAR_SIZE + ARMOR_SIZE + CRAFTING_GRID_2X2 + 1"

definition inventory :: "(Inventory, slot_ref) slot_methods" where
  "inventory = \<lparr>m_at = inventory_at, m_get = inventory_get, m_put = inventory_put,
     m_size = inventory_size, m_cursor = CursorRef\<rparr>"

text \<open>
  The two loops of \<open>swapContainer\<close>: merge into the stacks of the same item, then move to the first
  free slot. The boolean tells whether the function has returned.
\<close>

fun merge_loop :: "('c, 'r) slot_methods \<Rightarrow> 'r \<Rightarrow> 'r list \<Rightarrow> 'c \<Rightarrow> 'c \<times> bool" where
  "merge_loop m slot [] c = (c, False)"
| "merge_loop m slot (r # rs) c =
     (if slot_eq (m_get m c r) (m_get m c slot) then
        let c1 = m_upd m r (\<lambda>s. count_set (sint (itemCount s) + sint (itemCount (m_get m c slot))) s) c;
            n = sint (itemCount (m_get m c1 r)) in
        if n \<le> 64 then (m_upd m slot slot_reset c1, True)
        else merge_loop m slot rs (m_upd m r (count_set 64) (m_upd m slot (count_set (n - 64)) c1))
      else merge_loop m slot rs c)"

fun free_loop :: "('c, 'r) slot_methods \<Rightarrow> 'r \<Rightarrow> 'r list \<Rightarrow> 'c \<Rightarrow> 'c" where
  "free_loop m slot [] c = c"
| "free_loop m slot (r # rs) c =
     (if \<not> present (m_get m c r) then m_upd m slot slot_reset (m_put m r (m_get m c slot) c)
      else free_loop m slot rs c)"

definition swapContainer :: "('c, 'r) slot_methods \<Rightarrow> 'r \<Rightarrow> 'r list \<Rightarrow> 'c \<Rightarrow> 'c" where
  "swapContainer m slot rs c =
     (case merge_loop m slot rs c of (c1, True) \<Rightarrow> c1 | (c1, False) \<Rightarrow> free_loop m slot rs c1)"

definition swap_keys :: "byte \<Rightarrow> i16 \<Rightarrow> Inventory act" where
  "swap_keys buttonId index c =
     (if buttonId = 40 then with_at inventory index (\<lambda>r c.
        (inventory_put r (offhand c) (inventory_put OffhandRef (inventory_get c r) c), Inr ())) c
      else if unat buttonId \<ge> HOTBAR_SIZE then (c, Inl StdOutOfRange)
      else with_at inventory index (\<lambda>r c.
        (inventory_put r (hotbar c ! unat buttonId)
           (inventory_put (HotbarRef (unat buttonId)) (inventory_get c r) c), Inr ())) c)"

definition inventory_onClick :: "bool \<Rightarrow> i16 \<Rightarrow> byte \<Rightarrow> byte \<Rightarrow> SlotWithIndex list \<Rightarrow> Inventory act" where
  "inventory_onClick isCreative index buttonId mode updates =
     (if mode = 1 then with_at inventory index (\<lambda>r c.
        (if 9 \<le> sint index \<and> sint index < 36
         then swapContainer inventory r (map HotbarRef [0..<HOTBAR_SIZE]) c
         else swapContainer inventory r (map PlayerRef [0..<INVENTORY_SIZE]) c, Inr ()))
      else if mode = 2 then swap_keys buttonId index
      else container_onClick inventory isCreative index buttonId mode updates)"

end
