(* ===== verification/Container_Properties.thy ===== *)
theory Container_Properties
  imports Containers
begin

text \<open>
  Clicks neither create nor destroy items. The locale states what \<open>Container\<close> relies on in a subclass,
  references that behave like independent variables; conservation is proved once in it and holds for
  \<open>Inventory\<close> by interpretation.
\<close>

section \<open>Stacks\<close>

text \<open>A slot is empty or holds up to 64 items of a real identifier.\<close>

definition slot_ok :: "Slot \<Rightarrow> bool" where
  "slot_ok s \<longleftrightarrow> 0 \<le> sint (itemCount s) \<and> sint (itemCount s) \<le> 64 \<and> (present s \<longleftrightarrow> itemID s \<noteq> 0)
     \<and> (\<not> present s \<longrightarrow> itemCount s = 0)"

definition held :: "i32 \<Rightarrow> Slot \<Rightarrow> int" where
  "held i s = (if present s \<and> itemID s = i then sint (itemCount s) else 0)"

text \<open>The items of identifier \<open>i\<close> in the slots behind \<open>refs\<close> and in the world.\<close>

definition stock :: "('a Container_scheme, 'r) slot_methods \<Rightarrow> 'r list \<Rightarrow> 'a Container_scheme \<Rightarrow> i32 \<Rightarrow> int" where
  "stock m refs c i = sum_list (map (\<lambda>r. held i (m_get m c r)) refs) + sum_list (map (held i) (dropped c))"

lemma sint_i8: "- 128 \<le> k \<Longrightarrow> k < 128 \<Longrightarrow> sint (of_int k :: i8) = k"
  by (simp add: signed_of_int signed_take_bit_int_eq_self)

lemma slot_reset_eq: "slot_reset s = empty_slot"
  by (simp add: slot_reset_def empty_slot_def)

lemma slot_ok_empty [simp]: "slot_ok empty_slot"
  by (simp add: slot_ok_def empty_slot_def)

lemma held_empty [simp]: "held i empty_slot = 0"
  by (simp add: held_def empty_slot_def)

lemma count_set_simps [simp]:
  "present (count_set n s) = present s" "itemID (count_set n s) = itemID s"
  "- 128 \<le> n \<Longrightarrow> n < 128 \<Longrightarrow> sint (itemCount (count_set n s)) = n"
  by (simp_all add: count_set_def sint_i8)

lemma count_set_twice [simp]: "count_set n (count_set k s) = count_set n s"
  by (simp add: count_set_def)

lemma count_set_zero: "- 128 \<le> n \<Longrightarrow> n < 128 \<Longrightarrow> itemCount (count_set n s) = 0 \<longleftrightarrow> n = 0"
  using sint_i8 [of n] by (auto simp: count_set_def)

lemma slot_ok_count_set: "slot_ok s \<Longrightarrow> present s \<Longrightarrow> 0 \<le> n \<Longrightarrow> n \<le> 64 \<Longrightarrow> slot_ok (count_set n s)"
  by (simp add: slot_ok_def)

lemma held_count_set:
  "- 128 \<le> n \<Longrightarrow> n < 128 \<Longrightarrow> held i (count_set n s) = (if present s \<and> itemID s = i then n else 0)"
  by (simp add: held_def)

lemma count_dec_eq: "count_dec s = count_set (sint (itemCount s) - 1) s"
  by (simp add: count_dec_def count_set_def)

lemma slot_swap_alt: "slot_swap s t =
  (if itemID s = itemID t \<and> itemID s \<noteq> 0 then
     if sint (itemCount s) + sint (itemCount t) > 64
     then (count_set 64 s, count_set (sint (itemCount s) + sint (itemCount t) - 64) t)
     else (count_set (sint (itemCount s) + sint (itemCount t)) s, empty_slot)
   else (t, s))"
  by (auto simp: slot_swap_def Let_def count_set_def slot_reset_eq)

lemma slot_ok_absent: "slot_ok s \<Longrightarrow> \<not> present s \<Longrightarrow> s = empty_slot"
  by (cases s) (simp add: slot_ok_def empty_slot_def)

section \<open>What a container relies on\<close>

locale slot_container =
  fixes m :: "('a Container_scheme, 'r) slot_methods" and wf :: "'a Container_scheme \<Rightarrow> bool" and refs :: "'r list"
  assumes distinct_refs: "distinct refs"
    and cursor_in: "m_cursor m \<in> set refs"
    and at_in: "m_at m i = Inr r \<Longrightarrow> r \<in> set refs"
    and wf_put: "wf c \<Longrightarrow> r \<in> set refs \<Longrightarrow> wf (m_put m r s c)"
    and get_put: "wf c \<Longrightarrow> r \<in> set refs \<Longrightarrow> q \<in> set refs \<Longrightarrow>
      m_get m (m_put m r s c) q = (if q = r then s else m_get m c q)"
    and put_dropped: "dropped (m_put m r s c) = dropped c"
    and wf_drop: "wf (c\<lparr>dropped := d\<rparr>) = wf c"
    and get_drop: "m_get m (c\<lparr>dropped := d\<rparr>) r = m_get m c r"
    and wf_state: "wf (c\<lparr>c_state := st\<rparr>) = wf c"
    and get_state: "m_get m (c\<lparr>c_state := st\<rparr>) r = m_get m c r"
    and at_size: "k < m_size m \<Longrightarrow> \<exists>r. m_at m (of_nat k) = Inr r \<and> r \<noteq> m_cursor m"
begin

lemmas laws = cursor_in wf_put get_put put_dropped wf_drop get_drop wf_state get_state

abbreviation items :: "'a Container_scheme \<Rightarrow> i32 \<Rightarrow> int" where
  "items \<equiv> stock m refs"

definition valid :: "'a Container_scheme \<Rightarrow> bool" where
  "valid c \<longleftrightarrow> wf c \<and> (\<forall>r \<in> set refs. slot_ok (m_get m c r))"

lemma validD: "valid c \<Longrightarrow> r \<in> set refs \<Longrightarrow> slot_ok (m_get m c r)" "valid c \<Longrightarrow> wf c"
  by (simp_all add: valid_def)

lemma valid_put: "valid c \<Longrightarrow> r \<in> set refs \<Longrightarrow> slot_ok s \<Longrightarrow> valid (m_put m r s c)"
  by (simp add: valid_def laws)

lemma valid_state: "valid (c\<lparr>c_state := st\<rparr>) = valid c"
  by (simp add: valid_def laws)

lemma items_state: "items (c\<lparr>c_state := st\<rparr>) i = items c i"
  by (simp add: stock_def laws)

lemma items_put:
  assumes "wf c" "r \<in> set refs"
  shows "items (m_put m r s c) i = items c i - held i (m_get m c r) + held i s"
proof -
  have "(\<Sum>q \<in> set refs. held i (m_get m (m_put m r s c) q))
      = (\<Sum>q \<in> set refs - {r}. held i (m_get m c q)) + held i s"
    using assms by (subst sum.remove [of _ r]) (auto simp: get_put intro!: sum.cong)
  moreover have "(\<Sum>q \<in> set refs. held i (m_get m c q))
      = held i (m_get m c r) + (\<Sum>q \<in> set refs - {r}. held i (m_get m c q))"
    using assms by (subst sum.remove [of _ r]) auto
  ultimately show ?thesis
    by (simp add: stock_def put_dropped sum_list_distinct_conv_sum_set [OF distinct_refs])
qed

lemma valid_drop: "valid (drop_item s c) = valid c"
  by (simp add: valid_def drop_item_def laws)

lemma get_drop_item: "m_get m (drop_item s c) r = m_get m c r" "wf (drop_item s c) = wf c"
  by (simp_all add: drop_item_def laws)

lemma items_drop: "items (drop_item s c) i = items c i + held i s"
  by (simp add: stock_def drop_item_def laws)

text \<open>Two different slots rewritten at once.\<close>

lemma conserve_two:
  assumes "valid c" "a \<in> set refs" "b \<in> set refs" "a \<noteq> b" "slot_ok s" "slot_ok t"
    and "\<And>i. held i s + held i t = held i (m_get m c a) + held i (m_get m c b)"
  shows "valid (m_put m b t (m_put m a s c)) \<and> items (m_put m b t (m_put m a s c)) i = items c i"
  using assms(1-6) assms(7) [of i] by (simp add: valid_put items_put validD laws)

lemma swap_at_distinct:
  assumes "wf c" "a \<in> set refs" "b \<in> set refs" "a \<noteq> b"
  shows "swap_at m a b c = m_put m b (snd (slot_swap (m_get m c a) (m_get m c b)))
    (m_put m a (fst (slot_swap (m_get m c a) (m_get m c b))) c)"
  using assms by (auto simp: swap_at_def slot_swap_alt m_upd_def Let_def laws slot_reset_eq)

end

lemma slot_swap_ok:
  assumes "slot_ok s" "slot_ok t"
  shows "slot_ok (fst (slot_swap s t)) \<and> slot_ok (snd (slot_swap s t))
    \<and> held i (fst (slot_swap s t)) + held i (snd (slot_swap s t)) = held i s + held i t"
proof -
  have r: "0 \<le> sint (itemCount s)" "sint (itemCount s) \<le> 64" "0 \<le> sint (itemCount t)" "sint (itemCount t) \<le> 64"
    using assms by (simp_all add: slot_ok_def)
  show ?thesis
  proof (cases "itemID s = itemID t \<and> itemID s \<noteq> 0")
    case True
    then have "present s" "present t" using assms by (auto simp: slot_ok_def)
    with True r assms show ?thesis
      by (auto simp: slot_swap_alt slot_ok_count_set held_count_set) (auto simp: held_def)
  next
    case False
    then have "slot_swap s t = (t, s)" by (auto simp: slot_swap_alt)
    then show ?thesis using assms by simp
  qed
qed

context slot_container
begin

lemma swap_at_conserves:
  assumes "valid c" "a \<in> set refs" "b \<in> set refs" "a \<noteq> b"
  shows "valid (swap_at m a b c) \<and> items (swap_at m a b c) i = items c i"
  unfolding swap_at_distinct [OF validD(2) [OF assms(1)] assms(2-4)]
  using slot_swap_ok [OF validD(1) [OF assms(1,2)] validD(1) [OF assms(1,3)]]
  by (intro conserve_two assms) simp_all

lemma swap_count_at_conserves:
  assumes v: "valid c" and ref: "a \<in> set refs" "b \<in> set refs" "a \<noteq> b" and x: "0 \<le> x" "x \<le> 64"
  shows "valid (swap_count_at m a b x c) \<and> items (swap_count_at m a b x c) i = items c i"
proof (cases "present (m_get m c a) \<and> present (m_get m c b) \<and> itemID (m_get m c a) \<noteq> itemID (m_get m c b)
    \<or> sint (itemCount (m_get m c a)) \<le> x")
  case True
  then have "swap_count_at m a b x c = swap_at m a b c"
    by (auto simp: swap_count_at_def Let_def)
  then show ?thesis using swap_at_conserves [OF v ref] by simp
next
  case False
  let ?s = "m_get m c a" and ?t = "m_get m c b"
  note ok = validD(1) [OF v ref(1)] validD(1) [OF v ref(2)]
  have s: "present ?s" "present ?t \<Longrightarrow> itemID ?t = itemID ?s" "x < sint (itemCount ?s)"
    using False ok(1) x by (auto simp: slot_ok_def)
  have w: "wf c" using v by (rule validD(2))
  have r: "0 \<le> sint (itemCount ?s)" "sint (itemCount ?s) \<le> 64" "0 \<le> sint (itemCount ?t)" "sint (itemCount ?t) \<le> 64"
    using ok by (simp_all add: slot_ok_def)
  define t1 where "t1 = ?t\<lparr>present := True, itemID := itemID ?s\<rparr>"
  have t1: "slot_ok t1" "present t1" "itemID t1 = itemID ?s" "itemCount t1 = itemCount ?t"
      "held i t1 = (if itemID ?s = i then sint (itemCount ?t) else 0)" for i
    using ok s(1) by (auto simp: t1_def slot_ok_def held_def)
  have h: "held i ?s = (if itemID ?s = i then sint (itemCount ?s) else 0)"
      "held i ?t = (if itemID ?s = i then sint (itemCount ?t) else 0)" for i
    using ok s(1,2) by (auto simp: held_def slot_ok_def)
  have eq: "swap_count_at m a b x c =
    (let c3 = m_put m b (count_set (sint (itemCount ?t) + x) t1)
                (m_put m a (count_set (sint (itemCount ?s) - x) ?s) (m_put m b t1 c)) in
     if sint (itemCount ?t) + x > 64
     then m_put m b (count_set 64 (count_set (sint (itemCount ?t) + x) t1))
            (m_put m a (count_set (sint (itemCount ?s) - x + (sint (itemCount ?t) + x - 64)) (count_set (sint (itemCount ?s) - x) ?s)) c3)
     else c3)"
    using False s x r ref w t1(4)
    by (auto simp: swap_count_at_def Let_def m_upd_def laws t1_def [symmetric])
  have "valid (swap_count_at m a b x c)" unfolding eq
    using v ref w s x r t1 ok by (auto simp: valid_def Let_def laws slot_ok_count_set)
  moreover have "items (swap_count_at m a b x c) i = items c i" unfolding eq
    using ref w s x r t1 h by (auto simp: Let_def laws items_put held_count_set)
  ultimately show ?thesis by blast
qed

lemma click_slot_conserves:
  assumes v: "valid c" and r: "m_at m index = Inr r" "r \<noteq> m_cursor m"
  shows "\<exists>c'. click_slot m index buttonId c = (c', Inr ()) \<and> valid c' \<and> (\<forall>i. items c' i = items c i)"
proof -
  note refs = at_in [OF r(1)] cursor_in
  have k: "0 \<le> sint (itemCount (m_get m c r))" "sint (itemCount (m_get m c r)) \<le> 64"
    using validD(1) [OF v refs(1)] by (simp_all add: slot_ok_def)
  then have x: "0 \<le> cdiv (sint (itemCount (m_get m c r))) 2" "cdiv (sint (itemCount (m_get m c r))) 2 \<le> 64"
    by (auto simp: cdiv_def sgn_if)
  then have "sint (of_int (cdiv (sint (itemCount (m_get m c r))) 2) :: i8) = cdiv (sint (itemCount (m_get m c r))) 2"
    by (intro sint_i8) auto
  then show ?thesis
    using swap_at_conserves [OF v refs r(2)] swap_count_at_conserves [OF v refs r(2) x]
      swap_count_at_conserves [OF v refs(2,1) r(2) [symmetric], of 1]
    by (auto simp: click_slot_def with_at_def r(1))
qed

text \<open>Dropping one item of a stack, or all of it, from the slot behind \<open>r\<close>.\<close>

lemma drop_all_conserves:
  assumes "valid c" "r \<in> set refs"
  shows "valid (m_upd m r slot_reset (drop_item (m_get m c r) c))
    \<and> items (m_upd m r slot_reset (drop_item (m_get m c r) c)) i = items c i"
  using assms validD(2) [OF assms(1)]
  by (simp add: m_upd_def slot_reset_eq valid_put valid_drop items_put items_drop get_drop_item)

lemma drop_one_conserves:
  assumes v: "valid c" and r: "r \<in> set refs" and p: "present (m_get m c r)" "1 \<le> sint (itemCount (m_get m c r))"
  defines "c2 \<equiv> m_upd m r count_dec (drop_item \<lparr>present = True, itemID = itemID (m_get m c r), itemCount = 1\<rparr> c)"
  shows "valid c2 \<and> items c2 i = items c i"
    and "itemCount (m_get m c2 r) = 0 \<Longrightarrow> valid (m_upd m r slot_reset c2) \<and> items (m_upd m r slot_reset c2) i = items c i"
proof -
  let ?s = "m_get m c r"
  have w: "wf c" using v by (rule validD(2))
  have k: "sint (itemCount ?s) \<le> 64" "slot_ok ?s" using validD(1) [OF v r] by (simp_all add: slot_ok_def)
  have c2: "c2 = m_put m r (count_set (sint (itemCount ?s) - 1) ?s)
      (drop_item \<lparr>present = True, itemID = itemID ?s, itemCount = 1\<rparr> c)"
    by (simp add: c2_def m_upd_def count_dec_eq get_drop_item)
  have g: "m_get m c2 r = count_set (sint (itemCount ?s) - 1) ?s" "wf c2"
    using w r by (simp_all add: c2 laws get_drop_item)
  show one: "valid c2 \<and> items c2 i = items c i" for i
    using v r p k w unfolding c2
    by (simp add: valid_put valid_drop items_put items_drop get_drop_item slot_ok_count_set held_count_set)
      (simp add: held_def)
  assume "itemCount (m_get m c2 r) = 0"
  then have "held i (m_get m c2 r) = 0" for i by (simp add: held_def)
  with one g r show "valid (m_upd m r slot_reset c2) \<and> items (m_upd m r slot_reset c2) i = items c i"
    by (simp add: m_upd_def slot_reset_eq valid_put items_put)
qed

lemma click_outside_conserves:
  assumes "valid c" "present (m_get m c (m_cursor m)) \<Longrightarrow> 1 \<le> sint (itemCount (m_get m c (m_cursor m)))"
  shows "\<exists>c'. click_outside m buttonId c = (c', Inr ()) \<and> valid c' \<and> (\<forall>i. items c' i = items c i)"
  using assms drop_all_conserves [OF assms(1) cursor_in] drop_one_conserves [OF assms(1) cursor_in]
  by (auto simp: click_outside_def Let_def)

lemma drop_button_conserves:
  assumes v: "valid c" and r: "m_at m index = Inr r"
    and k: "present (m_get m c r) \<Longrightarrow> 1 \<le> sint (itemCount (m_get m c r))"
  shows "\<exists>c'. drop_button m index buttonId c = (c', Inr ()) \<and> valid c' \<and> (\<forall>i. items c' i = items c i)"
proof -
  note ref = at_in [OF r]
  have again: "valid (m_upd m r slot_reset (m_upd m r slot_reset c'))
      \<and> items (m_upd m r slot_reset (m_upd m r slot_reset c')) i = items (m_upd m r slot_reset c') i"
    if "valid (m_upd m r slot_reset c')" "wf c'" for c' i
    using that ref by (simp add: m_upd_def slot_reset_eq valid_put items_put laws)
  have w: "wf (drop_item s c)" "wf (m_upd m r count_dec (drop_item s c))" for s
    using validD(2) [OF v] ref by (simp_all add: get_drop_item m_upd_def laws)
  show ?thesis
    using v k drop_all_conserves [OF v ref] drop_one_conserves [OF v ref] again w
    by (auto simp: drop_button_def with_at_def r Let_def)
qed

lemma close_conserves: "valid c \<Longrightarrow> valid (container_close m c) \<and> items (container_close m c) i = items c i"
  using drop_all_conserves [OF _ cursor_in, of c] by (simp add: container_close_def Let_def)

text \<open>Stacks of the cursor's item below 64: then no sum of two counts leaves \<open>int8_t\<close>.\<close>

definition room :: "i32 \<Rightarrow> 'a Container_scheme \<Rightarrow> bool" where
  "room i c \<longleftrightarrow> (\<forall>r \<in> set refs - {m_cursor m}. itemID (m_get m c r) = i \<longrightarrow> sint (itemCount (m_get m c r)) \<le> 63)"

lemma gather_step_conserves:
  assumes v: "valid c" and k: "k < m_size m" and p: "present (m_get m c (m_cursor m))"
    and rm: "room (itemID (m_get m c (m_cursor m))) c"
  shows "\<exists>c'. gather_step m k c = (c', Inr ()) \<and> valid c' \<and> (\<forall>i. items c' i = items c i)
    \<and> present (m_get m c' (m_cursor m)) \<and> itemID (m_get m c' (m_cursor m)) = itemID (m_get m c (m_cursor m))
    \<and> room (itemID (m_get m c (m_cursor m))) c'"
proof -
  obtain r where r: "m_at m (of_nat k) = Inr r" "r \<noteq> m_cursor m" using at_size [OF k] by blast
  let ?u = "m_cursor m" and ?s = "m_get m c r" and ?t = "m_get m c (m_cursor m)"
  note ref = at_in [OF r(1)] cursor_in and w = validD(2) [OF v]
  have ok: "slot_ok ?s" "slot_ok ?t" using validD(1) [OF v] ref by blast+
  show ?thesis
  proof (cases "slot_eq ?t ?s")
    case False
    then show ?thesis using v p rm by (auto simp: gather_step_def with_at_def r(1))
  next
    case True
    then have s: "present ?s" "itemID ?s = itemID ?t" using p by (auto simp: slot_eq_def)
    let ?n = "sint (itemCount ?t) + sint (itemCount ?s)"
    have n: "sint (itemCount ?s) \<le> 63" "0 \<le> sint (itemCount ?s)" "0 \<le> sint (itemCount ?t)" "sint (itemCount ?t) \<le> 64"
      using rm s ref r(2) ok by (auto simp: room_def slot_ok_def)
    define c' where "c' = (if ?n > 64 then m_put m ?u (count_set 64 (count_set ?n ?t))
          (m_put m r (count_set (?n - 64) ?s) (m_put m ?u (count_set ?n ?t) c))
        else m_put m r empty_slot (m_put m ?u (count_set ?n ?t) c))"
    have "gather_step m k c = (c', Inr ())"
      using True n ref w r(2)
      by (auto simp: gather_step_def with_at_def r(1) Let_def m_upd_def laws c'_def slot_reset_eq)
    moreover have get: "m_get m c' q = (if q = ?u then count_set (min 64 ?n) ?t
        else if q = r then (if ?n > 64 then count_set (?n - 64) ?s else empty_slot) else m_get m c q)"
      if "q \<in> set refs" for q
      using that ref w r(2) by (auto simp: c'_def laws count_set_def)
    moreover have "valid c'"
      using v ref w r(2) n s p ok get by (auto simp: valid_def slot_ok_count_set c'_def laws)
    moreover have "items c' i = items c i" for i
      using ref w r(2) n s p by (auto simp: c'_def laws items_put held_count_set) (auto simp: held_def)
    moreover have "room (itemID ?t) c'"
      using rm n by (auto simp: room_def get empty_slot_def)
    ultimately show ?thesis using p cursor_in by auto
  qed
qed

lemma double_click_conserves:
  assumes v: "valid c" and r: "m_at m index = Inr r" and rm: "room (itemID (m_get m c (m_cursor m))) c"
  shows "\<exists>c'. double_click m index c = (c', Inr ()) \<and> valid c' \<and> (\<forall>i. items c' i = items c i)"
proof -
  have loop: "\<exists>c'. act_for ks (gather_step m) c = (c', Inr ()) \<and> valid c' \<and> (\<forall>i. items c' i = items c i)"
    if "valid c" "present (m_get m c (m_cursor m))" "room (itemID (m_get m c (m_cursor m))) c"
      "\<forall>k \<in> set ks. k < m_size m" for ks c
    using that
  proof (induction ks arbitrary: c)
    case (Cons k ks)
    obtain c1 where "gather_step m k c = (c1, Inr ())" "valid c1" "\<forall>i. items c1 i = items c i"
        "present (m_get m c1 (m_cursor m))" "room (itemID (m_get m c1 (m_cursor m))) c1"
      using gather_step_conserves [OF Cons.prems(1) _ Cons.prems(2,3), of k] Cons.prems(4) by auto
    with Cons.IH [of c1] Cons.prems(4) show ?case by simp
  qed simp
  show ?thesis
    using v rm loop [of c "[0..<m_size m]"] by (auto simp: double_click_def with_at_def r Let_def)
qed

lemma merge_loop_conserves:
  assumes "valid c" "slot \<in> set refs" "set rs \<subseteq> set refs" "slot \<notin> set rs" "sint (itemCount (m_get m c slot)) \<le> 63"
  shows "valid (fst (merge_loop m slot rs c)) \<and> (\<forall>i. items (fst (merge_loop m slot rs c)) i = items c i)"
  using assms
proof (induction rs arbitrary: c)
  case (Cons r rs)
  note v = Cons.prems(1) and w = validD(2) [OF Cons.prems(1)]
  have ref: "r \<in> set refs" "r \<noteq> slot" using Cons.prems by auto
  let ?s = "m_get m c slot" and ?t = "m_get m c r"
  let ?n = "sint (itemCount ?t) + sint (itemCount ?s)"
  have ok: "slot_ok ?s" "slot_ok ?t" using validD(1) [OF v] ref Cons.prems(2) by auto
  then have n: "0 \<le> sint (itemCount ?s)" "0 \<le> sint (itemCount ?t)" "sint (itemCount ?t) \<le> 64"
    by (simp_all add: slot_ok_def)
  show ?case
  proof (cases "slot_eq ?t ?s")
    case False
    then show ?thesis using Cons by simp
  next
    case eq: True
    show ?thesis
    proof (cases "?n \<le> 64")
      case True
      have same: "count_set ?n ?t = ?t" if "\<not> present ?s"
        using that eq ok slot_ok_absent [of ?s] slot_ok_absent [of ?t]
        by (simp add: slot_eq_def empty_slot_def count_set_def)
      have m1: "merge_loop m slot (r # rs) c = (m_put m slot empty_slot (m_put m r (count_set ?n ?t) c), True)"
        using eq True n ref w Cons.prems(2,5)
        by (simp add: Let_def m_upd_def laws slot_reset_eq)
      have "slot_ok (count_set ?n ?t) \<and> held i (count_set ?n ?t) = held i ?t + held i ?s" for i
      proof (cases "present ?s")
        case True
        then show ?thesis using eq ok n \<open>?n \<le> 64\<close> Cons.prems(5)
          by (auto simp: slot_eq_def slot_ok_count_set held_count_set held_def)
      next
        case False
        then show ?thesis using same ok by (simp add: held_def)
      qed
      then show ?thesis
        using conserve_two [OF v ref(1) Cons.prems(2) ref(2), of "count_set ?n ?t" empty_slot] m1 by simp
    next
      case False
      have p: "present ?s" "present ?t" "itemID ?t = itemID ?s"
        using False eq ok by (auto simp: slot_eq_def slot_ok_def)
      let ?c = "m_put m r (count_set 64 (count_set ?n ?t)) (m_put m slot (count_set (?n - 64) ?s) (m_put m r (count_set ?n ?t) c))"
      have "merge_loop m slot (r # rs) c = merge_loop m slot rs ?c"
        using eq False n ref w Cons.prems(2,5) by (simp add: Let_def m_upd_def laws)
      moreover have "valid ?c"
        using v w ref Cons.prems(2,5) p ok n False
        by (auto simp: valid_def laws slot_ok_count_set)
      moreover have "items ?c i = items c i" for i
        using w ref Cons.prems(2,5) p n False by (auto simp: laws items_put held_count_set) (auto simp: held_def)
      moreover have "sint (itemCount (m_get m ?c slot)) \<le> 63"
        using w ref Cons.prems(2,5) n False by (simp add: laws)
      ultimately show ?thesis using Cons.IH [of ?c] Cons.prems(2-4) by simp
    qed
  qed
qed simp

lemma free_loop_conserves:
  assumes "valid c" "slot \<in> set refs" "set rs \<subseteq> set refs" "slot \<notin> set rs"
  shows "valid (free_loop m slot rs c) \<and> (\<forall>i. items (free_loop m slot rs c) i = items c i)"
  using assms
proof (induction rs)
  case (Cons r rs)
  then have ref: "r \<in> set refs" "r \<noteq> slot" by auto
  note v = Cons.prems(1)
  show ?case
  proof (cases "present (m_get m c r)")
    case False
    then have "free_loop m slot (r # rs) c = m_put m slot empty_slot (m_put m r (m_get m c slot) c)"
      by (simp add: m_upd_def slot_reset_eq)
    moreover have "m_get m c r = empty_slot" using False validD(1) [OF v ref(1)] by (rule slot_ok_absent [rotated])
    ultimately show ?thesis
      using conserve_two [OF v ref(1) Cons.prems(2) ref(2), of "m_get m c slot" empty_slot] validD(1) [OF v Cons.prems(2)]
      by simp
  next
    case True
    then show ?thesis using Cons by simp
  qed
qed simp

lemma swapContainer_conserves:
  assumes "valid c" "slot \<in> set refs" "set rs \<subseteq> set refs" "slot \<notin> set rs" "sint (itemCount (m_get m c slot)) \<le> 63"
  shows "valid (swapContainer m slot rs c) \<and> (\<forall>i. items (swapContainer m slot rs c) i = items c i)"
  using merge_loop_conserves [OF assms] free_loop_conserves [OF _ assms(2-4), of "fst (merge_loop m slot rs c)"]
  by (auto simp: swapContainer_def split: prod.splits bool.splits)

text \<open>The end of a left drag over empty slots.\<close>

definition drag_targets :: "SlotWithIndex list \<Rightarrow> 'a Container_scheme \<Rightarrow> bool" where
  "drag_targets us c \<longleftrightarrow> distinct (map (\<lambda>u. m_at m (slotNumber u)) us)
     \<and> (\<forall>u \<in> set us. \<exists>r. m_at m (slotNumber u) = Inr r \<and> r \<noteq> m_cursor m \<and> \<not> present (m_get m c r))"

lemma drag_loop_empty:
  assumes "valid c" "drag_targets us c" "present (m_get m c (m_cursor m))" "0 \<le> sint added" "sint added \<le> 64"
  shows "\<exists>c'. drag_loop m us rest added c = (c', Inr rest) \<and> valid c'
    \<and> m_get m c' (m_cursor m) = m_get m c (m_cursor m)
    \<and> (\<forall>i. items c' i = items c i
          + int (length us) * (if itemID (m_get m c (m_cursor m)) = i then sint added else 0))"
  using assms
proof (induction us arbitrary: c)
  case (Cons u us)
  note v = Cons.prems(1) and w = validD(2) [OF Cons.prems(1)]
  let ?cur = "m_get m c (m_cursor m)"
  obtain r where r: "m_at m (slotNumber u) = Inr r" "r \<noteq> m_cursor m" "\<not> present (m_get m c r)"
    using Cons.prems(2) by (auto simp: drag_targets_def)
  note ref = at_in [OF r(1)]
  let ?c = "m_put m r (count_set (sint added) ?cur) c"
  have "valid ?c" using v ref validD(1) [OF v cursor_in] Cons.prems(3-5) by (simp add: valid_put slot_ok_count_set)
  moreover have cur: "m_get m ?c (m_cursor m) = ?cur" using w ref r(2) cursor_in by (simp add: laws)
  moreover have "drag_targets us ?c"
    unfolding drag_targets_def
  proof (intro conjI ballI)
    show "distinct (map (\<lambda>u. m_at m (slotNumber u)) us)" using Cons.prems(2) by (simp add: drag_targets_def)
    fix u' assume u': "u' \<in> set us"
    then obtain q where q: "m_at m (slotNumber u') = Inr q" "q \<noteq> m_cursor m" "\<not> present (m_get m c q)"
      using Cons.prems(2) by (auto simp: drag_targets_def)
    moreover have "q \<noteq> r" using Cons.prems(2) r(1) q(1) u' by (force simp: drag_targets_def)
    ultimately show "\<exists>r. m_at m (slotNumber u') = Inr r \<and> r \<noteq> m_cursor m \<and> \<not> present (m_get m ?c r)"
      using w ref at_in [OF q(1)] by (simp add: laws)
  qed
  moreover have "items ?c i = items c i + (if itemID ?cur = i then sint added else 0)" for i
    using w ref r(3) Cons.prems(3-5) by (simp add: items_put held_count_set) (simp add: held_def)
  ultimately show ?case
    using Cons.IH [of ?c] Cons.prems(3-5) r by (auto simp: algebra_simps)
qed simp

lemma end_drag_conserves:
  assumes v: "valid c" and us: "drag_targets us c" "us \<noteq> []" "length us \<le> 64" and p: "present (m_get m c (m_cursor m))"
  shows "\<exists>c'. end_drag m us c = (c', Inr ()) \<and> valid c' \<and> (\<forall>i. items c' i = items c i)"
proof -
  let ?cur = "m_get m c (m_cursor m)" and ?l = "length us"
  define n where "n = nat (sint (itemCount ?cur))"
  have k: "0 \<le> sint (itemCount ?cur)" "sint (itemCount ?cur) \<le> 64"
    using validD(1) [OF v cursor_in] by (simp_all add: slot_ok_def)
  then have n: "n \<le> 64" "int n = sint (itemCount ?cur)" by (simp_all add: n_def)
  then have u: "unat (of_int (sint (itemCount ?cur)) :: u64) = n"
    by (simp flip: n(2) add: unat_of_nat)
  have l: "0 < ?l" using us(2) by simp
  have s16: "sint (of_nat x :: i16) = int x" if "x \<le> 64" for x
    using that by (simp add: signed_of_nat signed_take_bit_int_eq_self)
  have q: "n div ?l \<le> 64" "n mod ?l \<le> 64" using n(1) by (meson div_le_dividend mod_less_eq_dividend order_trans)+
  obtain c1 where c1: "drag_loop m us (of_nat (n mod ?l)) (of_nat (n div ?l)) c = (c1, Inr (of_nat (n mod ?l)))"
      "valid c1" "m_get m c1 (m_cursor m) = ?cur"
      "\<forall>i. items c1 i = items c i + int ?l * (if itemID ?cur = i then int (n div ?l) else 0)"
    using drag_loop_empty [OF v us(1) p, of "of_nat (n div ?l)" "of_nat (n mod ?l)"] q(1) by (auto simp: s16 [OF q(1)])
  let ?new = "if 0 < n mod ?l then count_set (int (n mod ?l)) ?cur else empty_slot"
  let ?c = "(m_put m (m_cursor m) ?new c1)\<lparr>c_state := Normal\<rparr>"
  have "end_drag m us c = (?c, Inr ())"
    unfolding end_drag_def Let_def u
    using us(2) c1(1,3) s16 [OF q(2)] by (simp add: m_upd_def slot_reset_eq)
  moreover have "valid ?c"
    using c1(2) cursor_in validD(1) [OF v cursor_in] p q(2)
    by (auto simp: valid_state intro!: valid_put slot_ok_count_set)
  moreover have "items ?c i = items c i" for i
  proof -
    have h: "held i ?new = (if itemID ?cur = i then int (n mod ?l) else 0)"
      using p q(2) by (auto simp: held_count_set)
    have "int ?l * int (n div ?l) + int (n mod ?l) = int n"
      by (metis mult_div_mod_eq of_nat_add of_nat_mult)
    then show ?thesis
      using c1(3,4) validD(2) [OF c1(2)] cursor_in h n(2) p
      by (auto simp: items_state items_put) (auto simp: held_def)
  qed
  ultimately show ?thesis by blast
qed

lemma drag_conserves:
  assumes v: "valid c"
    and us: "buttonId = 2 \<and> index = -999 \<and> c_state c = LeftDrag \<Longrightarrow>
      drag_targets us c \<and> us \<noteq> [] \<and> length us \<le> 64 \<and> present (m_get m c (m_cursor m))"
  shows "\<exists>c'. drag m cr index buttonId us c = (c', Inr ()) \<and> valid c' \<and> (\<forall>i. items c' i = items c i)"
  using v end_drag_conserves [OF v] us by (auto simp: drag_def Let_def valid_state items_state)

end

section \<open>The player's inventory\<close>

definition inventory_refs :: "slot_ref list" where
  "inventory_refs = CursorRef # map CraftingRef [0..<5] @ map ArmorRef [0..<4] @ map PlayerRef [0..<27]
     @ map HotbarRef [0..<9] @ [OffhandRef]"

definition wf_inventory :: "Inventory \<Rightarrow> bool" where
  "wf_inventory c \<longleftrightarrow> length (playerInventory c) = INVENTORY_SIZE \<and> length (hotbar c) = HOTBAR_SIZE
     \<and> length (armor c) = ARMOR_SIZE \<and> length (craftingGrid c) = CRAFTING_GRID_2X2"

lemma set_inventory_refs: "set inventory_refs = {CursorRef, OffhandRef} \<union> CraftingRef ` {..<5}
    \<union> ArmorRef ` {..<4} \<union> PlayerRef ` {..<27} \<union> HotbarRef ` {..<9}"
  by (auto simp: inventory_refs_def)

lemma inventory_simps [simp]:
  "m_at inventory = inventory_at" "m_get inventory = inventory_get" "m_put inventory = inventory_put"
  "m_size inventory = inventory_size" "m_cursor inventory = CursorRef"
  by (simp_all add: inventory_def)

lemma inventory_at_in: "inventory_at i = Inr r \<Longrightarrow> r \<in> set inventory_refs"
  by (auto simp: inventory_at_def Let_def set_inventory_refs split: if_splits)

lemma inventory_at_slot: "0 \<le> sint i \<Longrightarrow> sint i \<le> 45 \<Longrightarrow> \<exists>r. inventory_at i = Inr r \<and> r \<noteq> CursorRef"
  by (auto simp: inventory_at_def Let_def)

interpretation inv: slot_container inventory wf_inventory inventory_refs
proof
  show "distinct inventory_refs" by (auto simp: inventory_refs_def distinct_map inj_on_def)
  fix r q c s i
  show "wf_inventory c \<Longrightarrow> r \<in> set inventory_refs \<Longrightarrow> wf_inventory (m_put inventory r s c)"
    by (cases r) (simp_all add: wf_inventory_def)
  show "wf_inventory c \<Longrightarrow> r \<in> set inventory_refs \<Longrightarrow> q \<in> set inventory_refs \<Longrightarrow>
      m_get inventory (m_put inventory r s c) q = (if q = r then s else m_get inventory c q)"
    by (cases r; cases q) (auto simp: wf_inventory_def set_inventory_refs inventory_sizes nth_list_update)
  show "dropped (m_put inventory r s c) = dropped c" by (cases r) simp_all
  show "m_at inventory i = Inr r \<Longrightarrow> r \<in> set inventory_refs" by (simp add: inventory_at_in)
next
  fix c :: Inventory and d st r
  show "m_get inventory (c\<lparr>dropped := d\<rparr>) r = m_get inventory c r"
    "m_get inventory (c\<lparr>c_state := st\<rparr>) r = m_get inventory c r" by (cases r; simp)+
next
  fix k assume "k < m_size inventory"
  then have "k \<le> 45" by (simp add: inventory_size_def inventory_sizes)
  then have "sint (of_nat k :: i16) = int k" by (simp add: signed_of_nat signed_take_bit_int_eq_self)
  then show "\<exists>r. m_at inventory (of_nat k) = Inr r \<and> r \<noteq> m_cursor inventory"
    using inventory_at_slot [of "of_nat k"] \<open>k \<le> 45\<close> by simp
qed (simp_all add: set_inventory_refs wf_inventory_def)

lemma swap_keys_conserves:
  assumes v: "inv.valid c" and i: "0 \<le> sint index" "sint index \<le> 45" and b: "buttonId = 40 \<or> unat buttonId < 9"
  shows "\<exists>c'. swap_keys buttonId index c = (c', Inr ()) \<and> inv.valid c' \<and> (\<forall>i. inv.items c' i = inv.items c i)"
proof -
  obtain r where r: "inventory_at index = Inr r" using inventory_at_slot [OF i] by blast
  have swap: "inv.valid (inventory_put r (inventory_get c q) (inventory_put q (inventory_get c r) c))
      \<and> inv.items (inventory_put r (inventory_get c q) (inventory_put q (inventory_get c r) c)) i = inv.items c i"
    if "q \<in> set inventory_refs" for q i
  proof (cases "r = q")
    case False
    then show ?thesis
      using inv.conserve_two [OF v that inventory_at_in [OF r], of "inventory_get c r" "inventory_get c q"]
        inv.validD(1) [OF v that] inv.validD(1) [OF v inventory_at_in [OF r]] by simp
  next
    case True
    then show ?thesis
      using inv.valid_put [OF v that] inv.valid_put inv.validD [OF v] that inv.items_put [OF inv.validD(2) [OF v] that]
        inv.items_put [OF inv.wf_put [OF inv.validD(2) [OF v] that] that] inv.get_put [OF inv.validD(2) [OF v] that that]
      by simp
  qed
  show ?thesis
  proof (cases "buttonId = 40")
    case True
    then show ?thesis using swap [of OffhandRef]
      by (auto simp: swap_keys_def with_at_def r set_inventory_refs)
  next
    case False
    then show ?thesis using b swap [of "HotbarRef (unat buttonId)"]
      by (auto simp: swap_keys_def with_at_def r set_inventory_refs HOTBAR_SIZE_def)
  qed
qed

section \<open>Clicks on the inventory\<close>

definition slot_at :: "Inventory \<Rightarrow> i16 \<Rightarrow> Slot" where
  "slot_at c index = (case inventory_at index of Inr r \<Rightarrow> inventory_get c r | Inl _ \<Rightarrow> empty_slot)"

text \<open>
  The clicks a well-behaved client sends: on a slot of the window (or outside it, to drop), with a
  stack that is not counted down to zero, and where no two stacks that are merged add up to more than
  an \<open>int8_t\<close> holds.
\<close>

definition safe_click :: "Inventory \<Rightarrow> bool \<Rightarrow> i16 \<Rightarrow> byte \<Rightarrow> byte \<Rightarrow> SlotWithIndex list \<Rightarrow> bool" where
  "safe_click c isCreative index buttonId mode updates \<longleftrightarrow>
     (let cur = c_cursor c; inside = (0 \<le> sint index \<and> sint index \<le> 45) in
      if mode = 0 then (if index = -999 then present cur \<longrightarrow> 1 \<le> sint (itemCount cur) else inside)
      else if mode = 1 then inside \<and> sint (itemCount (slot_at c index)) \<le> 63
      else if mode = 2 then inside \<and> (buttonId = 40 \<or> unat buttonId < 9)
      else if mode = 3 then inside \<and> \<not> isCreative
      else if mode = 4 then inside \<and> (present (slot_at c index) \<longrightarrow> 1 \<le> sint (itemCount (slot_at c index)))
      else if mode = 5 then buttonId = 2 \<and> index = -999 \<and> c_state c = LeftDrag \<longrightarrow>
        inv.drag_targets updates c \<and> updates \<noteq> [] \<and> length updates \<le> 64 \<and> present cur
      else if mode = 6 then inside \<and> inv.room (itemID cur) c
      else True)"

lemma shift_click_conserves:
  assumes v: "inv.valid c" and i: "0 \<le> sint index" "sint index \<le> 45" and n: "sint (itemCount (slot_at c index)) \<le> 63"
  shows "\<exists>c'. inventory_onClick cr index buttonId 1 us c = (c', Inr ()) \<and> inv.valid c'
    \<and> (\<forall>i. inv.items c' i = inv.items c i)"
proof -
  obtain r where r: "inventory_at index = Inr r" using inventory_at_slot [OF i] by blast
  have k: "sint (itemCount (inventory_get c r)) \<le> 63" using n by (simp add: slot_at_def r)
  have out: "r \<notin> set (map HotbarRef [0..<HOTBAR_SIZE])" if "9 \<le> sint index" "sint index < 36"
    using r that by (auto simp: inventory_at_def Let_def split: if_splits)
  have out': "r \<notin> set (map PlayerRef [0..<INVENTORY_SIZE])" if "\<not> (9 \<le> sint index \<and> sint index < 36)"
    using r that by (auto simp: inventory_at_def Let_def split: if_splits)
  have sub: "set (map HotbarRef [0..<HOTBAR_SIZE]) \<subseteq> set inventory_refs"
    "set (map PlayerRef [0..<INVENTORY_SIZE]) \<subseteq> set inventory_refs"
    by (auto simp: set_inventory_refs inventory_sizes)
  show ?thesis
  proof (cases "9 \<le> sint index \<and> sint index < 36")
    case True
    then show ?thesis
      using inv.swapContainer_conserves [OF v inventory_at_in [OF r] sub(1)] out k
      by (simp add: inventory_onClick_def with_at_def r)
  next
    case False
    then show ?thesis
      using inv.swapContainer_conserves [OF v inventory_at_in [OF r] sub(2)] out' k
      by (auto simp: inventory_onClick_def with_at_def r)
  qed
qed

lemma onClick_conserves:
  assumes v: "inv.valid c" and safe: "safe_click c cr index buttonId mode us"
  shows "\<exists>c'. inventory_onClick cr index buttonId mode us c = (c', Inr ()) \<and> inv.valid c'
    \<and> (\<forall>i. inv.items c' i = inv.items c i)"
proof -
  have slot: "\<exists>r. inventory_at index = Inr r \<and> r \<noteq> CursorRef \<and> slot_at c index = inventory_get c r"
    if "0 \<le> sint index" "sint index \<le> 45"
    using inventory_at_slot [OF that] by (auto simp: slot_at_def)
  consider "mode = 0" | "mode = 1" | "mode = 2" | "mode = 3" | "mode = 4" | "mode = 5" | "mode = 6"
    | "mode \<notin> {0, 1, 2, 3, 4, 5, 6}" by auto
  then show ?thesis
  proof cases
    case 1
    then show ?thesis
      using safe slot inv.click_outside_conserves [OF v] inv.click_slot_conserves [OF v]
      by (auto simp: safe_click_def Let_def inventory_onClick_def container_onClick_def split: if_splits)
  next
    case 2
    with safe shift_click_conserves [OF v] show ?thesis by (simp add: safe_click_def Let_def)
  next
    case 3
    with safe swap_keys_conserves [OF v] show ?thesis
      by (simp add: safe_click_def Let_def inventory_onClick_def)
  next
    case 4
    with safe slot v show ?thesis
      by (auto simp: safe_click_def Let_def inventory_onClick_def container_onClick_def middle_click_def with_at_def)
  next
    case 5
    with safe have "0 \<le> sint index" "sint index \<le> 45"
      and k: "present (slot_at c index) \<longrightarrow> 1 \<le> sint (itemCount (slot_at c index))"
      by (simp_all add: safe_click_def Let_def)
    with slot obtain r where "inventory_at index = Inr r" "slot_at c index = inventory_get c r" by blast
    with 5 k inv.drop_button_conserves [OF v, of index r buttonId] show ?thesis
      by (simp add: inventory_onClick_def container_onClick_def)
  next
    case 6
    with safe inv.drag_conserves [OF v, of buttonId index us cr] show ?thesis
      by (simp add: safe_click_def Let_def inventory_onClick_def container_onClick_def)
  next
    case 7
    with safe slot inv.double_click_conserves [OF v, of index] show ?thesis
      by (auto simp: safe_click_def Let_def inventory_onClick_def container_onClick_def)
  next
    case 8
    with v show ?thesis by (simp add: inventory_onClick_def container_onClick_def act_skip_def)
  qed
qed

lemma newInventory_valid: "inv.valid newInventory"
  by (auto simp: inv.valid_def newInventory_def wf_inventory_def set_inventory_refs inventory_sizes)

section \<open>Properties\<close>

text \<open>C15: no click of a well-behaved client creates or destroys an item. On an inventory whose slots are
  empty or hold up to 64 items, every click that is not one of the unsafe ones ends normally, leaves
  such an inventory, and for each identifier the number of items in the slots, under the cursor and
  thrown into the world is the same as before.\<close>

theorem inventory_conserves:
  assumes "inv.valid c" and "safe_click c isCreative index buttonId mode updates"
  shows "\<exists>c'. inventory_onClick isCreative index buttonId mode updates c = (c', Inr ()) \<and> inv.valid c'
    \<and> (\<forall>i. stock inventory inventory_refs c' i = stock inventory inventory_refs c i)"
  by (rule onClick_conserves [OF assms])

theorem inventory_conserves_witness:
  "\<exists>c'. inventory_onClick False 36 0 0 []
       (newInventory\<lparr>c_cursor := \<lparr>present = True, itemID = 734, itemCount = 42\<rparr>\<rparr>) = (c', Inr ()) \<and> inv.valid c'
    \<and> (\<forall>i. stock inventory inventory_refs c' i = stock inventory inventory_refs
         (newInventory\<lparr>c_cursor := \<lparr>present = True, itemID = 734, itemCount = 42\<rparr>\<rparr>) i)"
proof (rule inventory_conserves)
  show "inv.valid (newInventory\<lparr>c_cursor := \<lparr>present = True, itemID = 734, itemCount = 42\<rparr>\<rparr>)"
    using inv.valid_put [OF newInventory_valid, of CursorRef "\<lparr>present = True, itemID = 734, itemCount = 42\<rparr>"]
    by (simp add: set_inventory_refs slot_ok_def)
  show "safe_click (newInventory\<lparr>c_cursor := \<lparr>present = True, itemID = 734, itemCount = 42\<rparr>\<rparr>) False 36 0 0 []"
    by (simp add: safe_click_def Let_def)
qed

text \<open>C36: a shift click on a full stack destroys it when the first slot of the hotbar holds a full stack of
  the same item: 64 + 64 wraps to -128 in the \<open>int8_t\<close> count, which passes for "fits".\<close>

theorem shift_click_wraps:
  assumes "wf_inventory c" and "hotbar c ! 0 = \<lparr>present = True, itemID = i, itemCount = 64\<rparr>"
    and "playerInventory c ! 0 = \<lparr>present = True, itemID = i, itemCount = 64\<rparr>"
  shows "inventory_onClick isCreative 9 buttonId 1 updates c =
    (c\<lparr>hotbar := (hotbar c)[0 := \<lparr>present = True, itemID = i, itemCount = -128\<rparr>],
       playerInventory := (playerInventory c)[0 := empty_slot]\<rparr>, Inr ())"
proof -
  have "[0..<HOTBAR_SIZE] = 0 # [1..<HOTBAR_SIZE]" by (simp add: HOTBAR_SIZE_def upt_rec)
  moreover have "0 < length (hotbar c)" "0 < length (playerInventory c)"
    using assms(1) by (simp_all add: wf_inventory_def inventory_sizes)
  ultimately have "inventory_onClick isCreative 9 buttonId 1 updates c =
    (c\<lparr>hotbar := (hotbar c)[0 := \<lparr>present = True, itemID = i, itemCount = 128\<rparr>],
       playerInventory := (playerInventory c)[0 := empty_slot]\<rparr>, Inr ())" using assms(2,3)
    by (simp add: inventory_onClick_def with_at_def inventory_at_def swapContainer_def slot_eq_def Let_def
        m_upd_def count_set_def slot_reset_eq)
  moreover have "(128 :: i8) = -128" by simp
  ultimately show ?thesis by (simp only:)
qed

theorem shift_click_wraps_witness:
  "\<exists>c c'. inv.valid c \<and> inventory_onClick False 9 0 1 [] c = (c', Inr ())
     \<and> hotbar c' ! 0 = \<lparr>present = True, itemID = 1, itemCount = -128\<rparr> \<and> playerInventory c' ! 0 = empty_slot"
proof -
  let ?s = "\<lparr>present = True, itemID = 1, itemCount = 64\<rparr> :: Slot"
  let ?c = "inventory_put (HotbarRef 0) ?s (inventory_put (PlayerRef 0) ?s newInventory)"
  have v: "inv.valid ?c"
    using inv.valid_put [OF inv.valid_put [OF newInventory_valid, of "PlayerRef 0" ?s], of "HotbarRef 0" ?s]
    by (simp add: set_inventory_refs slot_ok_def)
  have l: "length (hotbar ?c) = 9" "length (playerInventory ?c) = 27"
    by (simp_all add: newInventory_def inventory_sizes)
  have "wf_inventory ?c" using inv.validD(2) [OF v] .
  moreover have "hotbar ?c ! 0 = ?s" "playerInventory ?c ! 0 = ?s"
    by (simp_all add: newInventory_def inventory_sizes)
  ultimately have "inventory_onClick False 9 0 1 [] ?c =
    (?c\<lparr>hotbar := (hotbar ?c)[0 := \<lparr>present = True, itemID = 1, itemCount = -128\<rparr>],
       playerInventory := (playerInventory ?c)[0 := empty_slot]\<rparr>, Inr ())"
    by (rule shift_click_wraps)
  then show ?thesis using v l
    by (intro exI [of _ ?c] exI [of _ "?c\<lparr>hotbar := (hotbar ?c)[0 := \<lparr>present = True, itemID = 1, itemCount = -128\<rparr>],
       playerInventory := (playerInventory ?c)[0 := empty_slot]\<rparr>"]) simp
qed

text \<open>The end of a left drag forgets items: once a stack of the same item has taken its share, the share
  of the later slots is zero, but the cursor is emptied all the same. Ten items dragged over a stack of
  five and an empty slot leave ten items of the fifteen.\<close>

theorem drag_forgets_items:
  "(let c = newInventory\<lparr>c_state := LeftDrag, c_cursor := \<lparr>present = True, itemID = 1, itemCount = 10\<rparr>,
        hotbar := (hotbar newInventory)[0 := \<lparr>present = True, itemID = 1, itemCount = 5\<rparr>]\<rparr>;
        c' = fst (inventory_onClick False (-999) 2 5
          [\<lparr>slotNumber = 36, slotData = empty_slot\<rparr>, \<lparr>slotNumber = 37, slotData = empty_slot\<rparr>] c)
    in stock inventory inventory_refs c 1 = 15 \<and> stock inventory inventory_refs c' 1 = 10)"
  by code_simp

end
