(* ===== verification/Add_Structures.thy ===== *)
theory Add_Structures
  imports Packet_Utils Containers Chunk_Column
begin

text \<open>
  \<open>protocol/serialization/add.hpp\<close>: the serializers of the larger structures, chunk columns with
  their palettes and light, containers, attributes and advancements, over the primary ones.
\<close>

section \<open>Block entities\<close>

definition addNBT :: "byte list \<Rightarrow> nbt \<Rightarrow> byte list result" where
  "addNBT out data = serialize data out True"

record BlockEntity =
  be_sectionCoordinate :: i8
  be_height :: i16
  be_type :: i32
  be_data :: nbt

definition addBlockEntity :: "byte list \<Rightarrow> BlockEntity \<Rightarrow> byte list result" where
  "addBlockEntity out data =
     addNBT (addVarInt (addShort (addByte out (be_sectionCoordinate data)) (be_height data)) (be_type data))
       (be_data data)"

definition addBlockEntities :: "byte list \<Rightarrow> BlockEntity list \<Rightarrow> byte list result" where
  "addBlockEntities out data = add_all addBlockEntity (addVarInt out (of_nat (length data))) data"

section \<open>Chunks\<close>

definition addPalette :: "(palette \<Rightarrow> nat) \<Rightarrow> byte list \<Rightarrow> palette \<Rightarrow> byte list result" where
  "addPalette getBits out p =
     (let out = addByte out (of_nat (getBits p)) in
      if length p = 0 then Inr (addVarInt out 0)
      else if length p = 1 then Inr (addVarInt out (hd p))
      else if getBits p = 15 then Inr out
      else addArray (nothrow addVarInt) out p)"

text \<open>
  The loop of \<open>addLight\<close> over the sections, for one kind of light: the mask of the lit sections, the
  mask of the others, and the number of lit ones in a \<open>uint8_t\<close>. \<open>1 << i\<close> is an \<open>int\<close>, sign-extended
  when it is or-ed into the 64-bit mask; a chunk has 26 sections, so no shift reaches the sign bit.
\<close>

definition shifted_one :: "nat \<Rightarrow> u64" where
  "shifted_one i = scast (push_bit i 1 :: i32)"

lemma bit_shifted_one: "i < 31 \<Longrightarrow> k < 64 \<Longrightarrow> bit (shifted_one i) k \<longleftrightarrow> k = i"
  by (auto simp: shifted_one_def bit_signed_iff bit_exp_iff min_def)

fun light_masks :: "(Section \<Rightarrow> bool) \<Rightarrow> nat \<Rightarrow> Section list \<Rightarrow> u64 \<times> u64 \<times> byte \<Rightarrow> u64 \<times> u64 \<times> byte" where
  "light_masks has i [] acc = acc"
| "light_masks has i (s # ss) (m, e, n) =
     (if has s then light_masks has (i + 1) ss (m OR shifted_one i, e, n + 1)
      else light_masks has (i + 1) ss (m, e OR shifted_one i, n))"

definition addLight :: "byte list \<Rightarrow> ChunkColumn \<Rightarrow> byte list result" where
  "addLight out c =
     (case (light_masks hasSkyLight 0 (sections c) (0, 0, 0), light_masks hasBlockLight 0 (sections c) (0, 0, 0)) of
        ((skyLightMask, emptySkyLightMask, countSkyLight), (blockLightMask, emptyBlockLightMask, countBlockLight)) \<Rightarrow>
          serialize_all
            ([put (nothrow addBoolean) True,
              put (addArray (nothrow addUnsignedLong)) [skyLightMask],
              put (addArray (nothrow addUnsignedLong)) [blockLightMask],
              put (addArray (nothrow addUnsignedLong)) [emptySkyLightMask],
              put (addArray (nothrow addUnsignedLong)) [emptyBlockLightMask],
              put (nothrow addVarInt) (ucast countSkyLight)]
             @ map (\<lambda>s. put (addArray (nothrow addByte)) (ds_store (skyLight s))) (filter hasSkyLight (sections c))
             @ [put (nothrow addVarInt) (ucast countBlockLight)]
             @ map (\<lambda>s. put (addArray (nothrow addByte)) (ds_store (blockLight s))) (filter hasBlockLight (sections c)))
            out)"

text \<open>The number of blocks that are not air, counted in a \<open>uint16_t\<close>.\<close>

fun count_blocks :: "Section \<Rightarrow> nat list \<Rightarrow> u16 \<Rightarrow> u16 result" where
  "count_blocks s [] n = Inr n"
| "count_blocks s (i # is) n =
     rbind (getBlock_idx s (of_nat i)) (\<lambda>b. count_blocks s is (if b \<noteq> 0 then n + 1 else n))"

definition addSection :: "byte list \<Rightarrow> Section \<Rightarrow> byte list result" where
  "addSection chunkData s =
     rbind (count_blocks s [0..<SECTION_3D_SIZE] 0) (\<lambda>blockCount.
     rbind (addPalette block_getBits (addShort chunkData blockCount) (blockPalette s)) (\<lambda>chunkData.
     rbind (if hasBlocks s then addArray (nothrow addUnsignedLong) chunkData (ds_store (blocks s))
            else Inr (addVarInt chunkData 0)) (\<lambda>chunkData.
     rbind (addPalette biome_getBits chunkData (biomePalette s)) (\<lambda>chunkData.
       if hasBiomes s then addArray (nothrow addUnsignedLong) chunkData (ds_store (biomes s))
       else Inr (addVarInt chunkData 0)))))"

text \<open>The first and the last section are below and above the world and are not sent.\<close>

definition addChunkColumn :: "byte list \<Rightarrow> ChunkColumn \<Rightarrow> byte list result" where
  "addChunkColumn out c =
     rbind (addNBT out (CompoundTag '''' (heightMap c))) (\<lambda>out.
     rbind (add_all addSection [] (butlast (tl (sections c)))) (\<lambda>chunkData.
     rbind (addArray (nothrow addByte) out chunkData) (\<lambda>out.
     rbind (addBlockEntities out []) (\<lambda>out. addLight out c))))"

section \<open>Attributes\<close>

record Modifier =
  mod_uuid :: u128
  mod_amount :: f64
  mod_operation :: byte

record Property =
  prop_key :: string
  prop_value :: string
  prop_modifiers :: "Modifier list"

definition addAttributesPropertyModifier :: "byte list \<Rightarrow> Modifier \<Rightarrow> byte list" where
  "addAttributesPropertyModifier out data =
     addByte (addDouble (addUUID out (mod_uuid data)) (mod_amount data)) (mod_operation data)"

definition addAttributesProperty :: "byte list \<Rightarrow> Property \<Rightarrow> byte list result" where
  "addAttributesProperty out data = serialize_all
     [put addString (prop_key data), put addString (prop_value data),
      put (addArray (nothrow addAttributesPropertyModifier)) (prop_modifiers data)] out"

section \<open>Advancements\<close>

record Display =
  dis_title :: string
  dis_description :: string
  dis_icon :: Slot
  dis_frameType :: i32
  dis_flags :: i32
  dis_backgroundTexture :: string
  dis_xCoord :: f32
  dis_yCoord :: f32

record Advancement =
  adv_hasParent :: bool
  adv_parent :: string
  adv_hasDisplay :: bool
  adv_displayData :: Display
  adv_criteria :: "string list"
  adv_requirements :: "string list list"

record AdvancementMapping =
  am_identifier :: string
  am_advancement :: Advancement

record CriterionProgress =
  cp_achived :: bool
  cp_dateOfAchieving :: i64

record CriteriaMapping =
  cm_identifier :: string
  cm_criteria :: CriterionProgress

record ProgressMapping =
  pm_identifier :: string
  pm_advancementProgress :: "CriteriaMapping list"

text \<open>The frame type is cast to \<open>uint8_t\<close> before it is written as a VarInt.\<close>

definition addAdvancementDisplay :: "byte list \<Rightarrow> Display \<Rightarrow> byte list result" where
  "addAdvancementDisplay out data = serialize_all
     ([put addChat (dis_title data), put addChat (dis_description data), put (nothrow addSlot) (dis_icon data),
       put (nothrow addVarInt) (ucast (ucast (dis_frameType data) :: byte)), put (nothrow addInt) (dis_flags data)]
      @ (if dis_flags data AND 1 \<noteq> 0 then [put addString (dis_backgroundTexture data)] else [])
      @ [put (nothrow addFloat) (dis_xCoord data), put (nothrow addFloat) (dis_yCoord data)]) out"

definition addAdvancementCriteria :: "byte list \<Rightarrow> string \<Rightarrow> byte list result" where
  "addAdvancementCriteria out key = addIdentifier out key"

definition addAdvancement :: "byte list \<Rightarrow> Advancement \<Rightarrow> byte list result" where
  "addAdvancement out data = serialize_all
     ([put (nothrow addBoolean) (adv_hasParent data)]
      @ (if adv_hasParent data then [put addString (adv_parent data)] else [])
      @ [put (nothrow addBoolean) (adv_hasDisplay data)]
      @ (if adv_hasDisplay data then [put addAdvancementDisplay (adv_displayData data)] else [])
      @ [put (addArray addAdvancementCriteria) (adv_criteria data),
         put (addArray (addArray addString)) (adv_requirements data)]) out"

definition addAdvancementMapping :: "byte list \<Rightarrow> AdvancementMapping \<Rightarrow> byte list result" where
  "addAdvancementMapping out data = serialize_all
     [put addIdentifier (am_identifier data), put addAdvancement (am_advancement data)] out"

definition addAdvancementCriterionProgress :: "byte list \<Rightarrow> CriterionProgress \<Rightarrow> byte list" where
  "addAdvancementCriterionProgress out data = addLong (addBoolean out (cp_achived data)) (cp_dateOfAchieving data)"

definition addAdvancementCriteriaMapping :: "byte list \<Rightarrow> CriteriaMapping \<Rightarrow> byte list result" where
  "addAdvancementCriteriaMapping out data = serialize_all
     [put addIdentifier (cm_identifier data), put (nothrow addAdvancementCriterionProgress) (cm_criteria data)] out"

definition addAdvancementProgressMapping :: "byte list \<Rightarrow> ProgressMapping \<Rightarrow> byte list result" where
  "addAdvancementProgressMapping out data = serialize_all
     [put addIdentifier (pm_identifier data),
      put (addArray addAdvancementCriteriaMapping) (pm_advancementProgress data)] out"

section \<open>Messages and containers\<close>

definition addRawMessage :: "byte list \<Rightarrow> i32 \<times> byte list \<Rightarrow> byte list result" where
  "addRawMessage out rawMessage = addArray (nothrow addByte) (addVarInt out (fst rawMessage)) (snd rawMessage)"

definition addContainer :: "byte list \<Rightarrow> Inventory \<Rightarrow> byte list result" where
  "addContainer out container =
     add_all (\<lambda>out i. rbind (m_at inventory (of_nat i)) (\<lambda>r. Inr (addSlot out (m_get inventory container r))))
       (addVarInt out (of_nat (m_size inventory))) [0..<m_size inventory]"

end
