(* ===== verification/Client_Packets.thy ===== *)
theory Client_Packets
  imports Add_Structures
begin

text \<open>
  The packets the server sends: the structs of \<open>protocol/ClientPackets.hpp\<close> as records, the
  identifiers, and the \<open>create\<close> functions of \<open>ClientPackets.cpp\<close>, each a list of writers closed by
  \<open>finalize\<close>. A field is prefixed by the name of its struct; scoped enumerations are the integers
  they are cast to. Consecutive calls of \<open>serialize\<close> on the same payload are one list; a call under
  an \<open>if\<close> is a conditional part of it.
\<close>

section \<open>Identifiers\<close>

definition ID_DisconnectLogin :: i32 where "ID_DisconnectLogin = 0x00"
definition ID_EncryptionRequest :: i32 where "ID_EncryptionRequest = 0x01"
definition ID_LoginSuccess :: i32 where "ID_LoginSuccess = 0x02"
definition ID_Status :: i32 where "ID_Status = 0x00"
definition ID_Ping :: i32 where "ID_Ping = 0x01"
definition ID_SpawnEntity :: i32 where "ID_SpawnEntity = 0x00"
definition ID_SpawnPlayer :: i32 where "ID_SpawnPlayer = 0x02"
definition ID_EntityAnimation :: i32 where "ID_EntityAnimation = 0x03"
definition ID_BlockUpdate :: i32 where "ID_BlockUpdate = 0x09"
definition ID_ChangeDifficulty :: i32 where "ID_ChangeDifficulty = 0x0B"
definition ID_Commands :: i32 where "ID_Commands = 0x0E"
definition ID_CloseContainer :: i32 where "ID_CloseContainer = 0x0F"
definition ID_SetContainerContent :: i32 where "ID_SetContainerContent = 0x10"
definition ID_SetContainerSlot :: i32 where "ID_SetContainerSlot = 0x12"
definition ID_PluginMessage :: i32 where "ID_PluginMessage = 0x15"
definition ID_DisconnectPlay :: i32 where "ID_DisconnectPlay = 0x17"
definition ID_EntityEvent :: i32 where "ID_EntityEvent = 0x19"
definition ID_UnloadChunk :: i32 where "ID_UnloadChunk = 0x1b"
definition ID_GameEvent :: i32 where "ID_GameEvent = 0x1c"
definition ID_InitializeWorldBorder :: i32 where "ID_InitializeWorldBorder = 0x1e"
definition ID_KeepAlive :: i32 where "ID_KeepAlive = 0x1F"
definition ID_ChunkDataAndLightUpdate :: i32 where "ID_ChunkDataAndLightUpdate = 0x20"
definition ID_WorldEvent :: i32 where "ID_WorldEvent = 0x21"
definition ID_LoginPlay :: i32 where "ID_LoginPlay = 0x24"
definition ID_UpdateEntityPosition :: i32 where "ID_UpdateEntityPosition = 0x27"
definition ID_UpdateEntityPositionRotation :: i32 where "ID_UpdateEntityPositionRotation = 0x28"
definition ID_UpdateEntityRotation :: i32 where "ID_UpdateEntityRotation = 0x29"
definition ID_PlayerAbilities :: i32 where "ID_PlayerAbilities = 0x30"
definition ID_PlayerChatMessage :: i32 where "ID_PlayerChatMessage = 0x31"
definition ID_PlayerInfoRemove :: i32 where "ID_PlayerInfoRemove = 0x35"
definition ID_PlayerInfoUpdate :: i32 where "ID_PlayerInfoUpdate = 0x36"
definition ID_SynchronizePlayerPosition :: i32 where "ID_SynchronizePlayerPosition = 0x38"
definition ID_UpdateRecipesBook :: i32 where "ID_UpdateRecipesBook = 0x39"
definition ID_RemoveEntities :: i32 where "ID_RemoveEntities = 0x3A"
definition ID_HeadRotation :: i32 where "ID_HeadRotation = 0x3E"
definition ID_ServerData :: i32 where "ID_ServerData = 0x41"
definition ID_SetHeldItem :: i32 where "ID_SetHeldItem = 0x49"
definition ID_CenterChunk :: i32 where "ID_CenterChunk = 0x4a"
definition ID_SetDefaultSpawnPosition :: i32 where "ID_SetDefaultSpawnPosition = 0x4c"
definition ID_SetEntityMetadata :: i32 where "ID_SetEntityMetadata = 0x4e"
definition ID_EntityVelocity :: i32 where "ID_EntityVelocity = 0x50"
definition ID_SetExperience :: i32 where "ID_SetExperience = 0x52"
definition ID_Health :: i32 where "ID_Health = 0x53"
definition ID_UpdateTime :: i32 where "ID_UpdateTime = 0x5A"
definition ID_EntitySoundEffect :: i32 where "ID_EntitySoundEffect = 0x5D"
definition ID_SoundEffect :: i32 where "ID_SoundEffect = 0x5E"
definition ID_StopSound :: i32 where "ID_StopSound = 0x5F"
definition ID_SystemChatMessage :: i32 where "ID_SystemChatMessage = 0x60"
definition ID_TeleportEntity :: i32 where "ID_TeleportEntity = 0x64"
definition ID_UpdateAdvancements :: i32 where "ID_UpdateAdvancements = 0x65"
definition ID_UpdateAttributes :: i32 where "ID_UpdateAttributes = 0x66"
definition ID_FeatureFlags :: i32 where "ID_FeatureFlags = 0x67"
definition ID_UpdateRecipes :: i32 where "ID_UpdateRecipes = 0x69"
definition ID_UpdateTags :: i32 where "ID_UpdateTags = 0x6A"

definition create :: "i32 \<Rightarrow> writer list \<Rightarrow> byte list result" where
  "create packetId ws = rbind (serialize_all ws []) (\<lambda>payload. Inr (finalize [] payload packetId))"

fun container_code :: "State \<Rightarrow> i32" where
  "container_code Normal = 0"
| "container_code LeftDrag = 1"
| "container_code RightDrag = 2"
| "container_code MiddleDrag = 3"

record PlayerProperty =
  property_name :: string
  property_value :: string
  property_isSigned :: bool
  property_signature :: string

section \<open>Packets\<close>

record Disconnect =
  Disconnect_reason :: string

definition createLoginDisconnect :: "Disconnect \<Rightarrow> byte list result" where
  "createLoginDisconnect p = create ID_DisconnectLogin
     [put addString (Disconnect_reason p)]"

record EncryptionRequest =
  EncryptionRequest_serverID :: string
  EncryptionRequest_publicKey :: "byte list"
  EncryptionRequest_verifyToken :: "byte list"

definition createEncryptionRequest :: "EncryptionRequest \<Rightarrow> byte list result" where
  "createEncryptionRequest p = create ID_EncryptionRequest
     [put addString (EncryptionRequest_serverID p),
      put (addArray (nothrow addByte)) (EncryptionRequest_publicKey p),
      put (addArray (nothrow addByte)) (EncryptionRequest_verifyToken p)]"

record LoginSuccess =
  LoginSuccess_uuid :: u128
  LoginSuccess_username :: string
  LoginSuccess_properties :: "PlayerProperty list"

definition createLoginSuccess :: "LoginSuccess \<Rightarrow> byte list result" where
  "createLoginSuccess p = create ID_LoginSuccess
     ([put (nothrow addUUID) (LoginSuccess_uuid p),
       put addString (LoginSuccess_username p),
       put (nothrow addVarInt) (of_nat (length (LoginSuccess_properties p)))]
      @ concat (map (\<lambda>property.
          [put addString (property_name property),
           put addString (property_value property),
           put (nothrow addBoolean) (property_isSigned property)]
          @ (if property_isSigned property then [put addString (property_signature property)] else []))
          (LoginSuccess_properties p)))"

record StatusResponse =
  StatusResponse_payload :: string

definition createStatusResponse :: "StatusResponse \<Rightarrow> byte list result" where
  "createStatusResponse p = create ID_Status
     [put addString (StatusResponse_payload p)]"

record PingResponse =
  PingResponse_payload :: i64

definition createPingResponse :: "PingResponse \<Rightarrow> byte list result" where
  "createPingResponse p = create ID_Ping
     [put (nothrow addLong) (PingResponse_payload p)]"

record SpawnEntity =
  SpawnEntity_entityId :: i32
  SpawnEntity_entityUuid :: u128
  SpawnEntity_type :: i32
  SpawnEntity_x :: f64
  SpawnEntity_y :: f64
  SpawnEntity_z :: f64
  SpawnEntity_pitch :: byte
  SpawnEntity_yaw :: byte
  SpawnEntity_headYaw :: byte
  SpawnEntity_data :: i32
  SpawnEntity_velocityX :: i16
  SpawnEntity_velocityY :: i16
  SpawnEntity_velocityZ :: i16

definition createSpawnEntity :: "SpawnEntity \<Rightarrow> byte list result" where
  "createSpawnEntity p = create ID_SpawnEntity
     [put (nothrow addVarInt) (SpawnEntity_entityId p),
      put (nothrow addUUID) (SpawnEntity_entityUuid p),
      put (nothrow addVarInt) (SpawnEntity_type p),
      put (nothrow addDouble) (SpawnEntity_x p),
      put (nothrow addDouble) (SpawnEntity_y p),
      put (nothrow addDouble) (SpawnEntity_z p),
      put (nothrow addByte) (SpawnEntity_pitch p),
      put (nothrow addByte) (SpawnEntity_yaw p),
      put (nothrow addByte) (SpawnEntity_headYaw p),
      put (nothrow addVarInt) (SpawnEntity_data p),
      put (nothrow addShort) (SpawnEntity_velocityX p),
      put (nothrow addShort) (SpawnEntity_velocityY p),
      put (nothrow addShort) (SpawnEntity_velocityZ p)]"

record SpawnPlayer =
  SpawnPlayer_entityId :: i32
  SpawnPlayer_playerUuid :: u128
  SpawnPlayer_x :: f64
  SpawnPlayer_y :: f64
  SpawnPlayer_z :: f64
  SpawnPlayer_yaw :: byte
  SpawnPlayer_pitch :: byte

definition createSpawnPlayer :: "SpawnPlayer \<Rightarrow> byte list result" where
  "createSpawnPlayer p = create ID_SpawnPlayer
     [put (nothrow addVarInt) (SpawnPlayer_entityId p),
      put (nothrow addUUID) (SpawnPlayer_playerUuid p),
      put (nothrow addDouble) (SpawnPlayer_x p),
      put (nothrow addDouble) (SpawnPlayer_y p),
      put (nothrow addDouble) (SpawnPlayer_z p),
      put (nothrow addByte) (SpawnPlayer_yaw p),
      put (nothrow addByte) (SpawnPlayer_pitch p)]"

record EntityAnimation =
  EntityAnimation_animId :: byte
  EntityAnimation_entityId :: i32

definition createEntityAnimation :: "byte \<Rightarrow> i32 \<Rightarrow> byte list result" where
  "createEntityAnimation animId entityID = create ID_EntityAnimation
     [put (nothrow addVarInt) entityID,
      put (nothrow addByte) animId]"

record BlockUpdate =
  BlockUpdate_location :: Position
  BlockUpdate_blockId :: i32

definition createBlockUpdate :: "BlockUpdate \<Rightarrow> byte list result" where
  "createBlockUpdate p = create ID_BlockUpdate
     [put (nothrow addPosition) (BlockUpdate_location p),
      put (nothrow addVarInt) (BlockUpdate_blockId p)]"

record ChangeDifficultyClient =
  ChangeDifficultyClient_difficulty :: byte
  ChangeDifficultyClient_locked :: bool

definition createChangeDifficultyClient :: "ChangeDifficultyClient \<Rightarrow> byte list result" where
  "createChangeDifficultyClient p = create ID_ChangeDifficulty
     [put (nothrow addByte) (ChangeDifficultyClient_difficulty p),
      put (nothrow addBoolean) (ChangeDifficultyClient_locked p)]"

record Commands =
  Commands_nodes :: "i32 list"
  Commands_rootIndex :: i32

definition createCommands :: "Commands \<Rightarrow> byte list result" where
  "createCommands p = create ID_Commands
     [put (addArray (nothrow addVarInt)) (Commands_nodes p),
      put (nothrow addVarInt) (Commands_rootIndex p)]"

record CloseContainer =
  CloseContainer_windowId :: byte

definition createCloseContainer :: "CloseContainer \<Rightarrow> byte list result" where
  "createCloseContainer p = create ID_CloseContainer
     [put (nothrow addByte) (CloseContainer_windowId p)]"

record SetContainerContent =
  SetContainerContent_container :: Inventory

text \<open>\<open>cariedItem()\<close> and \<open>at\<close> can throw before anything is written.\<close>

definition createSetContainerContent :: "SetContainerContent \<Rightarrow> byte list result" where
  "createSetContainerContent p =
     (let c = SetContainerContent_container p in
      rbind (m_at inventory (c_cariedItemIndex c)) (\<lambda>r.
      create ID_SetContainerContent
        [put (nothrow addByte) (ucast (c_id c)),
         put (nothrow addVarInt) (container_code (c_state c)),
         put addContainer c,
         put (nothrow addSlot) (m_get inventory c r)]))"

record SetContainerSlot =
  SetContainerSlot_container :: Inventory
  SetContainerSlot_containerId :: i8
  SetContainerSlot_slot :: i16

definition createSetContainerSlot :: "SetContainerSlot \<Rightarrow> byte list result" where
  "createSetContainerSlot p =
     (let c = SetContainerSlot_container p in
      rbind (m_at inventory (SetContainerSlot_slot p)) (\<lambda>r.
      create ID_SetContainerSlot
        [put (nothrow addByte) (SetContainerSlot_containerId p),
         put (nothrow addVarInt) (container_code (c_state c)),
         put (nothrow addShort) (SetContainerSlot_slot p),
         put (nothrow addSlot) (m_get inventory c r)]))"

record PluginMessageResponse =
  PluginMessageResponse_channel :: string
  PluginMessageResponse_data :: "byte list"

definition createPluginMessageResponse :: "PluginMessageResponse \<Rightarrow> byte list result" where
  "createPluginMessageResponse p = create ID_PluginMessage
     [put addIdentifier (PluginMessageResponse_channel p),
      (\<lambda>payload. Inr (payload @ PluginMessageResponse_data p))]"

record CustomSoundEffect =
  CustomSoundEffect_name :: string
  CustomSoundEffect_category :: i32
  CustomSoundEffect_x :: i32
  CustomSoundEffect_y :: i32
  CustomSoundEffect_z :: i32
  CustomSoundEffect_volume :: f32
  CustomSoundEffect_pitch :: f32
  CustomSoundEffect_seed :: i64

definition createCustomSoundEffect :: "CustomSoundEffect \<Rightarrow> byte list result" where
  "createCustomSoundEffect p = Inr []"

definition createPlayDisconnect :: "Disconnect \<Rightarrow> byte list result" where
  "createPlayDisconnect p = create ID_DisconnectPlay
     [put addString (Disconnect_reason p)]"

record EntityEvent =
  EntityEvent_entityId :: i32
  EntityEvent_eventStatus :: byte

definition createEntityEvent :: "EntityEvent \<Rightarrow> byte list result" where
  "createEntityEvent p = create ID_EntityEvent
     [put (nothrow addInt) (EntityEvent_entityId p),
      put (nothrow addByte) (EntityEvent_eventStatus p)]"

definition createUnloadChunk :: "Position2D \<Rightarrow> byte list result" where
  "createUnloadChunk p = create ID_UnloadChunk
     [put (nothrow addInt) (pos2_x p),
      put (nothrow addInt) (pos2_z p)]"

record InitializeWorldBorder =
  InitializeWorldBorder_x :: f64
  InitializeWorldBorder_z :: f64
  InitializeWorldBorder_oldDiameter :: f64
  InitializeWorldBorder_newDiameter :: f64
  InitializeWorldBorder_speed :: i64
  InitializeWorldBorder_portalTeleportBoundary :: i32
  InitializeWorldBorder_warningTime :: i32
  InitializeWorldBorder_warningBlocks :: i32

definition createInitializeWorldBorder :: "InitializeWorldBorder \<Rightarrow> byte list result" where
  "createInitializeWorldBorder p = create ID_InitializeWorldBorder
     [put (nothrow addDouble) (InitializeWorldBorder_x p),
      put (nothrow addDouble) (InitializeWorldBorder_z p),
      put (nothrow addDouble) (InitializeWorldBorder_oldDiameter p),
      put (nothrow addDouble) (InitializeWorldBorder_newDiameter p),
      put (nothrow addVarLong) (InitializeWorldBorder_speed p),
      put (nothrow addVarInt) (InitializeWorldBorder_portalTeleportBoundary p),
      put (nothrow addVarInt) (InitializeWorldBorder_warningTime p),
      put (nothrow addVarInt) (InitializeWorldBorder_warningBlocks p)]"

record GameEvent =
  GameEvent_event :: byte
  GameEvent_value :: f32

definition createGameEvent :: "GameEvent \<Rightarrow> byte list result" where
  "createGameEvent p = create ID_GameEvent
     [put (nothrow addByte) (GameEvent_event p),
      put (nothrow addFloat) (GameEvent_value p)]"

definition createKeepAlive :: "i64 \<Rightarrow> byte list result" where
  "createKeepAlive i = create ID_KeepAlive
     [put (nothrow addLong) i]"

record ChunkDataAndLightUpdate =
  ChunkDataAndLightUpdate_chunkX :: i32
  ChunkDataAndLightUpdate_chunkZ :: i32
  ChunkDataAndLightUpdate_data :: ChunkColumn

definition createChunkDataAndLightUpdate :: "ChunkDataAndLightUpdate \<Rightarrow> byte list result" where
  "createChunkDataAndLightUpdate p = create ID_ChunkDataAndLightUpdate
     [put (nothrow addInt) (ChunkDataAndLightUpdate_chunkX p),
      put (nothrow addInt) (ChunkDataAndLightUpdate_chunkZ p),
      put addChunkColumn (ChunkDataAndLightUpdate_data p)]"

record WorldEvent =
  WorldEvent_event :: i32
  WorldEvent_position :: Position
  WorldEvent_data :: i32
  WorldEvent_disableRelativeVolume :: bool

definition createWorldEvent :: "WorldEvent \<Rightarrow> byte list result" where
  "createWorldEvent p = create ID_WorldEvent
     [put (nothrow addInt) (WorldEvent_event p),
      put (nothrow addPosition) (WorldEvent_position p),
      put (nothrow addInt) (WorldEvent_data p),
      put (nothrow addBoolean) (WorldEvent_disableRelativeVolume p)]"

record LoginPlay =
  LoginPlay_entityID :: i32
  LoginPlay_isHardcore :: bool
  LoginPlay_gamemode :: byte
  LoginPlay_previousGamemode :: byte
  LoginPlay_dimensionNames :: "string list"
  LoginPlay_registryCodec :: nbt
  LoginPlay_dimensionType :: string
  LoginPlay_dimensionName :: string
  LoginPlay_hashedSeed :: i64
  LoginPlay_maxPlayers :: i32
  LoginPlay_viewDistance :: i32
  LoginPlay_simulationDistance :: i32
  LoginPlay_reducedDebugInfo :: bool
  LoginPlay_enableRespawnScreen :: bool
  LoginPlay_isDebug :: bool
  LoginPlay_isFlat :: bool
  LoginPlay_hasDeathLocation :: bool
  LoginPlay_deathDimensionName :: string
  LoginPlay_deathLocation :: Position

definition createLoginPlay :: "LoginPlay \<Rightarrow> byte list result" where
  "createLoginPlay p = create ID_LoginPlay
     ([put (nothrow addInt) (LoginPlay_entityID p),
      put (nothrow addBoolean) (LoginPlay_isHardcore p),
      put (nothrow addByte) (LoginPlay_gamemode p),
      put (nothrow addByte) (LoginPlay_previousGamemode p),
      put (addArray addString) (LoginPlay_dimensionNames p),
      put addNBT (LoginPlay_registryCodec p),
      put addString (LoginPlay_dimensionType p),
      put addString (LoginPlay_dimensionName p),
      put (nothrow addLong) (LoginPlay_hashedSeed p),
      put (nothrow addVarInt) (LoginPlay_maxPlayers p),
      put (nothrow addVarInt) (LoginPlay_viewDistance p),
      put (nothrow addVarInt) (LoginPlay_simulationDistance p),
      put (nothrow addBoolean) (LoginPlay_reducedDebugInfo p),
      put (nothrow addBoolean) (LoginPlay_enableRespawnScreen p),
      put (nothrow addBoolean) (LoginPlay_isDebug p),
      put (nothrow addBoolean) (LoginPlay_isFlat p),
      put (nothrow addBoolean) (LoginPlay_hasDeathLocation p)]
     @ (if LoginPlay_hasDeathLocation p then [put addString (LoginPlay_deathDimensionName p),
      put (nothrow addPosition) (LoginPlay_deathLocation p)] else []))"

record UpdateEntityPosition =
  UpdateEntityPosition_entityId :: i32
  UpdateEntityPosition_deltaX :: i16
  UpdateEntityPosition_deltaY :: i16
  UpdateEntityPosition_deltaZ :: i16
  UpdateEntityPosition_onGround :: bool

definition createUpdateEntityPosition :: "UpdateEntityPosition \<Rightarrow> byte list result" where
  "createUpdateEntityPosition p = create ID_UpdateEntityPosition
     [put (nothrow addVarInt) (UpdateEntityPosition_entityId p),
      put (nothrow addShort) (UpdateEntityPosition_deltaX p),
      put (nothrow addShort) (UpdateEntityPosition_deltaY p),
      put (nothrow addShort) (UpdateEntityPosition_deltaZ p),
      put (nothrow addBoolean) (UpdateEntityPosition_onGround p)]"

record UpdateEntityPositionRotation =
  UpdateEntityPositionRotation_entityId :: i32
  UpdateEntityPositionRotation_deltaX :: i16
  UpdateEntityPositionRotation_deltaY :: i16
  UpdateEntityPositionRotation_deltaZ :: i16
  UpdateEntityPositionRotation_yaw :: byte
  UpdateEntityPositionRotation_pitch :: byte
  UpdateEntityPositionRotation_onGround :: bool

definition createUpdateEntityPositionRotation :: "UpdateEntityPositionRotation \<Rightarrow> byte list result" where
  "createUpdateEntityPositionRotation p = create ID_UpdateEntityPositionRotation
     [put (nothrow addVarInt) (UpdateEntityPositionRotation_entityId p),
      put (nothrow addShort) (UpdateEntityPositionRotation_deltaX p),
      put (nothrow addShort) (UpdateEntityPositionRotation_deltaY p),
      put (nothrow addShort) (UpdateEntityPositionRotation_deltaZ p),
      put (nothrow addByte) (UpdateEntityPositionRotation_yaw p),
      put (nothrow addByte) (UpdateEntityPositionRotation_pitch p),
      put (nothrow addBoolean) (UpdateEntityPositionRotation_onGround p)]"

record UpdateEntityRotation =
  UpdateEntityRotation_entityId :: i32
  UpdateEntityRotation_yaw :: byte
  UpdateEntityRotation_pitch :: byte
  UpdateEntityRotation_onGround :: bool

definition createUpdateEntityRotation :: "UpdateEntityRotation \<Rightarrow> byte list result" where
  "createUpdateEntityRotation p = create ID_UpdateEntityRotation
     [put (nothrow addVarInt) (UpdateEntityRotation_entityId p),
      put (nothrow addByte) (UpdateEntityRotation_yaw p),
      put (nothrow addByte) (UpdateEntityRotation_pitch p),
      put (nothrow addBoolean) (UpdateEntityRotation_onGround p)]"

record PlayerAbilitiesClient =
  PlayerAbilitiesClient_flags :: byte
  PlayerAbilitiesClient_flyingSpeed :: f32
  PlayerAbilitiesClient_fieldOfViewModifier :: f32

definition createPlayerAbilities :: "PlayerAbilitiesClient \<Rightarrow> byte list result" where
  "createPlayerAbilities p = create ID_PlayerAbilities
     [put (nothrow addByte) (PlayerAbilitiesClient_flags p),
      put (nothrow addFloat) (PlayerAbilitiesClient_flyingSpeed p),
      put (nothrow addFloat) (PlayerAbilitiesClient_fieldOfViewModifier p)]"

record PlayerChatMessage =
  PlayerChatMessage_senderUUID :: u128
  PlayerChatMessage_index :: i32
  PlayerChatMessage_hasSignature :: bool
  PlayerChatMessage_signature :: "byte list"
  PlayerChatMessage_message :: string
  PlayerChatMessage_timestamp :: i64
  PlayerChatMessage_salt :: i64
  PlayerChatMessage_previousMessages :: "(i32 \<times> byte list) list"
  PlayerChatMessage_hasUnsignedContent :: bool
  PlayerChatMessage_unsignedContent :: string
  PlayerChatMessage_filterType :: i32
  PlayerChatMessage_filterData :: "i64 list"
  PlayerChatMessage_chatType :: i32
  PlayerChatMessage_networkName :: string
  PlayerChatMessage_hasNetworkTargetName :: bool
  PlayerChatMessage_networkTargetName :: string

definition createPlayerChatMessage :: "PlayerChatMessage \<Rightarrow> byte list result" where
  "createPlayerChatMessage p = create ID_PlayerChatMessage
     ([put (nothrow addUUID) (PlayerChatMessage_senderUUID p),
      put (nothrow addVarInt) (PlayerChatMessage_index p),
      put (nothrow addBoolean) (PlayerChatMessage_hasSignature p)]
     @ (if PlayerChatMessage_hasSignature p then [put (addArray (nothrow addByte)) (PlayerChatMessage_signature p)] else [])
     @ [put addChat (PlayerChatMessage_message p),
      put (nothrow addLong) (PlayerChatMessage_timestamp p),
      put (nothrow addLong) (PlayerChatMessage_salt p),
      put (addArray addRawMessage) (PlayerChatMessage_previousMessages p),
      put (nothrow addBoolean) (PlayerChatMessage_hasUnsignedContent p)]
     @ (if PlayerChatMessage_hasUnsignedContent p then [put addChat (PlayerChatMessage_unsignedContent p)] else [])
     @ [put (nothrow addVarInt) (PlayerChatMessage_filterType p)]
     @ [put (nothrow addVarInt) (PlayerChatMessage_chatType p),
      put addChat (PlayerChatMessage_networkName p),
      put (nothrow addBoolean) (PlayerChatMessage_hasNetworkTargetName p)]
     @ (if PlayerChatMessage_hasNetworkTargetName p then [put addChat (PlayerChatMessage_networkTargetName p)] else []))"

record PlayerInfoRemove =
  PlayerInfoRemove_uuids :: "u128 list"

definition createPlayerInfoRemove :: "PlayerInfoRemove \<Rightarrow> byte list result" where
  "createPlayerInfoRemove p = create ID_PlayerInfoRemove
     [put (addArray (nothrow addUUID)) (PlayerInfoRemove_uuids p)]"

record PlayerInfoAction =
  act_uuid :: u128
  act_name :: string
  act_properties :: "PlayerProperty list"
  act_hasSigData :: bool
  act_gamemode :: i32
  act_listed :: bool
  act_latency :: i32
  act_hasDisplayName :: bool
  act_displayName :: string

record PlayerInfoUpdate =
  PlayerInfoUpdate_actions :: byte
  PlayerInfoUpdate_actionSets :: "PlayerInfoAction list"

definition createPlayerInfoUpdate :: "PlayerInfoUpdate \<Rightarrow> byte list result" where
  "createPlayerInfoUpdate p =
     (let has = (\<lambda>flag. PlayerInfoUpdate_actions p AND flag \<noteq> 0) in
      create ID_PlayerInfoUpdate
        ([put (nothrow addByte) (PlayerInfoUpdate_actions p),
          put (nothrow addVarInt) (of_nat (length (PlayerInfoUpdate_actionSets p)))]
         @ concat (map (\<lambda>a.
             [put (nothrow addUUID) (act_uuid a)]
             @ (if has 0x01 then [put addString (act_name a), put (nothrow addVarInt) 0] else [])
             @ (if has 0x02 then [put (nothrow addBoolean) (act_hasSigData a)] else [])
             @ (if has 0x04 then [put (nothrow addVarInt) (act_gamemode a)] else [])
             @ (if has 0x08 then [put (nothrow addBoolean) (act_listed a)] else [])
             @ (if has 0x10 then [put (nothrow addVarInt) (act_latency a)] else [])
             @ (if has 0x20 then [put (nothrow addBoolean) (act_hasDisplayName a)] else []))
             (PlayerInfoUpdate_actionSets p))))"

record SynchronizePlayerPosition =
  SynchronizePlayerPosition_x :: f64
  SynchronizePlayerPosition_y :: f64
  SynchronizePlayerPosition_z :: f64
  SynchronizePlayerPosition_yaw :: f32
  SynchronizePlayerPosition_pitch :: f32
  SynchronizePlayerPosition_flags :: byte
  SynchronizePlayerPosition_teleportId :: i32
  SynchronizePlayerPosition_dismountVehicle :: bool

definition createSynchronizePlayerPosition :: "SynchronizePlayerPosition \<Rightarrow> byte list result" where
  "createSynchronizePlayerPosition p = create ID_SynchronizePlayerPosition
     [put (nothrow addDouble) (SynchronizePlayerPosition_x p),
      put (nothrow addDouble) (SynchronizePlayerPosition_y p),
      put (nothrow addDouble) (SynchronizePlayerPosition_z p),
      put (nothrow addFloat) (SynchronizePlayerPosition_yaw p),
      put (nothrow addFloat) (SynchronizePlayerPosition_pitch p),
      put (nothrow addByte) (SynchronizePlayerPosition_flags p),
      put (nothrow addVarInt) (SynchronizePlayerPosition_teleportId p),
      put (nothrow addBoolean) (SynchronizePlayerPosition_dismountVehicle p)]"

record UpdateRecipesBook =
  UpdateRecipesBook_action :: i32
  UpdateRecipesBook_craftingRecipeBookOpen :: bool
  UpdateRecipesBook_craftingRecipeBookFilterActive :: bool
  UpdateRecipesBook_smeltingRecipeBookOpen :: bool
  UpdateRecipesBook_smeltingRecipeBookFilterActive :: bool
  UpdateRecipesBook_blastFurnaceRecipeBookOpen :: bool
  UpdateRecipesBook_blastFurnaceRecipeBookFilterActive :: bool
  UpdateRecipesBook_smokerRecipeBookOpen :: bool
  UpdateRecipesBook_smokerRecipeBookFilterActive :: bool
  UpdateRecipesBook_recipesId :: "string list"
  UpdateRecipesBook_recipiesIdForInit :: "string list"

definition createUpdateRecipesBook :: "UpdateRecipesBook \<Rightarrow> byte list result" where
  "createUpdateRecipesBook p = create ID_UpdateRecipesBook
     ([put (nothrow addVarInt) (UpdateRecipesBook_action p),
      put (nothrow addBoolean) (UpdateRecipesBook_craftingRecipeBookOpen p),
      put (nothrow addBoolean) (UpdateRecipesBook_craftingRecipeBookFilterActive p),
      put (nothrow addBoolean) (UpdateRecipesBook_smeltingRecipeBookOpen p),
      put (nothrow addBoolean) (UpdateRecipesBook_smeltingRecipeBookFilterActive p),
      put (nothrow addBoolean) (UpdateRecipesBook_blastFurnaceRecipeBookOpen p),
      put (nothrow addBoolean) (UpdateRecipesBook_blastFurnaceRecipeBookFilterActive p),
      put (nothrow addBoolean) (UpdateRecipesBook_smokerRecipeBookOpen p),
      put (nothrow addBoolean) (UpdateRecipesBook_smokerRecipeBookFilterActive p),
      put (addArray addIdentifier) (UpdateRecipesBook_recipesId p)]
     @ (if UpdateRecipesBook_action p = 0 then [put (addArray addIdentifier) (UpdateRecipesBook_recipiesIdForInit p)] else []))"

record RemoveEntities =
  RemoveEntities_entities :: "i32 list"

definition createRemoveEntities :: "RemoveEntities \<Rightarrow> byte list result" where
  "createRemoveEntities p = create ID_RemoveEntities
     [put (addArray (nothrow addVarInt)) (RemoveEntities_entities p)]"

record HeadRotation =
  HeadRotation_entityID :: i32
  HeadRotation_headYaw :: byte

definition createHeadRotation :: "HeadRotation \<Rightarrow> byte list result" where
  "createHeadRotation p = create ID_HeadRotation
     [put (nothrow addVarInt) (HeadRotation_entityID p),
      put (nothrow addByte) (HeadRotation_headYaw p)]"

record ServerData =
  ServerData_hasMotd :: bool
  ServerData_motd :: string
  ServerData_hasIcon :: bool
  ServerData_icon :: string
  ServerData_enforceSecureChat :: bool

definition createServerData :: "ServerData \<Rightarrow> byte list result" where
  "createServerData p = create ID_ServerData
     [put (nothrow addBoolean) (ServerData_hasMotd p),
      put (nothrow addBoolean) (ServerData_hasIcon p),
      put (nothrow addBoolean) (ServerData_enforceSecureChat p)]"

record SetHeldItemClient =
  SetHeldItemClient_slot :: byte

definition createSetHeldItemClient :: "SetHeldItemClient \<Rightarrow> byte list result" where
  "createSetHeldItemClient p = create ID_SetHeldItem
     [put (nothrow addByte) (SetHeldItemClient_slot p)]"

definition createCenterChunk :: "Position2D \<Rightarrow> byte list result" where
  "createCenterChunk p = create ID_CenterChunk
     [put (nothrow addVarInt) (pos2_x p),
      put (nothrow addVarInt) (pos2_z p)]"

record SetDefaultSpawnPosition =
  SetDefaultSpawnPosition_position :: Position
  SetDefaultSpawnPosition_angle :: f32

definition createSetDefaultSpawnPosition :: "SetDefaultSpawnPosition \<Rightarrow> byte list result" where
  "createSetDefaultSpawnPosition p = create ID_SetDefaultSpawnPosition
     [put (nothrow addPosition) (SetDefaultSpawnPosition_position p),
      put (nothrow addFloat) (SetDefaultSpawnPosition_angle p)]"

record EntityMetadata =
  em_index :: byte
  em_type :: i32
  em_slot :: Slot

record SetEntityMetadata =
  SetEntityMetadata_entityId :: i32
  SetEntityMetadata_metadata :: "EntityMetadata list"

text \<open>\<open>metadata[0]\<close> is read without a check.\<close>

definition createSetEntityMetadata :: "SetEntityMetadata \<Rightarrow> byte list result" where
  "createSetEntityMetadata p =
     (case SetEntityMetadata_metadata p of
        [] \<Rightarrow> Inl (UB OutOfBoundsRead)
      | d # _ \<Rightarrow> create ID_SetEntityMetadata
          [put (nothrow addVarInt) (SetEntityMetadata_entityId p),
           put (nothrow addByte) (em_index d),
           put (nothrow addVarInt) (em_type d),
           put (nothrow addSlot) (em_slot d),
           put (nothrow addByte) 0xFF])"

record UpdateTime =
  UpdateTime_worldAge :: i64
  UpdateTime_timeOfDay :: i64

definition createUpdateTime :: "UpdateTime \<Rightarrow> byte list result" where
  "createUpdateTime p = create ID_UpdateTime
     [put (nothrow addLong) (UpdateTime_worldAge p),
      put (nothrow addLong) (UpdateTime_timeOfDay p)]"

record EntitySoundEffect =
  EntitySoundEffect_soundId :: i32
  EntitySoundEffect_category :: i32
  EntitySoundEffect_entityId :: i32
  EntitySoundEffect_volume :: f32
  EntitySoundEffect_pitch :: f32
  EntitySoundEffect_seed :: i64

definition createEntitySoundEffect :: "EntitySoundEffect \<Rightarrow> byte list result" where
  "createEntitySoundEffect p = create ID_EntitySoundEffect
     [put (nothrow addVarInt) (EntitySoundEffect_soundId p),
      put (nothrow addVarInt) (EntitySoundEffect_category p),
      put (nothrow addVarInt) (EntitySoundEffect_entityId p),
      put (nothrow addFloat) (EntitySoundEffect_volume p),
      put (nothrow addFloat) (EntitySoundEffect_pitch p),
      put (nothrow addLong) (EntitySoundEffect_seed p)]"

record SoundEffect =
  SoundEffect_soundId :: i32
  SoundEffect_category :: i32
  SoundEffect_x :: i32
  SoundEffect_y :: i32
  SoundEffect_z :: i32
  SoundEffect_volume :: f32
  SoundEffect_pitch :: f32
  SoundEffect_seed :: i64

definition createSoundEffect :: "SoundEffect \<Rightarrow> byte list result" where
  "createSoundEffect p = create ID_SoundEffect
     [put (nothrow addVarInt) (SoundEffect_soundId p),
      put (nothrow addVarInt) (SoundEffect_category p),
      put (nothrow addInt) (SoundEffect_x p),
      put (nothrow addInt) (SoundEffect_y p),
      put (nothrow addInt) (SoundEffect_z p),
      put (nothrow addFloat) (SoundEffect_volume p),
      put (nothrow addFloat) (SoundEffect_pitch p),
      put (nothrow addLong) (SoundEffect_seed p)]"

record StopSound =
  StopSound_flags :: byte
  StopSound_source :: i32
  StopSound_sound :: string

definition createStopSound :: "StopSound \<Rightarrow> byte list result" where
  "createStopSound p = create ID_StopSound
     ([put (nothrow addByte) (StopSound_flags p)]
     @ (if StopSound_flags p = 3 \<or> StopSound_flags p = 1 then [put (nothrow addVarInt) (StopSound_source p)] else [])
     @ (if StopSound_flags p = 2 \<or> StopSound_flags p = 3 then [put addIdentifier (StopSound_sound p)] else []))"

record SystemChatMessage =
  SystemChatMessage_JSONData :: string
  SystemChatMessage_overlay :: bool

definition createSystemChatMessage :: "SystemChatMessage \<Rightarrow> byte list result" where
  "createSystemChatMessage p = create ID_SystemChatMessage
     [put addChat (SystemChatMessage_JSONData p),
      put (nothrow addBoolean) (SystemChatMessage_overlay p)]"

record EntityVelocity =
  EntityVelocity_entityId :: i32
  EntityVelocity_velocityX :: i16
  EntityVelocity_velocityY :: i16
  EntityVelocity_velocityZ :: i16

definition createEntityVelocity :: "EntityVelocity \<Rightarrow> byte list result" where
  "createEntityVelocity p = create ID_EntityVelocity
     [put (nothrow addVarInt) (EntityVelocity_entityId p),
      put (nothrow addShort) (EntityVelocity_velocityX p),
      put (nothrow addShort) (EntityVelocity_velocityY p),
      put (nothrow addShort) (EntityVelocity_velocityZ p)]"

record SetExperience =
  SetExperience_experienceBar :: f32
  SetExperience_totalExperience :: i32
  SetExperience_level :: i32

definition createSetExperience :: "SetExperience \<Rightarrow> byte list result" where
  "createSetExperience p = create ID_SetExperience
     [put (nothrow addFloat) (SetExperience_experienceBar p),
      put (nothrow addVarInt) (SetExperience_level p),
      put (nothrow addVarInt) (SetExperience_totalExperience p)]"

record Health =
  Health_health :: f32
  Health_food :: i32
  Health_foodSaturation :: f32

definition createHealth :: "Health \<Rightarrow> byte list result" where
  "createHealth p = create ID_Health
     [put (nothrow addFloat) (Health_health p),
      put (nothrow addVarInt) (Health_food p),
      put (nothrow addFloat) (Health_foodSaturation p)]"

record TeleportEntity =
  TeleportEntity_entityID :: i32
  TeleportEntity_x :: f64
  TeleportEntity_y :: f64
  TeleportEntity_z :: f64
  TeleportEntity_yaw :: byte
  TeleportEntity_pitch :: byte
  TeleportEntity_onGround :: bool

definition createTeleportEntity :: "TeleportEntity \<Rightarrow> byte list result" where
  "createTeleportEntity p = create ID_TeleportEntity
     [put (nothrow addVarInt) (TeleportEntity_entityID p),
      put (nothrow addDouble) (TeleportEntity_x p),
      put (nothrow addDouble) (TeleportEntity_y p),
      put (nothrow addDouble) (TeleportEntity_z p),
      put (nothrow addByte) (TeleportEntity_yaw p),
      put (nothrow addByte) (TeleportEntity_pitch p),
      put (nothrow addBoolean) (TeleportEntity_onGround p)]"

record UpdateAdvancements =
  UpdateAdvancements_resetOrClear :: bool
  UpdateAdvancements_advancementMapping :: "AdvancementMapping list"
  UpdateAdvancements_identifiers :: "string list"
  UpdateAdvancements_progressMapping :: "ProgressMapping list"

definition createUpdateAdvancements :: "UpdateAdvancements \<Rightarrow> byte list result" where
  "createUpdateAdvancements p = create ID_UpdateAdvancements
     [put (nothrow addBoolean) (UpdateAdvancements_resetOrClear p),
      put (addArray addAdvancementMapping) (UpdateAdvancements_advancementMapping p),
      put (addArray addIdentifier) (UpdateAdvancements_identifiers p),
      put (addArray addAdvancementProgressMapping) (UpdateAdvancements_progressMapping p)]"

record UpdateAttributes =
  UpdateAttributes_entityId :: i32
  UpdateAttributes_attributes :: "Property list"

definition createUpdateAttributes :: "UpdateAttributes \<Rightarrow> byte list result" where
  "createUpdateAttributes p = create ID_UpdateAttributes
     [put (nothrow addVarInt) (UpdateAttributes_entityId p),
      put (addArray addAttributesProperty) (UpdateAttributes_attributes p)]"

record FeatureFlags =
  FeatureFlags_flags :: "string list"

definition createFeatureFlags :: "FeatureFlags \<Rightarrow> byte list result" where
  "createFeatureFlags p = create ID_FeatureFlags
     [put (addArray addString) (FeatureFlags_flags p)]"

record UpdateRecipes =
  UpdateRecipes_recipes :: "i32 list"

definition createUpdateRecipes :: "UpdateRecipes \<Rightarrow> byte list result" where
  "createUpdateRecipes p = create ID_UpdateRecipes
     [put (addArray (nothrow addVarInt)) (UpdateRecipes_recipes p)]"

record UpdateTags =
  UpdateTags_tags :: "i32 list"

definition createUpdateTags :: "UpdateTags \<Rightarrow> byte list result" where
  "createUpdateTags p = create ID_UpdateTags
     [put (addArray (nothrow addVarInt)) (UpdateTags_tags p)]"

end
