(* ===== verification/Client_Properties.thy ===== *)
theory Client_Properties
  imports Client_Packets Container_Properties Wire_Properties Nbt_Roundtrip
begin

text \<open>
  What the packets the server sends promise their reader: every one is a frame with the right length
  and identifier, a container is read back slot by slot, the light masks of a chunk describe its
  sections, and a well-formed column can always be sent.
\<close>

section \<open>All packets\<close>

text \<open>The functions of \<open>ClientPackets.cpp\<close> as one, by the packet they build.\<close>

datatype (plugins only: code) client_packet =
    CP_LoginDisconnect Disconnect
  | CP_EncryptionRequest EncryptionRequest
  | CP_LoginSuccess LoginSuccess
  | CP_StatusResponse StatusResponse
  | CP_PingResponse PingResponse
  | CP_SpawnEntity SpawnEntity
  | CP_SpawnPlayer SpawnPlayer
  | CP_EntityAnimation byte i32
  | CP_BlockUpdate BlockUpdate
  | CP_ChangeDifficultyClient ChangeDifficultyClient
  | CP_Commands Commands
  | CP_CloseContainer CloseContainer
  | CP_SetContainerContent SetContainerContent
  | CP_SetContainerSlot SetContainerSlot
  | CP_PluginMessageResponse PluginMessageResponse
  | CP_PlayDisconnect Disconnect
  | CP_EntityEvent EntityEvent
  | CP_UnloadChunk Position2D
  | CP_InitializeWorldBorder InitializeWorldBorder
  | CP_GameEvent GameEvent
  | CP_KeepAlive i64
  | CP_ChunkDataAndLightUpdate ChunkDataAndLightUpdate
  | CP_WorldEvent WorldEvent
  | CP_LoginPlay LoginPlay
  | CP_UpdateEntityPosition UpdateEntityPosition
  | CP_UpdateEntityPositionRotation UpdateEntityPositionRotation
  | CP_UpdateEntityRotation UpdateEntityRotation
  | CP_PlayerAbilities PlayerAbilitiesClient
  | CP_PlayerChatMessage PlayerChatMessage
  | CP_PlayerInfoRemove PlayerInfoRemove
  | CP_PlayerInfoUpdate PlayerInfoUpdate
  | CP_SynchronizePlayerPosition SynchronizePlayerPosition
  | CP_UpdateRecipesBook UpdateRecipesBook
  | CP_RemoveEntities RemoveEntities
  | CP_HeadRotation HeadRotation
  | CP_ServerData ServerData
  | CP_SetHeldItemClient SetHeldItemClient
  | CP_CenterChunk Position2D
  | CP_SetDefaultSpawnPosition SetDefaultSpawnPosition
  | CP_SetEntityMetadata SetEntityMetadata
  | CP_UpdateTime UpdateTime
  | CP_EntitySoundEffect EntitySoundEffect
  | CP_SoundEffect SoundEffect
  | CP_StopSound StopSound
  | CP_SystemChatMessage SystemChatMessage
  | CP_EntityVelocity EntityVelocity
  | CP_SetExperience SetExperience
  | CP_Health Health
  | CP_TeleportEntity TeleportEntity
  | CP_UpdateAdvancements UpdateAdvancements
  | CP_UpdateAttributes UpdateAttributes
  | CP_FeatureFlags FeatureFlags
  | CP_UpdateRecipes UpdateRecipes
  | CP_UpdateTags UpdateTags

primrec create_packet :: "client_packet \<Rightarrow> byte list result" where
  "create_packet (CP_LoginDisconnect p) = createLoginDisconnect p"
| "create_packet (CP_EncryptionRequest p) = createEncryptionRequest p"
| "create_packet (CP_LoginSuccess p) = createLoginSuccess p"
| "create_packet (CP_StatusResponse p) = createStatusResponse p"
| "create_packet (CP_PingResponse p) = createPingResponse p"
| "create_packet (CP_SpawnEntity p) = createSpawnEntity p"
| "create_packet (CP_SpawnPlayer p) = createSpawnPlayer p"
| "create_packet (CP_EntityAnimation animId entityID) = createEntityAnimation animId entityID"
| "create_packet (CP_BlockUpdate p) = createBlockUpdate p"
| "create_packet (CP_ChangeDifficultyClient p) = createChangeDifficultyClient p"
| "create_packet (CP_Commands p) = createCommands p"
| "create_packet (CP_CloseContainer p) = createCloseContainer p"
| "create_packet (CP_SetContainerContent p) = createSetContainerContent p"
| "create_packet (CP_SetContainerSlot p) = createSetContainerSlot p"
| "create_packet (CP_PluginMessageResponse p) = createPluginMessageResponse p"
| "create_packet (CP_PlayDisconnect p) = createPlayDisconnect p"
| "create_packet (CP_EntityEvent p) = createEntityEvent p"
| "create_packet (CP_UnloadChunk p) = createUnloadChunk p"
| "create_packet (CP_InitializeWorldBorder p) = createInitializeWorldBorder p"
| "create_packet (CP_GameEvent p) = createGameEvent p"
| "create_packet (CP_KeepAlive i) = createKeepAlive i"
| "create_packet (CP_ChunkDataAndLightUpdate p) = createChunkDataAndLightUpdate p"
| "create_packet (CP_WorldEvent p) = createWorldEvent p"
| "create_packet (CP_LoginPlay p) = createLoginPlay p"
| "create_packet (CP_UpdateEntityPosition p) = createUpdateEntityPosition p"
| "create_packet (CP_UpdateEntityPositionRotation p) = createUpdateEntityPositionRotation p"
| "create_packet (CP_UpdateEntityRotation p) = createUpdateEntityRotation p"
| "create_packet (CP_PlayerAbilities p) = createPlayerAbilities p"
| "create_packet (CP_PlayerChatMessage p) = createPlayerChatMessage p"
| "create_packet (CP_PlayerInfoRemove p) = createPlayerInfoRemove p"
| "create_packet (CP_PlayerInfoUpdate p) = createPlayerInfoUpdate p"
| "create_packet (CP_SynchronizePlayerPosition p) = createSynchronizePlayerPosition p"
| "create_packet (CP_UpdateRecipesBook p) = createUpdateRecipesBook p"
| "create_packet (CP_RemoveEntities p) = createRemoveEntities p"
| "create_packet (CP_HeadRotation p) = createHeadRotation p"
| "create_packet (CP_ServerData p) = createServerData p"
| "create_packet (CP_SetHeldItemClient p) = createSetHeldItemClient p"
| "create_packet (CP_CenterChunk p) = createCenterChunk p"
| "create_packet (CP_SetDefaultSpawnPosition p) = createSetDefaultSpawnPosition p"
| "create_packet (CP_SetEntityMetadata p) = createSetEntityMetadata p"
| "create_packet (CP_UpdateTime p) = createUpdateTime p"
| "create_packet (CP_EntitySoundEffect p) = createEntitySoundEffect p"
| "create_packet (CP_SoundEffect p) = createSoundEffect p"
| "create_packet (CP_StopSound p) = createStopSound p"
| "create_packet (CP_SystemChatMessage p) = createSystemChatMessage p"
| "create_packet (CP_EntityVelocity p) = createEntityVelocity p"
| "create_packet (CP_SetExperience p) = createSetExperience p"
| "create_packet (CP_Health p) = createHealth p"
| "create_packet (CP_TeleportEntity p) = createTeleportEntity p"
| "create_packet (CP_UpdateAdvancements p) = createUpdateAdvancements p"
| "create_packet (CP_UpdateAttributes p) = createUpdateAttributes p"
| "create_packet (CP_FeatureFlags p) = createFeatureFlags p"
| "create_packet (CP_UpdateRecipes p) = createUpdateRecipes p"
| "create_packet (CP_UpdateTags p) = createUpdateTags p"

primrec packet_id :: "client_packet \<Rightarrow> i32" where
  "packet_id (CP_LoginDisconnect p) = ID_DisconnectLogin"
| "packet_id (CP_EncryptionRequest p) = ID_EncryptionRequest"
| "packet_id (CP_LoginSuccess p) = ID_LoginSuccess"
| "packet_id (CP_StatusResponse p) = ID_Status"
| "packet_id (CP_PingResponse p) = ID_Ping"
| "packet_id (CP_SpawnEntity p) = ID_SpawnEntity"
| "packet_id (CP_SpawnPlayer p) = ID_SpawnPlayer"
| "packet_id (CP_EntityAnimation animId entityID) = ID_EntityAnimation"
| "packet_id (CP_BlockUpdate p) = ID_BlockUpdate"
| "packet_id (CP_ChangeDifficultyClient p) = ID_ChangeDifficulty"
| "packet_id (CP_Commands p) = ID_Commands"
| "packet_id (CP_CloseContainer p) = ID_CloseContainer"
| "packet_id (CP_SetContainerContent p) = ID_SetContainerContent"
| "packet_id (CP_SetContainerSlot p) = ID_SetContainerSlot"
| "packet_id (CP_PluginMessageResponse p) = ID_PluginMessage"
| "packet_id (CP_PlayDisconnect p) = ID_DisconnectPlay"
| "packet_id (CP_EntityEvent p) = ID_EntityEvent"
| "packet_id (CP_UnloadChunk p) = ID_UnloadChunk"
| "packet_id (CP_InitializeWorldBorder p) = ID_InitializeWorldBorder"
| "packet_id (CP_GameEvent p) = ID_GameEvent"
| "packet_id (CP_KeepAlive i) = ID_KeepAlive"
| "packet_id (CP_ChunkDataAndLightUpdate p) = ID_ChunkDataAndLightUpdate"
| "packet_id (CP_WorldEvent p) = ID_WorldEvent"
| "packet_id (CP_LoginPlay p) = ID_LoginPlay"
| "packet_id (CP_UpdateEntityPosition p) = ID_UpdateEntityPosition"
| "packet_id (CP_UpdateEntityPositionRotation p) = ID_UpdateEntityPositionRotation"
| "packet_id (CP_UpdateEntityRotation p) = ID_UpdateEntityRotation"
| "packet_id (CP_PlayerAbilities p) = ID_PlayerAbilities"
| "packet_id (CP_PlayerChatMessage p) = ID_PlayerChatMessage"
| "packet_id (CP_PlayerInfoRemove p) = ID_PlayerInfoRemove"
| "packet_id (CP_PlayerInfoUpdate p) = ID_PlayerInfoUpdate"
| "packet_id (CP_SynchronizePlayerPosition p) = ID_SynchronizePlayerPosition"
| "packet_id (CP_UpdateRecipesBook p) = ID_UpdateRecipesBook"
| "packet_id (CP_RemoveEntities p) = ID_RemoveEntities"
| "packet_id (CP_HeadRotation p) = ID_HeadRotation"
| "packet_id (CP_ServerData p) = ID_ServerData"
| "packet_id (CP_SetHeldItemClient p) = ID_SetHeldItem"
| "packet_id (CP_CenterChunk p) = ID_CenterChunk"
| "packet_id (CP_SetDefaultSpawnPosition p) = ID_SetDefaultSpawnPosition"
| "packet_id (CP_SetEntityMetadata p) = ID_SetEntityMetadata"
| "packet_id (CP_UpdateTime p) = ID_UpdateTime"
| "packet_id (CP_EntitySoundEffect p) = ID_EntitySoundEffect"
| "packet_id (CP_SoundEffect p) = ID_SoundEffect"
| "packet_id (CP_StopSound p) = ID_StopSound"
| "packet_id (CP_SystemChatMessage p) = ID_SystemChatMessage"
| "packet_id (CP_EntityVelocity p) = ID_EntityVelocity"
| "packet_id (CP_SetExperience p) = ID_SetExperience"
| "packet_id (CP_Health p) = ID_Health"
| "packet_id (CP_TeleportEntity p) = ID_TeleportEntity"
| "packet_id (CP_UpdateAdvancements p) = ID_UpdateAdvancements"
| "packet_id (CP_UpdateAttributes p) = ID_UpdateAttributes"
| "packet_id (CP_FeatureFlags p) = ID_FeatureFlags"
| "packet_id (CP_UpdateRecipes p) = ID_UpdateRecipes"
| "packet_id (CP_UpdateTags p) = ID_UpdateTags"

lemmas create_defs = createLoginDisconnect_def createEncryptionRequest_def createLoginSuccess_def
  createStatusResponse_def createPingResponse_def createSpawnEntity_def createSpawnPlayer_def
  createEntityAnimation_def createBlockUpdate_def createChangeDifficultyClient_def createCommands_def
  createCloseContainer_def createSetContainerContent_def createSetContainerSlot_def
  createPluginMessageResponse_def createPlayDisconnect_def createEntityEvent_def createUnloadChunk_def
  createInitializeWorldBorder_def createGameEvent_def createKeepAlive_def
  createChunkDataAndLightUpdate_def createWorldEvent_def createLoginPlay_def
  createUpdateEntityPosition_def createUpdateEntityPositionRotation_def createUpdateEntityRotation_def
  createPlayerAbilities_def createPlayerChatMessage_def createPlayerInfoRemove_def
  createPlayerInfoUpdate_def createSynchronizePlayerPosition_def createUpdateRecipesBook_def
  createRemoveEntities_def createHeadRotation_def createServerData_def createSetHeldItemClient_def
  createCenterChunk_def createSetDefaultSpawnPosition_def createSetEntityMetadata_def createUpdateTime_def
  createEntitySoundEffect_def createSoundEffect_def createStopSound_def createSystemChatMessage_def
  createEntityVelocity_def createSetExperience_def createHealth_def createTeleportEntity_def
  createUpdateAdvancements_def createUpdateAttributes_def createFeatureFlags_def createUpdateRecipes_def
  createUpdateTags_def

text \<open>A frame: the length of what follows it, the identifier, the payload.\<close>

definition is_frame :: "i32 \<Rightarrow> byte list \<Rightarrow> bool" where
  "is_frame i pkt \<longleftrightarrow>
     (case popVarInt pkt (int (length pkt) - 1) 0 of
        Inl _ \<Rightarrow> False
      | Inr (n, at) \<Rightarrow> sint n = int (length pkt) - at \<and>
          (case popVarInt pkt (int (length pkt) - 1) at of
             Inl _ \<Rightarrow> False
           | Inr (j, at') \<Rightarrow> j = i \<and> at' \<le> int (length pkt)))"

lemma create_frame:
  assumes "create i ws = Inr pkt" and "length pkt < 2 ^ 31 - 5"
  shows "is_frame i pkt"
proof -
  obtain payload where p: "pkt = finalize [] payload i"
    using assms(1) by (auto simp: create_def rbind_Inr_iff)
  have l: "length payload \<le> length pkt" by (simp add: p finalize_eq)
  with assms(2) have "length payload < 2 ^ 31 - 5" by simp
  from finalize_reads [OF this, of i] obtain n k m where
    r: "popVarInt pkt (int (length pkt) - 1) 0 = Inr (n, int k)" "sint n = int (length pkt) - int k"
      "popVarInt pkt (int (length pkt) - 1) (int k) = Inr (i, int m)" "drop m pkt = payload"
    unfolding p by blast
  have "m \<le> length pkt"
    using rd_varint.pop_limit [OF _ r(3)] rd_varint.pop_limit [OF _ r(1)] by auto
  with r show ?thesis by (simp add: is_frame_def)
qed

text \<open>Writers whose only exception is the one for a string that is too long.\<close>

definition only_long :: "writer \<Rightarrow> bool" where
  "only_long w \<longleftrightarrow> (\<forall>out e. w out = Inl e \<longrightarrow> e = MaxLengthString)"

lemma only_long_nothrow: "only_long (put (nothrow f) x)"
  by (simp add: only_long_def put_def nothrow_def)

lemma only_long_string: "only_long (put addString s)" "only_long (put addChat s)" "only_long (put addIdentifier s)"
  by (simp_all add: only_long_def put_def addString_def addChat_def addIdentifier_def addString_max_def)

lemma only_long_append: "only_long (\<lambda>payload. Inr (payload @ xs))"
  by (simp add: only_long_def)

lemma only_long_serialize_all: "list_all only_long ws \<Longrightarrow> only_long (serialize_all ws)"
  by (induction ws) (auto simp: only_long_def rbind_Inl_iff)

lemma only_long_array:
  assumes "\<And>x. only_long (put f x)"
  shows "only_long (put (addArray f) xs)"
proof -
  have "add_all f out xs = Inl e \<Longrightarrow> e = MaxLengthString" for out e
    using assms by (induction xs arbitrary: out) (auto simp: only_long_def put_def rbind_Inl_iff)
  then show ?thesis by (simp add: only_long_def put_def addArray_def)
qed

lemma only_long_via:
  "(\<And>out. f out x = serialize_all ws out) \<Longrightarrow> list_all only_long ws \<Longrightarrow> only_long (put f x)"
  using only_long_serialize_all [of ws] by (simp add: only_long_def put_def)

lemma only_long_structures:
  "only_long (put addAttributesProperty a)" "only_long (put addAdvancementMapping b)"
  "only_long (put addAdvancementProgressMapping c)" "only_long (put addRawMessage d)"
proof -
  have d: "only_long (put addAdvancementDisplay x)" for x
    by (rule only_long_via [OF addAdvancementDisplay_def]) (simp add: only_long_nothrow only_long_string)
  have cr: "only_long (put addAdvancementCriteria x)" for x
    using only_long_string(3) [of x] by (simp add: only_long_def put_def addAdvancementCriteria_def)
  have a: "only_long (put addAdvancement x)" for x
    by (rule only_long_via [OF addAdvancement_def])
      (simp add: only_long_nothrow only_long_string only_long_array d cr)
  have cm: "only_long (put addAdvancementCriteriaMapping x)" for x
    by (rule only_long_via [OF addAdvancementCriteriaMapping_def]) (simp add: only_long_nothrow only_long_string)
  show "only_long (put addAttributesProperty a)"
    by (rule only_long_via [OF addAttributesProperty_def])
      (simp add: only_long_nothrow only_long_string only_long_array)
  show "only_long (put addAdvancementMapping b)"
    by (rule only_long_via [OF addAdvancementMapping_def]) (simp add: only_long_string a)
  show "only_long (put addAdvancementProgressMapping c)"
    by (rule only_long_via [OF addAdvancementProgressMapping_def]) (simp add: only_long_string only_long_array cm)
  have "only_long (put (addArray (nothrow addByte)) (snd d))"
    by (rule only_long_array) (rule only_long_nothrow)
  then show "only_long (put addRawMessage d)" by (simp add: only_long_def put_def addRawMessage_def addArray_def)
qed

lemmas only_long_rules = only_long_nothrow only_long_append only_long_string only_long_array only_long_structures

lemma create_only_long: "list_all only_long ws \<Longrightarrow> create i ws = Inl e \<Longrightarrow> e = MaxLengthString"
  using only_long_serialize_all [of ws] by (auto simp: only_long_def create_def rbind_Inl_iff)

text \<open>The packets made of fields only: no container, no NBT tree, no chunk and no metadata list.\<close>

definition plain :: "client_packet \<Rightarrow> bool" where
  "plain c \<longleftrightarrow> (case c of CP_SetContainerContent _ \<Rightarrow> False | CP_SetContainerSlot _ \<Rightarrow> False
     | CP_ChunkDataAndLightUpdate _ \<Rightarrow> False | CP_LoginPlay _ \<Rightarrow> False | CP_SetEntityMetadata _ \<Rightarrow> False
     | _ \<Rightarrow> True)"

lemma create_packet_frame:
  assumes "create_packet c = Inr pkt" and "length pkt < 2 ^ 31 - 5"
  shows "is_frame (packet_id c) pkt"
  using assms(1)
  by (cases c) (auto simp: create_defs Let_def rbind_Inr_iff split: list.splits intro: create_frame [OF _ assms(2)])

lemma create_packet_errors:
  assumes "plain c" and "create_packet c = Inl e"
  shows "e = MaxLengthString"
  using assms
  by (cases c) (auto simp: plain_def create_defs Let_def simp del: append.simps
      elim!: create_only_long [rotated] intro!: only_long_rules simp: list_all_iff split: if_splits)

section \<open>Containers\<close>

lemma addContainer_array:
  "addContainer out c = addArray (nothrow addSlot) out (map (\<lambda>i. slot_at c (of_nat i)) [0..<46])"
proof -
  have at: "\<exists>r. inventory_at (of_nat i) = Inr r" if "i < 46" for i
  proof -
    have "sint (of_nat i :: i16) = int i" using that by (simp add: signed_of_nat signed_take_bit_int_eq_self)
    then show ?thesis using inventory_at_slot [of "of_nat i"] that by auto
  qed
  have "add_all (\<lambda>out i. rbind (inventory_at (of_nat i)) (\<lambda>r. Inr (addSlot out (inventory_get c r)))) out is
      = add_all (nothrow addSlot) out (map (\<lambda>i. slot_at c (of_nat i)) is)" if "\<forall>i \<in> set is. i < 46" for "is" out
    using that
  proof (induction "is" arbitrary: out)
    case (Cons i "is")
    from at [of i] Cons.prems obtain r where "inventory_at (of_nat i) = Inr r" by auto
    with Cons show ?case by (simp add: slot_at_def nothrow_def)
  qed simp
  then show ?thesis
    by (simp add: addContainer_def addArray_def inventory_size_def inventory_sizes)
qed

lemma valid_slot_ok: "slot_ok s \<Longrightarrow> valid_slot s"
  using slot_ok_absent [of s] by (auto simp: valid_slot_def)

lemma slot_at_ok: "inv.valid c \<Longrightarrow> slot_ok (slot_at c i)"
  using inv.validD(1) [of c] inventory_at_in by (auto simp: slot_at_def split: sum.splits)

interpretation cd_slots: codec "addArray (nothrow addSlot)" "popArray popSlot"
  cd_slot.valid_array cd_slot.enc_array
  by (rule cd_slot.codec_array)

section \<open>Chunks\<close>

lemma light_masks_acc:
  assumes "i + length ss \<le> 31"
  shows "\<exists>m' e' n'. light_masks has i ss (m, e, n) = (m', e', n')
    \<and> (\<forall>k < 64. bit m' k \<longleftrightarrow> bit m k \<or> (i \<le> k \<and> k < i + length ss \<and> has (ss ! (k - i))))
    \<and> (\<forall>k < 64. bit e' k \<longleftrightarrow> bit e k \<or> (i \<le> k \<and> k < i + length ss \<and> \<not> has (ss ! (k - i))))
    \<and> n' = n + of_nat (length (filter has ss))"
  using assms
proof (induction ss arbitrary: i m e n)
  case (Cons s ss)
  have b: "bit (shifted_one i) k \<longleftrightarrow> k = i" if "k < 64" for k
    using that Cons.prems by (simp add: bit_shifted_one)
  have split: "i \<le> k \<and> k < i + length (s # ss) \<and> P ((s # ss) ! (k - i)) \<longleftrightarrow>
      k = i \<and> P s \<or> (i + 1 \<le> k \<and> k < i + 1 + length ss \<and> P (ss ! (k - (i + 1))))" for k and P :: "Section \<Rightarrow> bool"
  proof (cases "k = i")
    case False
    then show ?thesis by (cases "i < k") (auto simp: nth_Cons' )
  qed simp
  show ?case
  proof (cases "has s")
    case True
    with Cons.IH [of "i + 1" "m OR shifted_one i" e "n + 1"] Cons.prems show ?thesis
      unfolding split [of _ has] split [of _ "\<lambda>s. \<not> has s"] by (auto simp: bit_or_iff b)
  next
    case False
    with Cons.IH [of "i + 1" m "e OR shifted_one i" n] Cons.prems show ?thesis
      unfolding split [of _ has] split [of _ "\<lambda>s. \<not> has s"] by (auto simp: bit_or_iff b)
  qed
qed auto

lemma direct_bits:
  assumes "256 < length p"
  shows "block_getBits p = 15"
proof -
  have "8 < bitsNeeded (length p)"
  proof (rule ccontr)
    assume "\<not> 8 < bitsNeeded (length p)"
    then have "(2 :: nat) ^ bitsNeeded (length p) \<le> 2 ^ 8" by (intro power_increasing) auto
    with bitsNeeded_bounds [of "length p"] assms show False by simp
  qed
  with assms show ?thesis by (simp add: block_getBits_def Let_def)
qed

lemma count_blocks_ok:
  assumes "wf_section s" and "\<forall>i \<in> set is. i < SECTION_3D_SIZE"
  shows "\<exists>k. count_blocks s is n = Inr k"
  using assms(2)
proof (induction "is" arbitrary: n)
  case (Cons i "is")
  then have i: "unat (of_nat i :: u64) = i" "i < SECTION_3D_SIZE"
    by (simp_all add: unat_of_nat section_sizes)
  have "paletted SECTION_3D_SIZE block_getBits (blockPalette s) (blocks s)"
    using assms(1) by (simp add: wf_section_def)
  from block_bits.paletted_get_eq [OF this i(2)] obtain b where "getBlock_idx s (of_nat i) = Inr b"
    by (simp add: getBlock_idx_def i(1))
  with Cons show ?case by simp
qed simp

lemma addArray_nothrow: "\<exists>b. addArray (nothrow f) out xs = Inr b"
proof -
  have "\<exists>b. add_all (nothrow f) out xs = Inr b" for out
    by (induction xs arbitrary: out) (simp_all add: nothrow_def)
  then show ?thesis by (simp add: addArray_def)
qed

lemma addPalette_ok: "\<exists>b. addPalette bits out p = Inr b"
  using addArray_nothrow by (auto simp: addPalette_def Let_def)

lemma addSection_ok: "wf_section s \<Longrightarrow> \<exists>b. addSection out s = Inr b"
proof -
  assume "wf_section s"
  from count_blocks_ok [OF this, of "[0..<SECTION_3D_SIZE]" 0]
  obtain k where k: "count_blocks s [0..<SECTION_3D_SIZE] 0 = Inr k" by auto
  obtain b1 where b1: "addPalette block_getBits (addShort out k) (blockPalette s) = Inr b1" using addPalette_ok by blast
  obtain b2 where b2: "(if hasBlocks s then addArray (nothrow addUnsignedLong) b1 (ds_store (blocks s))
      else Inr (addVarInt b1 0)) = Inr b2" using addArray_nothrow by (cases "hasBlocks s") fastforce+
  obtain b3 where b3: "addPalette biome_getBits b2 (biomePalette s) = Inr b3" using addPalette_ok by blast
  obtain b4 where "(if hasBiomes s then addArray (nothrow addUnsignedLong) b3 (ds_store (biomes s))
      else Inr (addVarInt b3 0)) = Inr b4" using addArray_nothrow by (cases "hasBiomes s") fastforce+
  with k b1 b2 b3 show ?thesis by (simp add: addSection_def)
qed

lemma add_all_ok: "(\<And>x out. x \<in> set xs \<Longrightarrow> \<exists>b. f out x = Inr b) \<Longrightarrow> \<exists>b. add_all f out xs = Inr b"
proof (induction xs arbitrary: out)
  case (Cons x xs)
  from Cons.prems [of x out] obtain b where "f out x = Inr b" by auto
  with Cons show ?case by simp
qed simp

lemma serialize_all_ok: "\<forall>w \<in> set ws. \<forall>out. \<exists>b. w out = Inr b \<Longrightarrow> \<exists>b. serialize_all ws out = Inr b"
proof (induction ws arbitrary: out)
  case (Cons w ws)
  from Cons.prems obtain b where "w out = Inr b" by auto
  with Cons show ?case by simp
qed simp

lemma addLight_ok: "\<exists>b. addLight out c = Inr b"
proof -
  have ok: "\<exists>b. put (nothrow f) x out = Inr b" "\<exists>b. put (addArray (nothrow g)) xs out = Inr b" for f x g xs out
    using addArray_nothrow by (simp_all add: put_def nothrow_def [of f])
  obtain m1 e1 n1 m2 e2 n2 where m: "light_masks hasSkyLight 0 (sections c) (0, 0, 0) = (m1, e1, n1)"
      "light_masks hasBlockLight 0 (sections c) (0, 0, 0) = (m2, e2, n2)"
    by (metis prod_cases3)
  show ?thesis
    unfolding addLight_def m prod.case
    by (rule serialize_all_ok) (auto simp: ok)
qed

lemma addChunkColumn_ok:
  assumes "wf_column c" and "list_all wf_nbt (heightMap c)"
  shows "\<exists>b. addChunkColumn out c = Inr b"
proof -
  have "wf_nbt (CompoundTag [] (heightMap c))" using assms(2) by (simp add: wf_Compound list_all_iff)
  from serialize_payload(1) [OF this] obtain b1 where b1: "addNBT out (CompoundTag [] (heightMap c)) = Inr b1"
    by (simp add: addNBT_def)
  have "\<exists>b. add_all addSection [] (butlast (tl (sections c))) = Inr b"
  proof (rule add_all_ok)
    fix s out assume "s \<in> set (butlast (tl (sections c)))"
    then have "s \<in> set (sections c)" by (cases "sections c") (auto dest: in_set_butlastD)
    then show "\<exists>b. addSection out s = Inr b" using assms(1) addSection_ok by (auto simp: wf_column_def list_all_iff)
  qed
  then obtain b2 where b2: "add_all addSection [] (butlast (tl (sections c))) = Inr b2" by blast
  obtain b3 where b3: "addArray (nothrow addByte) b1 b2 = Inr b3" using addArray_nothrow by blast
  obtain b4 where "addLight (addVarInt b3 0) c = Inr b4" using addLight_ok by blast
  with b1 b2 b3 show ?thesis by (simp add: addChunkColumn_def addBlockEntities_def)
qed

section \<open>Properties\<close>



text \<open>C25: the client reads back from a container packet the 46 slots of the inventory, in the order of their
  indices.\<close>

theorem container_synchronised:
  assumes "inv.valid c"
  shows "\<exists>b. addContainer out c = Inr b \<and>
    popArray popSlot (b @ rest) (int (length (b @ rest)) - 1) (int (length out))
      = Inr (map (\<lambda>i. slot_at c (of_nat i)) [0..<46], int (length b))"
proof -
  have "cd_slot.valid_array (map (\<lambda>i. slot_at c (of_nat i)) [0..<46])"
    using slot_at_ok [OF assms] valid_slot_ok by (auto simp: cd_slot.valid_array_def list_all_iff)
  from cd_slots.roundtrip [OF this, of out] show ?thesis unfolding addContainer_array by blast
qed

theorem container_synchronised_witness:
  "\<exists>b. addContainer [] newInventory = Inr b \<and>
    popArray popSlot (b @ []) (int (length (b @ [])) - 1) (int (length ([] :: byte list)))
      = Inr (map (\<lambda>i. slot_at newInventory (of_nat i)) [0..<46], int (length b))"
  by (rule container_synchronised) (rule newInventory_valid)

text \<open>The light masks of a chunk packet: bit \<open>i\<close> of the mask is set exactly when section \<open>i\<close> is lit, bit
  \<open>i\<close> of the empty mask exactly when it is not, and the count is the number of arrays that follow.\<close>

theorem light_masks_correct:
  assumes "length ss \<le> 31"
  shows "\<exists>m e n. light_masks has 0 ss (0, 0, 0) = (m, e, n)
    \<and> (\<forall>k < 64. bit m k \<longleftrightarrow> k < length ss \<and> has (ss ! k))
    \<and> (\<forall>k < 64. bit e k \<longleftrightarrow> k < length ss \<and> \<not> has (ss ! k))
    \<and> n = of_nat (length (filter has ss))"
  using light_masks_acc [of 0 ss has 0 0 0] assms by simp

theorem light_masks_correct_witness:
  "\<exists>s m e n. newSection = Inr s \<and> light_masks hasSkyLight 0 [s, recalculateSkyLight s] (0, 0, 0) = (m, e, n)
     \<and> (bit m 1 \<longleftrightarrow> hasSkyLight (recalculateSkyLight s)) \<and> (bit e 0 \<longleftrightarrow> \<not> hasSkyLight s)"
proof -
  obtain s where s: "newSection = Inr s" using wf_newSection by blast
  obtain m e n where m: "light_masks hasSkyLight 0 [s, recalculateSkyLight s] (0, 0, 0) = (m, e, n)"
      "\<forall>k < 64. bit m k \<longleftrightarrow> k < length [s, recalculateSkyLight s] \<and> hasSkyLight ([s, recalculateSkyLight s] ! k)"
      "\<forall>k < 64. bit e k \<longleftrightarrow> k < length [s, recalculateSkyLight s] \<and> \<not> hasSkyLight ([s, recalculateSkyLight s] ! k)"
    using light_masks_correct [of "[s, recalculateSkyLight s]" hasSkyLight] by auto
  have "bit m 1 \<longleftrightarrow> hasSkyLight (recalculateSkyLight s)" "bit e 0 \<longleftrightarrow> \<not> hasSkyLight s"
    using m(2) [rule_format, of 1] m(3) [rule_format, of 0] by simp_all
  with s m(1) show ?thesis by blast
qed

text \<open>C24: a well-formed column whose height map is a well-formed compound can always be sent: building its
  packet never throws, and the packet is a frame.\<close>

theorem chunk_sendable:
  assumes "wf_column c" and "list_all wf_nbt (heightMap c)"
  shows "\<exists>pkt. createChunkDataAndLightUpdate \<lparr>ChunkDataAndLightUpdate_chunkX = x,
      ChunkDataAndLightUpdate_chunkZ = z, ChunkDataAndLightUpdate_data = c\<rparr> = Inr pkt
    \<and> (length pkt < 2 ^ 31 - 5 \<longrightarrow> is_frame 0x20 pkt)"
proof -
  let ?p = "\<lparr>ChunkDataAndLightUpdate_chunkX = x, ChunkDataAndLightUpdate_chunkZ = z, ChunkDataAndLightUpdate_data = c\<rparr>"
  obtain b where "addChunkColumn (addInt (addInt [] x) z) c = Inr b" using addChunkColumn_ok [OF assms] by blast
  then have "\<exists>pkt. createChunkDataAndLightUpdate ?p = Inr pkt"
    by (simp add: createChunkDataAndLightUpdate_def create_def put_def nothrow_def)
  then show ?thesis using create_packet_frame [of "CP_ChunkDataAndLightUpdate ?p"]
    by (auto simp: ID_ChunkDataAndLightUpdate_def)
qed

theorem chunk_sendable_witness:
  "\<exists>c pkt. newChunkColumn 0 \<lparr>pos2_x = 1, pos2_z = 2\<rparr> = Inr c
     \<and> createChunkDataAndLightUpdate \<lparr>ChunkDataAndLightUpdate_chunkX = 1,
      ChunkDataAndLightUpdate_chunkZ = 2, ChunkDataAndLightUpdate_data = c\<rparr> = Inr pkt"
proof -
  obtain c where c: "newChunkColumn 0 \<lparr>pos2_x = 1, pos2_z = 2\<rparr> = Inr c" "column_inv {0} c"
    using newChunkColumn_ok by blast
  have h: "HEIGHTMAP_ARRAY_SIZE = 36"
    by (simp add: HEIGHTMAP_ARRAY_SIZE_def HEIGHTMAP_BITS_def section_sizes bitsNeeded.simps)
  have "list_all wf_nbt (heightMap c)"
    using c(1) by (auto simp: newChunkColumn_def rbind_Inr_iff wf_List h list_all_iff of_type_def)
  moreover have "wf_column c" using c(2) by (simp add: column_inv_def)
  ultimately show ?thesis using chunk_sendable [of c 1 2] c(1) by blast
qed

text \<open>The palette of a section with more than 256 kinds of blocks is not sent, although its blocks are
  sent as indices into it: two such palettes have the same encoding.\<close>

theorem direct_palette_ambiguous:
  assumes "256 < length p" and "256 < length q"
  shows "addPalette block_getBits out p = addPalette block_getBits out q"
  using assms direct_bits [of p] direct_bits [of q] by (auto simp: addPalette_def Let_def)

theorem direct_palette_ambiguous_witness:
  "addPalette block_getBits [] (map of_nat [0..<257]) = addPalette block_getBits [] (map of_nat [1..<258])"
  by (rule direct_palette_ambiguous) simp_all

end
