(* ===== verification/Level.thy ===== *)
theory Level
  imports Chunk_Column
begin

text \<open>
  \<open>world_storage/Level.hpp\<close> and \<open>Level.cpp\<close>: the loaded columns of a dimension by their chunk
  coordinates, and the conversions from block to chunk and from chunk to region coordinates.
\<close>

section \<open>Coordinates\<close>

definition transformBlockPosToChunkPos :: "i64 \<Rightarrow> i32" where
  "transformBlockPosToChunkPos x =
     of_int (if sint x < 0 then -1 + cdiv (sint x + 1) 16 else cdiv (sint x) 16)"

definition transformChunkPosToRegionPos :: "i64 \<Rightarrow> i32" where
  "transformChunkPosToRegionPos x =
     of_int (if sint x < 0 then -1 + cdiv (sint x + 1) 32 else cdiv (sint x) 32)"

text \<open>Both are the division that rounds down.\<close>

lemma rounding_down:
  assumes "0 < k"
  shows "(if a < 0 then -1 + cdiv (a + 1) k else cdiv a k) = a div k"
proof (cases "a < 0")
  case True
  define b where "b = -1 - a"
  then have b: "0 \<le> b" "a = -1 - b" using True by simp_all
  have "cdiv (a + 1) k = - (b div k)" using assms b by (cases "b = 0") (simp_all add: cdiv_def)
  moreover have "a div k = -1 - b div k"
  proof (rule int_div_pos_eq)
    show "a = k * (-1 - b div k) + (k - 1 - b mod k)"
      using b(2) mult_div_mod_eq [of k b] by (simp add: algebra_simps)
    show "0 \<le> k - 1 - b mod k" "k - 1 - b mod k < k"
      using pos_mod_bound [OF assms, of b] pos_mod_sign [OF assms, of b] by simp_all
  qed
  ultimately show ?thesis using True by simp
qed (use assms in \<open>simp add: cdiv_nonneg\<close>)

lemma transformBlockPosToChunkPos_floor: "transformBlockPosToChunkPos x = of_int (sint x div 16)"
  by (simp only: transformBlockPosToChunkPos_def rounding_down)

lemma transformChunkPosToRegionPos_floor: "transformChunkPosToRegionPos x = of_int (sint x div 32)"
  by (simp only: transformChunkPosToRegionPos_def rounding_down)

section \<open>The columns\<close>

type_synonym level = "Position2D \<Rightarrow> ChunkColumn option"

text \<open>\<open>emplace\<close> keeps a column that is already there, and \<open>at\<close> returns it.\<close>

definition level_addChunkColumn :: "Position2D \<Rightarrow> ChunkColumn \<Rightarrow> level \<Rightarrow> level" where
  "level_addChunkColumn pos c l = (case l pos of None \<Rightarrow> l(pos \<mapsto> c) | Some _ \<Rightarrow> l)"

definition level_hasChunkColumn :: "level \<Rightarrow> Position2D \<Rightarrow> bool" where
  "level_hasChunkColumn l pos = (case l pos of None \<Rightarrow> False | Some c \<Rightarrow> isReady c)"

definition level_getChunkColumn :: "level \<Rightarrow> Position2D \<Rightarrow> ChunkColumn result" where
  "level_getChunkColumn l pos = (case l pos of None \<Rightarrow> Inl StdOutOfRange | Some c \<Rightarrow> Inr c)"

text \<open>The block coordinates are \<open>int\<close>s here.\<close>

definition chunk_of_block :: "i32 \<Rightarrow> i32 \<Rightarrow> Position2D" where
  "chunk_of_block x z = \<lparr>pos2_x = transformBlockPosToChunkPos (scast x),
     pos2_z = transformBlockPosToChunkPos (scast z)\<rparr>"

definition level_getChunkColumnFromBlockPos :: "level \<Rightarrow> i32 \<Rightarrow> i32 \<Rightarrow> ChunkColumn result" where
  "level_getChunkColumnFromBlockPos l x z = level_getChunkColumn l (chunk_of_block x z)"

definition level_removeChunkColumn :: "Position2D \<Rightarrow> level \<Rightarrow> level" where
  "level_removeChunkColumn pos l = l(pos := None)"

definition level_clear :: "level \<Rightarrow> level" where
  "level_clear l = Map.empty"

text \<open>A column that was added is found again; a second one at the same place is dropped.\<close>

lemma level_add_get:
  "level_getChunkColumn (level_addChunkColumn pos c l) q =
     (if q = pos \<and> l pos = None then Inr c else level_getChunkColumn l q)"
  by (auto simp: level_getChunkColumn_def level_addChunkColumn_def split: option.splits)

section \<open>Blocks of the level\<close>

text \<open>
  The position of a block within its column, and the range of positions a level can address: the
  coordinates are cut to \<open>int\<close> on the way to the column.
\<close>

definition local_pos :: "Position \<Rightarrow> Position" where
  "local_pos p = \<lparr>pos_x = of_int (sint (pos_x p) mod 16), pos_y = pos_y p, pos_z = of_int (sint (pos_z p) mod 16)\<rparr>"

definition in_world :: "Position \<Rightarrow> bool" where
  "in_world p \<longleftrightarrow> - (2 ^ 31) \<le> sint (pos_x p) \<and> sint (pos_x p) < 2 ^ 31
     \<and> -64 \<le> sint (pos_y p) \<and> sint (pos_y p) < 320
     \<and> - (2 ^ 31) \<le> sint (pos_z p) \<and> sint (pos_z p) < 2 ^ 31"

definition chunk_at :: "Position \<Rightarrow> Position2D" where
  "chunk_at p = \<lparr>pos2_x = of_int (sint (pos_x p) div 16), pos2_z = of_int (sint (pos_z p) div 16)\<rparr>"

definition level_block :: "level \<Rightarrow> Position \<Rightarrow> i32 result" where
  "level_block l p = rbind (level_getChunkColumn l (chunk_at p)) (\<lambda>c. column_getBlock c (local_pos p))"

lemma sint_narrow:
  assumes "- (2 ^ 31) \<le> sint x" "sint x < 2 ^ 31"
  shows "sint (scast (x :: i64) :: i32) = sint x"
  using assms by (simp add: signed_scast_eq signed_take_bit_int_eq_self)

lemma sint_of_int32: "- (2 ^ 31) \<le> k \<Longrightarrow> k < 2 ^ 31 \<Longrightarrow> sint (of_int k :: i32) = k"
  by (simp add: signed_of_int signed_take_bit_int_eq_self)

lemma sint_mod16: "sint (of_int (k mod 16) :: i64) = k mod 16"
  by (rule sint_of_int_small) (use pos_mod_bound [of 16 k] pos_mod_sign [of 16 k] in simp_all)

lemma sint_div16:
  "- (2 ^ 31) \<le> sint (x :: i64) \<Longrightarrow> sint x < 2 ^ 31 \<Longrightarrow> sint (of_int (sint x div 16) :: i32) = sint x div 16"
  by (rule sint_of_int32) simp_all

lemma chunk_of_block_eq:
  assumes "in_world p"
  shows "chunk_of_block (scast (pos_x p)) (scast (pos_z p)) = chunk_at p"
proof -
  have "sint (scast (scast x :: i32) :: i64) = sint x" if "- (2 ^ 31) \<le> sint x" "sint x < 2 ^ 31" for x :: i64
  proof -
    have "sint (scast y :: i64) = sint y" for y :: i32 by (rule sint_up_scast) (simp add: is_up)
    from this [of "scast x"] show ?thesis by (simp only: sint_narrow [OF that])
  qed
  with assms show ?thesis
    by (simp add: chunk_of_block_def chunk_at_def in_world_def transformBlockPosToChunkPos_floor)
qed

lemma local_pos_column: "in_world p \<Longrightarrow> in_column (local_pos p)"
  by (simp add: in_world_def in_column_def local_pos_def sint_mod16)

text \<open>A block is determined by its column and its place there.\<close>

lemma level_pos_inj:
  assumes "in_world p" "in_world q" "chunk_at p = chunk_at q" "local_pos p = local_pos q"
  shows "p = q"
proof -
  have "sint (pos_x p) = sint (pos_x q)"
  proof -
    have "sint (pos_x p) div 16 = sint (pos_x q) div 16"
      using arg_cong [OF assms(3), of "\<lambda>c. sint (pos2_x c)"] assms(1,2)
      by (simp only: chunk_at_def Position2D.simps in_world_def sint_div16)
    moreover have "sint (pos_x p) mod 16 = sint (pos_x q) mod 16"
      using arg_cong [OF assms(4), of "\<lambda>c. sint (pos_x c)"]
      by (simp only: local_pos_def Position.simps sint_mod16)
    ultimately show ?thesis by (metis mult_div_mod_eq)
  qed
  moreover have "sint (pos_z p) = sint (pos_z q)"
  proof -
    have "sint (pos_z p) div 16 = sint (pos_z q) div 16"
      using arg_cong [OF assms(3), of "\<lambda>c. sint (pos2_z c)"] assms(1,2)
      by (simp only: chunk_at_def Position2D.simps in_world_def sint_div16)
    moreover have "sint (pos_z p) mod 16 = sint (pos_z q) mod 16"
      using arg_cong [OF assms(4), of "\<lambda>c. sint (pos_z c)"]
      by (simp only: local_pos_def Position.simps sint_mod16)
    ultimately show ?thesis by (metis mult_div_mod_eq)
  qed
  moreover have "sint (pos_y p) = sint (pos_y q)"
    using arg_cong [OF assms(4), of "\<lambda>c. sint (pos_y c)"] by (simp add: local_pos_def)
  ultimately show ?thesis by (intro position_sint_eqI)
qed

text \<open>Writing one block of a loaded column changes that block of the level only.\<close>

lemma level_block_update:
  assumes "in_world p" "l (chunk_at p) = Some c"
    and "\<forall>q. in_column q \<longrightarrow> column_getBlock c' q = (if q = local_pos p then Inr b else column_getBlock c q)"
    and "in_world q"
  shows "level_block (l(chunk_at p \<mapsto> c')) q = (if q = p then Inr b else level_block l q)"
proof (cases "chunk_at q = chunk_at p")
  case True
  then have "local_pos q = local_pos p \<longleftrightarrow> q = p" using level_pos_inj [OF assms(4,1)] by auto
  with True assms(2,3) local_pos_column [OF assms(4)] show ?thesis
    by (auto simp: level_block_def level_getChunkColumn_def)
next
  case False
  then show ?thesis by (auto simp: level_block_def level_getChunkColumn_def)
qed

end
