(* ===== verification/Floats.thy ===== *)
theory Floats
  imports Cubic_Prelude
begin

text \<open>
  What the code observes of its \<open>float\<close> and \<open>double\<close> values, on their IEEE bit patterns: comparison
  and conversion to integers, which are exact, and the operations that round (addition,
  multiplication, square root), which are the record \<open>fpu\<close>, an argument of the code that uses them.
\<close>

section \<open>Comparison\<close>

text \<open>A pattern as a sign and a magnitude; magnitudes of numbers are ordered like their patterns.\<close>

definition f64_magnitude :: "f64 \<Rightarrow> nat" where
  "f64_magnitude x = unat (x AND 0x7FFFFFFFFFFFFFFF)"

definition f64_key :: "f64 \<Rightarrow> int" where
  "f64_key x = (if bit x 63 then - int (f64_magnitude x) else int (f64_magnitude x))"

definition f64_nan :: "f64 \<Rightarrow> bool" where
  "f64_nan x \<longleftrightarrow> f64_magnitude x > 0x7FF0000000000000"

definition f64_eq :: "f64 \<Rightarrow> f64 \<Rightarrow> bool" where
  "f64_eq x y \<longleftrightarrow> \<not> f64_nan x \<and> \<not> f64_nan y \<and> f64_key x = f64_key y"

definition f64_less :: "f64 \<Rightarrow> f64 \<Rightarrow> bool" where
  "f64_less x y \<longleftrightarrow> \<not> f64_nan x \<and> \<not> f64_nan y \<and> f64_key x < f64_key y"

definition f64_le :: "f64 \<Rightarrow> f64 \<Rightarrow> bool" where
  "f64_le x y \<longleftrightarrow> \<not> f64_nan x \<and> \<not> f64_nan y \<and> f64_key x \<le> f64_key y"

definition f32_magnitude :: "f32 \<Rightarrow> nat" where
  "f32_magnitude x = unat (x AND 0x7FFFFFFF)"

definition f32_key :: "f32 \<Rightarrow> int" where
  "f32_key x = (if bit x 31 then - int (f32_magnitude x) else int (f32_magnitude x))"

definition f32_nan :: "f32 \<Rightarrow> bool" where
  "f32_nan x \<longleftrightarrow> f32_magnitude x > 0x7F800000"

definition f32_less :: "f32 \<Rightarrow> f32 \<Rightarrow> bool" where
  "f32_less x y \<longleftrightarrow> \<not> f32_nan x \<and> \<not> f32_nan y \<and> f32_key x < f32_key y"

definition f32_le :: "f32 \<Rightarrow> f32 \<Rightarrow> bool" where
  "f32_le x y \<longleftrightarrow> \<not> f32_nan x \<and> \<not> f32_nan y \<and> f32_key x \<le> f32_key y"

section \<open>Conversion to integers\<close>

text \<open>
  The conversion truncates towards zero. A value that does not fit the integer type, an infinity or a
  NaN is undefined behaviour. \<open>bias\<close> is the exponent at which the last bit of the significand, which
  has \<open>p\<close> explicit bits, counts one.
\<close>

definition truncate_float :: "nat \<Rightarrow> nat \<Rightarrow> bool \<Rightarrow> nat \<Rightarrow> nat \<Rightarrow> int" where
  "truncate_float p bias neg e m =
     (let mant = (if e = 0 then m else m + 2 ^ p); e' = max e 1;
          v = (if bias \<le> e' then mant * 2 ^ (e' - bias) else mant div 2 ^ (bias - e')) in
      if neg then - int v else int v)"

definition f64_to_int :: "int \<Rightarrow> int \<Rightarrow> f64 \<Rightarrow> int result" where
  "f64_to_int lo hi x =
     (let e = f64_magnitude x div 2 ^ 52; v = truncate_float 52 1075 (bit x 63) e (f64_magnitude x mod 2 ^ 52) in
      if e = 2047 \<or> v < lo \<or> hi < v then Inl (UB FloatOutOfRange) else Inr v)"

definition f32_to_int :: "int \<Rightarrow> int \<Rightarrow> f32 \<Rightarrow> int result" where
  "f32_to_int lo hi x =
     (let e = f32_magnitude x div 2 ^ 23; v = truncate_float 23 150 (bit x 31) e (f32_magnitude x mod 2 ^ 23) in
      if e = 255 \<or> v < lo \<or> hi < v then Inl (UB FloatOutOfRange) else Inr v)"

definition f64_to_i64 :: "f64 \<Rightarrow> i64 result" where
  "f64_to_i64 x = rbind (f64_to_int (- (2 ^ 63)) (2 ^ 63 - 1) x) (\<lambda>v. Inr (of_int v))"

definition f64_to_i16 :: "f64 \<Rightarrow> i16 result" where
  "f64_to_i16 x = rbind (f64_to_int (- (2 ^ 15)) (2 ^ 15 - 1) x) (\<lambda>v. Inr (of_int v))"

definition f32_to_u8 :: "f32 \<Rightarrow> byte result" where
  "f32_to_u8 x = rbind (f32_to_int 0 255 x) (\<lambda>v. Inr (of_int v))"

section \<open>Rounded operations\<close>

record fpu =
  d_add :: "f64 \<Rightarrow> f64 \<Rightarrow> f64"
  d_sub :: "f64 \<Rightarrow> f64 \<Rightarrow> f64"
  d_mul :: "f64 \<Rightarrow> f64 \<Rightarrow> f64"
  d_div :: "f64 \<Rightarrow> f64 \<Rightarrow> f64"
  d_sqrt :: "f64 \<Rightarrow> f64"
  d_of_f :: "f32 \<Rightarrow> f64"
  d_of_i :: "int \<Rightarrow> f64"
  f_of_d :: "f64 \<Rightarrow> f32"
  f_of_i :: "int \<Rightarrow> f32"
  f_add :: "f32 \<Rightarrow> f32 \<Rightarrow> f32"
  f_sub :: "f32 \<Rightarrow> f32 \<Rightarrow> f32"

section \<open>Vectors\<close>

record Vector3 =
  v3_x :: f64
  v3_y :: f64
  v3_z :: f64

definition vector3_ne :: "Vector3 \<Rightarrow> Vector3 \<Rightarrow> bool" where
  "vector3_ne a b \<longleftrightarrow> \<not> f64_eq (v3_x a) (v3_x b) \<or> \<not> f64_eq (v3_y a) (v3_y b) \<or> \<not> f64_eq (v3_z a) (v3_z b)"

text \<open>\<open>Vector2<double>::distance\<close>; \<open>pow(x, 2)\<close> is the correctly rounded square.\<close>

definition distance2 :: "fpu \<Rightarrow> Vector3 \<Rightarrow> Vector3 \<Rightarrow> f64" where
  "distance2 F a b =
     (let dx = d_sub F (v3_x b) (v3_x a); dz = d_sub F (v3_z b) (v3_z a) in
      d_sqrt F (d_add F (d_mul F dx dx) (d_mul F dz dz)))"

text \<open>The conversion rounds towards zero: of 8.5, -0.5, -16.5 and infinity, the second becomes 0.\<close>

lemma f64_to_i64_examples:
  "f64_to_i64 0x4021000000000000 = Inr 8"
  "f64_to_i64 0xBFE0000000000000 = Inr 0"
  "f64_to_i64 0xC030800000000000 = Inr (-16)"
  "f64_to_i64 0x7FF0000000000000 = Inl (UB FloatOutOfRange)"
  by (simp_all add: f64_to_i64_def f64_to_int_def f64_magnitude_def truncate_float_def Let_def and_numerals)

end
