(* ===== verification/Server_State.thy ===== *)
theory Server_State
  imports Level Client_Packets Floats
begin

text \<open>
  The objects that share state while the server runs: the clients (\<open>Client.hpp\<close>), the players
  (\<open>Player.hpp\<close>, \<open>LivingEntity.hpp\<close>, \<open>Entity.hpp\<close>), the dimension they are in (\<open>Dimension.hpp\<close>) and the
  pool that generates chunks (\<open>thread_pool/PriorityThreadPool.hpp\<close>). Objects refer to one another by
  their identifiers; a weak pointer whose object is gone is an identifier without an entry.
\<close>

section \<open>Clocks\<close>

record TickClock =
  clk_started :: bool
  clk_tickRate :: u16
  clk_tick :: u16

definition clock_start :: "TickClock \<Rightarrow> TickClock" where
  "clock_start c = c\<lparr>clk_started := True, clk_tick := 0\<rparr>"

definition clock_stop :: "TickClock \<Rightarrow> TickClock" where
  "clock_stop c = c\<lparr>clk_started := False, clk_tick := 0\<rparr>"

text \<open>\<open>tick\<close> returns whether the callback runs.\<close>

definition clock_tick :: "TickClock \<Rightarrow> TickClock \<times> bool" where
  "clock_tick c =
     (if \<not> clk_started c then (c, False)
      else
        let c1 = c\<lparr>clk_tick := clk_tick c + 1\<rparr> in
        if clk_tick c1 < clk_tickRate c1 then (c1, False)
        else (c1\<lparr>clk_tick := 0\<rparr>, True))"

section \<open>Players\<close>

datatype Gamemode = Survival | Creative | Adventure | Spectator

fun gamemode_code :: "Gamemode \<Rightarrow> byte" where
  "gamemode_code Survival = 0"
| "gamemode_code Creative = 1"
| "gamemode_code Adventure = 2"
| "gamemode_code Spectator = 3"

datatype ChunkState = Unloaded | Loading | Loaded

definition MAX_FOOD_LEVEL :: i32 where "MAX_FOOD_LEVEL = 20"
definition MIN_FOOD_LEVEL :: i32 where "MIN_FOOD_LEVEL = 0"
definition MIN_FOOD_LEVEL_FOR_REGENERATION :: i32 where "MIN_FOOD_LEVEL_FOR_REGENERATION = 18"
definition MAX_TICK_BEFORE_TIMEOUT :: int where "MAX_TICK_BEFORE_TIMEOUT = 6000"

text \<open>The constants of type \<open>float\<close>: 5, 0.1, 0.05, 0.2 and 0.1.\<close>

definition DEFAULT_FOOD_SATURATION_LEVEL :: f32 where "DEFAULT_FOOD_SATURATION_LEVEL = 0x40A00000"
definition FOOD_EXHAUSTION_SPRINTING_MULTIPLIER :: f32 where "FOOD_EXHAUSTION_SPRINTING_MULTIPLIER = 0x3DCCCCCD"
definition FOOD_EXHAUSTION_JUMP :: f32 where "FOOD_EXHAUSTION_JUMP = 0x3D4CCCCD"
definition FOOD_EXHAUSTION_SPRINTING_JUMP :: f32 where "FOOD_EXHAUSTION_SPRINTING_JUMP = 0x3E4CCCCD"
definition FOOD_EXHAUSTION_ATTACK :: f32 where "FOOD_EXHAUSTION_ATTACK = 0x3DCCCCCD"

record Player =
  pl_cli :: nat
  pl_username :: string
  pl_uuid :: u128
  pl_keepAliveId :: i64
  pl_keepAliveIgnored :: byte
  pl_heldItem :: i16
  pl_gamemode :: Gamemode
  pl_keepAliveClock :: TickClock
  pl_chunks :: "Position2D \<Rightarrow> ChunkState option"
  pl_inventory :: Inventory
  pl_containers :: "Inventory list"
  pl_foodLevel :: i32
  pl_foodSaturationLevel :: f32
  pl_foodTickTimer :: i32
  pl_foodExhaustionLevel :: f32
  pl_chatVisibility :: i32
  pl_isFlying :: bool
  pl_isOperator :: bool
  pl_isSprinting :: bool
  pl_isJumping :: bool
  pl_health :: f32
  pl_maxHealth :: f32
  pl_pos :: Vector3
  pl_lastPos :: Vector3
  pl_rot :: "byte \<times> byte"
  pl_lastRot :: "byte \<times> byte"

section \<open>Clients\<close>

datatype ClientStatus = Initial | Status | Login | Play

text \<open>
  \<open>cl_sent\<close> is what \<open>doWrite\<close> handed to \<open>Server::sendData\<close>, each packet with whether it was encrypted
  on the way.
\<close>

record Client =
  cl_isRunning :: bool
  cl_status :: ClientStatus
  cl_recvBuffer :: "byte list"
  cl_isEncrypted :: bool
  cl_resPck :: LoginSuccess
  cl_player :: "i32 option"
  cl_sent :: "(bool \<times> byte list) list"

definition doWrite :: "byte list \<Rightarrow> Client \<Rightarrow> Client" where
  "doWrite data c = c\<lparr>cl_sent := cl_sent c @ [(cl_isEncrypted c, data)]\<rparr>"

section \<open>The dimension\<close>

datatype entity = PlayerEntity i32 | ItemEntity i32 Slot Vector3

fun entity_id :: "entity \<Rightarrow> i32" where
  "entity_id (PlayerEntity i) = i"
| "entity_id (ItemEntity i _ _) = i"

record ChunkRequest =
  req_id :: i32
  req_players :: "i32 list"

text \<open>
  A job of the generation pool is its identifier and the chunk it generates. \<open>w_nextId\<close> is the
  counter of \<open>Entity\<close>'s constructor; \<open>w_age\<close>, \<open>w_time\<close> and the clock belong to \<open>World\<close>, the log to \<open>Chat\<close>.
  The players are in one dimension, the overworld, where \<open>switchToPlayState\<close> puts them.
\<close>

record world =
  w_players :: "i32 \<Rightarrow> Player option"
  w_clients :: "nat \<Rightarrow> Client option"
  w_nextId :: i32
  w_renderDistance :: byte
  w_age :: i64
  w_time :: i64
  w_timeUpdateClock :: TickClock
  w_messagesLog :: "string list"
  d_players :: "i32 list"
  d_entities :: "entity list"
  d_level :: level
  d_loading :: "Position2D \<Rightarrow> ChunkRequest option"
  pool_jobs :: "(i32 \<times> Position2D) list"
  pool_pushed :: i32

section \<open>Methods of a player\<close>

text \<open>
  A method runs on the object its \<open>this\<close> points to. \<open>upd_player\<close> changes its fields; \<open>with_player\<close>
  lets an action read them; \<open>player_send\<close> is the common body of the functions that send a packet:
  \<open>GET_CLIENT()\<close>, which returns when the client is gone, the packet, and \<open>doWrite\<close>.
\<close>

definition with_player :: "i32 \<Rightarrow> (Player \<Rightarrow> world act) \<Rightarrow> world act" where
  "with_player this f w = (case w_players w this of None \<Rightarrow> (w, Inl (UB NullDereference)) | Some p \<Rightarrow> f p w)"

definition upd_player :: "i32 \<Rightarrow> (Player \<Rightarrow> Player) \<Rightarrow> world act" where
  "upd_player this f = with_player this (\<lambda>p w. (w\<lparr>w_players := (w_players w)(this \<mapsto> f p)\<rparr>, Inr ()))"

definition with_client :: "i32 \<Rightarrow> (Client \<Rightarrow> Client result) \<Rightarrow> world act" where
  "with_client this f = with_player this (\<lambda>p w.
     case w_clients w (pl_cli p) of
       None \<Rightarrow> (w, Inr ())
     | Some c \<Rightarrow> (case f c of Inl e \<Rightarrow> (w, Inl e)
                  | Inr c' \<Rightarrow> (w\<lparr>w_clients := (w_clients w)(pl_cli p \<mapsto> c')\<rparr>, Inr ())))"

definition player_send :: "i32 \<Rightarrow> byte list result \<Rightarrow> world act" where
  "player_send this pck = with_client this (\<lambda>c. rbind pck (\<lambda>data. Inr (doWrite data c)))"

end
