(* ===== verification/Player_Sends.thy ===== *)
theory Player_Sends
  imports Server_State
begin

text \<open>
  The clientbound half of \<open>Player.cpp\<close>: the functions that build a packet and write it to the client
  of the player, and \<open>disconnect\<close>.
\<close>

section \<open>Packets passed on as they are\<close>

definition sendBlockUpdate :: "i32 \<Rightarrow> BlockUpdate \<Rightarrow> world act" where
  "sendBlockUpdate this packet = player_send this (createBlockUpdate packet)"

definition sendFeatureFlags :: "i32 \<Rightarrow> FeatureFlags \<Rightarrow> world act" where
  "sendFeatureFlags this packet = player_send this (createFeatureFlags packet)"

definition sendServerData :: "i32 \<Rightarrow> ServerData \<Rightarrow> world act" where
  "sendServerData this packet = player_send this (createServerData packet)"

definition sendLoginPlay :: "i32 \<Rightarrow> LoginPlay \<Rightarrow> world act" where
  "sendLoginPlay this packet = player_send this (createLoginPlay packet)"

definition sendPlayerInfoUpdate :: "i32 \<Rightarrow> PlayerInfoUpdate \<Rightarrow> world act" where
  "sendPlayerInfoUpdate this packet = player_send this (createPlayerInfoUpdate packet)"

definition sendPlayerInfoRemove :: "i32 \<Rightarrow> PlayerInfoRemove \<Rightarrow> world act" where
  "sendPlayerInfoRemove this packet = player_send this (createPlayerInfoRemove packet)"

definition sendSpawnEntity :: "i32 \<Rightarrow> SpawnEntity \<Rightarrow> world act" where
  "sendSpawnEntity this packet = player_send this (createSpawnEntity packet)"

definition sendSpawnPlayer :: "i32 \<Rightarrow> SpawnPlayer \<Rightarrow> world act" where
  "sendSpawnPlayer this packet = player_send this (createSpawnPlayer packet)"

definition sendEntityVelocity :: "i32 \<Rightarrow> EntityVelocity \<Rightarrow> world act" where
  "sendEntityVelocity this packet = player_send this (createEntityVelocity packet)"

definition sendUpdateTime :: "i32 \<Rightarrow> UpdateTime \<Rightarrow> world act" where
  "sendUpdateTime this packet = player_send this (createUpdateTime packet)"

definition sendChatMessageResponse :: "i32 \<Rightarrow> PlayerChatMessage \<Rightarrow> world act" where
  "sendChatMessageResponse this packet = player_send this (createPlayerChatMessage packet)"

definition sendSystemChatMessage :: "i32 \<Rightarrow> SystemChatMessage \<Rightarrow> world act" where
  "sendSystemChatMessage this packet = player_send this (createSystemChatMessage packet)"

definition sendWorldEvent :: "i32 \<Rightarrow> WorldEvent \<Rightarrow> world act" where
  "sendWorldEvent this packet = player_send this (createWorldEvent packet)"

definition sendKeepAlive :: "i32 \<Rightarrow> i64 \<Rightarrow> world act" where
  "sendKeepAlive this packet = player_send this (createKeepAlive packet)"

definition sendUpdateEntityPosition :: "i32 \<Rightarrow> UpdateEntityPosition \<Rightarrow> world act" where
  "sendUpdateEntityPosition this packet = player_send this (createUpdateEntityPosition packet)"

definition sendUpdateEntityPositionAndRotation :: "i32 \<Rightarrow> UpdateEntityPositionRotation \<Rightarrow> world act" where
  "sendUpdateEntityPositionAndRotation this packet = player_send this (createUpdateEntityPositionRotation packet)"

definition sendUpdateEntityRotation :: "i32 \<Rightarrow> UpdateEntityRotation \<Rightarrow> world act" where
  "sendUpdateEntityRotation this packet = player_send this (createUpdateEntityRotation packet)"

definition sendHeadRotation :: "i32 \<Rightarrow> HeadRotation \<Rightarrow> world act" where
  "sendHeadRotation this packet = player_send this (createHeadRotation packet)"

definition sendSetCenterChunk :: "i32 \<Rightarrow> Position2D \<Rightarrow> world act" where
  "sendSetCenterChunk this packet = player_send this (createCenterChunk packet)"

definition sendPlayerAbilities :: "i32 \<Rightarrow> PlayerAbilitiesClient \<Rightarrow> world act" where
  "sendPlayerAbilities this packet = player_send this (createPlayerAbilities packet)"

definition sendGameEvent :: "i32 \<Rightarrow> GameEvent \<Rightarrow> world act" where
  "sendGameEvent this packet = player_send this (createGameEvent packet)"

definition sendSetContainerContent :: "i32 \<Rightarrow> SetContainerContent \<Rightarrow> world act" where
  "sendSetContainerContent this packet = player_send this (createSetContainerContent packet)"

definition sendSetContainerSlot :: "i32 \<Rightarrow> SetContainerSlot \<Rightarrow> world act" where
  "sendSetContainerSlot this packet = player_send this (createSetContainerSlot packet)"

definition sendUpdateRecipes :: "i32 \<Rightarrow> UpdateRecipes \<Rightarrow> world act" where
  "sendUpdateRecipes this packet = player_send this (createUpdateRecipes packet)"

definition sendUpdateTags :: "i32 \<Rightarrow> UpdateTags \<Rightarrow> world act" where
  "sendUpdateTags this packet = player_send this (createUpdateTags packet)"

definition sendCommands :: "i32 \<Rightarrow> Commands \<Rightarrow> world act" where
  "sendCommands this packet = player_send this (createCommands packet)"

definition sendChangeDifficulty :: "i32 \<Rightarrow> ChangeDifficultyClient \<Rightarrow> world act" where
  "sendChangeDifficulty this packet = player_send this (createChangeDifficultyClient packet)"

definition sendSetHeldItem :: "i32 \<Rightarrow> SetHeldItemClient \<Rightarrow> world act" where
  "sendSetHeldItem this packet = player_send this (createSetHeldItemClient packet)"

definition sendEntityEvent :: "i32 \<Rightarrow> EntityEvent \<Rightarrow> world act" where
  "sendEntityEvent this packet = player_send this (createEntityEvent packet)"

definition sendUpdateRecipiesBook :: "i32 \<Rightarrow> UpdateRecipesBook \<Rightarrow> world act" where
  "sendUpdateRecipiesBook this packet = player_send this (createUpdateRecipesBook packet)"

definition sendInitializeWorldBorder :: "i32 \<Rightarrow> InitializeWorldBorder \<Rightarrow> world act" where
  "sendInitializeWorldBorder this packet = player_send this (createInitializeWorldBorder packet)"

definition sendSetDefaultSpawnPosition :: "i32 \<Rightarrow> SetDefaultSpawnPosition \<Rightarrow> world act" where
  "sendSetDefaultSpawnPosition this packet = player_send this (createSetDefaultSpawnPosition packet)"

definition sendSetEntityMetadata :: "i32 \<Rightarrow> SetEntityMetadata \<Rightarrow> world act" where
  "sendSetEntityMetadata this packet = player_send this (createSetEntityMetadata packet)"

definition sendUpdateAttributes :: "i32 \<Rightarrow> UpdateAttributes \<Rightarrow> world act" where
  "sendUpdateAttributes this packet = player_send this (createUpdateAttributes packet)"

definition sendUpdateAdvancements :: "i32 \<Rightarrow> UpdateAdvancements \<Rightarrow> world act" where
  "sendUpdateAdvancements this packet = player_send this (createUpdateAdvancements packet)"

definition sendSetExperience :: "i32 \<Rightarrow> SetExperience \<Rightarrow> world act" where
  "sendSetExperience this packet = player_send this (createSetExperience packet)"

section \<open>Packets built from the player\<close>

text \<open>\<open>sendSkinLayers\<close> writes the payload of packet \<open>0x4e\<close> by hand.\<close>

definition sendSkinLayers :: "i32 \<Rightarrow> i32 \<Rightarrow> world act" where
  "sendSkinLayers this entityID =
     player_send this (Inr (finalize [] (addVarInt [] entityID @ [17, 0, 0xff, 0xff]) 0x4e))"

definition sendHealth :: "i32 \<Rightarrow> world act" where
  "sendHealth this = with_player this (\<lambda>p. player_send this (createHealth
     \<lparr>Health_health = pl_health p, Health_food = pl_foodLevel p,
      Health_foodSaturation = pl_foodSaturationLevel p\<rparr>))"

definition sendSynchronizePosition :: "i32 \<Rightarrow> Vector3 \<Rightarrow> world act" where
  "sendSynchronizePosition this pos = player_send this (createSynchronizePlayerPosition
     \<lparr>SynchronizePlayerPosition_x = v3_x pos, SynchronizePlayerPosition_y = v3_y pos,
      SynchronizePlayerPosition_z = v3_z pos, SynchronizePlayerPosition_yaw = 0,
      SynchronizePlayerPosition_pitch = 0, SynchronizePlayerPosition_flags = 0x08 OR 0x10,
      SynchronizePlayerPosition_teleportId = 0, SynchronizePlayerPosition_dismountVehicle = True\<rparr>)"

text \<open>\<open>sendChunkAndLightUpdate(const ChunkColumn &)\<close>: nothing is recorded when the client is gone.\<close>

definition sendChunk :: "i32 \<Rightarrow> ChunkColumn \<Rightarrow> world act" where
  "sendChunk this chunk = with_player this (\<lambda>p w.
     case w_clients w (pl_cli p) of
       None \<Rightarrow> (w, Inr ())
     | Some c \<Rightarrow> act_then
         (player_send this (createChunkDataAndLightUpdate
           \<lparr>ChunkDataAndLightUpdate_chunkX = pos2_x (chunkPos chunk),
            ChunkDataAndLightUpdate_chunkZ = pos2_z (chunkPos chunk), ChunkDataAndLightUpdate_data = chunk\<rparr>))
         (upd_player this (\<lambda>p. p\<lparr>pl_chunks := (pl_chunks p)(chunkPos chunk \<mapsto> Loaded)\<rparr>)) w)"

definition sendUnloadChunk :: "i32 \<Rightarrow> Position2D \<Rightarrow> world act" where
  "sendUnloadChunk this pos = player_send this (createUnloadChunk pos)"

definition sendRemoveEntities :: "i32 \<Rightarrow> i32 list \<Rightarrow> world act" where
  "sendRemoveEntities this entities =
     player_send this (createRemoveEntities \<lparr>RemoveEntities_entities = entities\<rparr>)"

definition sendEntityAnimation :: "i32 \<Rightarrow> byte \<Rightarrow> i32 \<Rightarrow> world act" where
  "sendEntityAnimation this animId entityID = player_send this (createEntityAnimation animId entityID)"

definition sendSwingArm :: "i32 \<Rightarrow> bool \<Rightarrow> i32 \<Rightarrow> world act" where
  "sendSwingArm this mainHand swingerId = sendEntityAnimation this (if mainHand then 0 else 3) swingerId"

text \<open>The rotation is the one of the player that receives the packet.\<close>

definition sendTeleportEntity :: "i32 \<Rightarrow> i32 \<Rightarrow> Vector3 \<Rightarrow> world act" where
  "sendTeleportEntity this entity pos = with_player this (\<lambda>p. player_send this (createTeleportEntity
     \<lparr>TeleportEntity_entityID = entity, TeleportEntity_x = v3_x pos, TeleportEntity_y = v3_y pos,
      TeleportEntity_z = v3_z pos, TeleportEntity_yaw = fst (pl_rot p), TeleportEntity_pitch = snd (pl_rot p),
      TeleportEntity_onGround = False\<rparr>))"

definition sendCloseContainer :: "i32 \<Rightarrow> byte \<Rightarrow> world act" where
  "sendCloseContainer this containerId =
     player_send this (createCloseContainer \<lparr>CloseContainer_windowId = containerId\<rparr>)"

definition stopSound :: "i32 \<Rightarrow> byte \<Rightarrow> i32 \<Rightarrow> string \<Rightarrow> world act" where
  "stopSound this flags category name = player_send this (createStopSound
     \<lparr>StopSound_flags = flags, StopSound_source = category, StopSound_sound = name\<rparr>)"

text \<open>
  \<open>disconnect\<close>: the reason is the text the chat message serializes to. The flag is set after the
  packet was written.
\<close>

definition player_disconnect :: "i32 \<Rightarrow> string \<Rightarrow> world act" where
  "player_disconnect this reason = with_client this (\<lambda>c.
     rbind (createPlayDisconnect \<lparr>Disconnect_reason = reason\<rparr>) (\<lambda>data.
       Inr ((doWrite data c)\<lparr>cl_isRunning := False\<rparr>)))"

section \<open>Lemmas\<close>

lemmas player_acts = with_player_def upd_player_def with_client_def player_send_def act_then_def

text \<open>
  What a send can change: the packets of one client and nothing else.
\<close>

definition same_but_clients :: "world \<Rightarrow> world \<Rightarrow> bool" where
  "same_but_clients w w' \<longleftrightarrow> w' = w\<lparr>w_clients := w_clients w'\<rparr>"

lemma same_but_clients_fields:
  assumes "same_but_clients w w'"
  shows "w_players w' = w_players w" "d_players w' = d_players w" "d_level w' = d_level w"
    "d_loading w' = d_loading w" "pool_jobs w' = pool_jobs w" "pool_pushed w' = pool_pushed w"
    "d_entities w' = d_entities w" "w_nextId w' = w_nextId w" "w_renderDistance w' = w_renderDistance w"
    "w_time w' = w_time w" "w_age w' = w_age w" "w_messagesLog w' = w_messagesLog w"
  using assms unfolding same_but_clients_def by (metis world.select_convs world.surjective world.update_convs(2))+

lemma with_client_frame: "with_client this f w = (w', r) \<Longrightarrow> same_but_clients w w'"
  by (auto simp: player_acts same_but_clients_def split: option.splits sum.splits)

lemma player_send_frame: "player_send this pck w = (w', r) \<Longrightarrow> same_but_clients w w'"
  unfolding player_send_def by (rule with_client_frame)

lemma player_send_ok:
  assumes "w_players w this = Some p" and "w_clients w (pl_cli p) \<noteq> None \<Longrightarrow> pck = Inr data"
  shows "player_send this pck w =
    (w\<lparr>w_clients := (w_clients w)(pl_cli p := map_option (doWrite data) (w_clients w (pl_cli p)))\<rparr>, Inr ())"
  using assms by (cases "w_clients w (pl_cli p)") (auto simp: player_acts fun_upd_idem)

end
