(* ===== verification/Dimension.thy ===== *)
theory Dimension
  imports Player_Sends
begin

text \<open>
  \<open>Dimension.cpp\<close>, \<open>Item.cpp\<close> and the queue of \<open>thread_pool/PriorityThreadPool\<close>: the entities and
  players of a dimension, its blocks, and the requests for chunks that are not generated yet. Each
  method is one step: the code holds the mutex of what it changes.
\<close>

section \<open>The generation pool\<close>

definition pool_addJob :: "Position2D \<Rightarrow> world \<Rightarrow> world \<times> i32" where
  "pool_addJob pos w =
     (let jobId = pool_pushed w + 1 in
      (w\<lparr>pool_pushed := jobId, pool_jobs := pool_jobs w @ [(jobId, pos)]\<rparr>, jobId))"

fun remove_job :: "i32 \<Rightarrow> (i32 \<times> Position2D) list \<Rightarrow> (i32 \<times> Position2D) list" where
  "remove_job i [] = []"
| "remove_job i (j # js) = (if fst j = i then js else j # remove_job i js)"

definition pool_cancelJob :: "i32 \<Rightarrow> world \<Rightarrow> world \<times> bool" where
  "pool_cancelJob i w =
     (if \<exists>j \<in> set (pool_jobs w). fst j = i then (w\<lparr>pool_jobs := remove_job i (pool_jobs w)\<rparr>, True)
      else (w, False))"

definition pool_cancelAll :: "world \<Rightarrow> world" where
  "pool_cancelAll w = w\<lparr>pool_jobs := []\<rparr>"

text \<open>A worker takes the first of the jobs with the smallest priority.\<close>

fun least_job :: "(Position2D \<Rightarrow> int) \<Rightarrow> i32 \<times> Position2D \<Rightarrow> (i32 \<times> Position2D) list \<Rightarrow> i32 \<times> Position2D" where
  "least_job prio j [] = j"
| "least_job prio j (k # ks) = least_job prio (if prio (snd k) < prio (snd j) then k else j) ks"

text \<open>An exception that leaves the job is caught and logged.\<close>

definition pool_doJob :: "(world \<Rightarrow> Position2D \<Rightarrow> int) \<Rightarrow> (Position2D \<Rightarrow> world act) \<Rightarrow> world \<Rightarrow> world" where
  "pool_doJob prio body w =
     (case pool_jobs w of
        [] \<Rightarrow> w
      | j # js \<Rightarrow>
          let k = least_job (prio w) j (j # js) in
          fst (body (snd k) (w\<lparr>pool_jobs := remove_job (fst k) (j # js)\<rparr>)))"

section \<open>Players and entities\<close>

definition for_players :: "(i32 \<Rightarrow> world act) \<Rightarrow> world act" where
  "for_players body w = act_for (d_players w) body w"

fun find_entity :: "i32 \<Rightarrow> entity list \<Rightarrow> entity result" where
  "find_entity i [] = Inl RuntimeError"
| "find_entity i (e # es) = (if entity_id e = i then Inr e else find_entity i es)"

definition getEntityByID :: "world \<Rightarrow> i32 \<Rightarrow> entity result" where
  "getEntityByID w i = find_entity i (d_entities w)"

definition addEntity :: "entity \<Rightarrow> world act" where
  "addEntity e = act_do (\<lambda>w. w\<lparr>d_entities := d_entities w @ [e]\<rparr>)"

definition addPlayer :: "i32 \<Rightarrow> world act" where
  "addPlayer i = act_do (\<lambda>w. w\<lparr>d_players := d_players w @ [i]\<rparr>)"

definition removeEntity :: "i32 \<Rightarrow> world act" where
  "removeEntity i = act_then (act_do (\<lambda>w. w\<lparr>d_entities := filter (\<lambda>e. entity_id e \<noteq> i) (d_entities w)\<rparr>))
     (for_players (\<lambda>p. sendRemoveEntities p [i]))"

definition removePlayer :: "i32 \<Rightarrow> world act" where
  "removePlayer i = act_then (act_do (\<lambda>w. w\<lparr>d_players := filter (\<lambda>p. p \<noteq> i) (d_players w)\<rparr>))
     (for_players (\<lambda>p. sendRemoveEntities p [i]))"

definition spawn_packet :: "i32 \<Rightarrow> Player \<Rightarrow> SpawnPlayer" where
  "spawn_packet i p = \<lparr>SpawnPlayer_entityId = i, SpawnPlayer_playerUuid = pl_uuid p,
     SpawnPlayer_x = v3_x (pl_pos p), SpawnPlayer_y = v3_y (pl_pos p), SpawnPlayer_z = v3_z (pl_pos p),
     SpawnPlayer_yaw = fst (pl_rot p), SpawnPlayer_pitch = snd (pl_rot p)\<rparr>"

definition spawnPlayer :: "i32 \<Rightarrow> world act" where
  "spawnPlayer current = for_players (\<lambda>player.
     act_then
       (if player \<noteq> current then
          act_then
            (with_player current (\<lambda>c. sendSpawnPlayer player (spawn_packet current c)))
            (with_player player (\<lambda>p. sendSpawnPlayer current (spawn_packet player p)))
        else act_skip)
       (act_then (sendSkinLayers player current) (sendSkinLayers current player)))"

text \<open>\<open>EntityType::Item\<close> is 45. The identifier is widened to \<open>uint64_t\<close> with its sign.\<close>

definition spawnEntity :: "i32 \<Rightarrow> i32 \<Rightarrow> Vector3 \<Rightarrow> world act" where
  "spawnEntity i type pos = for_players (\<lambda>player. sendSpawnEntity player
     \<lparr>SpawnEntity_entityId = i, SpawnEntity_entityUuid = \<lparr>u128_most = scast i, u128_least = scast i\<rparr>,
      SpawnEntity_type = type, SpawnEntity_x = v3_x pos, SpawnEntity_y = v3_y pos, SpawnEntity_z = v3_z pos,
      SpawnEntity_pitch = 0, SpawnEntity_yaw = 0, SpawnEntity_headYaw = 0, SpawnEntity_data = 0,
      SpawnEntity_velocityX = 16, SpawnEntity_velocityY = 0, SpawnEntity_velocityZ = 0\<rparr>)"

definition updateEntityAttributes :: "UpdateAttributes \<Rightarrow> world act" where
  "updateEntityAttributes attributes = for_players (\<lambda>player. sendUpdateAttributes player attributes)"

definition addEntityMetadata :: "SetEntityMetadata \<Rightarrow> world act" where
  "addEntityMetadata metadata = for_players (\<lambda>player. sendSetEntityMetadata player metadata)"

text \<open>
  \<open>makeEntity<Item>(slot)->dropItem(pos)\<close>: a new entity at the origin, moved to its place, spawned for
  every player and followed by its metadata (index 8, type \<open>Slot\<close>).
\<close>

definition dropItem :: "Slot \<Rightarrow> Vector3 \<Rightarrow> world act" where
  "dropItem slot pos w =
     (let i = w_nextId w in
      act_then (act_then (act_then
        (act_do (\<lambda>w. w\<lparr>w_nextId := i + 1\<rparr>))
        (addEntity (ItemEntity i slot pos)))
        (spawnEntity i 45 pos))
        (addEntityMetadata \<lparr>SetEntityMetadata_entityId = i,
           SetEntityMetadata_metadata = [\<lparr>em_index = 8, em_type = 7, em_slot = slot\<rparr>]\<rparr>) w)"

section \<open>Blocks\<close>

text \<open>The remainders are brought into the range of a column.\<close>

definition wrap16 :: "i64 \<Rightarrow> i64" where
  "wrap16 v = (let r = cmod (sint v) 16 in of_int (if r < 0 then r + 16 else r))"

definition dimension_updateBlock :: "Position \<Rightarrow> i32 \<Rightarrow> world act" where
  "dimension_updateBlock position blockId w =
     (let pos = chunk_of_block (scast (pos_x position)) (scast (pos_z position)) in
      case d_level w pos of
        None \<Rightarrow> (w, Inl StdOutOfRange)
      | Some c \<Rightarrow>
          act_then
            (\<lambda>w. case column_updateBlock (position\<lparr>pos_x := wrap16 (pos_x position), pos_z := wrap16 (pos_z position)\<rparr>)
                       blockId c of
                   (c', r) \<Rightarrow> (w\<lparr>d_level := (d_level w)(pos \<mapsto> c')\<rparr>, r))
            (for_players (\<lambda>player. sendBlockUpdate player
               \<lparr>BlockUpdate_location = position, BlockUpdate_blockId = blockId\<rparr>)) w)"

section \<open>Loading chunks\<close>

definition hasChunkLoaded :: "world \<Rightarrow> Position2D \<Rightarrow> bool" where
  "hasChunkLoaded w pos = level_hasChunkColumn (d_level w) pos"

definition alive :: "world \<Rightarrow> i32 \<Rightarrow> bool" where
  "alive w i \<longleftrightarrow> w_players w i \<noteq> None"

definition loadOrGenerateChunk :: "Position2D \<Rightarrow> i32 \<Rightarrow> world \<Rightarrow> world" where
  "loadOrGenerateChunk pos player w =
     (case d_loading w pos of
        Some r \<Rightarrow>
          if list_ex (\<lambda>q. alive w q \<and> q = player) (req_players r) then w
          else w\<lparr>d_loading := (d_loading w)(pos \<mapsto> r\<lparr>req_players := req_players r @ [player]\<rparr>)\<rparr>
      | None \<Rightarrow>
          case pool_addJob pos w of
            (w1, i) \<Rightarrow> w1\<lparr>d_loading := (d_loading w1)(pos \<mapsto> \<lparr>req_id = i, req_players = [player]\<rparr>)\<rparr>)"

definition removePlayerFromLoadingChunk :: "Position2D \<Rightarrow> i32 \<Rightarrow> world \<Rightarrow> world" where
  "removePlayerFromLoadingChunk pos player w =
     (case d_loading w pos of
        None \<Rightarrow> w
      | Some r \<Rightarrow>
          let r' = r\<lparr>req_players := filter (\<lambda>q. alive w q \<and> q \<noteq> player) (req_players r)\<rparr>;
              w1 = w\<lparr>d_loading := (d_loading w)(pos \<mapsto> r')\<rparr> in
          if req_players r' = [] then
            case pool_cancelJob (req_id r') w1 of
              (w2, True) \<Rightarrow> w2\<lparr>d_loading := (d_loading w2)(pos := None)\<rparr>
            | (w2, False) \<Rightarrow> w2
          else w1)"

definition sendChunkToPlayers :: "Position2D \<Rightarrow> world act" where
  "sendChunkToPlayers pos w =
     act_then
       (act_for (case d_loading w pos of None \<Rightarrow> [] | Some r \<Rightarrow> req_players r) (\<lambda>player w.
          if alive w player then
            (case level_getChunkColumn (d_level w) pos of
               Inl e \<Rightarrow> (w, Inl e)
             | Inr c \<Rightarrow> sendChunk player c w)
          else (w, Inr ())))
       (act_do (\<lambda>w. w\<lparr>d_loading := (d_loading w)(pos := None)\<rparr>)) w"

text \<open>The job of a request; \<open>gen\<close> is the virtual \<open>generateChunk\<close> of the dimension.\<close>

definition generation_job :: "(Position2D \<Rightarrow> world act) \<Rightarrow> Position2D \<Rightarrow> world act" where
  "generation_job gen pos = act_then (gen pos)
     (\<lambda>w. if hasChunkLoaded w pos then sendChunkToPlayers pos w else (w, Inr ()))"

end
