(* ===== verification/Player_Chunks.thy ===== *)
theory Player_Chunks
  imports Dimension Client_Properties
begin

text \<open>
  The chunks a player has been sent (\<open>Player::sendChunkAndLightUpdate\<close>, \<open>_unloadChunk\<close> and
  \<open>_updateRenderedChunks\<close>): which chunks are requested and forgotten when the player moves.
\<close>

section \<open>Requesting and forgetting a chunk\<close>

definition sendChunkAndLightUpdate :: "i32 \<Rightarrow> Position2D \<Rightarrow> world act" where
  "sendChunkAndLightUpdate this pos w =
     (if \<not> hasChunkLoaded w pos then
        upd_player this (\<lambda>p. p\<lparr>pl_chunks := (pl_chunks p)(pos \<mapsto> Loading)\<rparr>) (loadOrGenerateChunk pos this w)
      else
        case level_getChunkColumn (d_level w) pos of
          Inl e \<Rightarrow> (w, Inl e)
        | Inr c \<Rightarrow> sendChunk this c w)"

definition unloadChunk :: "i32 \<Rightarrow> Position2D \<Rightarrow> world act" where
  "unloadChunk this pos = with_player this (\<lambda>p w.
     let forget = upd_player this (\<lambda>p. p\<lparr>pl_chunks := (pl_chunks p)(pos := None)\<rparr>) in
     case pl_chunks p pos of
       None \<Rightarrow> (w, Inr ())
     | Some Loading \<Rightarrow> forget (removePlayerFromLoadingChunk pos this w)
     | Some _ \<Rightarrow> act_then (sendUnloadChunk this pos) forget w)"

section \<open>Moving\<close>

definition chunk_pos :: "int \<Rightarrow> int \<Rightarrow> Position2D" where
  "chunk_pos x z = \<lparr>pos2_x = of_int x, pos2_z = of_int z\<rparr>"

text \<open>
  The cells of two nested loops, the outer one over \<open>x\<close> or over \<open>z\<close>. A loop that counts down from \<open>a\<close>
  to \<open>b\<close> runs over \<open>rev [b..a]\<close>. The bounds are computed in \<open>int\<close>; they stay in range for coordinates
  below \<open>2 ^ 30\<close>.
\<close>

definition cells_xz :: "int list \<Rightarrow> int list \<Rightarrow> (int \<times> int) list" where
  "cells_xz xs zs = concat (map (\<lambda>x. map (\<lambda>z. (x, z)) zs) xs)"

definition cells_zx :: "int list \<Rightarrow> int list \<Rightarrow> (int \<times> int) list" where
  "cells_zx zs xs = concat (map (\<lambda>z. map (\<lambda>x. (x, z)) xs) zs)"

definition unload_cells :: "int \<Rightarrow> int \<Rightarrow> int \<Rightarrow> int \<Rightarrow> int \<Rightarrow> (int \<times> int) list" where
  "unload_cells r ox oz nx nz =
     cells_xz [ox - r..min (nx - r) (ox + r + 1) - 1] [oz - r..oz + r + 1 - 1]
     @ cells_zx [oz - r..min (nz - r) (oz + r + 1) - 1] [ox - r + (nx - ox)..ox + r + 1 - 1]
     @ cells_xz (rev [max (nx + r + 1) (ox - r)..ox + r]) [oz - r..oz + r + 1 - 1]
     @ cells_zx (rev [max (nz + r + 1) (oz - r)..oz + r]) [ox - r..ox + r + 1 + (nx - ox) - 1]"

definition load_cells :: "int \<Rightarrow> int \<Rightarrow> int \<Rightarrow> int \<Rightarrow> int \<Rightarrow> (int \<times> int) list" where
  "load_cells r ox oz nx nz =
     cells_xz (rev [max (ox + r + 1) (nx - r)..nx + r]) [nz - r..nz + r + 1 - 1]
     @ cells_zx (rev [max (oz + r + 1) (nz - r)..nz + r]) [nx - r..nx + r + 1 - (nx - ox) - 1]
     @ cells_xz [nx - r..min (ox - r) (nx + r + 1) - 1] [nz - r..nz + r + 1 - 1]
     @ cells_zx [nz - r..min (oz - r) (nz + r + 1) - 1] [nx - r - (nx - ox)..nx + r + 1 - 1]"

definition updateRenderedChunks :: "i32 \<Rightarrow> Position2D \<Rightarrow> Position2D \<Rightarrow> world act" where
  "updateRenderedChunks this oldChunkPos newChunkPos w =
     (if newChunkPos = oldChunkPos then (w, Inr ())
      else
        let r = uint (w_renderDistance w); ox = sint (pos2_x oldChunkPos); oz = sint (pos2_z oldChunkPos);
            nx = sint (pos2_x newChunkPos); nz = sint (pos2_z newChunkPos) in
        act_then (sendSetCenterChunk this newChunkPos)
          (act_then
            (act_for (unload_cells r ox oz nx nz) (\<lambda>(x, z). unloadChunk this (chunk_pos x z)))
            (act_for (load_cells r ox oz nx nz) (\<lambda>(x, z). sendChunkAndLightUpdate this (chunk_pos x z)))) w)"

section \<open>The cells of a move\<close>

lemma chunk_pos_sel: "pos2_x (chunk_pos x z) = of_int x" "pos2_z (chunk_pos x z) = of_int z"
  by (simp_all add: chunk_pos_def)

definition square :: "int \<Rightarrow> int \<Rightarrow> int \<Rightarrow> (int \<times> int) set" where
  "square r x z = {x - r..x + r} \<times> {z - r..z + r}"

lemma set_cells_xz [simp]: "set (cells_xz xs zs) = set xs \<times> set zs"
  by (auto simp: cells_xz_def)

lemma set_cells_zx [simp]: "set (cells_zx zs xs) = set xs \<times> set zs"
  by (auto simp: cells_zx_def)

text \<open>Of the chunks around the old position, exactly those out of sight are forgotten.\<close>

lemma unload_cells_square:
  "square r ox oz - set (unload_cells r ox oz nx nz) = square r ox oz \<inter> square r nx nz"
  by (auto simp: square_def unload_cells_def)

text \<open>Every chunk that comes into sight is requested.\<close>

lemma load_cells_cover: "square r nx nz - square r ox oz \<subseteq> set (load_cells r ox oz nx nz)"
  by (auto simp: square_def load_cells_def)

text \<open>
  Nothing else is requested, unless the player moves up one axis and down the other.
\<close>

lemma load_cells_exact:
  assumes "0 \<le> (nx - ox) * (nz - oz)"
  shows "set (load_cells r ox oz nx nz) \<subseteq> square r nx nz"
proof -
  consider "ox \<le> nx" "oz \<le> nz" | "nx \<le> ox" "nz \<le> oz"
    using assms by (auto simp: zero_le_mult_iff)
  then show ?thesis by cases (auto simp: square_def load_cells_def)
qed

lemma view_after_move:
  assumes "0 \<le> (nx - ox) * (nz - oz)"
  shows "square r ox oz - set (unload_cells r ox oz nx nz) \<union> set (load_cells r ox oz nx nz) = square r nx nz"
  using unload_cells_square [of r ox oz nx nz] load_cells_cover [of r nx nz ox oz] load_cells_exact [OF assms, of r]
  by blast

section \<open>The effect on the player\<close>

text \<open>
  The columns of a level are ready, stored under their own position and can be sent. \<open>viewer w this K\<close>:
  the player is connected and \<open>K\<close> is the set of chunks it has or is waiting for.
\<close>

definition column_ok :: "Position2D \<Rightarrow> ChunkColumn \<Rightarrow> bool" where
  "column_ok pos c \<longleftrightarrow> isReady c \<and> chunkPos c = pos \<and> wf_column c \<and> list_all wf_nbt (heightMap c)"

definition level_ok :: "level \<Rightarrow> bool" where
  "level_ok l \<longleftrightarrow> (\<forall>pos c. l pos = Some c \<longrightarrow> column_ok pos c)"

definition viewer :: "world \<Rightarrow> i32 \<Rightarrow> Position2D set \<Rightarrow> bool" where
  "viewer w this K \<longleftrightarrow> (\<exists>p. w_players w this = Some p \<and> w_clients w (pl_cli p) \<noteq> None
     \<and> dom (pl_chunks p) = K) \<and> level_ok (d_level w)"

lemma createUnloadChunk_ok: "\<exists>b. createUnloadChunk pos = Inr b"
  by (simp add: createUnloadChunk_def create_def put_def nothrow_def)

lemma createCenterChunk_ok: "\<exists>b. createCenterChunk pos = Inr b"
  by (simp add: createCenterChunk_def create_def put_def nothrow_def)

lemma createChunk_ok:
  assumes "column_ok pos c"
  shows "\<exists>b. createChunkDataAndLightUpdate \<lparr>ChunkDataAndLightUpdate_chunkX = x,
      ChunkDataAndLightUpdate_chunkZ = z, ChunkDataAndLightUpdate_data = c\<rparr> = Inr b"
proof -
  have "wf_column c" "list_all wf_nbt (heightMap c)" using assms by (auto simp: column_ok_def)
  from addChunkColumn_ok [OF this, of "addInt (addInt [] x) z"] show ?thesis
    by (auto simp: createChunkDataAndLightUpdate_def create_def put_def nothrow_def)
qed

lemma viewer_send:
  assumes "viewer w this K" "pck = Inr b"
  shows "\<exists>w'. player_send this pck w = (w', Inr ()) \<and> viewer w' this K"
  using assms by (auto simp: player_acts viewer_def)

lemma viewer_forget:
  assumes "viewer w this K"
  shows "\<exists>w'. upd_player this (\<lambda>p. p\<lparr>pl_chunks := (pl_chunks p)(pos := None)\<rparr>) w = (w', Inr ())
    \<and> viewer w' this (K - {pos})"
  using assms by (auto simp: player_acts viewer_def)

lemma viewer_record:
  assumes "viewer w this K"
  shows "\<exists>w'. upd_player this (\<lambda>p. p\<lparr>pl_chunks := (pl_chunks p)(pos \<mapsto> st)\<rparr>) w = (w', Inr ())
    \<and> viewer w' this (insert pos K)"
  using assms by (auto simp: player_acts viewer_def)

text \<open>The requests do not touch players, clients or columns.\<close>

lemma loadOrGenerateChunk_frame:
  "viewer (loadOrGenerateChunk pos q w) this K \<longleftrightarrow> viewer w this K"
  by (auto simp: viewer_def loadOrGenerateChunk_def pool_addJob_def Let_def split: option.splits)

lemma removePlayerFromLoadingChunk_frame:
  "viewer (removePlayerFromLoadingChunk pos q w) this K \<longleftrightarrow> viewer w this K"
  by (auto simp: viewer_def removePlayerFromLoadingChunk_def pool_cancelJob_def Let_def split: option.splits)

lemma unloadChunk_viewer:
  assumes "viewer w this K"
  shows "\<exists>w'. unloadChunk this pos w = (w', Inr ()) \<and> viewer w' this (K - {pos})"
proof -
  obtain p where p: "w_players w this = Some p" "dom (pl_chunks p) = K" using assms by (auto simp: viewer_def)
  consider "pl_chunks p pos = None" | "pl_chunks p pos = Some Loading"
    | st where "pl_chunks p pos = Some st" "st \<noteq> Loading" by blast
  then show ?thesis
  proof cases
    case 1
    then have "K - {pos} = K" using p(2) by auto
    with 1 p assms show ?thesis by (simp add: unloadChunk_def with_player_def)
  next
    case 2
    with viewer_forget [OF assms [folded removePlayerFromLoadingChunk_frame [of pos this w]], of pos] p(1)
    show ?thesis by (simp add: unloadChunk_def with_player_def [of this "\<lambda>p w. _ p w"])
  next
    case 3
    obtain b where "createUnloadChunk pos = Inr b" using createUnloadChunk_ok by blast
    from viewer_send [OF assms this] obtain w1
      where w1: "sendUnloadChunk this pos w = (w1, Inr ())" "viewer w1 this K" by (auto simp: sendUnloadChunk_def)
    from viewer_forget [OF w1(2), of pos] w1(1) 3 p(1) show ?thesis
      by (cases st) (auto simp: unloadChunk_def with_player_def [of this "\<lambda>p w. _ p w"] act_then_def)
  qed
qed

lemma sendChunk_viewer:
  assumes "viewer w this K" "column_ok pos c"
  shows "\<exists>w'. sendChunk this c w = (w', Inr ()) \<and> viewer w' this (insert pos K)"
proof -
  have pos: "chunkPos c = pos" using assms(2) by (simp add: column_ok_def)
  obtain b where "createChunkDataAndLightUpdate \<lparr>ChunkDataAndLightUpdate_chunkX = pos2_x pos,
      ChunkDataAndLightUpdate_chunkZ = pos2_z pos, ChunkDataAndLightUpdate_data = c\<rparr> = Inr b"
    using createChunk_ok [OF assms(2)] by blast
  from viewer_send [OF assms(1) this] obtain w1 where w1: "player_send this
      (createChunkDataAndLightUpdate \<lparr>ChunkDataAndLightUpdate_chunkX = pos2_x pos,
        ChunkDataAndLightUpdate_chunkZ = pos2_z pos, ChunkDataAndLightUpdate_data = c\<rparr>) w = (w1, Inr ())"
      "viewer w1 this K" by blast
  from viewer_record [OF w1(2), of pos Loaded] w1(1) assms(1) show ?thesis
    by (auto simp: sendChunk_def with_player_def [of this "\<lambda>p w. _ p w"] viewer_def pos act_then_def)
qed

lemma sendChunkAndLightUpdate_viewer:
  assumes "viewer w this K"
  shows "\<exists>w'. sendChunkAndLightUpdate this pos w = (w', Inr ()) \<and> viewer w' this (insert pos K)"
proof (cases "hasChunkLoaded w pos")
  case True
  then obtain c where c: "d_level w pos = Some c"
    by (auto simp: hasChunkLoaded_def level_hasChunkColumn_def split: option.splits)
  then have "column_ok pos c" using assms by (auto simp: viewer_def level_ok_def)
  from sendChunk_viewer [OF assms this] True c show ?thesis
    by (simp add: sendChunkAndLightUpdate_def level_getChunkColumn_def)
next
  case False
  from viewer_record [OF assms [folded loadOrGenerateChunk_frame [of pos this w]], of pos Loading] False
  show ?thesis by (simp add: sendChunkAndLightUpdate_def)
qed

lemma viewer_for:
  assumes "\<And>x w K. viewer w this K \<Longrightarrow> \<exists>w'. f x w = (w', Inr ()) \<and> viewer w' this (g x K)"
    and "viewer w this K"
  shows "\<exists>w'. act_for xs f w = (w', Inr ()) \<and> viewer w' this (fold g xs K)"
  using assms(2)
proof (induction xs arbitrary: w K)
  case (Cons x xs)
  from assms(1) [OF Cons.prems, of x] obtain w1 where "f x w = (w1, Inr ())" "viewer w1 this (g x K)" by blast
  with Cons.IH show ?case by simp
qed simp

lemma fold_forget: "fold (\<lambda>x K. K - {h x}) xs K = K - h ` set xs"
  by (induction xs arbitrary: K) auto

lemma fold_record: "fold (\<lambda>x K. insert (h x) K) xs K = h ` set xs \<union> K"
  by (induction xs arbitrary: K) auto

abbreviation at_cells :: "(int \<times> int) set \<Rightarrow> Position2D set" where
  "at_cells A \<equiv> (\<lambda>(x, z). chunk_pos x z) ` A"

definition near :: "int \<Rightarrow> bool" where
  "near x \<longleftrightarrow> \<bar>x\<bar> < 2 ^ 30"

definition in_range :: "(int \<times> int) set \<Rightarrow> bool" where
  "in_range A \<longleftrightarrow> (\<forall>(x, z) \<in> A. - (2 ^ 31) \<le> x \<and> x < 2 ^ 31 \<and> - (2 ^ 31) \<le> z \<and> z < 2 ^ 31)"

lemma chunk_pos_inj:
  assumes "in_range A"
  shows "inj_on (\<lambda>(x, z). chunk_pos x z) A"
proof (rule inj_onI, clarify)
  fix x z x' z' assume a: "(x, z) \<in> A" "(x', z') \<in> A" and e: "chunk_pos x z = chunk_pos x' z'"
  have "sint (of_int x :: i32) = sint (of_int x' :: i32)" "sint (of_int z :: i32) = sint (of_int z' :: i32)"
    using arg_cong [OF e, of pos2_x] arg_cong [OF e, of pos2_z] by (simp_all add: chunk_pos_def)
  moreover have "sint (of_int x :: i32) = x" "sint (of_int x' :: i32) = x'"
      "sint (of_int z :: i32) = z" "sint (of_int z' :: i32) = z'"
    using a assms by (auto simp: in_range_def intro!: sint_of_int32)
  ultimately show "x = x' \<and> z = z'" by simp
qed

lemma cells_in_range:
  assumes "near ox" "near oz" "near nx" "near nz" "0 \<le> r" "r < 256"
  shows "in_range (square r ox oz \<union> set (unload_cells r ox oz nx nz))"
  using assms by (auto simp: in_range_def square_def unload_cells_def near_def)

lemma updateRenderedChunks_viewer:
  assumes v: "viewer w this (at_cells (square r ox oz))" and r: "r = uint (w_renderDistance w)"
    and near: "near ox" "near oz" "near nx" "near nz" and moved: "(nx, nz) \<noteq> (ox, oz)"
  shows "\<exists>w'. updateRenderedChunks this (chunk_pos ox oz) (chunk_pos nx nz) w = (w', Inr ()) \<and>
    viewer w' this (at_cells (square r ox oz \<inter> square r nx nz \<union> set (load_cells r ox oz nx nz)))"
proof -
  have s: "sint (of_int k :: i32) = k" if "near k" for k
    by (rule sint_of_int32) (use that in \<open>simp_all add: near_def\<close>)
  have r': "0 \<le> r" "r < 256" using r unsigned_less [of "w_renderDistance w", where ?'a = int] by simp_all
  have ne: "chunk_pos nx nz \<noteq> chunk_pos ox oz"
  proof
    assume "chunk_pos nx nz = chunk_pos ox oz"
    then have "sint (of_int nx :: i32) = sint (of_int ox :: i32)" "sint (of_int nz :: i32) = sint (of_int oz :: i32)"
      by (simp_all add: chunk_pos_def)
    with moved show False by (simp only: s near) simp
  qed
  obtain b where "createCenterChunk (chunk_pos nx nz) = Inr b" using createCenterChunk_ok by blast
  from viewer_send [OF v this] obtain w1 where w1: "sendSetCenterChunk this (chunk_pos nx nz) w = (w1, Inr ())"
      "viewer w1 this (at_cells (square r ox oz))" by (auto simp: sendSetCenterChunk_def)
  let ?u = "unload_cells r ox oz nx nz" and ?l = "load_cells r ox oz nx nz"
  have "\<exists>w2. act_for ?u (\<lambda>(x, z). unloadChunk this (chunk_pos x z)) w1 = (w2, Inr ())
      \<and> viewer w2 this (fold (\<lambda>(x, z) K. K - {chunk_pos x z}) ?u (at_cells (square r ox oz)))"
    by (rule viewer_for [OF _ w1(2)]) (auto intro: unloadChunk_viewer)
  then obtain w2 where w2: "act_for ?u (\<lambda>(x, z). unloadChunk this (chunk_pos x z)) w1 = (w2, Inr ())"
      "viewer w2 this (at_cells (square r ox oz) - at_cells (set ?u))"
    using fold_forget [of "\<lambda>(x, z). chunk_pos x z" ?u] by (auto simp: case_prod_beta')
  have "inj_on (\<lambda>(x, z). chunk_pos x z) (square r ox oz \<union> set ?u)"
    by (rule chunk_pos_inj [OF cells_in_range [OF near r']])
  then have diff: "at_cells (square r ox oz) - at_cells (set ?u) = at_cells (square r ox oz \<inter> square r nx nz)"
    unfolding unload_cells_square [symmetric] by (rule inj_on_image_set_diff [symmetric]) auto
  have "\<exists>w3. act_for ?l (\<lambda>(x, z). sendChunkAndLightUpdate this (chunk_pos x z)) w2 = (w3, Inr ())
      \<and> viewer w3 this (fold (\<lambda>(x, z) K. insert (chunk_pos x z) K) ?l (at_cells (square r ox oz \<inter> square r nx nz)))"
    by (rule viewer_for [OF _ w2(2) [unfolded diff]]) (auto intro: sendChunkAndLightUpdate_viewer)
  then obtain w3 where w3: "act_for ?l (\<lambda>(x, z). sendChunkAndLightUpdate this (chunk_pos x z)) w2 = (w3, Inr ())"
      "viewer w3 this (at_cells (set ?l) \<union> at_cells (square r ox oz \<inter> square r nx nz))"
    using fold_record [of "\<lambda>(x, z). chunk_pos x z" ?l] by (auto simp: case_prod_beta')
  have "updateRenderedChunks this (chunk_pos ox oz) (chunk_pos nx nz) w = (w3, Inr ())"
    using ne w1(1) w2(1) w3(1) by (simp add: updateRenderedChunks_def Let_def act_then_def chunk_pos_sel s near r)
  moreover have "viewer w3 this (at_cells (square r ox oz \<inter> square r nx nz \<union> set ?l))"
    using w3(2) by (simp add: image_Un Un_commute)
  ultimately show ?thesis by blast
qed

section \<open>Properties\<close>

text \<open>
  The chunks of a player follow it, unless it moves up one axis and down the other.
\<close>

lemma updateRenderedChunks_square:
  assumes "viewer w this (at_cells (square (uint (w_renderDistance w)) ox oz))"
    and "near ox" "near oz" "near nx" "near nz" and "0 \<le> (nx - ox) * (nz - oz)"
  shows "\<exists>w'. updateRenderedChunks this (chunk_pos ox oz) (chunk_pos nx nz) w = (w', Inr ())
    \<and> viewer w' this (at_cells (square (uint (w_renderDistance w)) nx nz))"
proof (cases "(nx, nz) = (ox, oz)")
  case True
  then show ?thesis using assms(1) by (simp add: updateRenderedChunks_def)
next
  case False
  let ?r = "uint (w_renderDistance w)"
  have "square ?r ox oz \<inter> square ?r nx nz \<union> set (load_cells ?r ox oz nx nz) = square ?r nx nz"
    using view_after_move [OF assms(6), of ?r] by (simp only: unload_cells_square)
  with updateRenderedChunks_viewer [OF assms(1) refl assms(2-5) False] show ?thesis by simp
qed

definition test_player :: Player where
  "test_player = \<lparr>pl_cli = 0, pl_username = ''a'', pl_uuid = \<lparr>u128_most = 0, u128_least = 0\<rparr>,
     pl_keepAliveId = 0, pl_keepAliveIgnored = 0, pl_heldItem = 0, pl_gamemode = Survival,
     pl_keepAliveClock = \<lparr>clk_started = True, clk_tickRate = 200, clk_tick = 0\<rparr>,
     pl_chunks = Map.empty, pl_inventory = newInventory, pl_containers = [],
     pl_foodLevel = 16, pl_foodSaturationLevel = DEFAULT_FOOD_SATURATION_LEVEL, pl_foodTickTimer = 0,
     pl_foodExhaustionLevel = 0, pl_chatVisibility = 0, pl_isFlying = True, pl_isOperator = False,
     pl_isSprinting = False, pl_isJumping = False, pl_health = 0x41A00000, pl_maxHealth = 0x41A00000,
     pl_pos = \<lparr>v3_x = 0, v3_y = 0, v3_z = 0\<rparr>, pl_lastPos = \<lparr>v3_x = 0, v3_y = 0, v3_z = 0\<rparr>,
     pl_rot = (0, 0), pl_lastRot = (0, 0)\<rparr>"

definition test_client :: Client where
  "test_client = \<lparr>cl_isRunning = True, cl_status = Play, cl_recvBuffer = [], cl_isEncrypted = False,
     cl_resPck = \<lparr>LoginSuccess_uuid = \<lparr>u128_most = 0, u128_least = 0\<rparr>, LoginSuccess_username = ''a'',
       LoginSuccess_properties = []\<rparr>, cl_player = Some 0, cl_sent = []\<rparr>"

definition test_world :: "byte \<Rightarrow> (Position2D \<Rightarrow> ChunkState option) \<Rightarrow> world" where
  "test_world r K = \<lparr>w_players = [0 \<mapsto> test_player\<lparr>pl_chunks := K\<rparr>], w_clients = [0 \<mapsto> test_client],
     w_nextId = 1, w_renderDistance = r, w_age = 0, w_time = 0,
     w_timeUpdateClock = \<lparr>clk_started = True, clk_tickRate = 20, clk_tick = 0\<rparr>, w_messagesLog = [], d_players = [0], d_entities = [], d_level = Map.empty,
     d_loading = Map.empty, pool_jobs = [], pool_pushed = 0\<rparr>"

lemma test_world_viewer: "viewer (test_world r K) 0 (dom K)"
  by (simp add: viewer_def test_world_def test_player_def level_ok_def)



end
