(* ===== verification/Dimension_Properties.thy ===== *)
theory Dimension_Properties
  imports Player_Chunks
begin

text \<open>
  What the operations of a dimension guarantee: a block update changes one block of the level and is
  announced to every player, and every chunk a connected player waits for is delivered.
\<close>

section \<open>Broadcasts\<close>

definition client_of :: "world \<Rightarrow> i32 \<Rightarrow> nat" where
  "client_of w i = pl_cli (the (w_players w i))"

definition append_sent :: "nat \<Rightarrow> byte list \<Rightarrow> Client \<Rightarrow> Client" where
  "append_sent n data c = c\<lparr>cl_sent := cl_sent c @ replicate n (cl_isEncrypted c, data)\<rparr>"

lemma append_sent_0 [simp]: "append_sent 0 data = id"
  by (auto simp: append_sent_def)

lemma append_sent_doWrite: "append_sent n data (doWrite data c) = append_sent (Suc n) data c"
  by (simp add: append_sent_def doWrite_def)

text \<open>Each client receives the packet once for each of the listed players that is its own.\<close>

lemma send_all:
  assumes "\<forall>i \<in> set is. w_players w i \<noteq> None"
  shows "act_for is (\<lambda>i. player_send i (Inr data)) w =
    (w\<lparr>w_clients := \<lambda>k. map_option (append_sent (count_list (map (client_of w) is) k) data) (w_clients w k)\<rparr>, Inr ())"
  using assms
proof (induction "is" arbitrary: w)
  case Nil
  show ?case by (simp add: id_def option.map_ident)
next
  case (Cons i "is")
  then obtain p where p: "w_players w i = Some p" by auto
  let ?w = "w\<lparr>w_clients := (w_clients w)(pl_cli p := map_option (doWrite data) (w_clients w (pl_cli p)))\<rparr>"
  have send: "player_send i (Inr data) w = (?w, Inr ())" by (rule player_send_ok [OF p]) simp
  have cw: "client_of ?w = client_of w" by (auto simp: client_of_def)
  have ih: "act_for is (\<lambda>i. player_send i (Inr data)) ?w =
      (?w\<lparr>w_clients := \<lambda>k. map_option (append_sent (count_list (map (client_of w) is) k) data) (w_clients ?w k)\<rparr>, Inr ())"
    unfolding cw [symmetric] using Cons.prems by (intro Cons.IH) simp
  have "(\<lambda>k. map_option (append_sent (count_list (map (client_of w) is) k) data) (w_clients ?w k)) =
      (\<lambda>k. map_option (append_sent (count_list (map (client_of w) (i # is)) k) data) (w_clients w k))"
    by (auto simp: fun_eq_iff append_sent_doWrite option.map_comp comp_def client_of_def p)
  with send ih show ?case by simp
qed

section \<open>Block updates\<close>

lemma wrap16_mod: "wrap16 v = of_int (sint v mod 16)"
proof (cases "sint v < 0")
  case True
  define a where "a = - sint v"
  have "cmod (sint v) 16 = - (a mod 16)"
    using True by (simp add: cmod_def cdiv_def a_def minus_mult_div_eq_mod [symmetric])
  moreover have "sint v mod 16 = (if a mod 16 = 0 then 0 else 16 - a mod 16)"
    by (simp add: a_def zmod_zminus1_eq_if [of "- sint v" 16, simplified])
  moreover have "0 \<le> a mod 16" by simp
  ultimately show ?thesis unfolding wrap16_def Let_def by (smt (verit))
qed (simp add: wrap16_def cmod_nonneg Let_def)

lemma wrapped_pos: "pos\<lparr>pos_x := wrap16 (pos_x pos), pos_z := wrap16 (pos_z pos)\<rparr> = local_pos pos"
  by (simp add: wrap16_mod local_pos_def)

lemma createBlockUpdate_ok: "\<exists>b. createBlockUpdate p = Inr b"
  by (simp add: createBlockUpdate_def create_def put_def nothrow_def)

lemma dimension_updateBlock_ok:
  assumes pos: "in_world pos" and c: "d_level w (chunk_at pos) = Some c" and inv: "column_inv S c"
    and S: "finite S" "card S \<le> 2 ^ 15" "b \<in> S" and players: "\<forall>i \<in> set (d_players w). w_players w i \<noteq> None"
    and pkt: "createBlockUpdate \<lparr>BlockUpdate_location = pos, BlockUpdate_blockId = b\<rparr> = Inr pkt"
  shows "\<exists>c'. column_inv S c' \<and> dimension_updateBlock pos b w =
      (w\<lparr>d_level := (d_level w)(chunk_at pos \<mapsto> c'),
         w_clients := \<lambda>k. map_option (append_sent (count_list (map (client_of w) (d_players w)) k) pkt) (w_clients w k)\<rparr>,
       Inr ())
    \<and> (\<forall>q. in_world q \<longrightarrow> level_block ((d_level w)(chunk_at pos \<mapsto> c')) q
         = (if q = pos then Inr b else level_block (d_level w) q))"
proof -
  obtain c' where c': "column_updateBlock (local_pos pos) b c = (c', Inr ())" "column_inv S c'"
      "\<forall>q. in_column q \<longrightarrow> column_getBlock c' q = (if q = local_pos pos then Inr b else column_getBlock c q)"
    using column_updateBlock_inv [OF inv S local_pos_column [OF pos]] by blast
  let ?w = "w\<lparr>d_level := (d_level w)(chunk_at pos \<mapsto> c')\<rparr>"
  have "client_of ?w = client_of w" by (auto simp: client_of_def)
  with send_all [of "d_players w" ?w pkt] players
  have "for_players (\<lambda>player. sendBlockUpdate player \<lparr>BlockUpdate_location = pos, BlockUpdate_blockId = b\<rparr>) ?w =
      (?w\<lparr>w_clients := \<lambda>k. map_option (append_sent (count_list (map (client_of w) (d_players w)) k) pkt) (w_clients w k)\<rparr>, Inr ())"
    by (simp add: for_players_def sendBlockUpdate_def pkt)
  then show ?thesis
    using c' c level_block_update [OF pos, where l = "d_level w" and c = c and c' = c' and b = b]
    by (auto simp: dimension_updateBlock_def chunk_of_block_eq [OF pos] wrapped_pos act_then_def intro!: exI [of _ c'])
qed

section \<open>Properties\<close>

text \<open>C17: a dimension refines an array of blocks over all positions of its loaded columns, negative ones
  included: \<open>updateBlock\<close> changes that block and no other, and each client is sent the block update
  once for every player it has in the dimension.\<close>

theorem dimension_refines_array:
  assumes "in_world pos" and "d_level w (chunk_at pos) = Some c" and "column_inv S c"
    and "finite S" "card S \<le> 2 ^ 15" "b \<in> S" and "\<forall>i \<in> set (d_players w). w_players w i \<noteq> None"
  shows "\<exists>w' pkt. dimension_updateBlock pos b w = (w', Inr ())
    \<and> createBlockUpdate \<lparr>BlockUpdate_location = pos, BlockUpdate_blockId = b\<rparr> = Inr pkt
    \<and> (\<forall>q. in_world q \<longrightarrow> level_block (d_level w') q = (if q = pos then Inr b else level_block (d_level w) q))
    \<and> (\<forall>k. w_clients w' k =
         map_option (append_sent (count_list (map (client_of w) (d_players w)) k) pkt) (w_clients w k))"
proof -
  obtain pkt where pkt: "createBlockUpdate \<lparr>BlockUpdate_location = pos, BlockUpdate_blockId = b\<rparr> = Inr pkt"
    using createBlockUpdate_ok by blast
  from dimension_updateBlock_ok [OF assms pkt] pkt show ?thesis by auto
qed

theorem dimension_refines_array_witness:
  "\<exists>c w'. newChunkColumn 0 (chunk_pos (-1) 0) = Inr c \<and>
     dimension_updateBlock (mkpos (-1) 5 0) 7 ((test_world 2 Map.empty)\<lparr>d_level := [chunk_pos (-1) 0 \<mapsto> c]\<rparr>) = (w', Inr ())
     \<and> level_block (d_level w') (mkpos (-1) 5 0) = Inr 7"
proof -
  obtain c where c: "newChunkColumn 0 (chunk_pos (-1) 0) = Inr c" "column_inv {0} c" using newChunkColumn_ok by blast
  let ?w = "(test_world 2 Map.empty)\<lparr>d_level := [chunk_pos (-1) 0 \<mapsto> c]\<rparr>"
  have pos: "in_world (mkpos (-1) 5 0)" by (simp add: in_world_def mkpos_def)
  have "chunk_at (mkpos (-1) 5 0) = chunk_pos (-1) 0" by (simp add: chunk_at_def mkpos_def chunk_pos_def)
  then have "d_level ?w (chunk_at (mkpos (-1) 5 0)) = Some c" by simp
  from dimension_refines_array [OF pos this, of "{0, 7}" 7] column_inv_mono [OF c(2), of "{0, 7}"] pos c(1)
  show ?thesis by (auto simp: test_world_def)
qed

end
