(* ===== verification/Chunk_Delivery.thy ===== *)
theory Chunk_Delivery
  imports Dimension_Properties
begin

text \<open>
  The protocol between players, the requests of a dimension and the jobs of the generation pool: a
  player that waits for a chunk is on the list of a request, the request has a job in the queue, and
  running the jobs delivers every chunk. The generator is an interface, the locale \<open>chunk_generator\<close>,
  which \<open>default/Overworld.cpp\<close> implements.
\<close>

section \<open>Generating a chunk of the overworld\<close>

text \<open>
  \<open>isChunkLoaded\<close> is \<open>Persistence::isChunkLoaded\<close>, which reads the saved regions and tells whether the
  chunk came from there; \<open>gen\<close> is \<open>ChunkColumn::generate\<close> with the types of the world.
\<close>

definition overworld_generateChunk :: "(Position2D \<Rightarrow> world \<Rightarrow> world \<times> bool) \<Rightarrow> bool \<Rightarrow> ChunkColumn act \<Rightarrow> i64 \<Rightarrow>
    Position2D \<Rightarrow> world act" where
  "overworld_generateChunk isChunkLoaded enableGeneration gen t pos w =
     (case isChunkLoaded pos w of
        (w1, True) \<Rightarrow> (w1, Inr ())
      | (w1, False) \<Rightarrow>
          (case newChunkColumn t pos of
             Inl e \<Rightarrow> (w1, Inl e)
           | Inr c \<Rightarrow>
               let l = level_addChunkColumn pos c (d_level w1) in
               if enableGeneration then
                 (case gen (the (l pos)) of (c', r) \<Rightarrow> (w1\<lparr>d_level := l(pos \<mapsto> c')\<rparr>, r))
               else (w1\<lparr>d_level := l\<rparr>, Inr ())))"

section \<open>The invariant\<close>

definition connected :: "world \<Rightarrow> Player \<Rightarrow> bool" where
  "connected w p \<longleftrightarrow> w_clients w (pl_cli p) \<noteq> None"

definition requests_ok :: "world \<Rightarrow> bool" where
  "requests_ok w \<longleftrightarrow>
     (\<forall>pos r. d_loading w pos = Some r \<longrightarrow> (req_id r, pos) \<in> set (pool_jobs w) \<and> d_level w pos = None)
   \<and> (\<forall>j pos. (j, pos) \<in> set (pool_jobs w) \<longrightarrow> (\<exists>r. d_loading w pos = Some r \<and> req_id r = j))
   \<and> distinct (map fst (pool_jobs w)) \<and> (\<forall>j \<in> fst ` set (pool_jobs w). unat j \<le> unat (pool_pushed w))"

definition waiting_ok :: "world \<Rightarrow> bool" where
  "waiting_ok w \<longleftrightarrow> (\<forall>i p pos. w_players w i = Some p \<longrightarrow> connected w p \<longrightarrow> pl_chunks p pos = Some Loading \<longrightarrow>
     (\<exists>r. d_loading w pos = Some r \<and> i \<in> set (req_players r)))"

definition loading_inv :: "world \<Rightarrow> bool" where
  "loading_inv w \<longleftrightarrow> level_ok (d_level w) \<and> requests_ok w \<and> waiting_ok w"

lemma set_remove_job:
  "distinct (map fst js) \<Longrightarrow> set (remove_job i js) = {j \<in> set js. fst j \<noteq> i}"
  by (induction js) (auto intro: rev_image_eqI)

lemma distinct_remove_job: "distinct (map fst js) \<Longrightarrow> distinct (map fst (remove_job i js))"
proof (induction js)
  case (Cons j js)
  then show ?case using set_remove_job [of js i] by (auto simp: image_iff)
qed simp

lemma length_remove_job: "(i, pos) \<in> set js \<Longrightarrow> length (remove_job i js) = length js - 1"
proof (induction js)
  case (Cons j js)
  then show ?case using length_pos_if_in_set [of "(i, pos)" js] by auto
qed simp

lemma least_job_in: "least_job prio j js \<in> insert j (set js)"
proof (induction js arbitrary: j)
  case (Cons k ks)
  show ?case using Cons.IH [of "if prio (snd k) < prio (snd j) then k else j"] by (auto split: if_splits)
qed simp

section \<open>Sending a chunk to the waiting players\<close>

definition only_people :: "world \<Rightarrow> world \<Rightarrow> bool" where
  "only_people w w' \<longleftrightarrow> w_nextId w' = w_nextId w \<and> w_renderDistance w' = w_renderDistance w
     \<and> d_players w' = d_players w \<and> d_entities w' = d_entities w \<and> d_level w' = d_level w
     \<and> d_loading w' = d_loading w \<and> pool_jobs w' = pool_jobs w \<and> pool_pushed w' = pool_pushed w"

lemma only_people_fields:
  assumes "only_people w w'"
  shows "d_level w' = d_level w" "d_loading w' = d_loading w" "pool_jobs w' = pool_jobs w"
    "pool_pushed w' = pool_pushed w"
  using assms by (auto simp: only_people_def)

lemma only_people_trans: "only_people w w1 \<Longrightarrow> only_people w1 w2 \<Longrightarrow> only_people w w2"
  by (simp add: only_people_def)

lemma only_people_refl [simp]: "only_people w w"
  by (simp add: only_people_def)

lemma sendChunk_effect:
  assumes "w_players w i = Some p" "column_ok pos c"
  shows "\<exists>w'. sendChunk i c w = (w', Inr ()) \<and> only_people w w'
    \<and> w_players w' = (if connected w p then (w_players w)(i \<mapsto> p\<lparr>pl_chunks := (pl_chunks p)(pos \<mapsto> Loaded)\<rparr>) else w_players w)
    \<and> (\<forall>k. w_clients w' k = None \<longleftrightarrow> w_clients w k = None)"
proof -
  obtain b where "createChunkDataAndLightUpdate \<lparr>ChunkDataAndLightUpdate_chunkX = pos2_x pos,
      ChunkDataAndLightUpdate_chunkZ = pos2_z pos, ChunkDataAndLightUpdate_data = c\<rparr> = Inr b"
    using createChunk_ok [OF assms(2)] by blast
  moreover have "chunkPos c = pos" using assms(2) by (simp add: column_ok_def)
  ultimately show ?thesis using assms(1)
    by (cases "w_clients w (pl_cli p)")
      (auto simp: sendChunk_def player_acts connected_def only_people_def)
qed

definition deliver :: "world \<Rightarrow> i32 set \<Rightarrow> Position2D \<Rightarrow> i32 \<Rightarrow> Player option" where
  "deliver w I pos i = map_option (\<lambda>p. if i \<in> I \<and> connected w p
     then p\<lparr>pl_chunks := (pl_chunks p)(pos \<mapsto> Loaded)\<rparr> else p) (w_players w i)"

lemma deliver_all:
  assumes "d_level w pos = Some c" "column_ok pos c"
  shows "\<exists>w'. act_for is (\<lambda>player w. if alive w player then
            (case level_getChunkColumn (d_level w) pos of Inl e \<Rightarrow> (w, Inl e) | Inr c \<Rightarrow> sendChunk player c w)
          else (w, Inr ())) w = (w', Inr ())
    \<and> only_people w w'
    \<and> w_players w' = deliver w (set is) pos \<and> (\<forall>k. w_clients w' k = None \<longleftrightarrow> w_clients w k = None)"
  using assms(1)
proof (induction "is" arbitrary: w)
  case Nil
  show ?case by (auto simp: deliver_def option.map_ident fun_eq_iff)
next
  case (Cons i "is")
  show ?case
  proof (cases "w_players w i")
    case None
    with Cons.IH [OF Cons.prems] obtain w' where w': "act_for is (\<lambda>player w. if alive w player then
            (case level_getChunkColumn (d_level w) pos of Inl e \<Rightarrow> (w, Inl e) | Inr c \<Rightarrow> sendChunk player c w)
          else (w, Inr ())) w = (w', Inr ())" "only_people w w'"
        "w_players w' = deliver w (set is) pos" "\<forall>k. w_clients w' k = None \<longleftrightarrow> w_clients w k = None" by blast
    moreover have "deliver w (set is) pos = deliver w (set (i # is)) pos"
    proof (rule ext)
      fix k show "deliver w (set is) pos k = deliver w (set (i # is)) pos k"
        using None by (cases "k = i") (simp_all add: deliver_def)
    qed
    ultimately show ?thesis using None by (simp add: alive_def)
  next
    case (Some p)
    from sendChunk_effect [OF this assms(2)] obtain w1 where w1: "sendChunk i c w = (w1, Inr ())"
        "only_people w w1"
        "w_players w1 = (if connected w p then (w_players w)(i \<mapsto> p\<lparr>pl_chunks := (pl_chunks p)(pos \<mapsto> Loaded)\<rparr>) else w_players w)"
        "\<forall>k. w_clients w1 k = None \<longleftrightarrow> w_clients w k = None" by blast
    have l: "d_level w1 = d_level w" using w1(2) by (rule only_people_fields)
    with Cons.IH [of w1] Cons.prems obtain w' where w': "act_for is (\<lambda>player w. if alive w player then
            (case level_getChunkColumn (d_level w) pos of Inl e \<Rightarrow> (w, Inl e) | Inr c \<Rightarrow> sendChunk player c w)
          else (w, Inr ())) w1 = (w', Inr ())" "only_people w1 w'"
        "w_players w' = deliver w1 (set is) pos" "\<forall>k. w_clients w' k = None \<longleftrightarrow> w_clients w1 k = None" by auto
    have "deliver w1 (set is) pos = deliver w (set (i # is)) pos"
    proof (rule ext)
      fix k show "deliver w1 (set is) pos k = deliver w (set (i # is)) pos k"
        using w1(3,4) Some by (cases "k = i") (auto simp: deliver_def connected_def)
    qed
    moreover have "only_people w w'"
      using w1(2) w'(2) by (rule only_people_trans)
    ultimately show ?thesis using w' w1 Some Cons.prems by (simp add: alive_def level_getChunkColumn_def)
  qed
qed

section \<open>Steps keep the invariant\<close>

lemma waiting_okD:
  "waiting_ok w \<Longrightarrow> w_players w i = Some p \<Longrightarrow> connected w p \<Longrightarrow> pl_chunks p pos = Some Loading \<Longrightarrow>
    \<exists>r. d_loading w pos = Some r \<and> i \<in> set (req_players r)"
  unfolding waiting_ok_def by blast

lemma requests_okD:
  assumes "requests_ok w"
  shows "d_loading w pos = Some r \<Longrightarrow> (req_id r, pos) \<in> set (pool_jobs w)"
    "d_loading w pos = Some r \<Longrightarrow> d_level w pos = None"
    "(j, pos) \<in> set (pool_jobs w) \<Longrightarrow> \<exists>r. d_loading w pos = Some r \<and> req_id r = j"
    "distinct (map fst (pool_jobs w))"
    "j \<in> fst ` set (pool_jobs w) \<Longrightarrow> unat j \<le> unat (pool_pushed w)"
  using assms unfolding requests_ok_def by blast+

lemma requests_okI:
  assumes "\<And>pos r. d_loading w pos = Some r \<Longrightarrow> (req_id r, pos) \<in> set (pool_jobs w) \<and> d_level w pos = None"
    "\<And>j pos. (j, pos) \<in> set (pool_jobs w) \<Longrightarrow> \<exists>r. d_loading w pos = Some r \<and> req_id r = j"
    "distinct (map fst (pool_jobs w))"
    "\<And>j pos. (j, pos) \<in> set (pool_jobs w) \<Longrightarrow> unat j \<le> unat (pool_pushed w)"
  shows "requests_ok w"
  using assms unfolding requests_ok_def by (metis (no_types) imageE prod.collapse)

text \<open>A change of what player \<open>i\<close> knows about chunk \<open>pos\<close>.\<close>

lemma waiting_ok_upd:
  assumes w: "waiting_ok w" and p: "w_players w i = Some p" "pl_cli p' = pl_cli p"
    and w': "w_players w' = (w_players w)(i \<mapsto> p')" "\<forall>k. w_clients w' k = None \<longleftrightarrow> w_clients w k = None"
    and keep: "\<And>q k r. d_loading w q = Some r \<Longrightarrow> k \<in> set (req_players r) \<Longrightarrow> alive w k \<Longrightarrow> (q, k) \<noteq> (pos, i) \<Longrightarrow>
      \<exists>r'. d_loading w' q = Some r' \<and> k \<in> set (req_players r')"
    and other: "\<And>q. q \<noteq> pos \<Longrightarrow> pl_chunks p' q = pl_chunks p q"
    and here: "pl_chunks p' pos = Some Loading \<Longrightarrow> \<exists>r. d_loading w' pos = Some r \<and> i \<in> set (req_players r)"
  shows "waiting_ok w'"
  unfolding waiting_ok_def
proof (intro allI impI)
  fix k p0 q
  assume k: "w_players w' k = Some p0" "connected w' p0" "pl_chunks p0 q = Some Loading"
  show "\<exists>r. d_loading w' q = Some r \<and> k \<in> set (req_players r)"
  proof (cases "(q, k) = (pos, i)")
    case True
    then show ?thesis using k(1,3) w'(1) here by auto
  next
    case False
    then obtain p1 where p1: "w_players w k = Some p1" "connected w p1" "pl_chunks p1 q = Some Loading"
      using k w' p other by (cases "k = i") (auto simp: connected_def)
    from waiting_okD [OF w this] obtain r where "d_loading w q = Some r" "k \<in> set (req_players r)" by blast
    with keep [OF this _ False] p1(1) show ?thesis by (simp add: alive_def)
  qed
qed

lemma waiting_ok_same:
  assumes "waiting_ok w" "w_players w' = w_players w" "\<forall>k. w_clients w' k = None \<longleftrightarrow> w_clients w k = None"
    "d_loading w' = d_loading w"
  shows "waiting_ok w'"
  using assms by (simp add: waiting_ok_def connected_def)

text \<open>A request: the chunk is sent at once, or the player waits for it.\<close>

lemma load_requests:
  assumes req: "requests_ok w" and none: "d_level w pos = None" and room: "pool_pushed w + 1 \<noteq> 0"
  shows "requests_ok (loadOrGenerateChunk pos i w)"
proof (cases "d_loading w pos")
  case None
  have u: "unat (pool_pushed w + 1) = Suc (unat (pool_pushed w))" using room unatSuc [of "pool_pushed w"] by (simp add: add.commute)
  then have new: "pool_pushed w + 1 \<notin> fst ` set (pool_jobs w)" using requests_okD(5) [OF req, of "pool_pushed w + 1"] by auto
  have "\<forall>j. (j, pos) \<notin> set (pool_jobs w)" using requests_okD(3) [OF req, of _ pos] None by auto
  with req new None none u show ?thesis unfolding requests_ok_def
    by (auto simp: loadOrGenerateChunk_def pool_addJob_def Let_def image_iff le_SucI)
next
  case (Some r)
  have "req_id r = j" if "(j, pos) \<in> set (pool_jobs w)" for j using requests_okD(3) [OF req that] Some by auto
  with req Some show ?thesis unfolding requests_ok_def by (auto simp: loadOrGenerateChunk_def)
qed

lemma load_frame:
  "w_players (loadOrGenerateChunk pos i w) = w_players w" "w_clients (loadOrGenerateChunk pos i w) = w_clients w"
  "d_level (loadOrGenerateChunk pos i w) = d_level w"
  by (auto simp: loadOrGenerateChunk_def pool_addJob_def Let_def split: option.splits)

lemma load_waits:
  "\<exists>r. d_loading (loadOrGenerateChunk pos i w) pos = Some r \<and> i \<in> set (req_players r)"
  "d_loading w q = Some r \<Longrightarrow> k \<in> set (req_players r) \<Longrightarrow>
    \<exists>r'. d_loading (loadOrGenerateChunk pos i w) q = Some r' \<and> k \<in> set (req_players r')"
  by (auto simp: loadOrGenerateChunk_def pool_addJob_def Let_def list_ex_iff split: option.splits)

lemma request_step:
  assumes inv: "loading_inv w" and p: "w_players w i = Some p" and room: "pool_pushed w + 1 \<noteq> 0"
  shows "\<exists>w'. sendChunkAndLightUpdate i pos w = (w', Inr ()) \<and> loading_inv w'"
proof (cases "hasChunkLoaded w pos")
  case True
  then obtain c where c: "d_level w pos = Some c" "column_ok pos c"
    using inv by (auto simp: hasChunkLoaded_def level_hasChunkColumn_def loading_inv_def level_ok_def split: option.splits)
  from sendChunk_effect [OF p c(2)] obtain w' where w': "sendChunk i c w = (w', Inr ())" "only_people w w'"
      "w_players w' = (if connected w p then (w_players w)(i \<mapsto> p\<lparr>pl_chunks := (pl_chunks p)(pos \<mapsto> Loaded)\<rparr>) else w_players w)"
      "\<forall>k. w_clients w' k = None \<longleftrightarrow> w_clients w k = None" by blast
  note same = only_people_fields [OF w'(2)]
  have w: "waiting_ok w" using inv by (simp add: loading_inv_def)
  have "waiting_ok w'"
  proof (cases "connected w p")
    case True
    then show ?thesis using w'(3,4)
      by (intro waiting_ok_upd [OF w p, where p' = "p\<lparr>pl_chunks := (pl_chunks p)(pos \<mapsto> Loaded)\<rparr>" and pos = pos]) (auto simp: same)
  qed (use w w'(3,4) same(2) in \<open>auto intro: waiting_ok_same\<close>)
  then have "loading_inv w'" using inv by (simp add: loading_inv_def requests_ok_def same)
  with True c(1) w'(1) show ?thesis by (simp add: sendChunkAndLightUpdate_def level_getChunkColumn_def)
next
  case False
  then have none: "d_level w pos = None"
    using inv by (auto simp: hasChunkLoaded_def level_hasChunkColumn_def loading_inv_def level_ok_def column_ok_def split: option.splits)
  let ?p = "p\<lparr>pl_chunks := (pl_chunks p)(pos \<mapsto> Loading)\<rparr>"
  let ?w = "(loadOrGenerateChunk pos i w)\<lparr>w_players := (w_players w)(i \<mapsto> ?p)\<rparr>"
  have w: "waiting_ok w" using inv by (simp add: loading_inv_def)
  have "waiting_ok ?w"
    by (rule waiting_ok_upd [OF w p, where p' = ?p and pos = pos])
      (use load_waits in \<open>auto simp: load_frame\<close>)
  moreover have "requests_ok ?w" using load_requests [OF _ none room] inv by (simp add: loading_inv_def requests_ok_def)
  ultimately have "loading_inv ?w" using inv by (simp add: loading_inv_def load_frame)
  moreover have "sendChunkAndLightUpdate i pos w = (?w, Inr ())"
    using False p by (simp add: sendChunkAndLightUpdate_def upd_player_def with_player_def load_frame)
  ultimately show ?thesis by blast
qed

text \<open>Forgetting a chunk: when nobody else waits for it, the job is cancelled with the request.\<close>

lemma removePlayer_frame:
  "w_players (removePlayerFromLoadingChunk pos i w) = w_players w"
  "w_clients (removePlayerFromLoadingChunk pos i w) = w_clients w"
  "d_level (removePlayerFromLoadingChunk pos i w) = d_level w"
  by (auto simp: removePlayerFromLoadingChunk_def pool_cancelJob_def Let_def split: option.splits)

lemma removePlayer_waits:
  assumes "d_loading w q = Some r" "k \<in> set (req_players r)" "alive w k" "(q, k) \<noteq> (pos, i)"
  shows "\<exists>r'. d_loading (removePlayerFromLoadingChunk pos i w) q = Some r' \<and> k \<in> set (req_players r')"
  using assms by (auto simp: removePlayerFromLoadingChunk_def pool_cancelJob_def Let_def filter_empty_conv
      split: option.splits)

lemma removePlayer_requests:
  assumes req: "requests_ok w"
  shows "requests_ok (removePlayerFromLoadingChunk pos i w)"
proof (cases "d_loading w pos")
  case None
  then show ?thesis using req by (simp add: removePlayerFromLoadingChunk_def)
next
  case (Some r0)
  note d = requests_okD(4) [OF req] and j = requests_okD(1) [OF req Some]
  have same: "q = pos" if "(req_id r0, q) \<in> set (pool_jobs w)" for q
    using d j that by (metis eq_key_imp_eq_value)
  have own: "k = req_id r0" if "(k, pos) \<in> set (pool_jobs w)" for k
    using requests_okD(3) [OF req that] Some by auto
  show ?thesis
  proof (cases "filter (\<lambda>q. alive w q \<and> q \<noteq> i) (req_players r0) = []")
    case True
    have eq: "removePlayerFromLoadingChunk pos i w =
        w\<lparr>d_loading := (d_loading w)(pos := None), pool_jobs := remove_job (req_id r0) (pool_jobs w)\<rparr>"
      using Some True j by (auto simp: removePlayerFromLoadingChunk_def pool_cancelJob_def Let_def)
    have js: "set (remove_job (req_id r0) (pool_jobs w)) = {j \<in> set (pool_jobs w). snd j \<noteq> pos}"
    proof -
      have "fst j = req_id r0 \<longleftrightarrow> snd j = pos" if "j \<in> set (pool_jobs w)" for j
        using that same own by (metis prod.collapse)
      then show ?thesis by (auto simp: set_remove_job [OF d])
    qed
    show ?thesis unfolding eq
    proof (rule requests_okI)
      fix j q assume "(j, q) \<in> set (pool_jobs (w\<lparr>d_loading := (d_loading w)(pos := None),
        pool_jobs := remove_job (req_id r0) (pool_jobs w)\<rparr>))"
      then have j: "(j, q) \<in> set (pool_jobs w)" "q \<noteq> pos" by (simp_all add: js)
      from requests_okD(3) [OF req j(1)] j(2) show "\<exists>r. d_loading (w\<lparr>d_loading := (d_loading w)(pos := None),
        pool_jobs := remove_job (req_id r0) (pool_jobs w)\<rparr>) q = Some r \<and> req_id r = j" by simp
      from requests_okD(5) [OF req, of j] j(1) show "unat j \<le> unat (pool_pushed (w\<lparr>d_loading := (d_loading w)(pos := None),
        pool_jobs := remove_job (req_id r0) (pool_jobs w)\<rparr>))" by force
    qed (use requests_okD(1,2) [OF req] distinct_remove_job [OF d] in \<open>auto simp: js split: if_splits\<close>)
  next
    case False
    then have "removePlayerFromLoadingChunk pos i w =
        w\<lparr>d_loading := (d_loading w)(pos \<mapsto> r0\<lparr>req_players := filter (\<lambda>q. alive w q \<and> q \<noteq> i) (req_players r0)\<rparr>)\<rparr>"
      using Some by (simp add: removePlayerFromLoadingChunk_def Let_def)
    then show ?thesis using req Some own unfolding requests_ok_def by auto
  qed
qed

lemma unload_step:
  assumes inv: "loading_inv w" and p: "w_players w i = Some p"
  shows "\<exists>w'. unloadChunk i pos w = (w', Inr ()) \<and> loading_inv w'"
proof -
  let ?p = "p\<lparr>pl_chunks := (pl_chunks p)(pos := None)\<rparr>"
  have w: "waiting_ok w" and req: "requests_ok w" using inv by (simp_all add: loading_inv_def)
  consider "pl_chunks p pos = None" | "pl_chunks p pos = Some Loading"
    | st where "pl_chunks p pos = Some st" "st \<noteq> Loading" by blast
  then show ?thesis
  proof cases
    case 1
    with p inv show ?thesis by (simp add: unloadChunk_def with_player_def)
  next
    case 2
    let ?w = "(removePlayerFromLoadingChunk pos i w)\<lparr>w_players := (w_players w)(i \<mapsto> ?p)\<rparr>"
    have "waiting_ok ?w"
      by (rule waiting_ok_upd [OF w p, where p' = ?p and pos = pos]) (auto simp: removePlayer_frame intro: removePlayer_waits)
    moreover have "requests_ok ?w" using removePlayer_requests [OF req] by (simp add: requests_ok_def)
    ultimately have "loading_inv ?w" using inv by (simp add: loading_inv_def removePlayer_frame)
    with 2 p show ?thesis by (simp add: unloadChunk_def upd_player_def with_player_def removePlayer_frame)
  next
    case 3
    obtain b where b: "createUnloadChunk pos = Inr b" using createUnloadChunk_ok by blast
    let ?C = "(w_clients w)(pl_cli p := map_option (doWrite b) (w_clients w (pl_cli p)))"
    let ?w = "w\<lparr>w_clients := ?C, w_players := (w_players w)(i \<mapsto> ?p)\<rparr>"
    have "player_send i (Inr b) w = (w\<lparr>w_clients := ?C\<rparr>, Inr ())" by (rule player_send_ok [OF p]) simp
    moreover have "waiting_ok ?w" by (rule waiting_ok_upd [OF w p, where p' = ?p and pos = pos]) auto
    then have "loading_inv ?w" using inv by (simp add: loading_inv_def requests_ok_def)
    ultimately show ?thesis using 3 p
      by (cases st) (simp_all add: unloadChunk_def sendUnloadChunk_def b upd_player_def with_player_def act_then_def)
  qed
qed

section \<open>Generators\<close>

text \<open>
  What the requests rely on: for a chunk the level does not have, the generator stores a column that
  is ready to be sent, and changes nothing else.
\<close>

definition progress :: "world \<Rightarrow> world \<Rightarrow> bool" where
  "progress w w' \<longleftrightarrow> (\<forall>k. w_clients w' k = None \<longleftrightarrow> w_clients w k = None)
     \<and> (\<forall>i p. w_players w i = Some p \<longrightarrow> (\<exists>p'. w_players w' i = Some p' \<and> pl_cli p' = pl_cli p
          \<and> (\<forall>q. pl_chunks p' q = pl_chunks p q \<or> pl_chunks p' q = Some Loaded)))"

lemma progress_refl: "progress w w"
  by (simp add: progress_def)

lemma progress_trans: "progress w w1 \<Longrightarrow> progress w1 w2 \<Longrightarrow> progress w w2"
  unfolding progress_def by (metis (no_types, lifting))

locale chunk_generator =
  fixes gen :: "Position2D \<Rightarrow> world act"
  assumes gen_ok: "level_ok (d_level w) \<Longrightarrow> d_level w pos = None \<Longrightarrow>
    \<exists>c. gen pos w = (w\<lparr>d_level := (d_level w)(pos \<mapsto> c)\<rparr>, Inr ()) \<and> column_ok pos c"
begin

lemma job_effect:
  assumes inv: "loading_inv w" and j: "(j, pos) \<in> set (pool_jobs w)"
  shows "\<exists>w' c r. generation_job gen pos (w\<lparr>pool_jobs := remove_job j (pool_jobs w)\<rparr>) = (w', Inr ())
    \<and> d_loading w pos = Some r \<and> req_id r = j \<and> column_ok pos c
    \<and> d_level w' = (d_level w)(pos \<mapsto> c) \<and> d_loading w' = (d_loading w)(pos := None)
    \<and> pool_jobs w' = remove_job j (pool_jobs w) \<and> pool_pushed w' = pool_pushed w
    \<and> w_players w' = deliver w (set (req_players r)) pos
    \<and> (\<forall>k. w_clients w' k = None \<longleftrightarrow> w_clients w k = None)"
proof -
  have req: "requests_ok w" and lev: "level_ok (d_level w)" using inv by (simp_all add: loading_inv_def)
  from requests_okD(3) [OF req j] obtain r where r: "d_loading w pos = Some r" "req_id r = j" by blast
  let ?w0 = "w\<lparr>pool_jobs := remove_job j (pool_jobs w)\<rparr>"
  obtain c where c: "gen pos ?w0 = (?w0\<lparr>d_level := (d_level w)(pos \<mapsto> c)\<rparr>, Inr ())" "column_ok pos c"
    using gen_ok [of ?w0 pos] lev requests_okD(2) [OF req r(1)] by auto
  let ?w1 = "?w0\<lparr>d_level := (d_level w)(pos \<mapsto> c)\<rparr>"
  have dl: "deliver ?w1 (set (req_players r)) pos = deliver w (set (req_players r)) pos"
    by (simp add: deliver_def connected_def fun_eq_iff)
  have lp: "d_level ?w1 pos = Some c" by simp
  obtain w2 where w2: "act_for (req_players r) (\<lambda>player w. if alive w player then
            (case level_getChunkColumn (d_level w) pos of Inl e \<Rightarrow> (w, Inl e) | Inr c \<Rightarrow> sendChunk player c w)
          else (w, Inr ())) ?w1 = (w2, Inr ())" "only_people ?w1 w2"
      "w_players w2 = deliver w (set (req_players r)) pos" "\<forall>k. w_clients w2 k = None \<longleftrightarrow> w_clients w k = None"
    using deliver_all [OF lp c(2), of "req_players r"] unfolding dl by auto
  have "hasChunkLoaded ?w1 pos" using c(2) by (simp add: hasChunkLoaded_def level_hasChunkColumn_def column_ok_def)
  moreover have "sendChunkToPlayers pos ?w1 = (w2\<lparr>d_loading := (d_loading w)(pos := None)\<rparr>, Inr ())"
    using r(1) w2(1) only_people_fields(2) [OF w2(2)] by (simp add: sendChunkToPlayers_def act_then_def act_do_def)
  ultimately have "generation_job gen pos ?w0 = (w2\<lparr>d_loading := (d_loading w)(pos := None)\<rparr>, Inr ())"
    using c(1) by (simp add: generation_job_def act_then_def)
  then show ?thesis using r c(2) w2(3,4) only_people_fields [OF w2(2)]
    by (intro exI [of _ "w2\<lparr>d_loading := (d_loading w)(pos := None)\<rparr>"] exI [of _ c] exI [of _ r]) simp
qed

lemma job_step:
  assumes inv: "loading_inv w" and j: "(j, pos) \<in> set (pool_jobs w)"
  shows "\<exists>w'. generation_job gen pos (w\<lparr>pool_jobs := remove_job j (pool_jobs w)\<rparr>) = (w', Inr ())
    \<and> loading_inv w' \<and> length (pool_jobs w') = length (pool_jobs w) - 1 \<and> progress w w'"
proof -
  have req: "requests_ok w" and wait: "waiting_ok w" using inv by (simp_all add: loading_inv_def)
  obtain w' c r where w': "generation_job gen pos (w\<lparr>pool_jobs := remove_job j (pool_jobs w)\<rparr>) = (w', Inr ())"
    and r: "d_loading w pos = Some r" "req_id r = j" and c: "column_ok pos c" "d_level w' = (d_level w)(pos \<mapsto> c)"
    and l: "d_loading w' = (d_loading w)(pos := None)"
    and jobs: "pool_jobs w' = remove_job j (pool_jobs w)" "pool_pushed w' = pool_pushed w"
    and p: "w_players w' = deliver w (set (req_players r)) pos"
    and cl: "\<forall>k. w_clients w' k = None \<longleftrightarrow> w_clients w k = None"
    using job_effect [OF assms] by blast
  note d = requests_okD(4) [OF req]
  have js: "(k, q) \<in> set (pool_jobs w') \<longleftrightarrow> (k, q) \<in> set (pool_jobs w) \<and> q \<noteq> pos" for k q
    using set_remove_job [OF d, of j] j requests_okD(3) [OF req, of k q] r d
    by (auto simp: jobs) (metis eq_key_imp_eq_value)
  have dj: "distinct (map fst (pool_jobs w'))" using distinct_remove_job [OF d] by (simp add: jobs(1))
  have "requests_ok w'"
  proof (rule requests_okI)
    fix k q assume k: "(k, q) \<in> set (pool_jobs w')"
    then show "\<exists>r. d_loading w' q = Some r \<and> req_id r = k" using requests_okD(3) [OF req, of k q] by (simp add: js l)
    show "unat k \<le> unat (pool_pushed w')" using requests_okD(5) [OF req, of k] k by (force simp: js jobs(2))
  qed (use requests_okD(1,2) [OF req] dj in \<open>auto simp: js l c(2) split: if_splits\<close>)
  moreover have "waiting_ok w'"
    unfolding waiting_ok_def
  proof (intro allI impI)
    fix i p' q assume i: "w_players w' i = Some p'" "connected w' p'" "pl_chunks p' q = Some Loading"
    then obtain p0 where p0: "w_players w i = Some p0" and p': "p' = (if i \<in> set (req_players r) \<and> connected w p0
        then p0\<lparr>pl_chunks := (pl_chunks p0)(pos \<mapsto> Loaded)\<rparr> else p0)" by (auto simp: p deliver_def)
    have con: "connected w p0" using i(2) cl by (auto simp: p' connected_def split: if_splits)
    have "pl_chunks p0 q = Some Loading" using i(3) by (auto simp: p' split: if_splits)
    from waiting_okD [OF wait p0 con this] obtain r' where "d_loading w q = Some r'" "i \<in> set (req_players r')" by blast
    moreover from this have "q \<noteq> pos" using i(3) r(1) con by (auto simp: p' split: if_splits)
    ultimately show "\<exists>r. d_loading w' q = Some r \<and> i \<in> set (req_players r)" by (simp add: l)
  qed
  moreover have "level_ok (d_level w')" using inv c by (auto simp: loading_inv_def level_ok_def)
  ultimately have "loading_inv w'" by (simp add: loading_inv_def)
  moreover have "progress w w'" using cl by (auto simp: progress_def p deliver_def)
  ultimately show ?thesis using w' length_remove_job [OF j] by (auto simp: jobs(1))
qed

lemma doJob_step:
  assumes "loading_inv w" "pool_jobs w \<noteq> []"
  shows "loading_inv (pool_doJob prio (generation_job gen) w)
    \<and> length (pool_jobs (pool_doJob prio (generation_job gen) w)) = length (pool_jobs w) - 1
    \<and> progress w (pool_doJob prio (generation_job gen) w)"
proof -
  obtain j js where js: "pool_jobs w = j # js" using assms(2) by (cases "pool_jobs w") auto
  obtain k pos where k: "least_job (prio w) j js = (k, pos)" by (metis prod.collapse)
  have "(k, pos) \<in> set (pool_jobs w)" using least_job_in [of "prio w" j js] by (simp only: k js) simp
  moreover have "pool_doJob prio (generation_job gen) w
      = fst (generation_job gen pos (w\<lparr>pool_jobs := remove_job k (pool_jobs w)\<rparr>))"
    by (simp add: pool_doJob_def js k del: remove_job.simps)
  ultimately show ?thesis using job_step [OF assms(1), of k pos] by auto
qed

lemma drain:
  assumes "loading_inv w" "n = length (pool_jobs w)"
  shows "loading_inv ((pool_doJob prio (generation_job gen) ^^ n) w)
    \<and> pool_jobs ((pool_doJob prio (generation_job gen) ^^ n) w) = []
    \<and> progress w ((pool_doJob prio (generation_job gen) ^^ n) w)"
  using assms
proof (induction n arbitrary: w)
  case 0
  then show ?case by (simp add: progress_refl)
next
  case (Suc n)
  let ?f = "pool_doJob prio (generation_job gen)"
  have step: "loading_inv (?f w) \<and> length (pool_jobs (?f w)) = length (pool_jobs w) - 1 \<and> progress w (?f w)"
    by (rule doJob_step) (use Suc.prems in auto)
  then have "n = length (pool_jobs (?f w))" using Suc.prems(2) by simp
  with Suc.IH [of "?f w"] step progress_trans [of w "?f w" "(?f ^^ n) (?f w)"]
  show ?case unfolding funpow_Suc_right comp_apply by blast
qed

lemma delivered:
  assumes inv: "loading_inv w" and p: "w_players w i = Some p" "connected w p" "pl_chunks p pos = Some Loading"
  shows "\<exists>p'. w_players ((pool_doJob prio (generation_job gen) ^^ length (pool_jobs w)) w) i = Some p'
    \<and> pl_chunks p' pos = Some Loaded"
proof -
  let ?w = "(pool_doJob prio (generation_job gen) ^^ length (pool_jobs w)) w"
  note d = drain [OF inv refl, where prio = prio]
  from d p(1) obtain p' where p': "w_players ?w i = Some p'" "pl_cli p' = pl_cli p"
      "pl_chunks p' pos = pl_chunks p pos \<or> pl_chunks p' pos = Some Loaded" unfolding progress_def by blast
  have "pl_chunks p' pos \<noteq> Some Loading"
  proof
    assume "pl_chunks p' pos = Some Loading"
    moreover have "connected ?w p'" using d p(2) p'(2) by (auto simp: progress_def connected_def)
    moreover have "waiting_ok ?w" "requests_ok ?w" using d by (auto simp: loading_inv_def)
    ultimately obtain r where "d_loading ?w pos = Some r" using waiting_okD p'(1) by blast
    from requests_okD(1) [OF \<open>requests_ok ?w\<close> this] d show False by simp
  qed
  with p'(1,3) p(3) show ?thesis by auto
qed

end

section \<open>The superflat overworld\<close>

text \<open>\<open>ChunkColumn::generate(READY)\<close> in a superflat world, where nothing is saved on disk.\<close>

definition superflat :: "block_ids \<Rightarrow> ChunkColumn act" where
  "superflat B c = (case generate B \<lparr>gen_getBlock = \<lambda>x y z. 0, gen_getBiome = \<lambda>x y z. 0\<rparr> act_skip WT_SUPERFLAT OVERWORLD READY (c, 0) of
     ((c', _), r) \<Rightarrow> (c', r))"

lemma act_for_frame:
  assumes "\<And>x s s' r. body x s = (s', r) \<Longrightarrow> f s' = f s" and "act_for xs body s = (s', r)"
  shows "f s' = f s"
  using assms(2)
proof (induction xs arbitrary: s)
  case (Cons x xs)
  obtain s1 r1 where b: "body x s = (s1, r1)" by (cases "body x s")
  with Cons assms(1) [OF b] show ?case by (cases r1) auto
qed simp

lemma place_frame:
  "place layer x y z c = (c', r) \<Longrightarrow> (chunkPos c', heightMap c') = (chunkPos c, heightMap c)"
  by (auto simp: place_def act_skip_def column_updateBlock_def on_section_def split: option.splits if_splits prod.splits)

lemma generateFlat_frame:
  assumes "generateFlat B c = (c', Inr ())"
  shows "(chunkPos c', heightMap c') = (chunkPos c, heightMap c)"
proof -
  from assms obtain c1 where c1: "act_for (cells [0..10] [0..15] [0..15]) (\<lambda>(y, z, x). place (flat_block B) x y z) c = (c1, Inr ())"
      "c' = c1\<lparr>currentState := READY\<rparr>"
    by (auto simp: generateFlat_def act_then_Inr loop_yzx_cells set_state_eq)
  have "(chunkPos c1, heightMap c1) = (chunkPos c, heightMap c)"
    by (rule act_for_frame [OF _ c1(1), where f = "\<lambda>c. (chunkPos c, heightMap c)"]) (auto dest: place_frame)
  with c1(2) show ?thesis by simp
qed

lemma newChunkColumn_heightMap:
  assumes "newChunkColumn t pos = Inr c"
  shows "list_all wf_nbt (heightMap c)" "chunkPos c = pos"
proof -
  have h: "HEIGHTMAP_ARRAY_SIZE = 36"
    by (simp add: HEIGHTMAP_ARRAY_SIZE_def HEIGHTMAP_BITS_def section_sizes bitsNeeded.simps)
  show "list_all wf_nbt (heightMap c)" "chunkPos c = pos"
    using assms by (auto simp: newChunkColumn_def rbind_Inr_iff wf_List h list_all_iff of_type_def)
qed

lemma superflat_ok:
  assumes "newChunkColumn t pos = Inr c"
  shows "\<exists>c'. superflat B c = (c', Inr ()) \<and> column_ok pos c'"
proof -
  obtain c1 where c1: "generateFlat B c = (c1, Inr ())" "wf_column c1" "isReady c1" using generateFlat_ok [OF assms] by blast
  let ?c = "column_recalculateSkyLight c1"
  have "superflat B c = (?c, Inr ())" by (simp add: superflat_def generate_def act_then_def act_do_def c1(1))
  moreover have "wf_column ?c"
    using c1(2) by (auto simp: column_recalculateSkyLight_def wf_column_def list_all_iff recalculateSkyLight_ok)
  moreover have "chunkPos ?c = pos" "heightMap ?c = heightMap c" "isReady ?c"
    using generateFlat_frame [OF c1(1)] c1(3) newChunkColumn_heightMap(2) [OF assms]
    by (simp_all add: column_recalculateSkyLight_def isReady_def)
  ultimately show ?thesis using newChunkColumn_heightMap(1) [OF assms] by (simp add: column_ok_def)
qed

interpretation flat: chunk_generator "overworld_generateChunk (\<lambda>pos w. (w, False)) True (superflat B) t"
proof
  fix w :: world and pos assume "level_ok (d_level w)" and none: "d_level w pos = None"
  obtain c where c: "newChunkColumn t pos = Inr c" using newChunkColumn_ok by blast
  from superflat_ok [OF this] obtain c' where "superflat B c = (c', Inr ())" "column_ok pos c'" by blast
  with c none show "\<exists>c. overworld_generateChunk (\<lambda>pos w. (w, False)) True (superflat B) t pos w
      = (w\<lparr>d_level := (d_level w)(pos \<mapsto> c)\<rparr>, Inr ()) \<and> column_ok pos c"
    by (auto simp: overworld_generateChunk_def level_addChunkColumn_def)
qed

section \<open>Reachable states\<close>

text \<open>
  The players' requests, the chunks they leave behind, the jobs, in any order. A job identifier is
  new as long as fewer than \<open>2 ^ 32\<close> jobs were pushed.
\<close>

inductive chunk_step :: "block_ids \<Rightarrow> i64 \<Rightarrow> world \<Rightarrow> world \<Rightarrow> bool" for B t where
  request: "w_players w i = Some p \<Longrightarrow> pool_pushed w + 1 \<noteq> 0 \<Longrightarrow>
    chunk_step B t w (fst (sendChunkAndLightUpdate i pos w))"
| unload: "w_players w i = Some p \<Longrightarrow> chunk_step B t w (fst (unloadChunk i pos w))"
| job: "pool_jobs w \<noteq> [] \<Longrightarrow> chunk_step B t w
    (pool_doJob prio (generation_job (overworld_generateChunk (\<lambda>pos w. (w, False)) True (superflat B) t)) w)"

inductive_cases chunk_stepE: "chunk_step B t w w'"

lemma chunk_step_inv: "chunk_step B t w w' \<Longrightarrow> loading_inv w \<Longrightarrow> loading_inv w'"
proof (induction rule: chunk_step.induct)
  case (request w i p pos)
  then show ?case using request_step [of w i p pos] by auto
next
  case (unload w i p pos)
  then show ?case using unload_step [of w i p pos] by auto
next
  case (job w prio)
  then show ?case using flat.doJob_step by blast
qed

lemma chunk_steps_inv: "(chunk_step B t)\<^sup>*\<^sup>* w w' \<Longrightarrow> loading_inv w \<Longrightarrow> loading_inv w'"
  by (induction rule: rtranclp_induct) (auto intro: chunk_step_inv)

section \<open>Properties\<close>


definition test_blocks :: block_ids where
  "test_blocks = \<lparr>Air = 0, Bedrock = 79, Dirt = 10, GrassBlock = 9, OakLog = 126, OakLeaves = 252, Water = 80,
     Stone = 1, Sand = 112\<rparr>"

lemma test_world_inv: "loading_inv (test_world r Map.empty)"
  by (simp add: loading_inv_def requests_ok_def waiting_ok_def level_ok_def test_world_def test_player_def)


end
