(* ===== verification/Worlds.thy ===== *)
theory Worlds
  imports Player_Chunks
begin

text \<open>
  \<open>World.cpp\<close>: the time of a world and the list of players its clients show; \<open>Chat.cpp\<close>: who is sent
  a message. One world with one dimension is modelled, so the loops over worlds and dimensions are
  loops over the players of that dimension.
\<close>

section \<open>What the server takes from outside\<close>

text \<open>
  Floating-point operations, the clocks, the JSON text of a chat message (written by a JSON library),
  the table from items to blocks (data files), the answers of plugins to events they may cancel, and
  the command interpreter. A chat message is the text it serializes to.
\<close>

datatype TranslationKey =
    MultiplayerPlayerJoined | MultiplayerPlayerLeft | ChatTypeAnnouncement
  | CommandsMessageDisplayIncoming | CommandsMessageDisplayOutgoing

record server_env =
  env_fpu :: fpu
  env_now :: i64
  env_unixTime :: i64
  env_text :: "string \<Rightarrow> string"
  env_colored :: "string \<Rightarrow> string \<Rightarrow> string"
  env_translated :: "TranslationKey \<Rightarrow> string \<Rightarrow> string \<Rightarrow> string"
  env_itemBlock :: "i32 \<Rightarrow> i32 result"
  env_cancelBlockDestroy :: "Position \<Rightarrow> bool"
  env_cancelEntityDamage :: "i32 \<Rightarrow> bool"
  env_parseCommand :: "string \<Rightarrow> i32 \<Rightarrow> world act"

section \<open>Time\<close>

text \<open>The ages are of type \<open>long\<close>; they start at 0 and grow by 20 each second.\<close>

definition updateTime :: "world act" where
  "updateTime = act_then
     (act_do (\<lambda>w. let t = w_time w + 20 in
        w\<lparr>w_age := w_age w + 20, w_time := (if sint t > 24000 then t - 24000 else t)\<rparr>))
     (\<lambda>w. for_players (\<lambda>player. sendUpdateTime player
        \<lparr>UpdateTime_worldAge = w_age w, UpdateTime_timeOfDay = w_time w\<rparr>) w)"

definition world_tick :: "world act" where
  "world_tick w =
     (case clock_tick (w_timeUpdateClock w) of
        (c, fired) \<Rightarrow> (if fired then updateTime else act_skip) (w\<lparr>w_timeUpdateClock := c\<rparr>))"

lemma sint_time_minus: "sint (t :: i64) > 24000 \<Longrightarrow> sint (t - 24000) = sint t - 24000"
proof -
  assume "sint t > 24000"
  moreover have "sint t < 2 ^ 63" using sint_lt [of t] by simp
  ultimately have "- (2 ^ 63) \<le> sint t - 24000" "sint t - 24000 < 2 ^ 63" by auto
  then have "signed_take_bit 63 (sint t - 24000) = sint t - 24000"
    by (simp add: signed_take_bit_int_eq_self)
  then show ?thesis by (simp add: sint_word_ariths)
qed

function wrap_time :: "i64 \<Rightarrow> i64" where
  "wrap_time t = (if sint t > 24000 then wrap_time (t - 24000) else t)"
  by auto
termination
  by (relation "measure (\<lambda>t. nat (sint t))") (auto simp: sint_time_minus)

declare wrap_time.simps [simp del]

text \<open>The commands that change the time return the new time, or -1.\<close>

definition addTime :: "i32 \<Rightarrow> world \<Rightarrow> world \<times> i32" where
  "addTime time w =
     (if sint time \<ge> 0 then
        let t = wrap_time (w_time w + scast time) in
        (w\<lparr>w_time := t, w_age := w_age w + scast time\<rparr>, scast t)
      else (w, -1))"

definition setTime :: "i32 \<Rightarrow> world \<Rightarrow> world" where
  "setTime time w = (if sint time \<ge> 0 then w\<lparr>w_time := scast time\<rparr> else w)"

section \<open>The list of players\<close>

definition getProperties :: "world \<Rightarrow> Player \<Rightarrow> PlayerProperty list" where
  "getProperties w p = (case w_clients w (pl_cli p) of None \<Rightarrow> [] | Some c \<Rightarrow> LoginSuccess_properties (cl_resPck c))"

definition info_actions :: byte where
  "info_actions = 0x01 OR 0x02 OR 0x04 OR 0x08 OR 0x10 OR 0x20"

definition info_action :: "world \<Rightarrow> Player \<Rightarrow> PlayerInfoAction" where
  "info_action w p = \<lparr>act_uuid = pl_uuid p, act_name = pl_username p, act_properties = getProperties w p,
     act_hasSigData = False, act_gamemode = ucast (gamemode_code (pl_gamemode p)), act_listed = True,
     act_latency = 0, act_hasDisplayName = False, act_displayName = ''''\<rparr>"

text \<open>Everybody is told of the new player; then the new player is told of everybody.\<close>

definition sendPlayerInfoAddPlayer :: "i32 \<Rightarrow> world act" where
  "sendPlayerInfoAddPlayer current = act_then
     (for_players (\<lambda>player.
        if player \<noteq> current then with_player current (\<lambda>c w. sendPlayerInfoUpdate player
          \<lparr>PlayerInfoUpdate_actions = info_actions, PlayerInfoUpdate_actionSets = [info_action w c]\<rparr> w)
        else act_skip))
     (\<lambda>w. sendPlayerInfoUpdate current \<lparr>PlayerInfoUpdate_actions = info_actions,
        PlayerInfoUpdate_actionSets = map (\<lambda>player. info_action w (the (w_players w player))) (d_players w)\<rparr> w)"

definition sendPlayerInfoRemovePlayer :: "i32 \<Rightarrow> Player \<Rightarrow> world act" where
  "sendPlayerInfoRemovePlayer current c = for_players (\<lambda>player.
     if player \<noteq> current then sendPlayerInfoRemove player \<lparr>PlayerInfoRemove_uuids = [pl_uuid c]\<rparr> else act_skip)"

section \<open>Chat\<close>

datatype ChatType = Chat | Emote | WhisperIn | WhisperOut | Announce | TeamText | TeamSent

fun chatType_code :: "ChatType \<Rightarrow> i32" where
  "chatType_code Chat = 0"
| "chatType_code Emote = 1"
| "chatType_code WhisperIn = 2"
| "chatType_code WhisperOut = 3"
| "chatType_code Announce = 4"
| "chatType_code TeamText = 5"
| "chatType_code TeamSent = 6"

definition buildPacket :: "server_env \<Rightarrow> Player \<Rightarrow> nat \<Rightarrow> string \<Rightarrow> ChatType \<Rightarrow> PlayerChatMessage" where
  "buildPacket E from messageLogSize message type = \<lparr>PlayerChatMessage_senderUUID = pl_uuid from,
     PlayerChatMessage_index = of_nat messageLogSize, PlayerChatMessage_hasSignature = False,
     PlayerChatMessage_signature = [], PlayerChatMessage_message = '''',
     PlayerChatMessage_timestamp = env_unixTime E, PlayerChatMessage_salt = 0,
     PlayerChatMessage_previousMessages = [], PlayerChatMessage_hasUnsignedContent = True,
     PlayerChatMessage_unsignedContent = message, PlayerChatMessage_filterType = 0,
     PlayerChatMessage_filterData = [], PlayerChatMessage_chatType = chatType_code type,
     PlayerChatMessage_networkName =
       (if pl_username from = ''STMiki'' then env_colored E (pl_username from) ''gold'' else env_text E (pl_username from)),
     PlayerChatMessage_hasNetworkTargetName = False, PlayerChatMessage_networkTargetName = ''''\<rparr>"

definition chat_enabled :: "Player \<Rightarrow> bool" where
  "chat_enabled p \<longleftrightarrow> pl_chatVisibility p = 0"

definition commands_shown :: "Player \<Rightarrow> bool" where
  "commands_shown p \<longleftrightarrow> sint (pl_chatVisibility p) \<le> 1"

definition log_message :: "string \<Rightarrow> world act" where
  "log_message message = act_do (\<lambda>w. w\<lparr>w_messagesLog := w_messagesLog w @ [message]\<rparr>)"

text \<open>The three overloads of \<open>_sendMessage\<close>: to one player, to a world group, to some players.\<close>

definition sendMessage_to :: "server_env \<Rightarrow> string \<Rightarrow> i32 \<Rightarrow> i32 \<Rightarrow> ChatType \<Rightarrow> world act" where
  "sendMessage_to E message from to type = with_player to (\<lambda>t. with_player from (\<lambda>f w.
     if \<not> chat_enabled t then (w, Inr ())
     else act_then (log_message message)
       (sendChatMessageResponse to (buildPacket E f (length (w_messagesLog w)) message type)) w))"

definition sendMessage_all :: "server_env \<Rightarrow> string \<Rightarrow> i32 \<Rightarrow> ChatType \<Rightarrow> world act" where
  "sendMessage_all E message from type = with_player from (\<lambda>f w.
     act_then (log_message message)
       (for_players (\<lambda>player. with_player player (\<lambda>p.
          if chat_enabled p
          then sendChatMessageResponse player (buildPacket E f (length (w_messagesLog w)) message type)
          else act_skip))) w)"

definition sendMessage_some :: "server_env \<Rightarrow> string \<Rightarrow> i32 \<Rightarrow> i32 list \<Rightarrow> ChatType \<Rightarrow> world act" where
  "sendMessage_some E message from players type = with_player from (\<lambda>f w.
     if \<not> chat_enabled f then (w, Inr ())
     else act_then (log_message message)
       (act_for players (\<lambda>player. with_player player (\<lambda>p.
          if chat_enabled p
          then sendChatMessageResponse player (buildPacket E f (length (w_messagesLog w)) message type)
          else act_skip))) w)"

definition sendSystem_to :: "string \<Rightarrow> bool \<Rightarrow> i32 \<Rightarrow> world act" where
  "sendSystem_to message overlay player = with_player player (\<lambda>p.
     if commands_shown p
     then sendSystemChatMessage player \<lparr>SystemChatMessage_JSONData = message, SystemChatMessage_overlay = overlay\<rparr>
     else act_skip)"

definition sendSystem_all :: "string \<Rightarrow> bool \<Rightarrow> world act" where
  "sendSystem_all message overlay = for_players (sendSystem_to message overlay)"

definition sendSystem_some :: "string \<Rightarrow> bool \<Rightarrow> i32 list \<Rightarrow> world act" where
  "sendSystem_some message overlay players = act_for players (sendSystem_to message overlay)"

definition sendPlayerMessage :: "server_env \<Rightarrow> string \<Rightarrow> i32 \<Rightarrow> world act" where
  "sendPlayerMessage E message sender = sendMessage_all E message sender Chat"

definition sendSayMessage :: "server_env \<Rightarrow> string \<Rightarrow> i32 \<Rightarrow> world act" where
  "sendSayMessage E raw from = with_player from (\<lambda>f.
     sendMessage_all E (env_translated E ChatTypeAnnouncement (pl_username f) raw) from Announce)"

definition sendWhisperMessage :: "server_env \<Rightarrow> string \<Rightarrow> i32 \<Rightarrow> i32 \<Rightarrow> world act" where
  "sendWhisperMessage E message sender to = with_player sender (\<lambda>s. with_player to (\<lambda>t. act_then
     (sendMessage_to E (env_translated E CommandsMessageDisplayOutgoing (pl_username t) message) sender sender WhisperOut)
     (sendMessage_to E (env_translated E CommandsMessageDisplayIncoming (pl_username s) message) sender to WhisperIn)))"

definition sendTeamMessage :: "server_env \<Rightarrow> string \<Rightarrow> i32 \<Rightarrow> world act" where
  "sendTeamMessage E message sender = sendMessage_all E message sender TeamSent"

definition sendTellrawMessage :: "string \<Rightarrow> world act" where
  "sendTellrawMessage message = sendSystem_all message False"

section \<open>Properties\<close>

lemma wrap_time_range:
  assumes "0 \<le> sint t"
  shows "0 \<le> sint (wrap_time t) \<and> sint (wrap_time t) \<le> 24000 \<and> sint (wrap_time t) mod 24000 = sint t mod 24000"
  using assms
proof (induction t rule: wrap_time.induct)
  case (1 t)
  show ?case
  proof (cases "sint t > 24000")
    case True
    with 1 have "0 \<le> sint (wrap_time (t - 24000)) \<and> sint (wrap_time (t - 24000)) \<le> 24000
        \<and> sint (wrap_time (t - 24000)) mod 24000 = (sint t - 24000) mod 24000"
      by (simp add: sint_time_minus)
    moreover have "wrap_time t = wrap_time (t - 24000)"
      by (subst wrap_time.simps) (simp only: True if_True)
    moreover have "(sint t - 24000) mod 24000 = sint t mod 24000" by (rule minus_mod_self2)
    ultimately show ?thesis by simp
  next
    case False
    then have "wrap_time t = t" by (subst wrap_time.simps) (simp only: if_False)
    with False 1 show ?thesis by simp
  qed
qed

lemma sint_add_small:
  fixes t d :: i64
  assumes "0 \<le> sint t" "sint t < 2 ^ 62" "0 \<le> sint d" "sint d < 2 ^ 62"
  shows "sint (t + d) = sint t + sint d"
proof -
  have "signed_take_bit 63 (sint t + sint d) = sint t + sint d"
    using assms by (intro signed_take_bit_int_eq_self) auto
  then show ?thesis by (simp add: sint_word_ariths)
qed

text \<open>C33: Adding a number of ticks to a world whose time is that of a day leaves the time of a day, congruent
to the sum, which is also the value returned; the age grows by the number. A negative number changes
nothing and gives -1.\<close>

theorem addTime_day:
  assumes "0 \<le> sint (w_time w)" "sint (w_time w) \<le> 24000"
    and "addTime time w = (w', r)"
  shows "(sint time < 0 \<longrightarrow> w' = w \<and> r = -1)
    \<and> (0 \<le> sint time \<longrightarrow> 0 \<le> sint (w_time w') \<and> sint (w_time w') \<le> 24000
        \<and> sint (w_time w') mod 24000 = (sint (w_time w) + sint time) mod 24000
        \<and> sint r = sint (w_time w') \<and> w' = w\<lparr>w_time := w_time w', w_age := w_age w + scast time\<rparr>)"
proof (cases "0 \<le> sint time")
  case True
  let ?d = "scast time :: i64"
  have d: "sint ?d = sint time" by (simp add: sint_up_scast is_up)
  have b: "sint time < 2 ^ 31" using sint_lt [of time] by simp
  have s: "sint (w_time w + ?d) = sint (w_time w) + sint time"
    using sint_add_small [of "w_time w" ?d] assms b True by (simp add: d)
  then have r: "0 \<le> sint (wrap_time (w_time w + ?d)) \<and> sint (wrap_time (w_time w + ?d)) \<le> 24000
      \<and> sint (wrap_time (w_time w + ?d)) mod 24000 = (sint (w_time w) + sint time) mod 24000"
    using wrap_time_range [of "w_time w + ?d"] assms True by simp
  then have n: "sint (scast (wrap_time (w_time w + ?d)) :: i32) = sint (wrap_time (w_time w + ?d))"
    by (simp add: signed_scast_eq signed_take_bit_int_eq_self)
  from assms(3) True have "w' = w\<lparr>w_time := wrap_time (w_time w + ?d), w_age := w_age w + ?d\<rparr>"
      "r = scast (wrap_time (w_time w + ?d))"
    by (auto simp: addTime_def Let_def)
  with r n True show ?thesis by simp
next
  case False
  with assms(3) show ?thesis by (auto simp: addTime_def)
qed

theorem addTime_day_witness:
  "sint (w_time (fst (addTime 30000 (test_world 2 Map.empty)))) mod 24000 = 6000
    \<and> sint (w_time (fst (addTime 30000 (test_world 2 Map.empty)))) \<le> 24000"
proof -
  obtain w' r where a: "addTime 30000 (test_world 2 Map.empty) = (w', r)" by fastforce
  have "w_time (test_world 2 Map.empty) = 0" by (simp add: test_world_def)
  with addTime_day [OF _ _ a] a show ?thesis by simp
qed

end
