(* ===== verification/Player_Actions.thy ===== *)
theory Player_Actions
  imports Worlds
begin

text \<open>
  What a player does on its own (\<open>Player.cpp\<close>, \<open>Entity.cpp\<close>, \<open>LivingEntity.cpp\<close>): movement, keep-alive,
  food, damage and the inventory in its hands.
\<close>

section \<open>Creation\<close>

text \<open>The identifier is the one the constructor of \<open>Entity\<close> takes from its counter.\<close>

definition newPlayer :: "nat \<Rightarrow> u128 \<Rightarrow> string \<Rightarrow> bool \<Rightarrow> Player" where
  "newPlayer cli uuid username isOperator = \<lparr>pl_cli = cli, pl_username = username, pl_uuid = uuid,
     pl_keepAliveId = 0, pl_keepAliveIgnored = 0, pl_heldItem = 0, pl_gamemode = Survival,
     pl_keepAliveClock = clock_start \<lparr>clk_started = False, clk_tickRate = 200, clk_tick = 0\<rparr>,
     pl_chunks = Map.empty,
     pl_inventory = newInventory\<lparr>playerInventory := (playerInventory newInventory)
       [12 := \<lparr>present = True, itemID = 734, itemCount = 42\<rparr>, 13 := \<lparr>present = True, itemID = 1, itemCount = 12\<rparr>]\<rparr>,
     pl_containers = [], pl_foodLevel = MAX_FOOD_LEVEL - 4,
     pl_foodSaturationLevel = DEFAULT_FOOD_SATURATION_LEVEL, pl_foodTickTimer = 0, pl_foodExhaustionLevel = 0,
     pl_chatVisibility = 0, pl_isFlying = True, pl_isOperator = isOperator, pl_isSprinting = False,
     pl_isJumping = False, pl_health = 0x41A00000, pl_maxHealth = 0x41A00000,
     pl_pos = \<lparr>v3_x = 0, v3_y = 0, v3_z = 0\<rparr>, pl_lastPos = \<lparr>v3_x = 0, v3_y = 0, v3_z = 0\<rparr>,
     pl_rot = (0, 0), pl_lastRot = (0, 0)\<rparr>"

definition create_player :: "nat \<Rightarrow> u128 \<Rightarrow> string \<Rightarrow> bool \<Rightarrow> world \<Rightarrow> world \<times> i32" where
  "create_player cli uuid username isOperator w =
     (let i = w_nextId w in
      (w\<lparr>w_nextId := i + 1, w_players := (w_players w)(i \<mapsto> newPlayer cli uuid username isOperator)\<rparr>, i))"

text \<open>\<open>~Player\<close>; the object is gone afterwards.\<close>

definition destroy_player :: "server_env \<Rightarrow> i32 \<Rightarrow> world act" where
  "destroy_player E this = with_player this (\<lambda>p. act_then (act_then
     (sendPlayerInfoRemovePlayer this p)
     (sendSystem_all (env_translated E MultiplayerPlayerLeft (pl_username p) '''') False))
     (act_do (\<lambda>w. w\<lparr>w_players := (w_players w)(this := None)\<rparr>)))"

section \<open>Position\<close>

definition for_others :: "i32 \<Rightarrow> (i32 \<Rightarrow> world act) \<Rightarrow> world act" where
  "for_others this body = for_players (\<lambda>i. if i = this then act_skip else body i)"

text \<open>
  The coordinates are converted to \<open>int64_t\<close>, towards zero, before they are divided.
\<close>

definition chunk_of_position :: "Vector3 \<Rightarrow> Position2D result" where
  "chunk_of_position pos =
     rbind (f64_to_i64 (v3_x pos)) (\<lambda>x. rbind (f64_to_i64 (v3_z pos)) (\<lambda>z.
       Inr \<lparr>pos2_x = transformBlockPosToChunkPos x, pos2_z = transformBlockPosToChunkPos z\<rparr>))"

text \<open>
  What a move adds to the exhaustion of the player. The heights are compared after 64 was added to
  both.
\<close>

definition move_player :: "fpu \<Rightarrow> Vector3 \<Rightarrow> bool \<Rightarrow> Player \<Rightarrow> Player" where
  "move_player F pos onGround p =
     (let p1 = (if onGround \<and> pl_isFlying p then p\<lparr>pl_isFlying := False\<rparr> else p);
          rise = d_sub F (d_add F (v3_y pos) (d_of_i F 64)) (d_add F (v3_y (pl_pos p)) (d_of_i F 64));
          p2 = (if \<not> onGround \<and> \<not> pl_isJumping p1 \<and> \<not> pl_isFlying p1 \<and> f64_less 0 rise
                then p1\<lparr>pl_isJumping := True, pl_isFlying := True\<rparr> else p1);
          p3 = (if pl_isSprinting p2 \<and> \<not> pl_isFlying p2
                then p2\<lparr>pl_foodExhaustionLevel := f_of_d F (d_add F (d_of_f F (pl_foodExhaustionLevel p2))
                       (d_mul F (distance2 F (pl_pos p) pos) (d_of_f F FOOD_EXHAUSTION_SPRINTING_MULTIPLIER)))\<rparr>
                else p2);
          p4 = (if pl_isJumping p3
                then p3\<lparr>pl_foodExhaustionLevel := f_add F (pl_foodExhaustionLevel p3)
                       (if pl_isSprinting p3 then FOOD_EXHAUSTION_SPRINTING_JUMP else FOOD_EXHAUSTION_JUMP),
                     pl_isJumping := False\<rparr>
                else p3) in
      p4\<lparr>pl_pos := pos\<rparr>)"

definition setPosition :: "server_env \<Rightarrow> i32 \<Rightarrow> Vector3 \<Rightarrow> bool \<Rightarrow> world act" where
  "setPosition E this pos onGround = with_player this (\<lambda>p w.
     case rbind (chunk_of_position pos) (\<lambda>new. rbind (chunk_of_position (pl_pos p)) (\<lambda>old. Inr (new, old))) of
       Inl e \<Rightarrow> (w, Inl e)
     | Inr (newChunkPos, oldChunkPos) \<Rightarrow>
         act_then (upd_player this (move_player (env_fpu E) pos onGround))
           (updateRenderedChunks this oldChunkPos newChunkPos) w)"

definition forceSetPosition :: "i32 \<Rightarrow> Vector3 \<Rightarrow> world act" where
  "forceSetPosition this pos = upd_player this (\<lambda>p. p\<lparr>pl_pos := pos, pl_lastPos := pos\<rparr>)"

text \<open>
  An angle is a byte: the loops that bring the yaw into the range of degrees do nothing, and the pitch
  divided by 1.5 is two thirds of its value, rounded down.
\<close>

definition setRotation :: "i32 \<Rightarrow> byte \<Rightarrow> byte \<Rightarrow> world act" where
  "setRotation this yaw pitch = upd_player this (\<lambda>p. p\<lparr>pl_rot := (yaw, of_nat (2 * unat pitch div 3))\<rparr>)"

definition teleport :: "i32 \<Rightarrow> Vector3 \<Rightarrow> world act" where
  "teleport this pos = act_then (act_then
     (sendSynchronizePosition this pos)
     (forceSetPosition this pos))
     (for_others this (\<lambda>i. sendTeleportEntity i this pos))"

text \<open>The constants are 32, 128, -100 and -58.\<close>

definition position_delta :: "fpu \<Rightarrow> f64 \<Rightarrow> f64 \<Rightarrow> i16 result" where
  "position_delta F new old = f64_to_i16 (d_mul F
     (d_sub F (d_mul F new 0x4040000000000000) (d_mul F old 0x4040000000000000)) 0x4060000000000000)"

definition deltas :: "fpu \<Rightarrow> Player \<Rightarrow> (i16 \<times> i16 \<times> i16) result" where
  "deltas F p = rbind (position_delta F (v3_x (pl_pos p)) (v3_x (pl_lastPos p))) (\<lambda>dx.
     rbind (position_delta F (v3_y (pl_pos p)) (v3_y (pl_lastPos p))) (\<lambda>dy.
     rbind (position_delta F (v3_z (pl_pos p)) (v3_z (pl_lastPos p))) (\<lambda>dz. Inr (dx, dy, dz))))"

definition send_moved :: "i32 \<Rightarrow> bool \<Rightarrow> bool \<Rightarrow> i16 \<times> i16 \<times> i16 \<Rightarrow> byte \<times> byte \<Rightarrow> world act" where
  "send_moved this updatePos updateRot d rot =
     (case d of (dx, dy, dz) \<Rightarrow>
        let head = (\<lambda>i. sendHeadRotation i \<lparr>HeadRotation_entityID = this, HeadRotation_headYaw = fst rot\<rparr>) in
        if updatePos \<and> updateRot then for_others this (\<lambda>i. act_then
          (sendUpdateEntityPositionAndRotation i \<lparr>UpdateEntityPositionRotation_entityId = this,
             UpdateEntityPositionRotation_deltaX = dx, UpdateEntityPositionRotation_deltaY = dy,
             UpdateEntityPositionRotation_deltaZ = dz, UpdateEntityPositionRotation_yaw = fst rot,
             UpdateEntityPositionRotation_pitch = snd rot, UpdateEntityPositionRotation_onGround = True\<rparr>)
          (head i))
        else if updatePos then for_others this (\<lambda>i.
          sendUpdateEntityPosition i \<lparr>UpdateEntityPosition_entityId = this, UpdateEntityPosition_deltaX = dx,
             UpdateEntityPosition_deltaY = dy, UpdateEntityPosition_deltaZ = dz,
             UpdateEntityPosition_onGround = True\<rparr>)
        else if updateRot then for_others this (\<lambda>i. act_then
          (sendUpdateEntityRotation i \<lparr>UpdateEntityRotation_entityId = this, UpdateEntityRotation_yaw = fst rot,
             UpdateEntityRotation_pitch = snd rot, UpdateEntityRotation_onGround = True\<rparr>)
          (head i))
        else act_skip)"

definition tickPosition :: "server_env \<Rightarrow> i32 \<Rightarrow> world act" where
  "tickPosition E this = act_then
     (with_player this (\<lambda>p w.
        let updatePos = vector3_ne (pl_pos p) (pl_lastPos p); updateRot = pl_rot p \<noteq> pl_lastRot p in
        case (if updatePos then deltas (env_fpu E) p else Inr (0, 0, 0)) of
          Inl e \<Rightarrow> (w, Inl e)
        | Inr d \<Rightarrow> act_then
            (upd_player this (\<lambda>p. p\<lparr>pl_lastPos := (if updatePos then pl_pos p else pl_lastPos p),
               pl_lastRot := (if updateRot then pl_rot p else pl_lastRot p)\<rparr>))
            (send_moved this updatePos updateRot d (pl_rot p)) w))
     (with_player this (\<lambda>p.
        if f64_less (v3_y (pl_pos p)) 0xC059000000000000
        then teleport this ((pl_pos p)\<lparr>v3_y := 0xC04D000000000000\<rparr>) else act_skip))"

section \<open>Keep-alive\<close>

definition processKeepAlive :: "server_env \<Rightarrow> i32 \<Rightarrow> world act" where
  "processKeepAlive E this = with_player this (\<lambda>p.
     if pl_keepAliveId p \<noteq> 0 then
       let n = pl_keepAliveIgnored p + 1 in
       act_then (upd_player this (\<lambda>p. p\<lparr>pl_keepAliveIgnored := n\<rparr>))
         (if uint (clk_tickRate (pl_keepAliveClock p)) * uint n \<ge> MAX_TICK_BEFORE_TIMEOUT
          then player_disconnect this (env_text E ''Skill issues detected'') else act_skip)
     else act_then (upd_player this (\<lambda>p. p\<lparr>pl_keepAliveId := env_now E\<rparr>)) (sendKeepAlive this (env_now E)))"

definition tick_keepAlive :: "server_env \<Rightarrow> i32 \<Rightarrow> world act" where
  "tick_keepAlive E this = with_player this (\<lambda>p.
     case clock_tick (pl_keepAliveClock p) of
       (c, fired) \<Rightarrow> act_then (upd_player this (\<lambda>p. p\<lparr>pl_keepAliveClock := c\<rparr>))
         (if fired then processKeepAlive E this else act_skip))"

section \<open>Food\<close>

text \<open>
  The statements of \<open>_foodTick\<close> one after the other, on the fields of the player and \<open>needUpdate\<close>. The
  constants are 1, 4, 6 and 10 as \<open>float\<close> and 1 and 6 as \<open>double\<close>.
\<close>

definition starve :: "fpu \<Rightarrow> Player \<times> bool \<Rightarrow> Player \<times> bool" where
  "starve F = (\<lambda>(p, need).
     if pl_foodLevel p = MIN_FOOD_LEVEL \<and> f32_less 0x41200000 (pl_health p) \<and> sint (pl_foodTickTimer p) \<ge> 80
     then (p\<lparr>pl_health := f_sub F (pl_health p) 0x3F800000, pl_foodTickTimer := 0\<rparr>, True)
     else (p, need))"

definition regenerate_fast :: "fpu \<Rightarrow> Player \<times> bool \<Rightarrow> Player \<times> bool" where
  "regenerate_fast F = (\<lambda>(p, need).
     if f32_less 0 (pl_foodSaturationLevel p) \<and> pl_foodLevel p = MAX_FOOD_LEVEL \<and> sint (pl_foodTickTimer p) \<ge> 10
     then
       let part = d_mul F (d_div F 0x3FF0000000000000 0x4018000000000000) (d_of_f F (pl_foodSaturationLevel p)) in
       (p\<lparr>pl_health := f_of_d F (d_add F (d_of_f F (pl_health p))
            (if f64_le 0x3FF0000000000000 part then 0x3FF0000000000000 else part)),
          pl_foodExhaustionLevel := f_add F (pl_foodExhaustionLevel p) 0x40C00000, pl_foodTickTimer := 0\<rparr>, True)
     else (p, need))"

definition regenerate_slow :: "fpu \<Rightarrow> Player \<times> bool \<Rightarrow> Player \<times> bool" where
  "regenerate_slow F = (\<lambda>(p, need).
     if sint (pl_foodTickTimer p) \<ge> 80
     then (p\<lparr>pl_health := f_add F (pl_health p) 0x3F800000,
             pl_foodExhaustionLevel := f_add F (pl_foodExhaustionLevel p) 0x40C00000, pl_foodTickTimer := 0\<rparr>, True)
     else (p, need))"

definition regenerate :: "fpu \<Rightarrow> Player \<times> bool \<Rightarrow> Player \<times> bool" where
  "regenerate F s =
     (if sint (pl_foodLevel (fst s)) \<ge> sint MIN_FOOD_LEVEL_FOR_REGENERATION \<and> f32_less (pl_health (fst s)) (pl_maxHealth (fst s))
      then regenerate_slow F (regenerate_fast F s) else s)"

definition exhaust :: "fpu \<Rightarrow> Player \<times> bool \<Rightarrow> Player \<times> bool" where
  "exhaust F = (\<lambda>(p, need).
     if f32_le 0x40800000 (pl_foodExhaustionLevel p) \<and> \<not> need then
       let p1 = p\<lparr>pl_foodExhaustionLevel := f_sub F (pl_foodExhaustionLevel p) 0x40800000\<rparr> in
       if f32_less 0 (pl_foodSaturationLevel p1)
       then (p1\<lparr>pl_foodSaturationLevel := f_sub F (pl_foodSaturationLevel p1) 0x3F800000\<rparr>, True)
       else (p1\<lparr>pl_foodLevel := pl_foodLevel p1 - (if sint (pl_foodLevel p1) > 0 then 1 else 0)\<rparr>, True)
     else (p, need))"

definition food_timer :: "Player \<times> bool \<Rightarrow> Player \<times> bool" where
  "food_timer = (\<lambda>(p, need).
     let p1 = (if sint (pl_foodLevel p) < sint MIN_FOOD_LEVEL_FOR_REGENERATION \<and> sint (pl_foodLevel p) > 0
                  \<and> sint (pl_foodTickTimer p) > 0 then p\<lparr>pl_foodTickTimer := 0\<rparr> else p) in
     (if \<not> need \<and> (sint (pl_foodLevel p1) \<ge> sint MIN_FOOD_LEVEL_FOR_REGENERATION \<and> f32_less (pl_health p1) (pl_maxHealth p1)
                  \<or> pl_foodLevel p1 = MIN_FOOD_LEVEL \<and> f32_less 0x41200000 (pl_health p1))
      then p1\<lparr>pl_foodTickTimer := pl_foodTickTimer p1 + 1\<rparr> else p1, need))"

definition food_step :: "fpu \<Rightarrow> Player \<Rightarrow> Player \<times> bool" where
  "food_step F p = food_timer (exhaust F (regenerate F (starve F (p, False))))"

definition eats :: "Player \<Rightarrow> bool" where
  "eats p \<longleftrightarrow> pl_gamemode p = Survival \<or> pl_gamemode p = Adventure"

definition foodTick :: "server_env \<Rightarrow> i32 \<Rightarrow> world act" where
  "foodTick E this = with_player this (\<lambda>p.
     if \<not> eats p then act_skip
     else act_then (upd_player this (\<lambda>p. fst (food_step (env_fpu E) p)))
       (if snd (food_step (env_fpu E) p) then sendHealth this else act_skip))"

definition player_tick :: "server_env \<Rightarrow> i32 \<Rightarrow> world act" where
  "player_tick E this = act_then (act_then (tick_keepAlive E this) (tickPosition E this)) (foodTick E this)"

text \<open>\<open>Item::tick\<close> does nothing.\<close>

definition dimension_tick :: "server_env \<Rightarrow> world act" where
  "dimension_tick E w = act_for (d_entities w) (\<lambda>e.
     case e of PlayerEntity i \<Rightarrow> player_tick E i | ItemEntity _ _ _ \<Rightarrow> act_skip) w"

section \<open>The item in hand\<close>

text \<open>\<open>_inventory->hotbar().at(_heldItem)\<close>; a negative index is a huge unsigned one.\<close>

definition with_held :: "i32 \<Rightarrow> (nat \<Rightarrow> Slot \<Rightarrow> world act) \<Rightarrow> world act" where
  "with_held this f = with_player this (\<lambda>p w.
     let i = sint (pl_heldItem p) in
     if i < 0 \<or> int HOTBAR_SIZE \<le> i then (w, Inl StdOutOfRange)
     else f (nat i) (hotbar (pl_inventory p) ! nat i) w)"

definition upd_inventory :: "i32 \<Rightarrow> (Inventory \<Rightarrow> Inventory) \<Rightarrow> world act" where
  "upd_inventory this f = upd_player this (\<lambda>p. p\<lparr>pl_inventory := f (pl_inventory p)\<rparr>)"

definition upd_hotbar :: "i32 \<Rightarrow> nat \<Rightarrow> (Slot \<Rightarrow> Slot) \<Rightarrow> world act" where
  "upd_hotbar this i f = upd_inventory this (\<lambda>c. c\<lparr>hotbar := (hotbar c)[i := f (hotbar c ! i)]\<rparr>)"

text \<open>One item less, and the slot emptied when none is left.\<close>

definition take_one :: "Slot \<Rightarrow> Slot" where
  "take_one s = (if itemCount (count_dec s) = 0 then slot_reset (count_dec s) else count_dec s)"

text \<open>
  A method of the inventory; the items it throws are dropped where the player is.
\<close>

definition run_inventory :: "i32 \<Rightarrow> Inventory act \<Rightarrow> world act" where
  "run_inventory this f = with_player this (\<lambda>p w.
     case f ((pl_inventory p)\<lparr>dropped := []\<rparr>) of
       (c, r) \<Rightarrow> act_then (act_then
         (upd_inventory this (\<lambda>_. c\<lparr>dropped := []\<rparr>))
         (act_for (dropped c) (\<lambda>s. dropItem s (pl_pos p))))
         (\<lambda>w. (w, r)) w)"

record FoodItem =
  food_name :: string
  food_id :: i32
  foodValue :: i32
  saturation :: f32

definition mkFood :: "string \<Rightarrow> i32 \<Rightarrow> i32 \<Rightarrow> f32 \<Rightarrow> FoodItem" where
  "mkFood n i v s = \<lparr>food_name = n, food_id = i, foodValue = v, saturation = s\<rparr>"

definition foodItems :: "FoodItem list" where
  "foodItems =
    [mkFood ''Apple'' 734 4 0x4019999A,
     mkFood ''Baked Potato'' 1025 5 0x40C00000,
     mkFood ''Beetroot'' 1078 1 0x3F99999A,
     mkFood ''Beetroot Soup'' 1080 6 0x40E66666,
     mkFood ''Bread'' 790 5 0x40C00000,
     mkFood ''Cake slice'' (-1) 2 0x3ECCCCCD,
     mkFood ''Carrot'' 1023 3 0x40666666,
     mkFood ''Chorus Fruit'' 1076 4 0x4019999A,
     mkFood ''Cooked Chicken'' 923 6 0x40E66666,
     mkFood ''Cooked Cod'' 872 5 0x40C00000,
     mkFood ''Cooked Mutton'' 1058 6 0x4119999A,
     mkFood ''Cooked Porkchop'' 817 8 0x414CCCCD,
     mkFood ''Cooked Rabbit'' 1045 5 0x40C00000,
     mkFood ''Cooked Salmon'' 873 6 0x4119999A,
     mkFood ''Cookie'' 913 2 0x3ECCCCCD,
     mkFood ''Dried Kelp'' 917 1 0x3F19999A,
     mkFood ''Enchanted Golden Apple'' 820 4 0x4119999A,
     mkFood ''Golden Apple'' 819 4 0x4119999A,
     mkFood ''Glow Berries'' 1135 2 0x3ECCCCCD,
     mkFood ''Golden Carrot'' 1028 6 0x41666666,
     mkFood ''Honey Bottle'' 1142 6 0x3F99999A,
     mkFood ''Melon Slice'' 916 2 0x3F99999A,
     mkFood ''Mushroom Stew'' 784 6 0x40E66666,
     mkFood ''Poisonous Potato'' 1026 2 0x3F99999A,
     mkFood ''Potato'' 1024 1 0x3F19999A,
     mkFood ''Pufferfish'' 871 1 0x3E4CCCCD,
     mkFood ''Pumpkin Pie'' 1037 8 0x4099999A,
     mkFood ''Rabbit Stew'' 1046 10 0x41400000,
     mkFood ''Raw Beef'' 920 3 0x3FE66666,
     mkFood ''Raw Chicken'' 922 2 0x3F99999A,
     mkFood ''Raw Cod'' 868 2 0x3ECCCCCD,
     mkFood ''Raw Mutton'' 1057 2 0x3F99999A,
     mkFood ''Raw Porkchop'' 816 3 0x3FE66666,
     mkFood ''Raw Rabbit'' 1044 3 0x3FE66666,
     mkFood ''Raw Salmon'' 869 2 0x3ECCCCCD,
     mkFood ''Rotten Flesh'' 924 4 0x3F4CCCCD,
     mkFood ''Spider Eye'' 932 2 0x404CCCCD,
     mkFood ''Steak'' 921 8 0x414CCCCD,
     mkFood ''Suspicious Stew'' 1113 6 0x40E66666,
     mkFood ''Sweet Berries'' 1134 2 0x3ECCCCCD,
     mkFood ''Tropical Fish'' 870 1 0x3E4CCCCD]"

definition swallow :: "fpu \<Rightarrow> FoodItem \<Rightarrow> Player \<Rightarrow> Player" where
  "swallow F food p =
     (let level = pl_foodLevel p + foodValue food; level' = (if sint level > sint MAX_FOOD_LEVEL then MAX_FOOD_LEVEL else level);
          sat = f_add F (pl_foodSaturationLevel p) (saturation food) in
      p\<lparr>pl_foodLevel := level',
        pl_foodSaturationLevel := (if f32_less (f_of_i F (sint level')) sat then f_of_i F (sint level') else sat)\<rparr>)"

definition eat :: "server_env \<Rightarrow> i32 \<Rightarrow> world act" where
  "eat E this = with_player this (\<lambda>p.
     if \<not> eats p then act_skip
     else with_held this (\<lambda>i s.
       if \<not> present s then act_skip
       else
         case find (\<lambda>item. food_id item = itemID s) foodItems of
           None \<Rightarrow> act_skip
         | Some food \<Rightarrow>
             if sint (pl_foodLevel p) \<ge> sint MAX_FOOD_LEVEL then act_skip
             else act_then (act_then (act_then
               (upd_player this (swallow (env_fpu E) food))
               (sendHealth this))
               (upd_hotbar this i count_dec))
               (with_player this (\<lambda>p. sendSetContainerSlot this \<lparr>SetContainerSlot_container = pl_inventory p,
                  SetContainerSlot_containerId = scast (c_id (pl_inventory p)),
                  SetContainerSlot_slot = of_int (sint (pl_heldItem p) + int HOTBAR_OFFSET)\<rparr>))))"

section \<open>Damage\<close>

definition damage :: "server_env \<Rightarrow> i32 \<Rightarrow> f32 \<Rightarrow> world act" where
  "damage E this amount = (if env_cancelEntityDamage E this then act_skip
     else upd_player this (\<lambda>p. p\<lparr>pl_health := f_sub (env_fpu E) (pl_health p) amount\<rparr>))"

text \<open>
  \<open>Vector2::operator-\<close> subtracts its left operand from the right one, so the direction is the one away
  from the source. The force is 2500.
\<close>

definition knockback :: "server_env \<Rightarrow> i32 \<Rightarrow> Vector3 \<Rightarrow> world act" where
  "knockback E this source = with_player this (\<lambda>p.
     let F = env_fpu E; dx = d_sub F (v3_x (pl_pos p)) (v3_x source); dz = d_sub F (v3_z (pl_pos p)) (v3_z source);
         mag = d_sqrt F (d_add F (d_mul F dx dx) (d_mul F dz dz));
         force = d_of_f F 0x451C4000 in
     for_players (\<lambda>player. act_then
       (\<lambda>w. case rbind (f64_to_i16 (d_mul F (d_div F dx mag) force)) (\<lambda>vx.
                 rbind (f64_to_i16 (d_mul F (d_of_f F 0x3F800000) force)) (\<lambda>vy.
                 rbind (f64_to_i16 (d_mul F (d_div F dz mag) force)) (\<lambda>vz. Inr (vx, vy, vz)))) of
               Inl e \<Rightarrow> (w, Inl e)
             | Inr (vx, vy, vz) \<Rightarrow> sendEntityVelocity player \<lparr>EntityVelocity_entityId = this,
                 EntityVelocity_velocityX = vx, EntityVelocity_velocityY = vy, EntityVelocity_velocityZ = vz\<rparr> w)
       (sendEntityAnimation player 1 this)))"

definition attack :: "server_env \<Rightarrow> i32 \<Rightarrow> Vector3 \<Rightarrow> world act" where
  "attack E this source = act_then (damage E this 0x3F800000) (knockback E this source)"

section \<open>Sounds\<close>

text \<open>Positions are sent as fixed-point numbers; volume and pitch are 0.5 and 1.\<close>

definition fixed_point :: "fpu \<Rightarrow> f64 \<Rightarrow> i32 result" where
  "fixed_point F x = rbind (f64_to_int (- (2 ^ 31)) (2 ^ 31 - 1) (d_mul F x 0x4040000000000000)) (\<lambda>v. Inr (of_int v))"

definition playSoundEffect :: "server_env \<Rightarrow> i32 \<Rightarrow> i32 \<Rightarrow> Vector3 \<Rightarrow> i32 \<Rightarrow> world act" where
  "playSoundEffect E this soundName pos category = (let F = env_fpu E in player_send this
     (rbind (fixed_point F (v3_x pos)) (\<lambda>x. rbind (fixed_point F (v3_y pos)) (\<lambda>y. rbind (fixed_point F (v3_z pos)) (\<lambda>z.
        createSoundEffect \<lparr>SoundEffect_soundId = soundName, SoundEffect_category = category, SoundEffect_x = x,
          SoundEffect_y = y, SoundEffect_z = z, SoundEffect_volume = 0x3F000000, SoundEffect_pitch = 0x3F800000,
          SoundEffect_seed = 0\<rparr>)))))"

definition playEntitySoundEffect :: "i32 \<Rightarrow> i32 \<Rightarrow> i32 \<Rightarrow> i32 \<Rightarrow> world act" where
  "playEntitySoundEffect this soundName entity category = player_send this (createEntitySoundEffect
     \<lparr>EntitySoundEffect_soundId = soundName, EntitySoundEffect_category = category,
      EntitySoundEffect_entityId = entity, EntitySoundEffect_volume = 0x3F800000,
      EntitySoundEffect_pitch = 0x3F800000, EntitySoundEffect_seed = 1\<rparr>)"

definition playCustomSound :: "server_env \<Rightarrow> i32 \<Rightarrow> string \<Rightarrow> Vector3 \<Rightarrow> i32 \<Rightarrow> world act" where
  "playCustomSound E this soundName pos category = (let F = env_fpu E in player_send this
     (rbind (fixed_point F (v3_x pos)) (\<lambda>x. rbind (fixed_point F (v3_y pos)) (\<lambda>y. rbind (fixed_point F (v3_z pos)) (\<lambda>z.
        createCustomSoundEffect \<lparr>CustomSoundEffect_name = soundName, CustomSoundEffect_category = category,
          CustomSoundEffect_x = x, CustomSoundEffect_y = y, CustomSoundEffect_z = z,
          CustomSoundEffect_volume = 0x3F000000, CustomSoundEffect_pitch = 0x3F800000,
          CustomSoundEffect_seed = 0\<rparr>)))))"

end
