(* ===== verification/Player_Handlers.thy ===== *)
theory Player_Handlers
  imports Player_Actions Server_Dispatch
begin

text \<open>
  The handlers of \<open>Player.cpp\<close> for the packets of the play state, and the sequence of packets a player
  that logs in is sent. Handlers the code leaves empty do nothing. Plugins are told of events; only
  their answers to the events they may cancel matter here.
\<close>

section \<open>Chat and information\<close>

definition onChatMessage :: "server_env \<Rightarrow> i32 \<Rightarrow> ChatMessage \<Rightarrow> world act" where
  "onChatMessage E this pck = sendPlayerMessage E (env_text E (ChatMessage_message pck)) this"

definition onChatCommand :: "server_env \<Rightarrow> i32 \<Rightarrow> ChatCommand \<Rightarrow> world act" where
  "onChatCommand E this pck = env_parseCommand E (ChatCommand_command pck) this"

definition onClientInformation :: "i32 \<Rightarrow> ClientInformation \<Rightarrow> world act" where
  "onClientInformation this pck = upd_player this (\<lambda>p. p\<lparr>pl_chatVisibility := ClientInformation_chatMode pck\<rparr>)"

definition onPluginMessage :: "i32 \<Rightarrow> PluginMessage \<Rightarrow> world act" where
  "onPluginMessage this pck =
     (if PluginMessage_channel pck = ''minecraft:brand''
      then player_send this (createPluginMessageResponse \<lparr>PluginMessageResponse_channel = ''minecraft:brand'',
        PluginMessageResponse_data = [0x05, 0x43, 0x75, 0x62, 0x69, 0x63]\<rparr>)
      else with_player this (\<lambda>_. act_skip))"

definition onKeepAliveResponse :: "server_env \<Rightarrow> i32 \<Rightarrow> KeepAliveResponse \<Rightarrow> world act" where
  "onKeepAliveResponse E this pck = with_player this (\<lambda>p.
     if KeepAliveResponse_keepAliveId pck \<noteq> pl_keepAliveId p
     then player_disconnect this (env_text E ''Wrong Keep Alive ID'')
     else upd_player this (\<lambda>p. p\<lparr>pl_keepAliveId := 0\<rparr>))"

section \<open>Containers\<close>

text \<open>
  \<open>std::find_if\<close> in \<open>_containers\<close>; the result is dereferenced without a test.
\<close>

fun find_container :: "i32 \<Rightarrow> Inventory list \<Rightarrow> nat option" where
  "find_container i [] = None"
| "find_container i (c # cs) = (if c_id c = i then Some 0 else map_option Suc (find_container i cs))"

definition run_container :: "i32 \<Rightarrow> nat \<Rightarrow> Inventory \<Rightarrow> Inventory act \<Rightarrow> world act" where
  "run_container this k container f =
     (case f (container\<lparr>dropped := []\<rparr>) of
        (c, r) \<Rightarrow> act_then (act_then
          (upd_player this (\<lambda>p. p\<lparr>pl_containers := (pl_containers p)[k := c\<lparr>dropped := []\<rparr>]\<rparr>))
          (with_player this (\<lambda>p. act_for (dropped c) (\<lambda>s. dropItem s (pl_pos p)))))
          (\<lambda>w. (w, r)))"

definition onClickContainer :: "i32 \<Rightarrow> ClickContainer \<Rightarrow> world act" where
  "onClickContainer this pck = with_player this (\<lambda>p.
     let click = inventory_onClick (pl_gamemode p = Creative) (ClickContainer_slot pck) (ucast (ClickContainer_button pck))
                   (ucast (ClickContainer_mode pck)) (ClickContainer_arrayOfSlots pck) in
     if ClickContainer_windowId pck = 0 then run_inventory this click
     else case find_container (ucast (ClickContainer_windowId pck)) (pl_containers p) of
            None \<Rightarrow> (\<lambda>w. (w, Inl (UB OutOfBoundsRead)))
          | Some k \<Rightarrow> run_container this k (pl_containers p ! k) click)"

text \<open>\<open>onButtonClick\<close> does nothing, in any container.\<close>

definition onClickContainerButton :: "i32 \<Rightarrow> ClickContainerButton \<Rightarrow> world act" where
  "onClickContainerButton this pck = with_player this (\<lambda>p.
     if ClickContainerButton_windowId pck = 0 then act_skip
     else case find_container (ucast (ClickContainerButton_windowId pck)) (pl_containers p) of
            None \<Rightarrow> (\<lambda>w. (w, Inl (UB OutOfBoundsRead)))
          | Some k \<Rightarrow> act_skip)"

definition closeContainer :: "i32 \<Rightarrow> byte \<Rightarrow> world act" where
  "closeContainer this i = with_player this (\<lambda>p.
     let close = act_do (container_close inventory) in
     if i = 0 then run_inventory this close
     else case find_container (ucast i) (pl_containers p) of
            None \<Rightarrow> act_skip
          | Some k \<Rightarrow> act_then (act_then
              (run_container this k (pl_containers p ! k) close)
              (upd_player this (\<lambda>p. p\<lparr>pl_containers := take k (pl_containers p) @ drop (Suc k) (pl_containers p)\<rparr>)))
              (sendCloseContainer this i))"

definition onCloseContainerRequest :: "i32 \<Rightarrow> CloseContainerRequest \<Rightarrow> world act" where
  "onCloseContainerRequest this pck = closeContainer this (CloseContainerRequest_windowId pck)"

definition onSetHeldItem :: "i32 \<Rightarrow> SetHeldItem \<Rightarrow> world act" where
  "onSetHeldItem this pck = upd_player this (\<lambda>p. p\<lparr>pl_heldItem := ucast (SetHeldItem_slot pck)\<rparr>)"

definition onSetCreativeModeSlot :: "i32 \<Rightarrow> SetCreativeModeSlot \<Rightarrow> world act" where
  "onSetCreativeModeSlot this pck w =
     (case inventory_at (SetCreativeModeSlot_slot pck) of
        Inl e \<Rightarrow> (w, Inl e)
      | Inr r \<Rightarrow> upd_inventory this (inventory_put r (SetCreativeModeSlot_clickedItem pck)) w)"

section \<open>Movement\<close>

definition onSetPlayerPosition :: "server_env \<Rightarrow> i32 \<Rightarrow> SetPlayerPosition \<Rightarrow> world act" where
  "onSetPlayerPosition E this pck = setPosition E this \<lparr>v3_x = SetPlayerPosition_x pck,
     v3_y = SetPlayerPosition_feetY pck, v3_z = SetPlayerPosition_z pck\<rparr> (SetPlayerPosition_onGround pck)"

text \<open>Angles are converted from \<open>float\<close> to \<open>uint8_t\<close> when they are passed on.\<close>

definition set_float_rotation :: "i32 \<Rightarrow> f32 \<Rightarrow> f32 \<Rightarrow> world act" where
  "set_float_rotation this yaw pitch w =
     (case rbind (f32_to_u8 yaw) (\<lambda>y. rbind (f32_to_u8 pitch) (\<lambda>p. Inr (y, p))) of
        Inl e \<Rightarrow> (w, Inl e)
      | Inr (y, p) \<Rightarrow> setRotation this y p w)"

definition onSetPlayerPositionAndRotation :: "server_env \<Rightarrow> i32 \<Rightarrow> SetPlayerPositionAndRotation \<Rightarrow> world act" where
  "onSetPlayerPositionAndRotation E this pck = act_then
     (setPosition E this \<lparr>v3_x = SetPlayerPositionAndRotation_x pck, v3_y = SetPlayerPositionAndRotation_feetY pck,
        v3_z = SetPlayerPositionAndRotation_z pck\<rparr> (SetPlayerPositionAndRotation_onGround pck))
     (set_float_rotation this (SetPlayerPositionAndRotation_yaw pck) (SetPlayerPositionAndRotation_pitch pck))"

definition onSetPlayerRotation :: "i32 \<Rightarrow> SetPlayerRotation \<Rightarrow> world act" where
  "onSetPlayerRotation this pck = set_float_rotation this (SetPlayerRotation_yaw pck) (SetPlayerRotation_pitch pck)"

definition onPlayerAbilities :: "i32 \<Rightarrow> PlayerAbilities \<Rightarrow> world act" where
  "onPlayerAbilities this pck =
     (let flying = PlayerAbilities_flags pck AND 0x02 \<noteq> 0;
          flags = (if flying then 0x02 else 0) OR (0x01 OR 0x04 OR 0x08) in
      act_then (upd_player this (\<lambda>p. p\<lparr>pl_isFlying := flying\<rparr>))
        (sendPlayerAbilities this \<lparr>PlayerAbilitiesClient_flags = flags,
           PlayerAbilitiesClient_flyingSpeed = 0x3D4CCCCD, PlayerAbilitiesClient_fieldOfViewModifier = 0x3DCCCCCD\<rparr>))"

definition onPlayerCommand :: "i32 \<Rightarrow> PlayerCommand \<Rightarrow> world act" where
  "onPlayerCommand this pck =
     (if PlayerCommand_actionId pck = 3 then upd_player this (\<lambda>p. p\<lparr>pl_isSprinting := True\<rparr>)
      else if PlayerCommand_actionId pck = 4 then upd_player this (\<lambda>p. p\<lparr>pl_isSprinting := False\<rparr>)
      else act_skip)"

definition onSwingArm :: "i32 \<Rightarrow> SwingArm \<Rightarrow> world act" where
  "onSwingArm this pck = for_others this (\<lambda>i. sendSwingArm i (SwingArm_hand pck = 0) this)"

section \<open>Blocks, items and fights\<close>

definition onInteract :: "server_env \<Rightarrow> i32 \<Rightarrow> Interact \<Rightarrow> world act" where
  "onInteract E this pck = with_player this (\<lambda>p w.
     case getEntityByID w (Interact_entityId pck) of
       Inl e \<Rightarrow> (w, Inl e)
     | Inr target \<Rightarrow>
         if Interact_type pck \<noteq> 1 then (w, Inr ())
         else act_then
           (case target of
              PlayerEntity i \<Rightarrow> with_player i (\<lambda>q.
                if pl_gamemode q \<noteq> Creative then act_then (attack E i (pl_pos p)) (sendHealth i)
                else attack E i (pl_pos p))
            | ItemEntity _ _ _ \<Rightarrow> act_skip)
           (upd_player this (\<lambda>p. p\<lparr>pl_foodExhaustionLevel :=
              f_add (env_fpu E) (pl_foodExhaustionLevel p) FOOD_EXHAUSTION_ATTACK\<rparr>)) w)"

text \<open>\<open>Event::cancelBlockDestroy\<close>; the block it prints is looked up first.\<close>

definition cancelBlockDestroy :: "i32 \<Rightarrow> Position \<Rightarrow> world act" where
  "cancelBlockDestroy this pos w =
     (case rbind (level_getChunkColumnFromBlockPos (d_level w) (scast (pos_x pos)) (scast (pos_z pos))) (\<lambda>c. column_getBlock c pos) of
        Inl e \<Rightarrow> (w, Inl e)
      | Inr _ \<Rightarrow> sendBlockUpdate this \<lparr>BlockUpdate_location = pos, BlockUpdate_blockId = 2\<rparr> w)"

text \<open>The constants are 0.005 and 0.5.\<close>

definition finish_digging :: "server_env \<Rightarrow> i32 \<Rightarrow> Position \<Rightarrow> world act" where
  "finish_digging E this pos =
     (let F = env_fpu E in
      if env_cancelBlockDestroy E pos then cancelBlockDestroy this pos
      else act_then (act_then
        (dimension_updateBlock pos 0)
        (upd_player this (\<lambda>p. p\<lparr>pl_foodExhaustionLevel :=
           f_of_d F (d_add F (d_of_f F (pl_foodExhaustionLevel p)) 0x3F747AE147AE147B)\<rparr>)))
        (dropItem \<lparr>present = True, itemID = 721, itemCount = 1\<rparr>
           \<lparr>v3_x = d_add F (d_of_i F (sint (pos_x pos))) 0x3FE0000000000000, v3_y = d_of_i F (sint (pos_y pos)),
            v3_z = d_add F (d_of_i F (sint (pos_z pos))) 0x3FE0000000000000\<rparr>))"

definition drop_stack :: "i32 \<Rightarrow> world act" where
  "drop_stack this = with_held this (\<lambda>i s. with_player this (\<lambda>p.
     act_then (dropItem s (pl_pos p)) (upd_hotbar this i slot_reset)))"

definition drop_one :: "i32 \<Rightarrow> world act" where
  "drop_one this = with_held this (\<lambda>i s.
     if \<not> present s then act_skip
     else with_player this (\<lambda>p. act_then
       (dropItem \<lparr>present = True, itemID = itemID s, itemCount = 1\<rparr> (pl_pos p))
       (upd_hotbar this i take_one)))"

text \<open>In \<open>StartedDigging\<close> only the event depends on the game mode; its answer is not used.\<close>

definition onPlayerAction :: "server_env \<Rightarrow> i32 \<Rightarrow> PlayerAction \<Rightarrow> world act" where
  "onPlayerAction E this pck =
     (let status = PlayerAction_status pck; pos = PlayerAction_location pck in
      if status = 0 then dimension_updateBlock pos 0
      else if status = 1 then act_skip
      else if status = 2 then finish_digging E this pos
      else if status = 3 then drop_stack this
      else if status = 4 then drop_one this
      else if status = 5 then eat E this
      else if status = 6 then with_held this (\<lambda>i _. upd_inventory this (swap_at inventory OffhandRef (HotbarRef i)))
      else act_skip)"

fun beside :: "i32 \<Rightarrow> Position \<Rightarrow> Position" where
  "beside face pos =
     (if face = 0 then pos\<lparr>pos_y := pos_y pos - 1\<rparr>
      else if face = 1 then pos\<lparr>pos_y := pos_y pos + 1\<rparr>
      else if face = 2 then pos\<lparr>pos_z := pos_z pos - 1\<rparr>
      else if face = 3 then pos\<lparr>pos_z := pos_z pos + 1\<rparr>
      else if face = 4 then pos\<lparr>pos_x := pos_x pos - 1\<rparr>
      else if face = 5 then pos\<lparr>pos_x := pos_x pos + 1\<rparr>
      else pos)"

definition onUseItemOn :: "server_env \<Rightarrow> i32 \<Rightarrow> UseItemOn \<Rightarrow> world act" where
  "onUseItemOn E this pck = with_held this (\<lambda>i s.
     act_then
       (if present s then
          (\<lambda>w. case env_itemBlock E (itemID s) of
                  Inl e \<Rightarrow> (w, Inl e)
                | Inr b \<Rightarrow> dimension_updateBlock (beside (UseItemOn_face pck) (UseItemOn_location pck)) b w)
        else act_skip)
       (with_player this (\<lambda>p. if pl_gamemode p = Creative then act_skip else upd_hotbar this i take_one)))"

section \<open>Dispatch\<close>

text \<open>
  The play part of \<open>Client::handleParsedClientPacket\<close>: the handlers that are empty are one case.
\<close>

fun handle_play :: "server_env \<Rightarrow> i32 \<Rightarrow> server_packet \<Rightarrow> world act" where
  "handle_play E this (SP_ChatMessage p) = onChatMessage E this p"
| "handle_play E this (SP_ChatCommand p) = onChatCommand E this p"
| "handle_play E this (SP_ClientInformation p) = onClientInformation this p"
| "handle_play E this (SP_ClickContainerButton p) = onClickContainerButton this p"
| "handle_play E this (SP_ClickContainer p) = onClickContainer this p"
| "handle_play E this (SP_CloseContainerRequest p) = onCloseContainerRequest this p"
| "handle_play E this (SP_PluginMessage p) = onPluginMessage this p"
| "handle_play E this (SP_Interact p) = onInteract E this p"
| "handle_play E this (SP_KeepAliveResponse p) = onKeepAliveResponse E this p"
| "handle_play E this (SP_SetPlayerPosition p) = onSetPlayerPosition E this p"
| "handle_play E this (SP_SetPlayerPositionAndRotation p) = onSetPlayerPositionAndRotation E this p"
| "handle_play E this (SP_SetPlayerRotation p) = onSetPlayerRotation this p"
| "handle_play E this (SP_PlayerAbilities p) = onPlayerAbilities this p"
| "handle_play E this (SP_PlayerAction p) = onPlayerAction E this p"
| "handle_play E this (SP_PlayerCommand p) = onPlayerCommand this p"
| "handle_play E this (SP_SetHeldItem p) = onSetHeldItem this p"
| "handle_play E this (SP_SetCreativeModeSlot p) = onSetCreativeModeSlot this p"
| "handle_play E this (SP_SwingArm p) = onSwingArm this p"
| "handle_play E this (SP_UseItemOn p) = onUseItemOn E this p"
| "handle_play E this _ = act_skip"

section \<open>Login\<close>

text \<open>The spawn point (8.5, 100, 8.5).\<close>

definition spawn_point :: Vector3 where
  "spawn_point = \<lparr>v3_x = 0x4021000000000000, v3_y = 0x4059000000000000, v3_z = 0x4021000000000000\<rparr>"

fun act_seq :: "'s act list \<Rightarrow> 's act" where
  "act_seq [] = act_skip"
| "act_seq (f # fs) = act_then f (act_seq fs)"

definition login_settings :: "i32 \<Rightarrow> world act" where
  "login_settings this = act_seq
     [sendFeatureFlags this \<lparr>FeatureFlags_flags = [''minecraft:vanilla'']\<rparr>,
      sendChangeDifficulty this \<lparr>ChangeDifficultyClient_difficulty = 1, ChangeDifficultyClient_locked = True\<rparr>,
      sendPlayerAbilities this \<lparr>PlayerAbilitiesClient_flags = 0x01 OR 0x02 OR 0x04 OR 0x08,
        PlayerAbilitiesClient_flyingSpeed = 0x3D4CCCCD, PlayerAbilitiesClient_fieldOfViewModifier = 0x3DCCCCCD\<rparr>,
      sendSetHeldItem this \<lparr>SetHeldItemClient_slot = 4\<rparr>,
      sendUpdateRecipes this \<lparr>UpdateRecipes_recipes = []\<rparr>,
      sendUpdateTags this \<lparr>UpdateTags_tags = []\<rparr>,
      sendEntityEvent this \<lparr>EntityEvent_entityId = this, EntityEvent_eventStatus = 24\<rparr>,
      sendCommands this \<lparr>Commands_nodes = [], Commands_rootIndex = 0\<rparr>,
      sendUpdateRecipiesBook this \<lparr>UpdateRecipesBook_action = 0,
        UpdateRecipesBook_craftingRecipeBookOpen = False, UpdateRecipesBook_craftingRecipeBookFilterActive = False,
        UpdateRecipesBook_smeltingRecipeBookOpen = False, UpdateRecipesBook_smeltingRecipeBookFilterActive = False,
        UpdateRecipesBook_blastFurnaceRecipeBookOpen = False, UpdateRecipesBook_blastFurnaceRecipeBookFilterActive = False,
        UpdateRecipesBook_smokerRecipeBookOpen = False, UpdateRecipesBook_smokerRecipeBookFilterActive = False,
        UpdateRecipesBook_recipesId = [], UpdateRecipesBook_recipiesIdForInit = []\<rparr>,
      teleport this spawn_point,
      sendServerData this \<lparr>ServerData_hasMotd = False, ServerData_motd = '''', ServerData_hasIcon = False,
        ServerData_icon = '''', ServerData_enforceSecureChat = False\<rparr>,
      addEntity (PlayerEntity this),
      addPlayer this,
      sendPlayerInfoAddPlayer this]"

definition login_cells :: "int \<Rightarrow> (int \<times> int) list" where
  "login_cells r = (0, 0) # filter (\<lambda>c. c \<noteq> (0, 0)) (cells_xz [- r..r + 1 - 1] [- r..r + 1 - 1])"

definition login_chunks :: "i32 \<Rightarrow> world act" where
  "login_chunks this = act_then (sendSetCenterChunk this (chunk_pos 0 0))
     (\<lambda>w. act_for (login_cells (uint (w_renderDistance w))) (\<lambda>(x, z). sendChunkAndLightUpdate this (chunk_pos x z)) w)"

definition login_state :: "server_env \<Rightarrow> i32 \<Rightarrow> world act" where
  "login_state E this = act_seq
     [sendInitializeWorldBorder this \<lparr>InitializeWorldBorder_x = 0, InitializeWorldBorder_z = 0,
        InitializeWorldBorder_oldDiameter = 0, InitializeWorldBorder_newDiameter = 0x40C3880000000000,
        InitializeWorldBorder_speed = 0, InitializeWorldBorder_portalTeleportBoundary = 29999984,
        InitializeWorldBorder_warningTime = 10, InitializeWorldBorder_warningBlocks = 10\<rparr>,
      sendSetDefaultSpawnPosition this \<lparr>SetDefaultSpawnPosition_position = \<lparr>pos_x = 0, pos_y = 100, pos_z = 0\<rparr>,
        SetDefaultSpawnPosition_angle = 0\<rparr>,
      with_player this (\<lambda>p. sendSetContainerContent this \<lparr>SetContainerContent_container = pl_inventory p\<rparr>),
      sendUpdateAttributes this \<lparr>UpdateAttributes_entityId = this, UpdateAttributes_attributes = []\<rparr>,
      sendUpdateAdvancements this \<lparr>UpdateAdvancements_resetOrClear = False, UpdateAdvancements_advancementMapping = [],
        UpdateAdvancements_identifiers = [], UpdateAdvancements_progressMapping = []\<rparr>,
      sendHealth this,
      sendSetExperience this \<lparr>SetExperience_experienceBar = 0, SetExperience_totalExperience = 0, SetExperience_level = 0\<rparr>,
      spawnPlayer this,
      teleport this spawn_point,
      with_player this (\<lambda>p. sendSystem_all (env_translated E MultiplayerPlayerJoined (pl_username p) '''') False)]"

definition continueLoginSequence :: "server_env \<Rightarrow> i32 \<Rightarrow> world act" where
  "continueLoginSequence E this = act_seq [login_settings this, login_chunks this, login_state E this]"

end
