(* ===== verification/Identity.thy ===== *)
theory Identity
  imports Structures
begin

text \<open>
  Who a player is: the text of a UUID (\<open>types.cpp\<close>), the identifier of a session sent to the
  authentication server (\<open>Checksum::digestToProtocol\<close>) and the whitelist (\<open>whitelist/Whitelist.cpp\<close>).
\<close>

section \<open>Hexadecimal text\<close>

definition hex_digit :: "nat \<Rightarrow> char" where
  "hex_digit n = ''0123456789abcdef'' ! n"

text \<open>\<open>std::hex\<close> without a width, and \<open>fmt::format("{:02x}")\<close> of a byte.\<close>

fun hex_of :: "nat \<Rightarrow> string" where
  "hex_of n = (if n < 16 then [hex_digit n] else hex_of (n div 16) @ [hex_digit (n mod 16)])"

declare hex_of.simps [simp del]

text \<open>\<open>std::to_string\<close> of an \<open>int\<close>.\<close>

fun dec_of :: "nat \<Rightarrow> string" where
  "dec_of n = (if n < 10 then [char_of (48 + n)] else dec_of (n div 10) @ [char_of (48 + n mod 10)])"

declare dec_of.simps [simp del]

definition to_string :: "int \<Rightarrow> string" where
  "to_string n = (if n < 0 then CHR ''-'' # dec_of (nat (- n)) else dec_of (nat n))"

definition hex2 :: "byte \<Rightarrow> string" where
  "hex2 b = [hex_digit (unat b div 16), hex_digit (unat b mod 16)]"

text \<open>\<open>std::setfill('0') << std::setw(n)\<close>.\<close>

definition zero_fill :: "nat \<Rightarrow> string \<Rightarrow> string" where
  "zero_fill n s = replicate (n - length s) (CHR ''0'') @ s"

definition hex_value :: "char \<Rightarrow> nat option" where
  "hex_value c = (let n = of_char c :: nat in
     if 48 \<le> n \<and> n \<le> 57 then Some (n - 48)
     else if 97 \<le> n \<and> n \<le> 102 then Some (n - 87)
     else if 65 \<le> n \<and> n \<le> 70 then Some (n - 55)
     else None)"

definition isspace :: "char \<Rightarrow> bool" where
  "isspace c \<longleftrightarrow> (let n = of_char c :: nat in n = 32 \<or> 9 \<le> n \<and> n \<le> 13)"

fun hex_prefix :: "string \<Rightarrow> nat list" where
  "hex_prefix [] = []"
| "hex_prefix (c # cs) = (case hex_value c of None \<Rightarrow> [] | Some d \<Rightarrow> d # hex_prefix cs)"

fun skip_sign :: "string \<Rightarrow> bool \<times> string" where
  "skip_sign [] = (False, [])"
| "skip_sign (c # cs) = (if c = CHR ''-'' then (True, cs) else if c = CHR ''+'' then (False, cs) else (False, c # cs))"

fun skip_0x :: "string \<Rightarrow> string" where
  "skip_0x (z # x # c # cs) =
     (if z = CHR ''0'' \<and> (x = CHR ''x'' \<or> x = CHR ''X'') \<and> hex_value c \<noteq> None then c # cs else z # x # c # cs)"
| "skip_0x s = s"

text \<open>
  \<open>std::stoull(s, 0, 16)\<close>: white space, a sign, an optional \<open>0x\<close> and as many digits as there are; no
  digit is \<open>std::invalid_argument\<close>, too large a number \<open>std::out_of_range\<close>.
\<close>

definition stoull16 :: "string \<Rightarrow> u64 result" where
  "stoull16 s =
     (case skip_sign (dropWhile isspace s) of (neg, t) \<Rightarrow>
        let ds = hex_prefix (skip_0x t); n = foldl (\<lambda>v d. v * 16 + d) 0 ds in
        if ds = [] then Inl LogicError
        else if n \<ge> 2 ^ 64 then Inl StdOutOfRange
        else Inr (if neg then - of_nat n else of_nat n))"

section \<open>UUIDs\<close>

text \<open>\<open>std::string::insert\<close>.\<close>

definition string_insert :: "nat \<Rightarrow> string \<Rightarrow> string \<Rightarrow> string result" where
  "string_insert i t s = (if i > length s then Inl StdOutOfRange else Inr (take i s @ t @ drop i s))"

definition u128_toString :: "u128 \<Rightarrow> string result" where
  "u128_toString u =
     rbind (string_insert 8 ''-'' (zero_fill 16 (hex_of (unat (u128_most u))) @ zero_fill 16 (hex_of (unat (u128_least u)))))
     (\<lambda>s. rbind (string_insert 13 ''-'' s) (\<lambda>s. rbind (string_insert 18 ''-'' s) (string_insert 23 ''-'')))"

text \<open>Advancing the iterator past the end of a shorter string is undefined.\<close>

definition fromShortString :: "string \<Rightarrow> u128 result" where
  "fromShortString s =
     (if length s < 16 then Inl (UB InvalidIteratorRange)
      else rbind (stoull16 (take 16 s)) (\<lambda>m. rbind (stoull16 (drop 16 s)) (\<lambda>l.
             Inr \<lparr>u128_most = m, u128_least = l\<rparr>)))"

section \<open>Session identifiers\<close>

text \<open>The loop that negates the digest, from its last byte on.\<close>

fun negate_loop :: "bool \<Rightarrow> byte list \<Rightarrow> byte list" where
  "negate_loop carry [] = []"
| "negate_loop carry (b # bs) =
     (let d = NOT b in
      if carry then (d + 1) # negate_loop (d = 0xff) bs else d # negate_loop False bs)"

definition digestToProtocol :: "byte list \<Rightarrow> string" where
  "digestToProtocol data =
     (let isNegative = data ! 0 \<ge> 0x80;
          digest = (if isNegative then rev (negate_loop True (rev data)) else data);
          result = dropWhile (\<lambda>c. c = CHR ''0'') (concat (map hex2 digest)) in
      if isNegative then CHR ''-'' # result else result)"

section \<open>The whitelist\<close>

text \<open>
  The JSON array as the list of its objects, which have a \<open>name\<close> and a \<open>uuid\<close>. The copy on disk is
  not modelled.
\<close>

record whitelist_entry =
  wl_name :: string
  wl_uuid :: string

definition u128ToUuidString :: "u128 \<Rightarrow> string result" where
  "u128ToUuidString u =
     rbind (string_insert 8 ''-'' (hex_of (unat (u128_most u)) @ hex_of (unat (u128_least u))))
     (\<lambda>s. rbind (string_insert 12 ''-'' s) (\<lambda>s. rbind (string_insert 16 ''-'' s) (string_insert 20 ''-'')))"

fun whitelist_loop :: "u128 \<Rightarrow> string \<Rightarrow> whitelist_entry list \<Rightarrow> nat \<Rightarrow> bool \<times> nat \<Rightarrow> (bool \<times> nat) result" where
  "whitelist_loop uuid name [] pos r = Inr r"
| "whitelist_loop uuid name (e # es) pos r =
     rbind (u128ToUuidString uuid) (\<lambda>s.
       whitelist_loop uuid name es (pos + 1) (if wl_uuid e = s \<or> wl_name e = name then (True, pos) else r))"

definition isPlayerWhitelisted :: "whitelist_entry list \<Rightarrow> u128 \<Rightarrow> string \<Rightarrow> (bool \<times> nat) result" where
  "isPlayerWhitelisted wl uuid name = whitelist_loop uuid name wl 0 (False, 0)"

definition whitelist_addPlayer :: "u128 \<Rightarrow> string \<Rightarrow> whitelist_entry list \<Rightarrow> whitelist_entry list result" where
  "whitelist_addPlayer uuid name wl =
     rbind (isPlayerWhitelisted wl uuid name) (\<lambda>(check, _).
       if check then Inr wl
       else rbind (u128ToUuidString uuid) (\<lambda>s. Inr (wl @ [\<lparr>wl_name = name, wl_uuid = s\<rparr>])))"

definition whitelist_removePlayer :: "u128 \<Rightarrow> string \<Rightarrow> whitelist_entry list \<Rightarrow> whitelist_entry list result" where
  "whitelist_removePlayer uuid name wl =
     rbind (isPlayerWhitelisted wl uuid name) (\<lambda>(check, playerPos).
       Inr (if check then take playerPos wl @ drop (Suc playerPos) wl else wl))"

section \<open>Digits\<close>

lemma hex_digit_table:
  "list_all (\<lambda>n. hex_value (hex_digit n) = Some n \<and> \<not> isspace (hex_digit n)
     \<and> hex_digit n \<notin> set ''-+xX'' \<and> (hex_digit n = CHR ''0'' \<longleftrightarrow> n = 0)) [0..<16]"
  by code_simp

lemma hex_digit_value: "n < 16 \<Longrightarrow> hex_value (hex_digit n) = Some n"
  and hex_digit_plain: "n < 16 \<Longrightarrow> \<not> isspace (hex_digit n) \<and> hex_digit n \<notin> set ''-+xX''"
  and hex_digit_zero: "n < 16 \<Longrightarrow> hex_digit n = CHR ''0'' \<longleftrightarrow> n = 0"
  using hex_digit_table unfolding list_all_iff by auto

text \<open>A text that is made of digits, and its value.\<close>

definition digits_text :: "nat list \<Rightarrow> string \<Rightarrow> bool" where
  "digits_text ds s \<longleftrightarrow> s = map hex_digit ds \<and> (\<forall>d\<in>set ds. d < 16)"

definition digits_value :: "nat list \<Rightarrow> nat" where
  "digits_value = foldl (\<lambda>v d. v * 16 + d) 0"

lemma digits_value_Nil [simp]: "digits_value [] = 0"
  by (simp add: digits_value_def)

lemma digits_value_snoc [simp]: "digits_value (ds @ [d]) = digits_value ds * 16 + d"
  by (simp add: digits_value_def)

lemma digits_value_zeros: "digits_value (replicate k 0 @ ds) = digits_value ds"
proof -
  have "digits_value (replicate k 0) = 0" by (induction k) (simp_all add: digits_value_def)
  then show ?thesis by (simp add: digits_value_def)
qed

lemma hex_prefix_digits: "\<forall>d\<in>set ds. d < 16 \<Longrightarrow> hex_prefix (map hex_digit ds) = ds"
  by (induction ds) (auto simp: hex_digit_value)

lemma hex_of_digits:
  "\<exists>ds. digits_text ds (hex_of n) \<and> ds \<noteq> [] \<and> digits_value ds = n"
proof (induction n rule: hex_of.induct)
  case (1 n)
  show ?case
  proof (cases "n < 16")
    case True
    then have "digits_text [n] (hex_of n) \<and> [n] \<noteq> [] \<and> digits_value [n] = n"
      by (simp add: hex_of.simps digits_text_def digits_value_def)
    then show ?thesis by blast
  next
    case False
    with 1 obtain ds where "digits_text ds (hex_of (n div 16))" "digits_value ds = n div 16" by blast
    with False have "digits_text (ds @ [n mod 16]) (hex_of n) \<and> ds @ [n mod 16] \<noteq> [] \<and> digits_value (ds @ [n mod 16]) = n"
      by (simp add: hex_of.simps digits_text_def)
    then show ?thesis by blast
  qed
qed

lemma hex_of_length: "n < 16 ^ Suc k \<Longrightarrow> length (hex_of n) \<le> Suc k"
proof (induction k arbitrary: n)
  case 0
  then show ?case by (simp add: hex_of.simps)
next
  case (Suc k)
  then have "n div 16 < 16 ^ Suc k" by (simp add: less_mult_imp_div_less mult.commute)
  from Suc.IH [OF this] show ?case by (simp add: hex_of.simps [of n])
qed

lemma stoull16_digits:
  assumes "digits_text ds s" and "ds \<noteq> []" and "digits_value ds < 2 ^ 64"
  shows "stoull16 s = Inr (of_nat (digits_value ds))"
proof -
  have lt: "\<forall>d\<in>set ds. d < 16" and s: "s = map hex_digit ds" using assms(1) by (auto simp: digits_text_def)
  obtain d ds' where ds: "ds = d # ds'" using assms(2) by (cases ds) auto
  have "dropWhile isspace s = s" "skip_sign s = (False, s)"
    using hex_digit_plain [of d] lt by (auto simp: s ds)
  moreover have "skip_0x s = s"
    using hex_digit_plain lt by (cases ds'; cases "tl ds'") (auto simp: s ds)
  ultimately show ?thesis
    using assms(2,3) by (simp add: stoull16_def s hex_prefix_digits [OF lt] flip: digits_value_def)
qed

lemma zero_fill_digits:
  assumes "n < 2 ^ 64"
  shows "\<exists>ds. digits_text ds (zero_fill 16 (hex_of n)) \<and> length ds = 16 \<and> digits_value ds = n"
proof -
  obtain ds where ds: "digits_text ds (hex_of n)" "digits_value ds = n" using hex_of_digits by blast
  have h: "hex_of n = map hex_digit ds" and lt: "\<forall>d\<in>set ds. d < 16" using ds(1) by (auto simp: digits_text_def)
  have "length (hex_of n) \<le> 16" using hex_of_length [of n 15] assms by simp
  then have "length ds \<le> 16" by (simp add: h)
  then have "digits_text (replicate (16 - length ds) 0 @ ds) (zero_fill 16 (hex_of n))"
      "length (replicate (16 - length ds) 0 @ ds) = 16"
    using lt by (auto simp: digits_text_def zero_fill_def h hex_digit_def [of 0])
  moreover have "digits_value (replicate (16 - length ds) 0 @ ds) = n" using ds(2) by (simp add: digits_value_zeros)
  ultimately show ?thesis by blast
qed

lemma zero_fill_stoull:
  assumes "n < 2 ^ 64"
  shows "length (zero_fill 16 (hex_of n)) = 16"
    and "CHR ''-'' \<notin> set (zero_fill 16 (hex_of n))"
    and "stoull16 (zero_fill 16 (hex_of n)) = Inr (of_nat n)"
proof -
  obtain ds where ds: "digits_text ds (zero_fill 16 (hex_of n))" "length ds = 16" "digits_value ds = n"
    using zero_fill_digits [OF assms] by blast
  then show "length (zero_fill 16 (hex_of n)) = 16" by (simp add: digits_text_def)
  show "CHR ''-'' \<notin> set (zero_fill 16 (hex_of n))" using ds(1) hex_digit_plain by (fastforce simp: digits_text_def)
  show "stoull16 (zero_fill 16 (hex_of n)) = Inr (of_nat n)"
    using stoull16_digits [OF ds(1)] ds(2,3) assms by fastforce
qed

section \<open>UUIDs are read back\<close>

lemma unat64_less: "unat (u :: u64) < 2 ^ 64"
  using unsigned_less [of u] by simp

lemma u128_toString_eq:
  "u128_toString u = (let s = zero_fill 16 (hex_of (unat (u128_most u))) @ zero_fill 16 (hex_of (unat (u128_least u))) in
     Inr (take 8 s @ ''-'' @ take 4 (drop 8 s) @ ''-'' @ take 4 (drop 12 s) @ ''-'' @ take 4 (drop 16 s) @ ''-'' @ drop 20 s))"
  using zero_fill_stoull(1) [OF unat64_less [of "u128_most u"]] zero_fill_stoull(1) [OF unat64_less [of "u128_least u"]]
  by (simp add: u128_toString_def string_insert_def Let_def take_Cons' drop_Cons' min_def)

lemma filter_none: "x \<notin> set xs \<Longrightarrow> filter (\<lambda>c. c \<noteq> x) xs = xs"
  by (induction xs) auto

lemma split_uuid:
  "t = take 8 t @ take 4 (drop 8 t) @ take 4 (drop 12 t) @ take 4 (drop 16 t) @ drop 20 t"
  using append_take_drop_id [of 8 t] append_take_drop_id [of 4 "drop 8 t"] append_take_drop_id [of 4 "drop 12 t"]
    append_take_drop_id [of 4 "drop 16 t"] by simp

text \<open>The text of a UUID is 36 characters long, and without its hyphens \<open>u128::fromShortString\<close> reads the
  same UUID from it.\<close>

theorem uuid_roundtrip:
  "\<exists>s. u128_toString u = Inr s \<and> length s = 36 \<and> fromShortString (filter (\<lambda>c. c \<noteq> CHR ''-'') s) = Inr u"
proof -
  define m l where "m = zero_fill 16 (hex_of (unat (u128_most u)))" and "l = zero_fill 16 (hex_of (unat (u128_least u)))"
  note M = zero_fill_stoull [OF unat64_less [of "u128_most u"], folded m_def]
  note L = zero_fill_stoull [OF unat64_less [of "u128_least u"], folded l_def]
  define t where "t = m @ l"
  define s where "s = take 8 t @ ''-'' @ take 4 (drop 8 t) @ ''-'' @ take 4 (drop 12 t) @ ''-'' @ take 4 (drop 16 t) @ ''-'' @ drop 20 t"
  have t: "length t = 32" "CHR ''-'' \<notin> set t" using M L by (auto simp: t_def)
  have "filter (\<lambda>c. c \<noteq> CHR ''-'') s
      = filter (\<lambda>c. c \<noteq> CHR ''-'') (take 8 t @ take 4 (drop 8 t) @ take 4 (drop 12 t) @ take 4 (drop 16 t) @ drop 20 t)"
    unfolding s_def by simp
  also have "\<dots> = t" using split_uuid [of t] filter_none [OF t(2)] by simp
  finally have "fromShortString (filter (\<lambda>c. c \<noteq> CHR ''-'') s) = Inr u"
    using M L t(1) by (simp add: fromShortString_def) (simp add: t_def)
  moreover have "u128_toString u = Inr s" by (simp add: u128_toString_eq s_def t_def m_def l_def Let_def)
  moreover have "length s = 36" using t by (simp add: s_def)
  ultimately show ?thesis by blast
qed

section \<open>The session identifier is a signed number\<close>

text \<open>A number in base 16 with a sign in front, as the authentication server expects it.\<close>

definition signed_hex :: "int \<Rightarrow> string" where
  "signed_hex n = (if n < 0 then CHR ''-'' # hex_of (nat (- n)) else hex_of (nat n))"

definition le_value :: "byte list \<Rightarrow> int" where
  "le_value = horner_sum uint 256"

lemma le_value_simps [simp]: "le_value [] = 0" "le_value (b # bs) = uint b + 256 * le_value bs"
  by (simp_all add: le_value_def)

lemma le_value_nonneg [simp]: "0 \<le> le_value bs"
  by (induction bs) simp_all

lemma le_value_zero: "le_value bs = 0 \<longleftrightarrow> (\<forall>b\<in>set bs. b = 0)"
proof (induction bs)
  case (Cons b bs)
  have "uint b + 256 * le_value bs = 0 \<longleftrightarrow> uint b = 0 \<and> le_value bs = 0"
    using le_value_nonneg [of bs] uint_ge_0 [of b] by linarith
  then show ?case using Cons by (simp add: uint_0_iff)
qed simp

lemma le_value_append: "le_value (as @ bs) = le_value as + 256 ^ length as * le_value bs"
  by (induction as) (simp_all add: algebra_simps)

lemma byte_bounds: "uint (b :: byte) < 256"
  using uint_bounded [of b] by simp

lemma le_value_less: "le_value bs < 256 ^ length bs"
proof (induction bs)
  case (Cons b bs)
  then show ?case using byte_bounds [of b] by simp
qed simp

lemma uint_not_byte: "uint (NOT (b :: byte)) = 255 - uint b"
proof -
  have "uint (NOT b) = (- uint b - 1) mod 256" by (simp add: not_eq_complement uint_word_ariths mod_simps)
  also have "\<dots> = (255 - uint b) mod 256" using mod_add_self1 [of 256 "- uint b - 1"] by simp
  also have "\<dots> = 255 - uint b"
    using byte_bounds [of b] uint_ge_0 [of b] by (intro mod_pos_pos_trivial) linarith+
  finally show ?thesis .
qed

lemma not_byte_max: "NOT (b :: byte) = 0xff \<longleftrightarrow> b = 0"
proof -
  have "(0xff :: byte) = NOT 0" by simp
  then show ?thesis by (simp only: bit.compl_eq_compl_iff)
qed

lemma uint_neg_byte: "b \<noteq> 0 \<Longrightarrow> uint (NOT (b :: byte) + 1) = 256 - uint b"
proof -
  assume "b \<noteq> 0"
  then have "0 < uint b" using uint_ge_0 [of b] uint_0_iff [of b] by linarith
  then have r: "(256 - uint b) mod 256 = 256 - uint b"
    using byte_bounds [of b] by (intro mod_pos_pos_trivial) linarith+
  have "uint (NOT b + 1) = (- uint b) mod 256" by (simp add: not_eq_complement uint_word_ariths)
  also have "\<dots> = (256 - uint b) mod 256" using mod_add_self1 [of 256 "- uint b"] by simp
  finally show ?thesis using r by (rule trans)
qed

lemma negate_loop_False: "le_value (negate_loop False bs) = 256 ^ length bs - 1 - le_value bs"
  by (induction bs) (simp_all add: uint_not_byte)

lemma negate_loop_True:
  "le_value (negate_loop True bs) = (if le_value bs = 0 then 0 else 256 ^ length bs - le_value bs)"
proof (induction bs)
  case (Cons b bs)
  show ?case
  proof (cases "b = 0")
    case True
    with Cons show ?thesis by (simp add: not_byte_max)
  next
    case False
    then have "uint b + 256 * le_value bs \<noteq> 0" using le_value_zero [of "b # bs"] by simp
    then show ?thesis using False by (simp add: not_byte_max uint_neg_byte negate_loop_False)
  qed
qed simp

lemma hex_of_hex2: "0 < m \<Longrightarrow> hex_of (unat b + 256 * m) = hex_of m @ hex2 b"
proof -
  assume "0 < m"
  have b: "unat b < 256" using unsigned_less [of b] by simp
  define n where "n = unat b"
  have "n < 256" using b by (simp add: n_def)
  then have e: "(n + 256 * m) div 16 = n div 16 + 16 * m" "(n + 256 * m) mod 16 = n mod 16"
    "(n div 16 + 16 * m) div 16 = m" "(n div 16 + 16 * m) mod 16 = n div 16"
    using div_mult_self2 [of 16 n "16 * m"] mod_mult_self2 [of n 16 "16 * m"] by simp_all
  have "hex_of (n + 256 * m) = hex_of (n div 16 + 16 * m) @ [hex_digit (n mod 16)]"
    using \<open>0 < m\<close> e(1,2) by (subst hex_of.simps) simp
  also have "hex_of (n div 16 + 16 * m) = hex_of m @ [hex_digit (n div 16)]"
    using \<open>0 < m\<close> e(3,4) by (subst hex_of.simps) simp
  finally show ?thesis by (simp add: hex2_def n_def)
qed

lemma drop_hex2: "dropWhile (\<lambda>c. c = CHR ''0'') (hex2 b) = (if b = 0 then [] else hex_of (unat b))"
proof -
  define n where "n = unat b"
  have "n < 256" using unsigned_less [of b] by (simp add: n_def)
  then have lt: "n div 16 < 16" "n mod 16 < 16" by auto
  have z: "b = 0 \<longleftrightarrow> n = 0" by (simp add: n_def unat_eq_zero)
  show ?thesis
  proof (cases "n < 16")
    case True
    then have "hex_of n = [hex_digit n]" by (simp add: hex_of.simps)
    with True lt z show ?thesis by (simp add: hex2_def hex_digit_zero flip: n_def)
  next
    case False
    then have "hex_of n = [hex_digit (n div 16), hex_digit (n mod 16)]" using lt by (simp add: hex_of.simps [of n] hex_of.simps [of "n div 16"])
    moreover have "n div 16 \<noteq> 0" using False by auto
    ultimately show ?thesis using False lt z by (simp add: hex2_def hex_digit_zero flip: n_def)
  qed
qed

lemma hex_of_not_Nil [simp]: "hex_of n \<noteq> []"
  by (simp add: hex_of.simps)

lemma dropWhile_part: "dropWhile P xs = ys \<Longrightarrow> ys \<noteq> [] \<Longrightarrow> dropWhile P (xs @ zs) = ys @ zs"
  by (induction xs) auto

lemma digest_text:
  "dropWhile (\<lambda>c. c = CHR ''0'') (concat (map hex2 (rev bs))) = (if le_value bs = 0 then [] else hex_of (nat (le_value bs)))"
proof (induction bs)
  case (Cons b bs)
  have z: "uint b + 256 * le_value bs = 0 \<longleftrightarrow> b = 0 \<and> le_value bs = 0"
    using le_value_zero [of "b # bs"] le_value_zero [of bs] by simp
  have n: "nat (uint b + 256 * le_value bs) = unat b + 256 * nat (le_value bs)"
    by (simp add: nat_add_distrib nat_mult_distrib)
  show ?case
  proof (cases "le_value bs = 0")
    case True
    with Cons z n show ?thesis by (simp add: dropWhile_append drop_hex2)
  next
    case False
    then have "0 < nat (le_value bs)" using le_value_nonneg [of bs] by linarith
    moreover have "dropWhile (\<lambda>c. c = CHR ''0'') (concat (map hex2 (rev bs)) @ hex2 b) = hex_of (nat (le_value bs)) @ hex2 b"
      using Cons False by (intro dropWhile_part) simp_all
    ultimately show ?thesis using hex_of_hex2 [of "nat (le_value bs)" b] z n False by simp
  qed
qed simp

lemma signed_value:
  assumes "length data = 20"
  shows "signed_take_bit 159 (le_value (rev data))
    = (if data ! 0 \<ge> 0x80 then le_value (rev data) - 256 ^ 20 else le_value (rev data))"
proof -
  obtain h ds where d: "data = h # ds" "length ds = 19" using assms by (cases data) auto
  have v: "le_value (rev data) = le_value (rev ds) + 256 ^ 19 * uint h"
    by (simp add: d le_value_append)
  have lt: "le_value (rev ds) < 256 ^ 19" "le_value (rev data) < 256 ^ 20"
    using le_value_less [of "rev ds"] le_value_less [of "rev data"] d by simp_all
  have top: "h \<ge> 0x80 \<longleftrightarrow> uint h \<ge> 128" by (simp add: word_le_def)
  show ?thesis
  proof (cases "uint h \<ge> 128")
    case True
    moreover have "0 \<le> k \<Longrightarrow> 128 \<le> j \<Longrightarrow> 2 ^ 159 \<le> k + 256 ^ 19 * j" for k j :: int by simp
    ultimately have "2 ^ 159 \<le> le_value (rev data)" by (simp only: v le_value_nonneg)
    then have "signed_take_bit 159 (le_value (rev data)) = le_value (rev data) - 2 ^ 160"
      using lt(2) signed_take_bit_int_eq_self [of 159 "le_value (rev data) - 2 ^ 160"]
        signed_take_bit_diff [of 159 "le_value (rev data)" "2 ^ 160"]
      by (simp add: signed_take_bit_eq_iff_take_bit_eq)
    with True show ?thesis by (simp add: top d(1))
  next
    case False
    then have "le_value (rev data) < 2 ^ 159" using v lt(1) by simp
    then have "signed_take_bit 159 (le_value (rev data)) = le_value (rev data)"
      using le_value_nonneg [of "rev data"] by (intro signed_take_bit_int_eq_self; linarith)
    with False show ?thesis by (simp add: top d(1))
  qed
qed

text \<open>C21: the identifier of a session is the digest read as a signed 160-bit number in two's complement and
  written in base 16, as the authentication protocol defines it (a digest of zeros, which no key is
  known to have, gives the empty text).\<close>

theorem digest_is_signed_hex:
  assumes "length data = 20" and "\<exists>b\<in>set data. b \<noteq> 0"
  shows "digestToProtocol data = signed_hex (signed_take_bit 159 (horner_sum uint 256 (rev data)))"
proof -
  define v where "v = le_value (rev data)"
  have nz: "v \<noteq> 0" "0 \<le> v" using assms(2) le_value_zero [of "rev data"] by (auto simp: v_def)
  have lt: "v < 256 ^ 20" using le_value_less [of "rev data"] assms(1) by (simp add: v_def)
  have neg: "le_value (negate_loop True (rev data)) = 256 ^ 20 - v"
    using negate_loop_True [of "rev data"] nz assms(1) by (simp add: v_def)
  show ?thesis
    using signed_value [OF assms(1)] digest_text [of "rev data"] digest_text [of "negate_loop True (rev data)"] nz lt neg
    by (simp add: digestToProtocol_def signed_hex_def Let_def flip: le_value_def v_def)
qed

theorem digest_is_signed_hex_witness:
  "length (0x8d # replicate 19 (0 :: byte)) = 20
   \<and> digestToProtocol (0x8d # replicate 19 0) = signed_hex (signed_take_bit 159 (horner_sum uint 256 (rev (0x8d # replicate 19 (0 :: byte)))))"
  using digest_is_signed_hex [of "0x8d # replicate 19 0"] by simp

section \<open>The whitelist answers for the players it was given\<close>

definition listed :: "string \<Rightarrow> string \<Rightarrow> whitelist_entry list \<Rightarrow> bool" where
  "listed s name wl \<longleftrightarrow> (\<exists>e\<in>set wl. wl_uuid e = s \<or> wl_name e = name)"

lemma whitelist_loop_listed:
  assumes "u128ToUuidString uuid = Inr s"
  shows "\<exists>p. whitelist_loop uuid name wl pos r = Inr p \<and> (fst p \<longleftrightarrow> fst r \<or> listed s name wl)"
proof (induction wl arbitrary: pos r)
  case (Cons e es)
  show ?case
    using Cons [of "pos + 1" "if wl_uuid e = s \<or> wl_name e = name then (True, pos) else r"] assms
    by (auto simp: listed_def split: if_splits)
qed (simp add: listed_def)

lemma isPlayerWhitelisted_listed:
  "u128ToUuidString uuid = Inr s \<Longrightarrow> \<exists>p. isPlayerWhitelisted wl uuid name = Inr (listed s name wl, p)"
  using whitelist_loop_listed [of uuid s name wl 0 "(False, 0)"] by (auto simp: isPlayerWhitelisted_def)

text \<open>A player that was added to the whitelist is on it, and whether any player with another name and
  another UUID text is on it has not changed.\<close>

theorem whitelist_add_lookup:
  assumes "u128ToUuidString uuid = Inr s"
  shows "\<exists>wl' p. whitelist_addPlayer uuid name wl = Inr wl' \<and> isPlayerWhitelisted wl' uuid name = Inr (True, p)
    \<and> (\<forall>uuid' s' name'. u128ToUuidString uuid' = Inr s' \<longrightarrow> s' \<noteq> s \<longrightarrow> name' \<noteq> name \<longrightarrow>
         map_sum id fst (isPlayerWhitelisted wl' uuid' name') = map_sum id fst (isPlayerWhitelisted wl uuid' name'))"
proof -
  define wl' where "wl' = (if listed s name wl then wl else wl @ [\<lparr>wl_name = name, wl_uuid = s\<rparr>])"
  have add: "whitelist_addPlayer uuid name wl = Inr wl'"
    using isPlayerWhitelisted_listed [OF assms, of wl name] assms by (auto simp: whitelist_addPlayer_def wl'_def)
  have "listed s name wl'" by (auto simp: wl'_def listed_def)
  then obtain p where "isPlayerWhitelisted wl' uuid name = Inr (True, p)"
    using isPlayerWhitelisted_listed [OF assms, of wl' name] by auto
  moreover have "map_sum id fst (isPlayerWhitelisted wl' uuid' name') = map_sum id fst (isPlayerWhitelisted wl uuid' name')"
    if "u128ToUuidString uuid' = Inr s'" "s' \<noteq> s" "name' \<noteq> name" for uuid' s' name'
  proof -
    have "listed s' name' wl' = listed s' name' wl" using that(2,3) by (auto simp: wl'_def listed_def)
    then show ?thesis
      using isPlayerWhitelisted_listed [OF that(1), of wl name'] isPlayerWhitelisted_listed [OF that(1), of wl' name'] by auto
  qed
  ultimately show ?thesis using add by blast
qed

definition sample_uuid :: u128 where
  "sample_uuid = \<lparr>u128_most = 0x1111111111111111, u128_least = 0x0123456789abcdef\<rparr>"

definition forged_uuid :: u128 where
  "forged_uuid = \<lparr>u128_most = 0x0111111111111111, u128_least = 0x1123456789abcdef\<rparr>"

lemma sample_text: "u128ToUuidString sample_uuid = Inr ''11111111-111-111-111-23456789abcdef''"
  by (simp add: u128ToUuidString_def string_insert_def sample_uuid_def hex_of.simps hex_digit_def)

lemma forged_text: "u128ToUuidString forged_uuid = Inr ''11111111-111-111-111-23456789abcdef''"
  by (simp add: u128ToUuidString_def string_insert_def forged_uuid_def hex_of.simps hex_digit_def)

theorem whitelist_add_lookup_witness:
  "\<exists>wl' p. whitelist_addPlayer sample_uuid ''alice'' [] = Inr wl'
    \<and> isPlayerWhitelisted wl' sample_uuid ''alice'' = Inr (True, p)"
  using whitelist_add_lookup [OF sample_text, of "''alice''" "[]"] by blast

text \<open>The text the whitelist compares leaves out leading zeros, so two different UUIDs can have the same:
  when the first is put on an empty whitelist, the second passes under any name.\<close>

theorem whitelist_forged:
  "\<exists>u v wl. u \<noteq> v \<and> whitelist_addPlayer u name [] = Inr wl \<and> isPlayerWhitelisted wl v name' = Inr (True, 0)"
proof -
  let ?wl = "[\<lparr>wl_name = name, wl_uuid = ''11111111-111-111-111-23456789abcdef''\<rparr>]"
  have "whitelist_addPlayer sample_uuid name [] = Inr ?wl"
    by (simp add: whitelist_addPlayer_def isPlayerWhitelisted_def sample_text)
  moreover have "isPlayerWhitelisted ?wl forged_uuid name' = Inr (True, 0)"
    by (simp add: isPlayerWhitelisted_def forged_text)
  moreover have "sample_uuid \<noteq> forged_uuid" by (simp add: sample_uuid_def forged_uuid_def)
  ultimately show ?thesis by blast
qed

end
