(* ===== verification/Client_Connection.thy ===== *)
theory Client_Connection
  imports Player_Handlers Identity
begin

text \<open>
  \<open>Client.cpp\<close>: the connection of a client. The bytes that arrive are cut into packets, each packet is
  parsed and handled by the status of the connection, and a client that logs in becomes a player.
\<close>

section \<open>What a login takes from outside\<close>

text \<open>
  Whether the worlds are initialised, the configuration, the list of operators, and what libraries
  compute: \<open>std::hash\<close>, the JSON text of the status, the RSA key, the SHA-1 digest, the answer of the
  authentication server (the \<open>id\<close> and the \<open>properties\<close> it sends). \<open>le_address\<close> is the low half of the address
  of a client object.
\<close>

record login_env =
  le_initialized :: bool
  le_whitelistEnabled :: bool
  le_whitelist :: "whitelist_entry list"
  le_onlineMode :: bool
  le_operators :: "string list"
  le_hash :: "string \<Rightarrow> u64"
  le_statusJson :: "world \<Rightarrow> string"
  le_publicKey :: "byte list"
  le_rsaDecrypt :: "byte list \<Rightarrow> byte list option"
  le_sha1 :: "byte list \<Rightarrow> byte list"
  le_hasJoined :: "string \<Rightarrow> string \<Rightarrow> (string \<times> PlayerProperty list) option result"
  le_address :: "nat \<Rightarrow> u32"

section \<open>Methods of a client\<close>

definition with_cli :: "nat \<Rightarrow> (Client \<Rightarrow> world act) \<Rightarrow> world act" where
  "with_cli cid f w = (case w_clients w cid of None \<Rightarrow> (w, Inl (UB NullDereference)) | Some c \<Rightarrow> f c w)"

definition upd_cli :: "nat \<Rightarrow> (Client \<Rightarrow> Client) \<Rightarrow> world act" where
  "upd_cli cid f = with_cli cid (\<lambda>c w. (w\<lparr>w_clients := (w_clients w)(cid \<mapsto> f c)\<rparr>, Inr ()))"

definition cli_write :: "nat \<Rightarrow> byte list result \<Rightarrow> world act" where
  "cli_write cid pck w = (case pck of Inl e \<Rightarrow> (w, Inl e) | Inr data \<Rightarrow> upd_cli cid (doWrite data) w)"

definition newClient :: Client where
  "newClient = \<lparr>cl_isRunning = True, cl_status = Initial, cl_recvBuffer = [], cl_isEncrypted = False,
     cl_resPck = \<lparr>LoginSuccess_uuid = \<lparr>u128_most = 0, u128_least = 0\<rparr>, LoginSuccess_username = '''', LoginSuccess_properties = []\<rparr>,
     cl_player = None, cl_sent = []\<rparr>"

text \<open>\<open>~Client\<close>; \<open>chunks\<close> is the order in which the map of chunks is traversed.\<close>

definition destroy_client :: "Position2D list \<Rightarrow> nat \<Rightarrow> world act" where
  "destroy_client chunks cid = act_then (upd_cli cid (\<lambda>c. c\<lparr>cl_isRunning := False\<rparr>)) (with_cli cid (\<lambda>c.
     case cl_player c of
       None \<Rightarrow> act_skip
     | Some i \<Rightarrow> act_then (act_then (removeEntity i) (removePlayer i))
         (with_player i (\<lambda>p. act_for chunks (\<lambda>pos.
            if pl_chunks p pos = Some Loading then act_do (removePlayerFromLoadingChunk pos i) else act_skip)))))"

definition cli_disconnect :: "server_env \<Rightarrow> nat \<Rightarrow> string \<Rightarrow> world act" where
  "cli_disconnect E cid reason = with_cli cid (\<lambda>c.
     if cl_status c = Play then
       (case cl_player c of None \<Rightarrow> (\<lambda>w. (w, Inl (UB NullDereference))) | Some i \<Rightarrow> player_disconnect i (env_text E reason))
     else act_then (cli_write cid (createLoginDisconnect \<lparr>Disconnect_reason = env_text E reason\<rparr>))
            (upd_cli cid (\<lambda>c. c\<lparr>cl_isRunning := False\<rparr>)))"

definition sendStatusResponse :: "nat \<Rightarrow> string \<Rightarrow> world act" where
  "sendStatusResponse cid json = cli_write cid (createStatusResponse \<lparr>StatusResponse_payload = json\<rparr>)"

definition sendPingResponse :: "nat \<Rightarrow> i64 \<Rightarrow> world act" where
  "sendPingResponse cid p = cli_write cid (createPingResponse \<lparr>PingResponse_payload = p\<rparr>)"

definition sendLoginSuccess :: "nat \<Rightarrow> LoginSuccess \<Rightarrow> world act" where
  "sendLoginSuccess cid pck = cli_write cid (createLoginSuccess pck)"

text \<open>The token is the address, in the byte order of the host.\<close>

definition sendEncryptionRequest :: "login_env \<Rightarrow> nat \<Rightarrow> world act" where
  "sendEncryptionRequest L cid = cli_write cid (createEncryptionRequest \<lparr>EncryptionRequest_serverID = '''',
     EncryptionRequest_publicKey = le_publicKey L, EncryptionRequest_verifyToken = rev (be_bytes 4 (le_address L cid))\<rparr>)"

section \<open>Entering the game\<close>

definition switchToPlayState :: "login_env \<Rightarrow> nat \<Rightarrow> u128 \<Rightarrow> string \<Rightarrow> world act" where
  "switchToPlayState L cid uuid username = act_then
     (upd_cli cid (\<lambda>c. c\<lparr>cl_status := Play\<rparr>))
     (\<lambda>w. case create_player cid uuid username (username \<in> set (le_operators L)) w of
            (w', i) \<Rightarrow> upd_cli cid (\<lambda>c. c\<lparr>cl_player := Some i\<rparr>) w')"

definition registryCodec :: nbt where
  "registryCodec = CompoundTag '''' [
      CompoundTag ''minecraft:dimension_type'' [
       StringTag ''type'' ''minecraft:dimension_type'',
       ListTag ''value'' [
        CompoundTag '''' [
         StringTag ''name'' ''minecraft:overworld'',
         IntTag ''id'' 0,
         CompoundTag ''element'' [
          ByteTag ''ultrawarm'' 0,
          IntTag ''logical_height'' 256,
          StringTag ''infiniburn'' ''#minecraft:infiniburn_overworld'',
          ByteTag ''piglin_safe'' 0,
          FloatTag ''ambient_light'' 0x00000000,
          ByteTag ''has_skylight'' 1,
          StringTag ''effects'' ''minecraft:overworld'',
          ByteTag ''has_raids'' 1,
          IntTag ''monster_spawn_block_light_limit'' 0,
          ByteTag ''respawn_anchor_works'' 0,
          IntTag ''height'' 384,
          ByteTag ''has_ceiling'' 0,
          CompoundTag ''monster_spawn_light_level'' [
           StringTag ''type'' ''minecraft:uniform'',
           CompoundTag ''value'' [
            IntTag ''max_inclusive'' 7,
            IntTag ''min_inclusive'' 0]],
          ByteTag ''natural'' 1,
          IntTag ''min_y'' (-64),
          FloatTag ''coordinate_scale'' 0x3F800000,
          ByteTag ''bed_works'' 1]]]],
      CompoundTag ''minecraft:worldgen/biome'' [
       StringTag ''type'' ''minecraft:worldgen/biome'',
       ListTag ''value'' [
        CompoundTag '''' [
         StringTag ''name'' ''minecraft:plains'',
         IntTag ''id'' 0,
         CompoundTag ''element'' [
          StringTag ''precipitation'' ''none'',
          FloatTag ''temperature'' 0x3F4CCCCD,
          FloatTag ''downfall'' 0x3ECCCCCD,
          CompoundTag ''effects'' [
           IntTag ''sky_color'' 7907327,
           IntTag ''water_fog_color'' 329011,
           IntTag ''fog_color'' 12638463,
           IntTag ''water_color'' 4159204]]],
        CompoundTag '''' [
         StringTag ''name'' ''minecraft:my_super_cool_biome_lol_haha'',
         IntTag ''id'' 1,
         CompoundTag ''element'' [
          StringTag ''precipitation'' ''none'',
          FloatTag ''temperature'' 0x3F4CCCCD,
          FloatTag ''downfall'' 0x3ECCCCCD,
          CompoundTag ''effects'' [
           IntTag ''sky_color'' 7907327,
           IntTag ''water_fog_color'' 329011,
           IntTag ''fog_color'' 12638463,
           IntTag ''water_color'' 4159204]]]]],
      CompoundTag ''minecraft:chat_type'' [
       StringTag ''type'' ''minecraft:chat_type'',
       ListTag ''value'' [
        CompoundTag '''' [
         StringTag ''name'' ''minecraft:chat'',
         IntTag ''id'' 0,
         CompoundTag ''element'' [
          CompoundTag ''chat'' [
           ListTag ''parameters'' [
            StringTag '''' ''sender'',
            StringTag '''' ''content''],
           StringTag ''translation_key'' ''chat.type.text''],
          CompoundTag ''narration'' [
           ListTag ''parameters'' [
            StringTag '''' ''sender'',
            StringTag '''' ''content''],
           StringTag ''translation_key'' ''chat.type.text.narrate'']]]]]]"

definition sendLoginPlay_cli :: "nat \<Rightarrow> world act" where
  "sendLoginPlay_cli cid = with_cli cid (\<lambda>c. case cl_player c of
     None \<Rightarrow> (\<lambda>w. (w, Inl (UB NullDereference)))
   | Some i \<Rightarrow> with_player i (\<lambda>p w. sendLoginPlay i
       \<lparr>LoginPlay_entityID = i, LoginPlay_isHardcore = False, LoginPlay_gamemode = gamemode_code (pl_gamemode p),
        LoginPlay_previousGamemode = gamemode_code Survival, LoginPlay_dimensionNames = [''minecraft:overworld''],
        LoginPlay_registryCodec = registryCodec, LoginPlay_dimensionType = ''minecraft:overworld'',
        LoginPlay_dimensionName = ''overworld'', LoginPlay_hashedSeed = 0, LoginPlay_maxPlayers = 20,
        LoginPlay_viewDistance = ucast (w_renderDistance w), LoginPlay_simulationDistance = 16,
        LoginPlay_reducedDebugInfo = False, LoginPlay_enableRespawnScreen = True, LoginPlay_isDebug = False,
        LoginPlay_isFlat = False, LoginPlay_hasDeathLocation = False, LoginPlay_deathDimensionName = '''',
        LoginPlay_deathLocation = \<lparr>pos_x = 0, pos_y = 0, pos_z = 0\<rparr>\<rparr> w))"

definition loginSequence :: "server_env \<Rightarrow> login_env \<Rightarrow> nat \<Rightarrow> LoginSuccess \<Rightarrow> world act" where
  "loginSequence E L cid pck = act_seq
     [sendLoginSuccess cid pck,
      switchToPlayState L cid (LoginSuccess_uuid pck) (LoginSuccess_username pck),
      sendLoginPlay_cli cid,
      with_cli cid (\<lambda>c. case cl_player c of
        None \<Rightarrow> (\<lambda>w. (w, Inl (UB NullDereference)))
      | Some i \<Rightarrow> continueLoginSequence E i)]"

section \<open>Handlers of the first states\<close>

definition onHandshake :: "nat \<Rightarrow> Handshake \<Rightarrow> world act" where
  "onHandshake cid pck =
     (if Handshake_nextState pck = 1 then upd_cli cid (\<lambda>c. c\<lparr>cl_status := Status\<rparr>)
      else if Handshake_nextState pck = 2 then upd_cli cid (\<lambda>c. c\<lparr>cl_status := Login\<rparr>)
      else act_skip)"

definition onStatusRequest :: "login_env \<Rightarrow> nat \<Rightarrow> world act" where
  "onStatusRequest L cid w = sendStatusResponse cid (le_statusJson L w) w"

definition onPingRequest :: "nat \<Rightarrow> PingRequest \<Rightarrow> world act" where
  "onPingRequest cid pck = sendPingResponse cid (PingRequest_payload pck)"

definition login_answer :: "login_env \<Rightarrow> LoginStart \<Rightarrow> LoginSuccess" where
  "login_answer L pck = \<lparr>LoginSuccess_uuid = (if LoginStart_hasPlayerUuid pck then LoginStart_playerUuid pck
        else \<lparr>u128_most = le_hash L ''OfflinePlayer:'', u128_least = le_hash L (LoginStart_name pck)\<rparr>),
     LoginSuccess_username = LoginStart_name pck, LoginSuccess_properties = []\<rparr>"

definition onLoginStart :: "server_env \<Rightarrow> login_env \<Rightarrow> nat \<Rightarrow> LoginStart \<Rightarrow> world act" where
  "onLoginStart E L cid pck w =
     (let resPck = login_answer L pck in
      if \<not> le_initialized L then cli_disconnect E cid ''Server is not initialized yet.'' w
      else
        case (if le_whitelistEnabled L
              then isPlayerWhitelisted (le_whitelist L) (LoginSuccess_uuid resPck) (LoginSuccess_username resPck)
              else Inr (True, 0)) of
          Inl e \<Rightarrow> (w, Inl e)
        | Inr (found, _) \<Rightarrow>
            if \<not> found then cli_disconnect E cid ''You are not whitelisted on this server.'' w
            else if le_onlineMode L
            then act_then (upd_cli cid (\<lambda>c. c\<lparr>cl_resPck := resPck\<rparr>)) (sendEncryptionRequest L cid) w
            else loginSequence E L cid resPck w)"

text \<open>\<open>_handleOnline\<close>: the answer is whether the login goes on.\<close>

definition handleOnline :: "server_env \<Rightarrow> login_env \<Rightarrow> nat \<Rightarrow> byte list \<Rightarrow> world \<Rightarrow> world \<times> bool result" where
  "handleOnline E L cid key w =
     (case w_clients w cid of
        None \<Rightarrow> (w, Inl (UB NullDereference))
      | Some c \<Rightarrow>
          (case le_hasJoined L (LoginSuccess_username (cl_resPck c)) (digestToProtocol (le_sha1 L (key @ le_publicKey L))) of
             Inl e \<Rightarrow> (w, Inl e)
           | Inr None \<Rightarrow> (case cli_disconnect E cid ''Disconnected'' w of (w', r) \<Rightarrow> (w', rbind r (\<lambda>_. Inr False)))
           | Inr (Some (i, properties)) \<Rightarrow>
               (case fromShortString i of
                  Inl e \<Rightarrow> (w, Inl e)
                | Inr uuid \<Rightarrow> (case upd_cli cid (\<lambda>c. c\<lparr>cl_resPck := (cl_resPck c)\<lparr>LoginSuccess_uuid := uuid,
                    LoginSuccess_properties := LoginSuccess_properties (cl_resPck c) @ properties\<rparr>\<rparr>) w of
                      (w', r) \<Rightarrow> (w', rbind r (\<lambda>_. Inr True))))))"

definition encryptionMaximumLength :: nat where
  "encryptionMaximumLength = 512"

definition onEncryptionResponse :: "server_env \<Rightarrow> login_env \<Rightarrow> nat \<Rightarrow> EncryptionResponse \<Rightarrow> world act" where
  "onEncryptionResponse E L cid pck =
     (if length (EncryptionResponse_sharedSecret pck) > encryptionMaximumLength
         \<or> length (EncryptionResponse_verifyToken pck) > encryptionMaximumLength
      then cli_disconnect E cid ''Disconnected''
      else
        case le_rsaDecrypt L (EncryptionResponse_verifyToken pck) of
          None \<Rightarrow> cli_disconnect E cid ''Disconnected''
        | Some token \<Rightarrow>
            if length token \<noteq> 4 \<or> of_le token \<noteq> le_address L cid then cli_disconnect E cid ''Disconnected''
            else
              case le_rsaDecrypt L (EncryptionResponse_sharedSecret pck) of
                None \<Rightarrow> cli_disconnect E cid ''Disconnected''
              | Some key \<Rightarrow>
                  if length key \<noteq> 16 then cli_disconnect E cid ''Disconnected''
                  else act_then (upd_cli cid (\<lambda>c. c\<lparr>cl_isEncrypted := True\<rparr>))
                    (\<lambda>w. case handleOnline E L cid key w of
                            (w', Inl e) \<Rightarrow> (w', Inl e)
                          | (w', Inr False) \<Rightarrow> (w', Inr ())
                          | (w', Inr True) \<Rightarrow> with_cli cid (\<lambda>c. loginSequence E L cid (cl_resPck c)) w'))"

section \<open>Packets\<close>

text \<open>
  \<open>handleParsedClientPacket\<close>. The packet of a status request is a null pointer, which its handler does not
  look at.
\<close>

definition handleParsedClientPacket :: "server_env \<Rightarrow> login_env \<Rightarrow> nat \<Rightarrow> server_packet option \<Rightarrow> world act" where
  "handleParsedClientPacket E L cid packet = with_cli cid (\<lambda>c.
     case cl_status c of
       Initial \<Rightarrow> (case packet of Some (SP_Handshake p) \<Rightarrow> onHandshake cid p | _ \<Rightarrow> act_skip)
     | Status \<Rightarrow> (case packet of None \<Rightarrow> onStatusRequest L cid | Some (SP_PingRequest p) \<Rightarrow> onPingRequest cid p | _ \<Rightarrow> act_skip)
     | Login \<Rightarrow> (case packet of Some (SP_LoginStart p) \<Rightarrow> onLoginStart E L cid p
                              | Some (SP_EncryptionResponse p) \<Rightarrow> onEncryptionResponse E L cid p | _ \<Rightarrow> act_skip)
     | Play \<Rightarrow> (case cl_player c of
                  None \<Rightarrow> (\<lambda>w. (w, Inl (UB NullDereference)))
                | Some i \<Rightarrow> (case packet of None \<Rightarrow> act_skip | Some p \<Rightarrow> handle_play E i p)))"

fun parsers_of :: "ClientStatus \<Rightarrow> parser_table" where
  "parsers_of Initial = packetIDToParseInitial"
| "parsers_of Login = packetIDToParseLogin"
| "parsers_of Status = packetIDToParseStatus"
| "parsers_of Play = packetIDToParsePlay"

text \<open>
  One round of the loop of \<open>_handlePacket\<close>: an exception, or whether the loop goes on. \<open>eof\<close> is one past the
  last byte here, while the \<open>pop\<close> functions expect the last one.
\<close>

definition packet_round :: "server_env \<Rightarrow> login_env \<Rightarrow> nat \<Rightarrow> world \<Rightarrow> world \<times> bool result" where
  "packet_round E L cid w =
     (case w_clients w cid of
        None \<Rightarrow> (w, Inl (UB NullDereference))
      | Some c \<Rightarrow>
          let data = cl_recvBuffer c; eof = int (length data);
              keep = (\<lambda>rest. w\<lparr>w_clients := (w_clients w)(cid \<mapsto> c\<lparr>cl_recvBuffer := rest\<rparr>)\<rparr>) in
          if data = [] then (w, Inr False)
          else
            case popVarInt data eof 0 of
              Inl e \<Rightarrow> (w, if e = PacketEOF then Inr False else Inl e)
            | Inr (len, at) \<Rightarrow>
                if sint len > eof - at + 1 then (w, Inr False)
                else if len = 0 then (keep (tl data), Inr True)
                else
                  case popVarInt data eof at of
                    Inl e \<Rightarrow> (w, Inl e)
                  | Inr (packetId, at') \<Rightarrow>
                      if at + sint len < 0 \<or> at + sint len > eof then (w, Inl (UB InvalidIteratorRange))
                      else
                        let w1 = keep (drop (nat (at + sint len)) data) in
                        case map_of (parsers_of (cl_status c)) packetId of
                          None \<Rightarrow> (w1, Inr False)
                        | Some parser \<Rightarrow>
                            (case parser (drop (nat at') data) of
                               Inl e \<Rightarrow> (w1, if is_runtime_error e then Inr False else Inl e)
                             | Inr packet \<Rightarrow>
                                 (case handleParsedClientPacket E L cid packet w1 of
                                    (w2, r) \<Rightarrow> (w2, rbind r (\<lambda>_. Inr True)))))"

partial_function (option) handlePacket :: "server_env \<Rightarrow> login_env \<Rightarrow> nat \<Rightarrow> world \<Rightarrow> (world \<times> unit result) option" where
  "handlePacket E L cid w =
     (case packet_round E L cid w of
        (w', Inl e) \<Rightarrow> Some (w', Inl e)
      | (w', Inr goes_on) \<Rightarrow> if goes_on then handlePacket E L cid w' else Some (w', Inr ()))"

text \<open>
  A round of \<open>doRead\<close>: the bytes the socket gave, \<open>None\<close> for an error; \<open>decrypt\<close> is the decryption of this
  block by the session's cipher.
\<close>

definition doRead :: "server_env \<Rightarrow> login_env \<Rightarrow> nat \<Rightarrow> (byte list \<Rightarrow> byte list) \<Rightarrow> byte list option \<Rightarrow> world \<Rightarrow> (world \<times> unit result) option" where
  "doRead E L cid decrypt received w =
     (case w_clients w cid of
        None \<Rightarrow> Some (w, Inl (UB NullDereference))
      | Some c \<Rightarrow>
          if \<not> cl_isRunning c then Some (w, Inr ())
          else
            case received of
              None \<Rightarrow> Some (w\<lparr>w_clients := (w_clients w)(cid \<mapsto> c\<lparr>cl_isRunning := False\<rparr>)\<rparr>, Inr ())
            | Some bytes \<Rightarrow> handlePacket E L cid (w\<lparr>w_clients := (w_clients w)(cid \<mapsto>
                c\<lparr>cl_recvBuffer := cl_recvBuffer c @ (if cl_isEncrypted c then decrypt bytes else bytes)\<rparr>)\<rparr>))"

end
