(* ===== verification/Player_Invariants.thy ===== *)
theory Player_Invariants
  imports Player_Handlers Container_Properties
begin

text \<open>
  What every packet and every tick keeps of the players. The locale \<open>player_rules\<close> takes a predicate
  on players that only depends on their shape and their privileges, and shows once that sending,
  moving, eating, clicking and logging in keep it; it is interpreted on the shape of a player and on
  the players that are not operators.
\<close>

section \<open>Preservation\<close>

definition preserves :: "('s \<Rightarrow> bool) \<Rightarrow> 's act \<Rightarrow> bool" where
  "preserves I f \<longleftrightarrow> (\<forall>s. I s \<longrightarrow> I (fst (f s)))"

named_theorems keeps

lemma preservesI: "(\<And>s. I s \<Longrightarrow> I (fst (f s))) \<Longrightarrow> preserves I f"
  by (simp add: preserves_def)

lemma preservesD: "preserves I f \<Longrightarrow> I s \<Longrightarrow> f s = (s', r) \<Longrightarrow> I s'"
  by (metis preserves_def fst_conv)

lemma preserves_skip [keeps]: "preserves I act_skip"
  by (simp add: preserves_def act_skip_def)

lemma preserves_return [keeps]: "preserves I (\<lambda>s. (s, r))"
  by (simp add: preserves_def)

lemma preserves_do [keeps]: "(\<And>s. I s \<Longrightarrow> I (f s)) \<Longrightarrow> preserves I (act_do f)"
  by (simp add: preserves_def act_do_def)

lemma preserves_then [keeps]:
  assumes "preserves I f" "preserves I g"
  shows "preserves I (act_then f g)"
proof (rule preservesI)
  fix s assume "I s"
  then show "I (fst (act_then f g s))"
    using preservesD [OF assms(1)] assms(2)
    by (cases "f s") (auto simp: act_then_def preserves_def split: sum.splits)
qed

lemma preserves_for [keeps]:
  assumes "\<And>x. x \<in> set xs \<Longrightarrow> preserves I (body x)"
  shows "preserves I (act_for xs body)"
  using assms
proof (induction xs)
  case (Cons x xs)
  have x: "preserves I (body x)" and xs: "preserves I (act_for xs body)"
    using Cons by simp_all
  show ?case
  proof (rule preservesI)
    fix s assume "I s"
    then show "I (fst (act_for (x # xs) body s))"
      using preservesD [OF x] xs by (cases "body x s") (auto simp: preserves_def split: sum.splits)
  qed
qed (simp add: preserves_def)

lemma preserves_if [keeps]: "(b \<Longrightarrow> preserves I f) \<Longrightarrow> (\<not> b \<Longrightarrow> preserves I g) \<Longrightarrow> preserves I (if b then f else g)"
  by simp

lemma preserves_state: "(\<And>s. I s \<Longrightarrow> preserves I (f s)) \<Longrightarrow> preserves I (\<lambda>s. f s s)"
  by (simp add: preserves_def)

lemma preserves_result [keeps]:
  assumes "\<And>x. m = Inr x \<Longrightarrow> preserves I (f x)"
  shows "preserves I (\<lambda>s. case m of Inl e \<Rightarrow> (s, Inl e) | Inr x \<Rightarrow> f x s)"
  using assms by (cases m) (auto simp: preserves_def)

lemma preserves_seq [keeps]: "(\<And>f. f \<in> set fs \<Longrightarrow> preserves I f) \<Longrightarrow> preserves I (act_seq fs)"
  by (induction fs) (auto intro: keeps)

section \<open>The shape of a player\<close>

definition food_ok :: "Player \<Rightarrow> bool" where
  "food_ok p \<longleftrightarrow> 0 \<le> sint (pl_foodLevel p) \<and> sint (pl_foodLevel p) \<le> 20
     \<and> 0 \<le> sint (pl_foodTickTimer p) \<and> sint (pl_foodTickTimer p) \<le> 80"

definition player_shape :: "Player \<Rightarrow> bool" where
  "player_shape p \<longleftrightarrow> wf_inventory (pl_inventory p) \<and> (\<forall>c \<in> set (pl_containers p). wf_inventory c) \<and> food_ok p"

definition all_players :: "(Player \<Rightarrow> bool) \<Rightarrow> world \<Rightarrow> bool" where
  "all_players ok w \<longleftrightarrow> (\<forall>i p. w_players w i = Some p \<longrightarrow> ok p)"

lemma all_playersD: "all_players ok w \<Longrightarrow> w_players w i = Some p \<Longrightarrow> ok p"
  by (simp add: all_players_def)

lemma all_players_frame: "(\<And>w. w_players (fst (f w)) = w_players w) \<Longrightarrow> preserves (all_players ok) f"
  by (simp add: preserves_def all_players_def)

section \<open>Clicks keep the arrays of an inventory\<close>

lemma wf_put [simp]: "wf_inventory (inventory_put r s c) = wf_inventory c"
  by (cases r) (simp_all add: wf_inventory_def)

lemma wf_m_upd [simp]: "wf_inventory (m_upd inventory r f c) = wf_inventory c"
  by (simp add: m_upd_def inventory_def)

lemma wf_m_put [simp]: "wf_inventory (m_put inventory r s c) = wf_inventory c"
  by (simp add: inventory_def)

lemma wf_fields [simp]:
  "wf_inventory (c\<lparr>c_state := st\<rparr>) = wf_inventory c" "wf_inventory (c\<lparr>dropped := d\<rparr>) = wf_inventory c"
  "wf_inventory (c\<lparr>c_cursor := t\<rparr>) = wf_inventory c" "wf_inventory (c\<lparr>offhand := t\<rparr>) = wf_inventory c"
  "wf_inventory (c\<lparr>hotbar := (hotbar c)[n := t]\<rparr>) = wf_inventory c"
  by (simp_all add: wf_inventory_def)

lemma wf_swaps [simp]:
  "wf_inventory (swap_at inventory a b c) = wf_inventory c"
  "wf_inventory (swap_count_at inventory a b x c) = wf_inventory c"
  "wf_inventory (drop_item s c) = wf_inventory c"
  by (simp_all add: swap_at_def swap_count_at_def drop_item_def Let_def)

lemma wf_close [simp]: "wf_inventory (container_close inventory c) = wf_inventory c"
  by (simp add: container_close_def Let_def)

lemma wf_merge_loop: "wf_inventory (fst (merge_loop inventory slot rs c)) = wf_inventory c"
  by (induction rs arbitrary: c) (simp_all add: Let_def)

lemma wf_free_loop: "wf_inventory (free_loop inventory slot rs c) = wf_inventory c"
  by (induction rs arbitrary: c) simp_all

lemma wf_swapContainer [simp]: "wf_inventory (swapContainer inventory slot rs c) = wf_inventory c"
  using wf_merge_loop [of slot rs c] wf_free_loop by (auto simp: swapContainer_def split: prod.splits bool.splits)

lemma wf_drag_loop: "wf_inventory (fst (drag_loop inventory us rest added c)) = wf_inventory c"
proof (induction us arbitrary: rest added c)
  case (Cons u us)
  then show ?case by (cases "m_at inventory (slotNumber u)") (simp_all add: Let_def)
qed simp

lemma preserves_at: "(\<And>r. preserves I (f r)) \<Longrightarrow> preserves I (with_at m i f)"
  by (simp add: preserves_def with_at_def split: sum.splits)

lemma preserves_end_drag: "preserves wf_inventory (end_drag inventory us)"
proof (rule preservesI)
  fix c assume c: "wf_inventory c"
  show "wf_inventory (fst (end_drag inventory us c))"
    using c wf_drag_loop [of us _ _ c] by (auto simp: end_drag_def Let_def split: prod.splits sum.splits) (metis fst_conv)+
qed

lemma preserves_clicks [keeps]:
  "preserves wf_inventory (click_outside inventory b)" "preserves wf_inventory (click_slot inventory i b)"
  "preserves wf_inventory (middle_click inventory k i)" "preserves wf_inventory (drop_button inventory i b)"
  "preserves wf_inventory (drag inventory k i b us)" "preserves wf_inventory (double_click inventory i)"
proof -
  show "preserves wf_inventory (click_outside inventory b)"
    by (simp add: preserves_def click_outside_def Let_def)
  show "preserves wf_inventory (click_slot inventory i b)"
    unfolding click_slot_def by (rule preserves_at) (simp add: preserves_def)
  show "preserves wf_inventory (middle_click inventory k i)"
    unfolding middle_click_def by (rule preserves_at) (simp add: preserves_def)
  have "preserves wf_inventory (with_at inventory i (\<lambda>r c.
        (if \<not> present (m_get inventory c r) then c
         else
           let c1 = (if b = 0 then
                 let c2 = m_upd inventory r count_dec
                       (drop_item \<lparr>present = True, itemID = itemID (m_get inventory c r), itemCount = 1\<rparr> c) in
                 if itemCount (m_get inventory c2 r) = 0 then m_upd inventory r slot_reset c2 else c2
               else m_upd inventory r slot_reset (drop_item (m_get inventory c r) c)) in
           if itemCount (m_get inventory c1 r) = 0 then m_upd inventory r slot_reset c1 else c1, Inr ())))"
    by (rule preserves_at) (simp add: preserves_def Let_def)
  then show "preserves wf_inventory (drop_button inventory i b)"
    by (simp add: preserves_def drop_button_def)
  show "preserves wf_inventory (drag inventory k i b us)"
    using preserves_end_drag [of us] by (auto simp: preserves_def drag_def Let_def)
  have "preserves wf_inventory (gather_step inventory j)" for j
    unfolding gather_step_def by (rule preserves_at) (simp add: preserves_def Let_def)
  then have "preserves wf_inventory (act_for [0..<m_size inventory] (gather_step inventory))"
    by (rule preserves_for)
  then show "preserves wf_inventory (double_click inventory i)"
    unfolding double_click_def by (intro preserves_at) (simp add: preserves_def Let_def)
qed

lemma preserves_swap_keys: "preserves wf_inventory (swap_keys b i)"
  by (rule preservesI) (auto simp: swap_keys_def with_at_def split: sum.splits)

lemma preserves_onClick: "preserves wf_inventory (inventory_onClick k i b m us)"
  unfolding inventory_onClick_def container_onClick_def
  by (intro preserves_if keeps preserves_swap_keys preserves_at) (simp add: preserves_def)

section \<open>Food stays in its bounds\<close>

lemma sint_i32: "- (2 ^ 31) \<le> k \<Longrightarrow> k < 2 ^ 31 \<Longrightarrow> sint (of_int k :: i32) = k"
  by (simp add: signed_of_int signed_take_bit_int_eq_self)

lemma sint_i32_add:
  fixes x y :: i32
  assumes "- (2 ^ 31) \<le> sint x + sint y" "sint x + sint y < 2 ^ 31"
  shows "sint (x + y) = sint x + sint y"
  using sint_i32 [OF assms] by simp

lemma sint_i32_inc: "sint (x :: i32) < 1000 \<Longrightarrow> sint (x + 1) = sint x + 1"
  using sint_i32_add [of x 1] sint_ge [of x] by simp

lemma sint_i32_dec: "0 < sint (x :: i32) \<Longrightarrow> sint (x - 1) = sint x - 1"
  using sint_i32_add [of x "-1"] sint_lt [of x] by simp

lemma foodItems_values: "food \<in> set foodItems \<Longrightarrow> 0 \<le> sint (foodValue food) \<and> sint (foodValue food) \<le> 10"
  by (auto simp: foodItems_def mkFood_def)

lemma swallow_food_ok:
  assumes "food \<in> set foodItems" "food_ok p"
  shows "food_ok (swallow F food p)"
proof -
  have "sint (pl_foodLevel p + foodValue food) = sint (pl_foodLevel p) + sint (foodValue food)"
    using assms foodItems_values [OF assms(1)] by (intro sint_i32_add) (auto simp: food_ok_def)
  with assms foodItems_values [OF assms(1)] show ?thesis
    by (simp add: swallow_def Let_def food_ok_def MAX_FOOD_LEVEL_def)
qed

text \<open>
  A step that reports nothing has left the fields that the next conditions read as they were, so the
  timer is only incremented below 80.
\<close>

definition food_rest :: "Player \<Rightarrow> Player \<times> bool \<Rightarrow> bool" where
  "food_rest p s \<longleftrightarrow> food_ok (fst s) \<and> (\<not> snd s \<longrightarrow> fst s = p)"

lemmas food_defs = food_rest_def food_ok_def MIN_FOOD_LEVEL_def MAX_FOOD_LEVEL_def
  MIN_FOOD_LEVEL_FOR_REGENERATION_def

lemma food_rest_starve: "food_rest p s \<Longrightarrow> food_rest p (starve F s)"
  by (auto simp: starve_def food_defs split: prod.splits)

lemma food_rest_regenerate: "food_rest p s \<Longrightarrow> food_rest p (regenerate F s)"
  by (auto simp: regenerate_def regenerate_fast_def regenerate_slow_def food_defs Let_def split: prod.splits)

lemma food_rest_exhaust: "food_rest p s \<Longrightarrow> food_rest p (exhaust F s)"
  by (auto simp: exhaust_def food_defs Let_def sint_i32_dec split: prod.splits)

lemma quiet_timer:
  assumes "\<not> snd (regenerate F (starve F (p, False)))"
    and "sint (pl_foodLevel p) \<ge> 18 \<and> f32_less (pl_health p) (pl_maxHealth p)
         \<or> pl_foodLevel p = 0 \<and> f32_less 0x41200000 (pl_health p)"
  shows "sint (pl_foodTickTimer p) < 80"
  using assms by (auto simp: regenerate_def regenerate_fast_def regenerate_slow_def starve_def Let_def food_defs
    split: if_splits prod.splits)

lemma food_step_ok:
  assumes "food_ok p"
  shows "food_ok (fst (food_step F p))"
proof -
  let ?a = "regenerate F (starve F (p, False))"
  have a: "food_rest p ?a" using assms by (intro food_rest_regenerate food_rest_starve) (simp add: food_rest_def)
  then have e: "food_rest p (exhaust F ?a)" by (rule food_rest_exhaust)
  have q: "\<not> snd ?a" if "\<not> snd (exhaust F ?a)"
    using that by (auto simp: exhaust_def Let_def split: prod.splits if_splits)
  show ?thesis
  proof (cases "snd (exhaust F ?a)")
    case True
    with e show ?thesis
      by (cases "exhaust F ?a") (auto simp: food_step_def food_timer_def food_defs Let_def)
  next
    case False
    with e have p: "exhaust F ?a = (p, False)" by (cases "exhaust F ?a") (simp add: food_rest_def)
    from quiet_timer [OF q [OF False]] assms show ?thesis
      by (auto simp: food_step_def p food_timer_def food_defs Let_def sint_i32_inc)
  qed
qed

section \<open>The rules of a predicate on players\<close>

lemma shape_fields [simp]:
  "player_shape (p\<lparr>pl_chunks := a\<rparr>) = player_shape p" "player_shape (p\<lparr>pl_keepAliveId := b\<rparr>) = player_shape p"
  "player_shape (p\<lparr>pl_keepAliveIgnored := c\<rparr>) = player_shape p" "player_shape (p\<lparr>pl_keepAliveClock := d\<rparr>) = player_shape p"
  "player_shape (p\<lparr>pl_chatVisibility := e\<rparr>) = player_shape p" "player_shape (p\<lparr>pl_heldItem := f\<rparr>) = player_shape p"
  "player_shape (p\<lparr>pl_pos := g\<rparr>) = player_shape p" "player_shape (p\<lparr>pl_lastPos := g\<rparr>) = player_shape p"
  "player_shape (p\<lparr>pl_rot := h\<rparr>) = player_shape p" "player_shape (p\<lparr>pl_lastRot := h\<rparr>) = player_shape p"
  "player_shape (p\<lparr>pl_isFlying := k\<rparr>) = player_shape p" "player_shape (p\<lparr>pl_isSprinting := k\<rparr>) = player_shape p"
  "player_shape (p\<lparr>pl_isJumping := k\<rparr>) = player_shape p" "player_shape (p\<lparr>pl_health := m\<rparr>) = player_shape p"
  "player_shape (p\<lparr>pl_foodExhaustionLevel := m\<rparr>) = player_shape p"
  by (simp_all add: player_shape_def food_ok_def)

lemma shape_move [simp]: "player_shape (move_player F pos g p) = player_shape p"
  by (simp add: move_player_def Let_def)

lemma move_privileges [simp]:
  "pl_gamemode (move_player F pos g p) = pl_gamemode p" "pl_isOperator (move_player F pos g p) = pl_isOperator p"
  by (simp_all add: move_player_def Let_def)

definition same_body :: "Player \<Rightarrow> Player \<Rightarrow> bool" where
  "same_body p q \<longleftrightarrow> pl_inventory q = pl_inventory p \<and> pl_containers q = pl_containers p
     \<and> pl_gamemode q = pl_gamemode p \<and> pl_isOperator q = pl_isOperator p"

lemma same_body_steps:
  "same_body p (fst s) \<Longrightarrow> same_body p (fst (starve F s))"
  "same_body p (fst s) \<Longrightarrow> same_body p (fst (regenerate_fast F s))"
  "same_body p (fst s) \<Longrightarrow> same_body p (fst (regenerate_slow F s))"
  "same_body p (fst s) \<Longrightarrow> same_body p (fst (exhaust F s))"
  "same_body p (fst s) \<Longrightarrow> same_body p (fst (food_timer s))"
  by (cases s; simp add: same_body_def starve_def regenerate_fast_def regenerate_slow_def exhaust_def
      food_timer_def Let_def)+

lemma same_body_regenerate: "same_body p (fst s) \<Longrightarrow> same_body p (fst (regenerate F s))"
  by (simp add: regenerate_def same_body_steps)

lemma food_step_fields:
  "pl_inventory (fst (food_step F p)) = pl_inventory p" "pl_containers (fst (food_step F p)) = pl_containers p"
  "pl_gamemode (fst (food_step F p)) = pl_gamemode p" "pl_isOperator (fst (food_step F p)) = pl_isOperator p"
proof -
  have "same_body p (fst (food_step F p))"
    unfolding food_step_def by (intro same_body_steps same_body_regenerate) (simp add: same_body_def)
  then show "pl_inventory (fst (food_step F p)) = pl_inventory p" "pl_containers (fst (food_step F p)) = pl_containers p"
    "pl_gamemode (fst (food_step F p)) = pl_gamemode p" "pl_isOperator (fst (food_step F p)) = pl_isOperator p"
    by (simp_all add: same_body_def)
qed

lemma shape_food_step: "player_shape p \<Longrightarrow> player_shape (fst (food_step F p))"
  by (simp add: player_shape_def food_step_fields food_step_ok)

locale player_rules =
  fixes ok :: "Player \<Rightarrow> bool"
  assumes ok_shape: "ok p \<Longrightarrow> player_shape p"
    and ok_update: "ok p \<Longrightarrow> player_shape q \<Longrightarrow> pl_gamemode q = pl_gamemode p \<Longrightarrow>
      pl_isOperator q = pl_isOperator p \<Longrightarrow> ok q"
begin

lemma keep_with_player [keeps]:
  "(\<And>p. ok p \<Longrightarrow> preserves (all_players ok) (f p)) \<Longrightarrow> preserves (all_players ok) (with_player i f)"
  by (auto simp: preserves_def with_player_def dest: all_playersD split: option.splits)

lemma keep_upd: "(\<And>p. ok p \<Longrightarrow> ok (g p)) \<Longrightarrow> preserves (all_players ok) (upd_player i g)"
  by (simp add: preserves_def upd_player_def with_player_def all_players_def split: option.splits)

lemma keep_same [keeps]:
  "(\<And>p. player_shape p \<Longrightarrow> player_shape (g p)) \<Longrightarrow> (\<And>p. pl_gamemode (g p) = pl_gamemode p) \<Longrightarrow>
   (\<And>p. pl_isOperator (g p) = pl_isOperator p) \<Longrightarrow> preserves (all_players ok) (upd_player i g)"
  using ok_shape ok_update by (intro keep_upd) metis

lemma keep_send [keeps]: "preserves (all_players ok) (player_send i d)"
  by (rule all_players_frame)
     (simp add: player_send_def with_client_def with_player_def split: option.splits sum.splits)

lemma keep_with_client [keeps]: "preserves (all_players ok) (with_client i f)"
  by (rule all_players_frame) (simp add: with_client_def with_player_def split: option.splits sum.splits)

lemma keep_sends [keeps]:
  "preserves (all_players ok) (sendBlockUpdate a1_1 a1_2)"
  "preserves (all_players ok) (sendFeatureFlags a2_1 a2_2)"
  "preserves (all_players ok) (sendServerData a3_1 a3_2)"
  "preserves (all_players ok) (sendLoginPlay a4_1 a4_2)"
  "preserves (all_players ok) (sendPlayerInfoUpdate a5_1 a5_2)"
  "preserves (all_players ok) (sendPlayerInfoRemove a6_1 a6_2)"
  "preserves (all_players ok) (sendSpawnEntity a7_1 a7_2)"
  "preserves (all_players ok) (sendSpawnPlayer a8_1 a8_2)"
  "preserves (all_players ok) (sendEntityVelocity a9_1 a9_2)"
  "preserves (all_players ok) (sendUpdateTime a10_1 a10_2)"
  "preserves (all_players ok) (sendChatMessageResponse a11_1 a11_2)"
  "preserves (all_players ok) (sendSystemChatMessage a12_1 a12_2)"
  "preserves (all_players ok) (sendWorldEvent a13_1 a13_2)"
  "preserves (all_players ok) (sendKeepAlive a14_1 a14_2)"
  "preserves (all_players ok) (sendUpdateEntityPosition a15_1 a15_2)"
  "preserves (all_players ok) (sendUpdateEntityPositionAndRotation a16_1 a16_2)"
  "preserves (all_players ok) (sendUpdateEntityRotation a17_1 a17_2)"
  "preserves (all_players ok) (sendHeadRotation a18_1 a18_2)"
  "preserves (all_players ok) (sendSetCenterChunk a19_1 a19_2)"
  "preserves (all_players ok) (sendPlayerAbilities a20_1 a20_2)"
  "preserves (all_players ok) (sendGameEvent a21_1 a21_2)"
  "preserves (all_players ok) (sendSetContainerContent a22_1 a22_2)"
  "preserves (all_players ok) (sendSetContainerSlot a23_1 a23_2)"
  "preserves (all_players ok) (sendUpdateRecipes a24_1 a24_2)"
  "preserves (all_players ok) (sendUpdateTags a25_1 a25_2)"
  "preserves (all_players ok) (sendCommands a26_1 a26_2)"
  "preserves (all_players ok) (sendChangeDifficulty a27_1 a27_2)"
  "preserves (all_players ok) (sendSetHeldItem a28_1 a28_2)"
  "preserves (all_players ok) (sendEntityEvent a29_1 a29_2)"
  "preserves (all_players ok) (sendUpdateRecipiesBook a30_1 a30_2)"
  "preserves (all_players ok) (sendInitializeWorldBorder a31_1 a31_2)"
  "preserves (all_players ok) (sendSetDefaultSpawnPosition a32_1 a32_2)"
  "preserves (all_players ok) (sendSetEntityMetadata a33_1 a33_2)"
  "preserves (all_players ok) (sendUpdateAttributes a34_1 a34_2)"
  "preserves (all_players ok) (sendUpdateAdvancements a35_1 a35_2)"
  "preserves (all_players ok) (sendSetExperience a36_1 a36_2)"
  "preserves (all_players ok) (sendSkinLayers a37_1 a37_2)"
  "preserves (all_players ok) (sendSynchronizePosition a38_1 a38_2)"
  "preserves (all_players ok) (sendUnloadChunk a39_1 a39_2)"
  "preserves (all_players ok) (sendRemoveEntities a40_1 a40_2)"
  "preserves (all_players ok) (sendEntityAnimation a41_1 a41_2 a41_3)"
  "preserves (all_players ok) (sendSwingArm a42_1 a42_2 a42_3)"
  "preserves (all_players ok) (sendCloseContainer a43_1 a43_2)"
  "preserves (all_players ok) (stopSound a44_1 a44_2 a44_3 a44_4)"
  by (simp_all add: keep_send sendBlockUpdate_def sendFeatureFlags_def sendServerData_def sendLoginPlay_def
    sendPlayerInfoUpdate_def sendPlayerInfoRemove_def sendSpawnEntity_def sendSpawnPlayer_def
    sendEntityVelocity_def sendUpdateTime_def sendChatMessageResponse_def sendSystemChatMessage_def
    sendWorldEvent_def sendKeepAlive_def sendUpdateEntityPosition_def
    sendUpdateEntityPositionAndRotation_def sendUpdateEntityRotation_def sendHeadRotation_def
    sendSetCenterChunk_def sendPlayerAbilities_def sendGameEvent_def sendSetContainerContent_def
    sendSetContainerSlot_def sendUpdateRecipes_def sendUpdateTags_def sendCommands_def
    sendChangeDifficulty_def sendSetHeldItem_def sendEntityEvent_def sendUpdateRecipiesBook_def
    sendInitializeWorldBorder_def sendSetDefaultSpawnPosition_def sendSetEntityMetadata_def
    sendUpdateAttributes_def sendUpdateAdvancements_def sendSetExperience_def sendSkinLayers_def
    sendSynchronizePosition_def sendUnloadChunk_def sendRemoveEntities_def sendEntityAnimation_def
    sendSwingArm_def sendCloseContainer_def stopSound_def)

lemma keep_player_sends [keeps]:
  "preserves (all_players ok) (sendHealth i)" "preserves (all_players ok) (sendTeleportEntity i e v)"
  "preserves (all_players ok) (player_disconnect i r)"
  by (auto simp: sendHealth_def sendTeleportEntity_def player_disconnect_def intro: keeps)

lemma keep_sendChunk [keeps]: "preserves (all_players ok) (sendChunk i c)"
proof -
  have "preserves (all_players ok) (act_then (player_send i d)
      (upd_player i (\<lambda>p. p\<lparr>pl_chunks := (pl_chunks p)(chunkPos c \<mapsto> Loaded)\<rparr>)))" for d
    by (intro keeps) simp_all
  then have "preserves (all_players ok) (\<lambda>w. case w_clients w (pl_cli p) of None \<Rightarrow> (w, Inr ())
      | Some k \<Rightarrow> act_then (player_send i d) (upd_player i (\<lambda>p. p\<lparr>pl_chunks := (pl_chunks p)(chunkPos c \<mapsto> Loaded)\<rparr>)) w)" for p d
    by (simp add: preserves_def split: option.splits)
  then show ?thesis unfolding sendChunk_def by (rule keep_with_player)
qed

lemma keep_for_players [keeps]:
  "(\<And>i. preserves (all_players ok) (f i)) \<Longrightarrow> preserves (all_players ok) (for_players f)"
  unfolding for_players_def by (rule preserves_state) (rule preserves_for)

lemma keep_for_others [keeps]:
  "(\<And>i. preserves (all_players ok) (f i)) \<Longrightarrow> preserves (all_players ok) (for_others i f)"
  unfolding for_others_def by (intro keeps)

end

section \<open>Worlds and ticks keep the rules\<close>

context player_rules
begin

lemma keep_load: "preserves (all_players ok) (\<lambda>w. upd_player i (\<lambda>p. p\<lparr>pl_chunks := f p\<rparr>) (loadOrGenerateChunk pos i w))"
proof -
  have "preserves (all_players ok) (upd_player i (\<lambda>p. p\<lparr>pl_chunks := f p\<rparr>))" by (intro keeps) simp_all
  moreover have "all_players ok (loadOrGenerateChunk pos i w) = all_players ok w" for w
    by (simp add: all_players_def loadOrGenerateChunk_def pool_addJob_def Let_def split: option.splits)
  ultimately show ?thesis by (simp add: preserves_def)
qed

lemma keep_sendChunkAndLightUpdate [keeps]: "preserves (all_players ok) (sendChunkAndLightUpdate i pos)"
proof (rule preservesI)
  fix w assume w: "all_players ok w"
  show "all_players ok (fst (sendChunkAndLightUpdate i pos w))"
    using w keep_load [of i "\<lambda>p. (pl_chunks p)(pos \<mapsto> Loading)" pos] keep_sendChunk [of i]
    by (auto simp: sendChunkAndLightUpdate_def preserves_def split: sum.splits)
qed

lemma all_players_remove [simp]: "all_players ok (removePlayerFromLoadingChunk pos i w) = all_players ok w"
  by (simp add: all_players_def removePlayerFromLoadingChunk_def pool_cancelJob_def Let_def split: option.splits prod.splits bool.splits)

lemma keep_unloadChunk [keeps]: "preserves (all_players ok) (unloadChunk i pos)"
proof -
  let ?f = "upd_player i (\<lambda>p. p\<lparr>pl_chunks := (pl_chunks p)(pos := None)\<rparr>)"
  have f: "preserves (all_players ok) ?f" by (intro keeps) simp_all
  then have t: "preserves (all_players ok) (act_then (sendUnloadChunk i pos) ?f)" by (intro keeps) simp_all
  have "preserves (all_players ok) (\<lambda>w. case pl_chunks p pos of None \<Rightarrow> (w, Inr ())
      | Some Loading \<Rightarrow> ?f (removePlayerFromLoadingChunk pos i w) | Some _ \<Rightarrow> act_then (sendUnloadChunk i pos) ?f w)" for p
    using f t by (simp add: preserves_def split: option.splits ChunkState.splits)
  then show ?thesis unfolding unloadChunk_def Let_def by (rule keep_with_player)
qed

lemma keep_updateRenderedChunks [keeps]: "preserves (all_players ok) (updateRenderedChunks i a b)"
proof (rule preservesI)
  fix w assume w: "all_players ok w"
  have "preserves (all_players ok) (act_then (sendSetCenterChunk i b)
     (act_then (act_for cs (\<lambda>(x, z). unloadChunk i (chunk_pos x z)))
       (act_for ds (\<lambda>(x, z). sendChunkAndLightUpdate i (chunk_pos x z)))))" for cs ds
    by (intro keeps) (simp_all add: keep_unloadChunk keep_sendChunkAndLightUpdate split_beta)
  with w show "all_players ok (fst (updateRenderedChunks i a b w))"
    by (simp add: updateRenderedChunks_def preserves_def Let_def)
qed

lemma keep_setPosition [keeps]: "preserves (all_players ok) (setPosition E i pos g)"
proof -
  have "preserves (all_players ok) (act_then (upd_player i (move_player F pos g)) (updateRenderedChunks i a b))" for F a b
    by (intro keeps) simp_all
  then show ?thesis unfolding setPosition_def
    by (intro keep_with_player) (simp add: preserves_def split: sum.splits)
qed

lemma keep_position [keeps]:
  "preserves (all_players ok) (forceSetPosition i pos)" "preserves (all_players ok) (setRotation i y t)"
  "preserves (all_players ok) (teleport i pos)"
  by (auto simp: forceSetPosition_def setRotation_def teleport_def intro!: keeps)

lemma keep_send_moved [keeps]: "preserves (all_players ok) (send_moved i a b d r)"
  by (cases d) (auto simp: send_moved_def Let_def intro!: keeps)

lemma keep_tickPosition [keeps]: "preserves (all_players ok) (tickPosition E i)"
proof -
  have "preserves (all_players ok) (act_then
      (upd_player i (\<lambda>p. p\<lparr>pl_lastPos := (if a then pl_pos p else pl_lastPos p),
         pl_lastRot := (if b then pl_rot p else pl_lastRot p)\<rparr>)) (send_moved i a b d r))" for a b d r
    by (intro keeps) simp_all
  then have "preserves (all_players ok) (\<lambda>w. case m of Inl e \<Rightarrow> (w, Inl e) | Inr d \<Rightarrow> act_then
      (upd_player i (\<lambda>p. p\<lparr>pl_lastPos := (if a then pl_pos p else pl_lastPos p),
         pl_lastRot := (if b then pl_rot p else pl_lastRot p)\<rparr>)) (send_moved i a b d r) w)" for m a b r
    by (rule preserves_result)
  then show ?thesis unfolding tickPosition_def Let_def
    by (intro preserves_then keep_with_player) (auto intro: keeps)
qed

lemma keep_processKeepAlive [keeps]: "preserves (all_players ok) (processKeepAlive E i)"
  unfolding processKeepAlive_def Let_def by (intro keeps) simp_all

lemma keep_tick_keepAlive [keeps]: "preserves (all_players ok) (tick_keepAlive E i)"
  unfolding tick_keepAlive_def
  by (rule keep_with_player) (auto simp: split_beta intro!: keeps)

lemma keep_foodTick [keeps]: "preserves (all_players ok) (foodTick E i)"
proof -
  have "preserves (all_players ok) (upd_player i (\<lambda>p. fst (food_step F p)))" for F
    by (rule keep_same) (simp_all add: shape_food_step food_step_fields)
  then show ?thesis unfolding foodTick_def
    by (intro keep_with_player preserves_if preserves_then preserves_skip keep_player_sends)
qed

lemma keep_player_tick [keeps]: "preserves (all_players ok) (player_tick E i)"
  unfolding player_tick_def by (intro keeps)

lemma keep_dimension_tick: "preserves (all_players ok) (dimension_tick E)"
  unfolding dimension_tick_def
  by (rule preserves_state) (auto intro!: preserves_for keeps split: entity.splits)

lemma keep_dropItem [keeps]: "preserves (all_players ok) (dropItem s pos)"
proof (rule preservesI)
  fix w assume w: "all_players ok w"
  have "preserves (all_players ok) (act_then (act_then (act_then
        (act_do (\<lambda>w. w\<lparr>w_nextId := n\<rparr>)) (addEntity e)) (spawnEntity i t pos)) (addEntityMetadata m))" for n e i t m
    by (intro keeps) (auto simp: addEntity_def spawnEntity_def addEntityMetadata_def all_players_def intro!: keeps)
  with w show "all_players ok (fst (dropItem s pos w))"
    by (simp add: dropItem_def preserves_def Let_def)
qed

lemma keep_updateBlock [keeps]: "preserves (all_players ok) (dimension_updateBlock pos b)"
proof (rule preservesI)
  fix w assume w: "all_players ok w"
  let ?p = "chunk_of_block (scast (pos_x pos)) (scast (pos_z pos))"
  have "preserves (all_players ok) (act_then (\<lambda>w. case column_updateBlock q b c of
        (c', r) \<Rightarrow> (w\<lparr>d_level := (d_level w)(?p \<mapsto> c')\<rparr>, r)) (for_players (\<lambda>j. sendBlockUpdate j u)))" for q c u
    by (intro keeps) (auto intro!: all_players_frame split: prod.splits)
  with w show "all_players ok (fst (dimension_updateBlock pos b w))"
    by (simp add: dimension_updateBlock_def preserves_def Let_def split: option.splits)
qed

end

section \<open>Handlers keep the rules\<close>

lemma shape_inventory: "player_shape p \<Longrightarrow> wf_inventory c \<Longrightarrow> player_shape (p\<lparr>pl_inventory := c\<rparr>)"
  by (simp add: player_shape_def food_ok_def)

lemma shape_containers:
  "player_shape p \<Longrightarrow> (\<And>c. c \<in> set cs \<Longrightarrow> wf_inventory c) \<Longrightarrow> player_shape (p\<lparr>pl_containers := cs\<rparr>)"
  by (simp add: player_shape_def food_ok_def)

lemma shape_swallow: "player_shape p \<Longrightarrow> food \<in> set foodItems \<Longrightarrow> player_shape (swallow F food p)"
  using swallow_food_ok [of food p F] by (simp add: player_shape_def swallow_def Let_def)

lemma swallow_privileges [simp]:
  "pl_gamemode (swallow F food p) = pl_gamemode p" "pl_isOperator (swallow F food p) = pl_isOperator p"
  by (simp_all add: swallow_def Let_def)

lemma find_container_less: "find_container i cs = Some k \<Longrightarrow> k < length cs"
  by (induction cs arbitrary: k) (auto split: if_splits)

context player_rules
begin

lemma keep_upd_inventory [keeps]:
  "(\<And>c. wf_inventory c \<Longrightarrow> wf_inventory (f c)) \<Longrightarrow> preserves (all_players ok) (upd_inventory i f)"
  unfolding upd_inventory_def by (rule keep_same) (simp_all add: shape_inventory player_shape_def food_ok_def)

lemma keep_upd_hotbar [keeps]: "preserves (all_players ok) (upd_hotbar i n f)"
  unfolding upd_hotbar_def by (rule keep_upd_inventory) simp

lemma keep_with_held [keeps]:
  "(\<And>n s. preserves (all_players ok) (f n s)) \<Longrightarrow> preserves (all_players ok) (with_held i f)"
  unfolding with_held_def Let_def by (rule keep_with_player) (simp add: preserves_def)

lemma keep_run_inventory [keeps]:
  assumes "preserves wf_inventory f"
  shows "preserves (all_players ok) (run_inventory i f)"
proof -
  have "preserves (all_players ok) (\<lambda>w. case f ((pl_inventory p)\<lparr>dropped := []\<rparr>) of
       (c, r) \<Rightarrow> act_then (act_then (upd_inventory i (\<lambda>_. c\<lparr>dropped := []\<rparr>))
         (act_for (dropped c) (\<lambda>s. dropItem s (pl_pos p)))) (\<lambda>w. (w, r)) w)" if "ok p" for p
  proof (cases "f ((pl_inventory p)\<lparr>dropped := []\<rparr>)")
    case (Pair c r)
    have "wf_inventory c"
      using preservesD [OF assms _ Pair] ok_shape [OF that] by (simp add: player_shape_def)
    then show ?thesis by (auto simp: Pair intro!: keeps)
  qed
  then show ?thesis unfolding run_inventory_def by (rule keep_with_player)
qed

lemma keep_run_container:
  assumes "preserves wf_inventory f" "ok p" "find_container n (pl_containers p) = Some k"
  shows "preserves (all_players ok) (run_container i k (pl_containers p ! k) f)"
proof (cases "f ((pl_containers p ! k)\<lparr>dropped := []\<rparr>)")
  case (Pair c r)
  have "wf_inventory (pl_containers p ! k)"
    using ok_shape [OF assms(2)] find_container_less [OF assms(3)] by (simp add: player_shape_def)
  then have "wf_inventory c" using preservesD [OF assms(1) _ Pair] by simp
  then have "player_shape q \<Longrightarrow> player_shape (q\<lparr>pl_containers := (pl_containers q)[k := c\<lparr>dropped := []\<rparr>]\<rparr>)" for q
    by (rule_tac shape_containers) (auto dest!: set_update_subset_insert [THEN subsetD] simp: player_shape_def)
  then show ?thesis by (auto simp: run_container_def Pair intro!: keeps)
qed

lemma keep_onClickContainer [keeps]: "preserves (all_players ok) (onClickContainer i pck)"
  unfolding onClickContainer_def Let_def
  by (intro keep_with_player)
     (auto intro!: keep_run_container keep_run_inventory preserves_onClick preserves_return split: option.splits)

lemma keep_container_requests [keeps]:
  "preserves (all_players ok) (onClickContainerButton i a)" "preserves (all_players ok) (onSetHeldItem i b)"
  "preserves (all_players ok) (onSetCreativeModeSlot i c)"
proof -
  show "preserves (all_players ok) (onClickContainerButton i a)"
    unfolding onClickContainerButton_def
    by (intro keep_with_player) (auto intro: preserves_return preserves_skip split: option.splits)
  show "preserves (all_players ok) (onSetHeldItem i b)" unfolding onSetHeldItem_def by (intro keeps) simp_all
  have "preserves (all_players ok) (upd_inventory i (inventory_put r s))" for r s by (intro keeps) simp
  then show "preserves (all_players ok) (onSetCreativeModeSlot i c)"
    by (simp add: preserves_def onSetCreativeModeSlot_def split: sum.splits)
qed

lemma keep_closeContainer [keeps]: "preserves (all_players ok) (closeContainer i n)"
proof -
  have c: "preserves wf_inventory (act_do (container_close inventory))" by (intro keeps) simp
  have "preserves (all_players ok) (upd_player i (\<lambda>p. p\<lparr>pl_containers := take k (pl_containers p) @ drop (Suc k) (pl_containers p)\<rparr>))" for k
    by (intro keeps) (auto intro!: shape_containers dest: in_set_takeD in_set_dropD simp: player_shape_def food_ok_def)
  then show ?thesis unfolding closeContainer_def Let_def
    by (intro keep_with_player)
       (auto intro!: preserves_then keep_run_container keep_run_inventory c preserves_skip keep_sends split: option.splits)
qed

lemma keep_movement [keeps]:
  "preserves (all_players ok) (onSetPlayerPosition E i a)" "preserves (all_players ok) (onSetPlayerPositionAndRotation E i b)"
  "preserves (all_players ok) (onSetPlayerRotation i c)" "preserves (all_players ok) (onPlayerAbilities i d)"
  "preserves (all_players ok) (onPlayerCommand i e)" "preserves (all_players ok) (onSwingArm i f)"
proof -
  have r: "preserves (all_players ok) (set_float_rotation i y t)" for y t
    using keep_position(2) by (simp add: preserves_def set_float_rotation_def split: sum.splits)
  show "preserves (all_players ok) (onSetPlayerPosition E i a)" "preserves (all_players ok) (onSetPlayerPositionAndRotation E i b)"
    "preserves (all_players ok) (onSetPlayerRotation i c)"
    by (auto simp: onSetPlayerPosition_def onSetPlayerPositionAndRotation_def onSetPlayerRotation_def intro!: keeps r)
  show "preserves (all_players ok) (onPlayerAbilities i d)" "preserves (all_players ok) (onPlayerCommand i e)"
    "preserves (all_players ok) (onSwingArm i f)"
    by (auto simp: onPlayerAbilities_def onPlayerCommand_def onSwingArm_def Let_def intro!: keeps)
qed

lemma keep_attack [keeps]: "preserves (all_players ok) (attack E i pos)"
proof -
  have "preserves (all_players ok) (damage E i x)" for x by (auto simp: damage_def intro!: keeps)
  moreover have "preserves (all_players ok) (knockback E i pos)"
    unfolding knockback_def Let_def
    by (intro keep_with_player keep_for_players preserves_then preserves_result keep_sends)
       (auto split: prod.splits intro: keeps)
  ultimately show ?thesis unfolding attack_def by (intro keeps)
qed

lemma keep_onInteract [keeps]: "preserves (all_players ok) (onInteract E i pck)"
proof -
  have x: "preserves (all_players ok) (upd_player i (\<lambda>p. p\<lparr>pl_foodExhaustionLevel := f p\<rparr>))" for f
    by (intro keeps) simp_all
  have "preserves (all_players ok) (act_then
      (case t of PlayerEntity j \<Rightarrow> with_player j (\<lambda>q. if pl_gamemode q \<noteq> Creative
         then act_then (attack E j s) (sendHealth j) else attack E j s) | ItemEntity _ _ _ \<Rightarrow> act_skip)
      (upd_player i (\<lambda>p. p\<lparr>pl_foodExhaustionLevel := f p\<rparr>)))" for t s f
    by (intro preserves_then x) (auto intro!: keeps split: entity.splits)
  then show ?thesis unfolding onInteract_def
    by (intro keep_with_player) (simp add: preserves_def split: sum.splits)
qed

lemma keep_eat [keeps]: "preserves (all_players ok) (eat E i)"
proof -
  have "preserves (all_players ok) (upd_player i (swallow F food))" if "find g foodItems = Some food" for F g food
    using that by (intro keep_same) (auto simp: find_Some_iff intro!: shape_swallow)
  then show ?thesis unfolding eat_def
    by (intro keep_with_player preserves_if preserves_skip keep_with_held)
       (auto intro!: preserves_then preserves_skip keep_player_sends keep_upd_hotbar keep_with_player keep_sends split: option.splits)
qed

lemma keep_finish_digging [keeps]: "preserves (all_players ok) (finish_digging E i pos)"
proof -
  have "preserves (all_players ok) (cancelBlockDestroy i pos)"
    using keep_sends(1) by (simp add: preserves_def cancelBlockDestroy_def split: sum.splits)
  then show ?thesis unfolding finish_digging_def Let_def by (intro keeps) simp_all
qed

lemma keep_onPlayerAction [keeps]: "preserves (all_players ok) (onPlayerAction E i pck)"
proof -
  have "preserves (all_players ok) (drop_stack i)" "preserves (all_players ok) (drop_one i)"
    unfolding drop_stack_def drop_one_def by (intro keeps)+
  then show ?thesis unfolding onPlayerAction_def Let_def by (intro preserves_if) (auto intro!: keeps)
qed

lemma keep_onUseItemOn [keeps]: "preserves (all_players ok) (onUseItemOn E i pck)"
  unfolding onUseItemOn_def by (intro keep_with_held preserves_then preserves_if preserves_result keeps)

lemma keep_log [keeps]: "preserves (all_players ok) (log_message m)"
  unfolding log_message_def by (intro keeps) (simp add: all_players_def)

lemma keep_chat [keeps]: "preserves (all_players ok) (sendMessage_all E m i t)"
proof -
  have "preserves (all_players ok) (act_then (log_message m)
     (for_players (\<lambda>j. with_player j (\<lambda>p. if chat_enabled p then sendChatMessageResponse j d else act_skip))))" for d
    by (intro keeps)
  then show ?thesis unfolding sendMessage_all_def by (intro keep_with_player) (simp add: preserves_def)
qed

lemma keep_information [keeps]:
  "preserves (all_players ok) (onChatMessage E i a)" "preserves (all_players ok) (onClientInformation i b)"
  "preserves (all_players ok) (onPluginMessage i c)" "preserves (all_players ok) (onKeepAliveResponse E i d)"
  "preserves (all_players ok) (onCloseContainerRequest i e)"
  by (auto simp: onChatMessage_def onClientInformation_def onPluginMessage_def onKeepAliveResponse_def
      sendPlayerMessage_def onCloseContainerRequest_def intro!: keeps)

lemmas keep_handlers = keep_onClickContainer keep_container_requests keep_movement keep_onInteract
  keep_onPlayerAction keep_onUseItemOn keep_information preserves_skip

lemma keep_handle_play:
  assumes "\<And>c. preserves (all_players ok) (env_parseCommand E c i)"
  shows "preserves (all_players ok) (handle_play E i pck)"
  by (cases pck; simp only: handle_play.simps onChatCommand_def assms keep_handlers)

lemma keep_login: "preserves (all_players ok) (continueLoginSequence E i)"
proof -
  have a: "preserves (all_players ok) (addEntity e)" "preserves (all_players ok) (addPlayer i)" for e
    by (auto simp: addEntity_def addPlayer_def all_players_def intro!: keeps)
  have s: "preserves (all_players ok) (spawnPlayer i)"
    unfolding spawnPlayer_def by (intro keeps)
  have u: "preserves (all_players ok) (\<lambda>w. sendPlayerInfoUpdate j (g w) w)" for j g
    using keep_sends(5) by (simp add: preserves_def)
  have i: "preserves (all_players ok) (sendPlayerInfoAddPlayer i)"
    unfolding sendPlayerInfoAddPlayer_def
    by (rule preserves_then [OF keep_for_players u]) (intro preserves_if keep_with_player preserves_skip u)
  have y: "preserves (all_players ok) (sendSystem_all m v)" for m v
    unfolding sendSystem_all_def sendSystem_to_def by (intro keeps)
  have "preserves (all_players ok) (act_for cs (\<lambda>(x, z). sendChunkAndLightUpdate i (chunk_pos x z)))" for cs
    by (rule preserves_for) (simp add: split_beta keep_sendChunkAndLightUpdate)
  then have "preserves (all_players ok) (\<lambda>w. act_for (login_cells (uint (w_renderDistance w)))
      (\<lambda>(x, z). sendChunkAndLightUpdate i (chunk_pos x z)) w)"
    by (simp add: preserves_def)
  then have c: "preserves (all_players ok) (login_chunks i)"
    unfolding login_chunks_def by (intro preserves_then keep_sends)
  show ?thesis unfolding continueLoginSequence_def login_settings_def login_state_def
    by (auto intro!: keeps a s i y c)
qed

end

section \<open>The shape of every player and its privileges\<close>

lemma newPlayer_shape: "player_shape (newPlayer cli uuid name op)"
  by (simp add: player_shape_def newPlayer_def food_ok_def wf_inventory_def newInventory_def inventory_sizes MAX_FOOD_LEVEL_def)

interpretation shaped: player_rules player_shape
  by unfold_locales

definition unprivileged :: "Player \<Rightarrow> bool" where
  "unprivileged p \<longleftrightarrow> player_shape p \<and> \<not> pl_isOperator p \<and> pl_gamemode p \<noteq> Creative"

interpretation plain: player_rules unprivileged
  by unfold_locales (auto simp: unprivileged_def)

definition test_fpu :: fpu where
  "test_fpu = \<lparr>d_add = (+), d_sub = (-), d_mul = (*), d_div = (\<lambda>x y. x), d_sqrt = id, d_of_f = ucast,
     d_of_i = of_int, f_of_d = ucast, f_of_i = of_int, f_add = (+), f_sub = (-)\<rparr>"

definition test_env :: server_env where
  "test_env = \<lparr>env_fpu = test_fpu, env_now = 1, env_unixTime = 1, env_text = id, env_colored = (\<lambda>t c. t),
     env_translated = (\<lambda>k a b. a), env_itemBlock = (\<lambda>i. Inr 1), env_cancelBlockDestroy = (\<lambda>pos. False),
     env_cancelEntityDamage = (\<lambda>i. False), env_parseCommand = (\<lambda>c i. act_skip)\<rparr>"

lemma test_world_players: "all_players unprivileged (test_world r K)"
  by (auto simp: all_players_def test_world_def test_player_def unprivileged_def player_shape_def food_ok_def
      wf_inventory_def newInventory_def inventory_sizes split: if_splits)

end
