(* ===== verification/Player_Login.thy ===== *)
theory Player_Login
  imports Player_Properties
begin

text \<open>
  Total correctness of \<open>_continueLoginSequence\<close>: it sends every packet without an exception and leaves the
  player in the dimension with exactly the chunks around the origin, the state that movement keeps.
\<close>

section \<open>Packets that can be written\<close>

definition fits :: "writer \<Rightarrow> bool" where
  "fits f \<longleftrightarrow> (\<forall>out. \<exists>b. f out = Inr b)"

lemma fits_nothrow: "fits (put (nothrow f) x)"
  by (simp add: fits_def put_def nothrow_def)

lemma fits_string: "length s \<le> MAX_STRING_SIZE \<Longrightarrow> fits (put addString s)"
  by (simp add: fits_def put_def addString_def addString_max_def)

lemma fits_chat: "length s \<le> MAX_CHAT_SIZE \<Longrightarrow> fits (put addChat s)"
  by (simp add: fits_def put_def addChat_def addString_max_def)

lemma fits_array:
  assumes "\<forall>x \<in> set xs. fits (put f x)"
  shows "fits (put (addArray f) xs)"
proof -
  have "\<exists>b. add_all f out xs = Inr b" for out
    using assms
  proof (induction xs arbitrary: out)
    case (Cons x xs)
    have "fits (put f x)" using Cons.prems by simp
    then obtain b where "f out x = Inr b" unfolding fits_def put_def by blast
    with Cons show ?case by simp
  qed simp
  then show ?thesis by (simp add: fits_def put_def addArray_def)
qed

lemma fits_container: "fits (put addContainer c)"
  using addArray_nothrow [of addSlot] by (simp add: fits_def put_def addContainer_array)

lemma fits_create: "list_all fits ws \<Longrightarrow> \<exists>b. create i ws = Inr b"
proof -
  assume "list_all fits ws"
  then have "\<exists>b. serialize_all ws out = Inr b" for out
  proof (induction ws arbitrary: out)
    case (Cons f fs)
    then obtain b where "f out = Inr b" by (auto simp: fits_def)
    with Cons show ?case by simp
  qed simp
  then show ?thesis by (auto simp: create_def rbind_Inr_iff)
qed

lemmas fits_rules = fits_nothrow fits_string fits_chat fits_array fits_container

section \<open>Runs that end normally\<close>

definition runs :: "('s \<Rightarrow> bool) \<Rightarrow> 's act \<Rightarrow> bool" where
  "runs I f \<longleftrightarrow> (\<forall>s. I s \<longrightarrow> (\<exists>s'. f s = (s', Inr ()) \<and> I s'))"

lemma runsD: "runs I f \<Longrightarrow> I s \<Longrightarrow> \<exists>s'. f s = (s', Inr ()) \<and> I s'"
  by (simp add: runs_def)

lemma runs_skip: "runs I act_skip"
  by (simp add: runs_def act_skip_def)

lemma runs_then: "runs I f \<Longrightarrow> runs I g \<Longrightarrow> runs I (act_then f g)"
  unfolding runs_def act_then_Inr by blast

lemma runs_if: "(b \<Longrightarrow> runs I f) \<Longrightarrow> (\<not> b \<Longrightarrow> runs I g) \<Longrightarrow> runs I (if b then f else g)"
  by simp

lemma runs_seq: "list_all (runs I) fs \<Longrightarrow> runs I (act_seq fs)"
  by (induction fs) (auto intro: runs_skip runs_then)

lemma runs_for: "(\<And>x. x \<in> set xs \<Longrightarrow> runs I (f x)) \<Longrightarrow> runs I (act_for xs f)"
proof (induction xs)
  case (Cons x xs)
  have x: "runs I (f x)" and xs: "runs I (act_for xs f)" using Cons by simp_all
  show ?case unfolding runs_def
  proof (intro allI impI)
    fix s assume "I s"
    from runsD [OF x this] obtain s1 where "f x s = (s1, Inr ())" "I s1" by blast
    with runsD [OF xs, of s1] show "\<exists>s'. act_for (x # xs) f s = (s', Inr ()) \<and> I s'" by simp
  qed
qed (simp add: runs_def)

text \<open>
  The player \<open>this\<close> is connected and holds the chunks \<open>K\<close>, the players \<open>D\<close> of the dimension exist and
  their names can be sent; \<open>this\<close> is at \<open>v\<close>, if that is given.
\<close>

definition ready :: "i32 \<Rightarrow> Position2D set \<Rightarrow> i32 list \<Rightarrow> Vector3 option \<Rightarrow> byte \<Rightarrow> world \<Rightarrow> bool" where
  "ready this K D v r w \<longleftrightarrow> viewer w this K \<and> d_players w = D \<and> w_renderDistance w = r
     \<and> (\<forall>i \<in> set D. w_players w i \<noteq> None)
     \<and> (\<forall>i p. w_players w i = Some p \<longrightarrow> length (pl_username p) \<le> MAX_STRING_SIZE
          \<and> c_cariedItemIndex (pl_inventory p) = 0 \<and> (i = this \<and> v \<noteq> None \<longrightarrow> pl_pos p = the v))"

lemma ready_player:
  assumes "ready this K D v r w" "i \<in> insert this (set D)"
  obtains p where "w_players w i = Some p" "length (pl_username p) \<le> MAX_STRING_SIZE"
    "c_cariedItemIndex (pl_inventory p) = 0"
  using assms unfolding ready_def viewer_def by (metis insert_iff not_None_eq)

lemma runs_with_player:
  assumes "i \<in> insert this (set D)"
    and "\<And>p. length (pl_username p) \<le> MAX_STRING_SIZE \<Longrightarrow> c_cariedItemIndex (pl_inventory p) = 0 \<Longrightarrow>
      runs (ready this K D v r) (f p)"
  shows "runs (ready this K D v r) (with_player i f)"
  unfolding runs_def
proof (intro allI impI)
  fix w assume w: "ready this K D v r w"
  obtain p where "w_players w i = Some p" "length (pl_username p) \<le> MAX_STRING_SIZE"
    "c_cariedItemIndex (pl_inventory p) = 0" using ready_player [OF w assms(1)] .
  with runsD [OF assms(2) w, of p] show "\<exists>w'. with_player i f w = (w', Inr ()) \<and> ready this K D v r w'"
    by (simp add: with_player_def)
qed

lemma runs_send:
  assumes i: "i \<in> insert this (set D)" and d: "\<exists>b. pck = Inr b"
  shows "runs (ready this K D v r) (player_send i pck)"
  unfolding runs_def
proof (intro allI impI)
  fix w assume w: "ready this K D v r w"
  obtain p where p: "w_players w i = Some p" using ready_player [OF w i] .
  obtain b where "pck = Inr b" using d by blast
  with p have s: "player_send i pck w = (w\<lparr>w_clients := (w_clients w)(pl_cli p :=
      map_option (doWrite b) (w_clients w (pl_cli p)))\<rparr>, Inr ())" by (intro player_send_ok) simp_all
  with w show "\<exists>w'. player_send i pck w = (w', Inr ()) \<and> ready this K D v r w'"
    by (auto simp: ready_def viewer_def)
qed

lemma runs_for_players:
  assumes "\<And>i. i \<in> set D \<Longrightarrow> runs (ready this K D v r) (f i)"
  shows "runs (ready this K D v r) (for_players f)"
proof -
  have "runs (ready this K D v r) (act_for D f)" by (rule runs_for) (rule assms)
  then show ?thesis by (simp add: runs_def for_players_def ready_def)
qed

lemma runs_forceSetPosition: "v = None \<or> v = Some pos \<Longrightarrow> runs (ready this K D v r) (forceSetPosition this pos)"
  by (auto simp: runs_def ready_def viewer_def forceSetPosition_def upd_player_def with_player_def)

lemmas runs_rules = runs_skip runs_then runs_if runs_with_player runs_for_players runs_send runs_forceSetPosition

lemma runs_teleport: "v = None \<or> v = Some pos \<Longrightarrow> runs (ready this K D v r) (teleport this pos)"
  unfolding teleport_def sendSynchronizePosition_def for_others_def sendTeleportEntity_def
  by (intro runs_rules) (auto intro!: fits_create simp: createSynchronizePlayerPosition_def createTeleportEntity_def fits_rules)

lemma runs_info: "runs (ready this K D v r) (sendPlayerInfoAddPlayer this)"
proof -
  have fits: "\<exists>b. createPlayerInfoUpdate \<lparr>PlayerInfoUpdate_actions = a, PlayerInfoUpdate_actionSets = xs\<rparr> = Inr b"
    if "\<And>x. x \<in> set xs \<Longrightarrow> length (act_name x) \<le> MAX_STRING_SIZE" for a xs
    unfolding createPlayerInfoUpdate_def Let_def
    using that by (intro fits_create) (auto simp: list_all_iff fits_rules split: if_splits)
  have one: "runs (ready this K D v r) (with_player this (\<lambda>c w. sendPlayerInfoUpdate j
      \<lparr>PlayerInfoUpdate_actions = info_actions, PlayerInfoUpdate_actionSets = [info_action w c]\<rparr> w))" if "j \<in> set D" for j
  proof (rule runs_with_player)
    fix c :: Player assume c: "length (pl_username c) \<le> MAX_STRING_SIZE"
    have "runs (ready this K D v r) (player_send j (createPlayerInfoUpdate
        \<lparr>PlayerInfoUpdate_actions = info_actions, PlayerInfoUpdate_actionSets = [info_action w c]\<rparr>))" for w
      by (rule runs_send) (use c that in \<open>auto intro!: fits simp: info_action_def\<close>)
    then show "runs (ready this K D v r) (\<lambda>w. sendPlayerInfoUpdate j
        \<lparr>PlayerInfoUpdate_actions = info_actions, PlayerInfoUpdate_actionSets = [info_action w c]\<rparr> w)"
      by (simp add: runs_def sendPlayerInfoUpdate_def)
  qed simp
  have all: "runs (ready this K D v r) (\<lambda>w. sendPlayerInfoUpdate this \<lparr>PlayerInfoUpdate_actions = info_actions,
        PlayerInfoUpdate_actionSets = map (\<lambda>player. info_action w (the (w_players w player))) (d_players w)\<rparr> w)"
    unfolding runs_def
  proof (intro allI impI)
    fix w assume w: "ready this K D v r w"
    let ?xs = "map (\<lambda>player. info_action w (the (w_players w player))) (d_players w)"
    have "length (act_name x) \<le> MAX_STRING_SIZE" if "x \<in> set ?xs" for x
      using that w by (auto simp: ready_def info_action_def)
    then have "runs (ready this K D v r) (player_send this (createPlayerInfoUpdate
        \<lparr>PlayerInfoUpdate_actions = info_actions, PlayerInfoUpdate_actionSets = ?xs\<rparr>))"
      by (intro runs_send fits) simp_all
    with w show "\<exists>w'. sendPlayerInfoUpdate this \<lparr>PlayerInfoUpdate_actions = info_actions, PlayerInfoUpdate_actionSets = ?xs\<rparr> w
        = (w', Inr ()) \<and> ready this K D v r w'"
      by (simp add: runs_def sendPlayerInfoUpdate_def)
  qed
  show ?thesis unfolding sendPlayerInfoAddPlayer_def
    by (rule runs_then [OF runs_for_players all]) (rule runs_if, rule one, simp_all add: runs_skip)
qed

text \<open>A step that leads from one condition to another.\<close>

definition leads :: "('s \<Rightarrow> bool) \<Rightarrow> 's act \<Rightarrow> ('s \<Rightarrow> bool) \<Rightarrow> bool" where
  "leads P f Q \<longleftrightarrow> (\<forall>s. P s \<longrightarrow> (\<exists>s'. f s = (s', Inr ()) \<and> Q s'))"

lemma leads_runs: "runs I f \<Longrightarrow> leads I f I"
  by (simp add: runs_def leads_def)

lemma leads_then: "leads P f Q \<Longrightarrow> leads Q g R \<Longrightarrow> leads P (act_then f g) R"
  unfolding leads_def act_then_Inr by blast

lemma leads_Cons: "leads P f Q \<Longrightarrow> leads Q (act_seq fs) R \<Longrightarrow> leads P (act_seq (f # fs)) R"
  by (simp add: leads_then)

lemma leads_Nil: "leads P (act_seq []) P"
  by (simp add: leads_def act_skip_def)

lemma teleport_moves: "leads (ready this K D None r) (teleport this pos) (ready this K D (Some pos) r)"
  unfolding teleport_def
proof (intro leads_then)
  show "leads (ready this K D None r) (sendSynchronizePosition this pos) (ready this K D None r)"
    unfolding sendSynchronizePosition_def
    by (intro leads_runs runs_send) (auto intro!: fits_create simp: createSynchronizePlayerPosition_def fits_rules)
  show "leads (ready this K D None r) (forceSetPosition this pos) (ready this K D (Some pos) r)"
    by (auto simp: leads_def ready_def viewer_def forceSetPosition_def upd_player_def with_player_def)
  show "leads (ready this K D (Some pos) r) (for_others this (\<lambda>i. sendTeleportEntity i this pos)) (ready this K D (Some pos) r)"
    unfolding for_others_def sendTeleportEntity_def
    by (intro leads_runs runs_rules) (auto intro!: fits_create simp: createTeleportEntity_def fits_rules)
qed

lemma settings_fit:
  "\<exists>x. createFeatureFlags \<lparr>FeatureFlags_flags = [''minecraft:vanilla'']\<rparr> = Inr x" "\<exists>x. createChangeDifficultyClient a = Inr x"
  "\<exists>x. createPlayerAbilities b = Inr x" "\<exists>x. createSetHeldItemClient c = Inr x" "\<exists>x. createUpdateRecipes d = Inr x"
  "\<exists>x. createUpdateTags e = Inr x" "\<exists>x. createEntityEvent f = Inr x" "\<exists>x. createCommands g = Inr x"
  "\<exists>x. createServerData h = Inr x"
  unfolding createFeatureFlags_def createChangeDifficultyClient_def createPlayerAbilities_def createSetHeldItemClient_def
    createUpdateRecipes_def createUpdateTags_def createEntityEvent_def createCommands_def createServerData_def
  by (rule fits_create, simp add: fits_rules MAX_STRING_SIZE_def)+

lemma recipes_fit:
  "UpdateRecipesBook_recipesId h = [] \<Longrightarrow> UpdateRecipesBook_recipiesIdForInit h = [] \<Longrightarrow> \<exists>x. createUpdateRecipesBook h = Inr x"
  unfolding createUpdateRecipesBook_def by (rule fits_create) (simp add: fits_rules)

lemmas settings_defs = sendFeatureFlags_def sendChangeDifficulty_def sendPlayerAbilities_def sendSetHeldItem_def
  sendUpdateRecipes_def sendUpdateTags_def sendEntityEvent_def sendCommands_def sendServerData_def sendUpdateRecipiesBook_def

lemma login_settings_ok:
  "leads (ready this K D None r) (login_settings this) (ready this K (D @ [this]) (Some spawn_point) r)"
proof -
  let ?S = "ready this K D (Some spawn_point) r" and ?T = "ready this K (D @ [this]) (Some spawn_point) r"
  have ent: "leads ?S (addEntity e) ?S" for e
    by (auto simp: leads_def addEntity_def act_do_def ready_def viewer_def)
  have add: "leads ?S (addPlayer this) ?T"
    by (auto simp: leads_def addPlayer_def act_do_def ready_def viewer_def)
  have send: "leads (ready this K D v r) (player_send this pck) (ready this K D v r)" if "\<exists>b. pck = Inr b" for v pck
    using that by (intro leads_runs runs_send) simp_all
  show ?thesis unfolding login_settings_def settings_defs
    by (rule leads_Nil leads_Cons [OF send] leads_Cons [OF teleport_moves] leads_Cons [OF ent] leads_Cons [OF add]
        leads_Cons [OF leads_runs [OF runs_info]] settings_fit recipes_fit
        UpdateRecipesBook.select_convs)+
qed

section \<open>The chunks of a login\<close>

lemma set_login_cells: "0 \<le> r \<Longrightarrow> set (login_cells r) = square r 0 0"
  by (auto simp: login_cells_def set_cells_xz square_def)

definition cover :: "world \<Rightarrow> i32 list \<times> byte \<times> (i32 \<Rightarrow> (string \<times> Inventory \<times> Vector3) option)" where
  "cover w = (d_players w, w_renderDistance w, \<lambda>i. map_option (\<lambda>p. (pl_username p, pl_inventory p, pl_pos p)) (w_players w i))"

lemma cover_player_send: "cover (fst (player_send i pck w)) = cover w"
  by (cases "player_send i pck w") (auto simp: cover_def dest!: player_send_frame simp: same_but_clients_fields)

lemma cover_record: "cover (fst (upd_player i (\<lambda>p. p\<lparr>pl_chunks := g p\<rparr>) w)) = cover w"
  by (auto simp: cover_def upd_player_def with_player_def fun_eq_iff split: option.splits)

lemma cover_load: "cover (loadOrGenerateChunk pos i w) = cover w"
  by (simp add: cover_def loadOrGenerateChunk_def pool_addJob_def Let_def split: option.splits)

lemma cover_then:
  "(\<And>w. cover (fst (f w)) = cover w) \<Longrightarrow> (\<And>w. cover (fst (g w)) = cover w) \<Longrightarrow> cover (fst (act_then f g w)) = cover w"
  by (simp add: act_then_def split: prod.splits sum.splits) (metis fst_conv)

lemma cover_sendChunk: "cover (fst (sendChunk i c w)) = cover w"
proof -
  have "cover (fst (act_then (player_send i pck) (upd_player i (\<lambda>p. p\<lparr>pl_chunks := g p\<rparr>)) w)) = cover w" for pck g
    by (rule cover_then) (simp_all add: cover_player_send cover_record)
  then show ?thesis by (simp add: sendChunk_def with_player_def split: option.splits)
qed

lemma cover_chunk: "cover (fst (sendChunkAndLightUpdate i pos w)) = cover w"
  by (simp add: sendChunkAndLightUpdate_def cover_record cover_load cover_sendChunk split: sum.splits)

lemma cover_for: "(\<And>x w. cover (fst (f x w)) = cover w) \<Longrightarrow> cover (fst (act_for xs f w)) = cover w"
proof (induction xs arbitrary: w)
  case (Cons x xs)
  then show ?case
    by (simp split: prod.splits sum.splits) (metis fst_conv)
qed simp

lemma cover_unload: "cover (fst (unloadChunk i pos w)) = cover w"
proof -
  have r: "cover (removePlayerFromLoadingChunk pos i w) = cover w"
    by (simp add: cover_def removePlayerFromLoadingChunk_def pool_cancelJob_def Let_def split: option.splits prod.splits bool.splits)
  have "cover (fst (act_then (sendUnloadChunk i pos) (upd_player i (\<lambda>p. p\<lparr>pl_chunks := g p\<rparr>)) w)) = cover w" for g
    by (rule cover_then) (simp_all add: sendUnloadChunk_def cover_player_send cover_record)
  then show ?thesis
    by (simp add: unloadChunk_def with_player_def [of _ "\<lambda>p w. _ p w"] Let_def cover_record r split: option.splits ChunkState.splits)
qed

lemma cover_rendered: "cover (fst (updateRenderedChunks i a b w)) = cover w"
proof -
  have "cover (fst (act_then (sendSetCenterChunk i b) (act_then (act_for us (\<lambda>(x, z). unloadChunk i (chunk_pos x z)))
      (act_for ls (\<lambda>(x, z). sendChunkAndLightUpdate i (chunk_pos x z)))) w)) = cover w" for us ls
    by (intro cover_then cover_for) (simp_all add: sendSetCenterChunk_def cover_player_send cover_unload cover_chunk split_beta)
  then show ?thesis by (simp add: updateRenderedChunks_def Let_def)
qed

lemma ready_cover: "ready this K D v r w \<Longrightarrow> cover w' = cover w \<Longrightarrow> viewer w' this K' \<Longrightarrow> ready this K' D v r w'"
proof -
  assume a: "ready this K D v r w" and c: "cover w' = cover w" and "viewer w' this K'"
  have m: "map_option (\<lambda>p. (pl_username p, pl_inventory p, pl_pos p)) (w_players w' i)
      = map_option (\<lambda>p. (pl_username p, pl_inventory p, pl_pos p)) (w_players w i)" for i
    using c by (auto simp: cover_def dest: fun_cong)
  have "\<exists>q. w_players w i = Some q \<and> pl_username q = pl_username p \<and> pl_inventory q = pl_inventory p \<and> pl_pos q = pl_pos p"
    if "w_players w' i = Some p" for i p
    using m [of i] that by (cases "w_players w i") auto
  moreover have "w_players w' i \<noteq> None" if "w_players w i \<noteq> None" for i
    using m [of i] that by (metis map_option_is_None)
  ultimately show "ready this K' D v r w'"
    using a c \<open>viewer w' this K'\<close> unfolding ready_def cover_def by (metis (no_types, lifting) prod.inject)
qed

lemma ready_chunks:
  "ready this K D v r w \<Longrightarrow> \<exists>w'. act_for cs (\<lambda>(x, z). sendChunkAndLightUpdate this (chunk_pos x z)) w = (w', Inr ())
     \<and> ready this (at_cells (set cs) \<union> K) D v r w'"
proof (induction cs arbitrary: K w)
  case (Cons c cs)
  obtain x z where c: "c = (x, z)" by fastforce
  have "viewer w this K" using Cons.prems by (simp add: ready_def)
  from sendChunkAndLightUpdate_viewer [OF this, of "chunk_pos x z"] obtain w1
    where w1: "sendChunkAndLightUpdate this (chunk_pos x z) w = (w1, Inr ())" "viewer w1 this (insert (chunk_pos x z) K)" by blast
  have "ready this (insert (chunk_pos x z) K) D v r w1"
    by (rule ready_cover [OF Cons.prems _ w1(2)]) (metis cover_chunk fst_conv w1(1))
  from Cons.IH [OF this] w1(1) show ?case by (simp add: c)
qed simp

lemma login_chunks_ok:
  "leads (ready this {} D v r) (login_chunks this) (ready this (at_cells (square (uint r) 0 0)) D v r)"
  unfolding login_chunks_def
proof (rule leads_then)
  show "leads (ready this {} D v r) (sendSetCenterChunk this (chunk_pos 0 0)) (ready this {} D v r)"
    unfolding sendSetCenterChunk_def by (intro leads_runs runs_send createCenterChunk_ok) simp
  show "leads (ready this {} D v r) (\<lambda>w. act_for (login_cells (uint (w_renderDistance w)))
      (\<lambda>(x, z). sendChunkAndLightUpdate this (chunk_pos x z)) w) (ready this (at_cells (square (uint r) 0 0)) D v r)"
    using ready_chunks [of this "{}" D v r _ "login_cells (uint r)"] set_login_cells [of "uint r"]
    by (auto simp: leads_def ready_def)
qed

section \<open>The rest of the login\<close>

lemma state_fit:
  "\<exists>x. createInitializeWorldBorder a = Inr x" "\<exists>x. createSetDefaultSpawnPosition b = Inr x"
  "\<exists>x. createSetExperience d = Inr x" "\<exists>x. createHealth e = Inr x" "\<exists>x. createSpawnPlayer f = Inr x"
  unfolding createInitializeWorldBorder_def createSetDefaultSpawnPosition_def createSetExperience_def createHealth_def
    createSpawnPlayer_def
  by (rule fits_create, simp add: fits_rules)+

lemma empty_fit:
  "\<exists>x. createUpdateAttributes \<lparr>UpdateAttributes_entityId = i, UpdateAttributes_attributes = []\<rparr> = Inr x"
  "\<exists>x. createUpdateAdvancements \<lparr>UpdateAdvancements_resetOrClear = b, UpdateAdvancements_advancementMapping = [],
     UpdateAdvancements_identifiers = [], UpdateAdvancements_progressMapping = []\<rparr> = Inr x"
  unfolding createUpdateAttributes_def createUpdateAdvancements_def by (rule fits_create, simp add: fits_rules)+

lemma inventory_fits:
  "c_cariedItemIndex c = 0 \<Longrightarrow> \<exists>x. createSetContainerContent \<lparr>SetContainerContent_container = c\<rparr> = Inr x"
proof -
  assume "c_cariedItemIndex c = 0"
  moreover have "m_at inventory 0 = Inr (CraftingRef 0)" by (simp add: inventory_def inventory_at_def)
  moreover have "\<exists>x. create ID_SetContainerContent [put (nothrow addByte) i, put (nothrow addVarInt) s, put addContainer c,
      put (nothrow addSlot) t] = Inr x" for i s t
    by (rule fits_create) (simp add: fits_rules)
  ultimately show ?thesis by (simp add: createSetContainerContent_def)
qed

lemma runs_spawnPlayer: "this \<in> set D \<Longrightarrow> runs (ready this K D v r) (spawnPlayer this)"
  unfolding spawnPlayer_def sendSpawnPlayer_def sendSkinLayers_def
  by (intro runs_rules) (auto intro!: state_fit)

lemma login_state_ok:
  assumes D: "this \<in> set D"
    and short: "\<And>n. length n \<le> MAX_STRING_SIZE \<Longrightarrow> length (env_translated E MultiplayerPlayerJoined n '''') \<le> MAX_CHAT_SIZE"
  shows "leads (ready this K D (Some spawn_point) r) (login_state E this) (ready this K D (Some spawn_point) r)"
proof -
  let ?R = "ready this K D (Some spawn_point) r"
  have send: "leads ?R (player_send this pck) ?R" if "\<exists>b. pck = Inr b" for pck
    using that by (intro leads_runs runs_send) simp_all
  have chat: "leads ?R (with_player this (\<lambda>p. sendSystem_all (env_translated E MultiplayerPlayerJoined (pl_username p) '''') False)) ?R"
    unfolding sendSystem_all_def sendSystem_to_def sendSystemChatMessage_def createSystemChatMessage_def
    by (intro leads_runs runs_rules fits_create) (simp_all add: fits_rules short)
  have inv: "leads ?R (with_player this (\<lambda>p. player_send this (createSetContainerContent
      \<lparr>SetContainerContent_container = pl_inventory p\<rparr>))) ?R"
    by (intro leads_runs runs_rules inventory_fits) simp_all
  have health: "leads ?R (sendHealth this) ?R"
    unfolding sendHealth_def by (intro leads_runs runs_rules state_fit) simp_all
  have tp: "leads ?R (teleport this spawn_point) ?R" by (intro leads_runs runs_teleport) simp
  show ?thesis unfolding login_state_def sendInitializeWorldBorder_def sendSetDefaultSpawnPosition_def
      sendSetContainerContent_def sendUpdateAttributes_def sendUpdateAdvancements_def sendSetExperience_def
    by (rule leads_Nil leads_Cons [OF send] leads_Cons [OF chat] leads_Cons [OF inv] leads_Cons [OF health] leads_Cons [OF tp]
        leads_Cons [OF leads_runs [OF runs_spawnPlayer [OF D]]] state_fit empty_fit)+
qed

text \<open>A login ends without an exception whoever else is in the dimension, and leaves the new player among the
players of the dimension, at the spawn point and holding exactly the chunks within the render distance of
the origin. Names and the join message must be short enough to be sent.\<close>

lemma login_completes:
  assumes "w_players w this = Some p" "pl_chunks p = Map.empty" "w_clients w (pl_cli p) = Some c"
    and "level_ok (d_level w)" "\<And>i. i \<in> set (d_players w) \<Longrightarrow> w_players w i \<noteq> None"
    and "\<And>i q. w_players w i = Some q \<Longrightarrow> length (pl_username q) \<le> MAX_STRING_SIZE \<and> c_cariedItemIndex (pl_inventory q) = 0"
    and "\<And>n. length n \<le> MAX_STRING_SIZE \<Longrightarrow> length (env_translated E MultiplayerPlayerJoined n '''') \<le> MAX_CHAT_SIZE"
  shows "\<exists>w' p'. continueLoginSequence E this w = (w', Inr ()) \<and> d_players w' = d_players w @ [this]
    \<and> w_players w' this = Some p' \<and> pl_pos p' = spawn_point
    \<and> viewer w' this (at_cells (square (uint (w_renderDistance w)) 0 0))"
proof -
  let ?r = "w_renderDistance w"
  have start: "ready this {} (d_players w) None ?r w"
    using assms by (simp add: ready_def viewer_def)
  have "leads (ready this {} (d_players w) None ?r) (continueLoginSequence E this)
      (ready this (at_cells (square (uint ?r) 0 0)) (d_players w @ [this]) (Some spawn_point) ?r)"
    unfolding continueLoginSequence_def
    by (rule leads_Cons leads_Nil login_settings_ok login_chunks_ok login_state_ok assms(7) | simp)+
  with start obtain w' where "continueLoginSequence E this w = (w', Inr ())"
      and r: "ready this (at_cells (square (uint ?r) 0 0)) (d_players w @ [this]) (Some spawn_point) ?r w'"
    by (auto simp: leads_def)
  then show ?thesis by (auto simp: ready_def viewer_def)
qed

section \<open>Properties\<close>



end
