(* ===== verification/Connection_Properties.thy ===== *)
theory Connection_Properties
  imports Client_Connection Player_Login Wire_Properties
begin

text \<open>
  What holds of the connection of a client: how its bytes are cut into packets, when the loop that
  handles them does not end, and what a client needs to enter the game.
\<close>

section \<open>Cutting the stream\<close>

text \<open>The buffer of a client, and a world in which it holds other bytes.\<close>

definition buffered :: "nat \<Rightarrow> byte list \<Rightarrow> world \<Rightarrow> world" where
  "buffered cid bs w = w\<lparr>w_clients := (w_clients w)(cid := map_option (\<lambda>c. c\<lparr>cl_recvBuffer := bs\<rparr>) (w_clients w cid))\<rparr>"

lemma buffered_client: "w_clients w cid = Some c \<Longrightarrow> w_clients (buffered cid bs w) cid = Some (c\<lparr>cl_recvBuffer := bs\<rparr>)"
  by (simp add: buffered_def)

lemma buffered_eq: "w_clients w cid = Some c \<Longrightarrow> buffered cid bs w = w\<lparr>w_clients := (w_clients w)(cid \<mapsto> c\<lparr>cl_recvBuffer := bs\<rparr>)\<rparr>"
  by (simp add: buffered_def)

lemma parser_robust: "map_of (parsers_of s) i = Some f \<Longrightarrow> robust f"
proof -
  assume "map_of (parsers_of s) i = Some f"
  then have "(i, f) \<in> set all_tables" by (cases s) (auto simp: all_tables_def dest: map_of_SomeD)
  then show ?thesis using tables_robust by (auto simp: list_all_iff)
qed

lemma addVarInt_not_Nil [simp]: "addVarInt [] i \<noteq> []"
  using addVar_append [of "[ucast (i AND 0x7F OR 0x80)]" "drop_bit 7 i"] by (simp add: addVarInt_def addVar.simps [of "[]" i])

text \<open>The length and the identifier of a frame, read as \<open>_handlePacket\<close> reads them.\<close>

lemma pop_frame:
  assumes "length body < 2 ^ 31 - 5" and "data = finalize [] body i @ rest"
  shows "\<exists>len k. popVarInt data (int (length data)) 0 = Inr (len, int k) \<and> len \<noteq> 0
    \<and> popVarInt data (int (length data)) (int k) = Inr (i, int (k + length (addVarInt [] i)))
    \<and> int k + sint len = int (length (finalize [] body i))
    \<and> drop (k + length (addVarInt [] i)) data = body @ rest"
proof -
  let ?i = "addVarInt [] i" and ?n = "of_nat (length body + length (addVarInt [] i)) :: i32"
  let ?l = "addVarInt [] ?n"
  have li: "length ?i \<le> 5" by (rule addVarInt_length)
  have pos: "0 < length ?i" by simp
  from li have n: "sint ?n = int (length body + length ?i)" using assms(1) by (intro sint_of_nat_i32) simp
  have d: "data = ?l @ ?i @ body @ rest" using assms(2) by (simp add: finalize_eq)
  have p0: "points data 0 (?l @ ?i @ body @ rest)" by (simp add: d)
  have p1: "points data (int (length ?l)) (?i @ body @ rest)" unfolding d by (rule points_append)
  have "popVarInt data (int (length data)) 0 = Inr (?n, int (length ?l))"
    using cd_varint.pop_enc [OF TrueI p0] by (simp add: d)
  moreover have "popVarInt data (int (length data)) (int (length ?l)) = Inr (i, int (length ?l + length ?i))"
    using cd_varint.pop_enc [OF TrueI p1] by (simp add: d)
  moreover have "?n \<noteq> 0"
  proof
    assume "?n = 0"
    then have "sint ?n = 0" by simp
    with n pos show False by linarith
  qed
  moreover have "int (length ?l) + sint ?n = int (length (finalize [] body i))" using n by (simp add: finalize_eq)
  moreover have "drop (length ?l + length ?i) data = body @ rest" by (simp add: d)
  ultimately show ?thesis by blast
qed

lemma round_frame:
  assumes "w_clients w cid = Some c" and "cl_recvBuffer c = finalize [] body i @ rest"
    and "length body < 2 ^ 31 - 5"
    and "map_of (parsers_of (cl_status c)) i = Some parser" and "parser body = Inr packet"
  shows "packet_round E L cid w = (case handleParsedClientPacket E L cid packet (buffered cid rest w) of
           (w', r) \<Rightarrow> (w', rbind r (\<lambda>_. Inr True)))"
proof -
  obtain len k where f: "popVarInt (cl_recvBuffer c) (int (length (cl_recvBuffer c))) 0 = Inr (len, int k)" "len \<noteq> 0"
      "popVarInt (cl_recvBuffer c) (int (length (cl_recvBuffer c))) (int k) = Inr (i, int (k + length (addVarInt [] i)))"
      "int k + sint len = int (length (finalize [] body i))"
      "drop (k + length (addVarInt [] i)) (cl_recvBuffer c) = body @ rest"
    using pop_frame [OF assms(3,2)] by blast
  have p: "parser (body @ rest) = Inr packet"
    using parser_robust [OF assms(4)] assms(5) by (simp add: robust_def)
  have "cl_recvBuffer c \<noteq> []" by (simp add: assms(2) finalize_eq)
  moreover have "drop (nat (int k + sint len)) (cl_recvBuffer c) = rest" using f(4) assms(2) by simp
  moreover have "\<not> sint len > int (length (cl_recvBuffer c)) - int k + 1" "\<not> (int k + sint len < 0 \<or> int k + sint len > int (length (cl_recvBuffer c)))"
    using f(4) assms(2) by simp_all
  ultimately show ?thesis
    using f(1,2,3,5) p assms(1,4) unfolding packet_round_def Let_def buffered_eq [OF assms(1)]
    by (simp del: of_nat_add)
qed

text \<open>C16: A complete packet at the front of the buffer is handled by the handler of its identifier in the current
state, exactly its bytes are taken from the buffer, and the loop goes on with what follows; when the
handler throws, the exception leaves the loop.\<close>

theorem packet_dispatched:
  assumes "w_clients w cid = Some c" and "cl_recvBuffer c = finalize [] body i @ rest"
    and "length body < 2 ^ 31 - 5"
    and "map_of (parsers_of (cl_status c)) i = Some parser" and "parser body = Inr packet"
  shows "handlePacket E L cid w = (case handleParsedClientPacket E L cid packet (buffered cid rest w) of
           (w', Inl e) \<Rightarrow> Some (w', Inl e)
         | (w', Inr _) \<Rightarrow> handlePacket E L cid w')"
  using round_frame [OF assms, of E L]
  by (subst handlePacket.simps) (auto split: prod.splits sum.splits)

definition test_login :: login_env where
  "test_login = \<lparr>le_initialized = True, le_whitelistEnabled = False, le_whitelist = [], le_onlineMode = False, le_operators = [],
     le_hash = (\<lambda>_. 0), le_statusJson = (\<lambda>_. ''{}''), le_publicKey = [], le_rsaDecrypt = (\<lambda>_. None), le_sha1 = (\<lambda>_. []),
     le_hasJoined = (\<lambda>_ _. Inr None), le_address = (\<lambda>_. 0)\<rparr>"

definition test_buffer :: "ClientStatus \<Rightarrow> byte list \<Rightarrow> world" where
  "test_buffer s bs = (test_world 2 Map.empty)\<lparr>w_clients := [0 \<mapsto> test_client\<lparr>cl_status := s, cl_recvBuffer := bs\<rparr>]\<rparr>"

lemma test_buffer_client: "w_clients (test_buffer s bs) 0 = Some (test_client\<lparr>cl_status := s, cl_recvBuffer := bs\<rparr>)"
  by (simp add: test_buffer_def)

theorem packet_dispatched_witness:
  "handlePacket test_env test_login 0 (test_buffer Status (finalize [] (replicate 8 0) 1 @ []))
   = (case handleParsedClientPacket test_env test_login 0 (Some (SP_PingRequest \<lparr>PingRequest_payload = 0\<rparr>))
        (buffered 0 [] (test_buffer Status (finalize [] (replicate 8 0) 1 @ []))) of
        (w', Inl e) \<Rightarrow> Some (w', Inl e)
      | (w', Inr _) \<Rightarrow> handlePacket test_env test_login 0 w')"
proof -
  have "upcast SP_PingRequest parsePingRequest (replicate 8 0) = Inr (Some (SP_PingRequest \<lparr>PingRequest_payload = 0\<rparr>))"
    by code_simp
  then show ?thesis
    by (intro packet_dispatched [OF test_buffer_client, where i = 1 and parser = "upcast SP_PingRequest parsePingRequest"])
      (simp_all add: packetIDToParseStatus_def)
qed

section \<open>Incomplete packets\<close>

lemma pop_length:
  assumes "n < 2 ^ 31" and "data = addVarInt [] (of_nat n) @ part"
  shows "\<exists>len. popVarInt data (int (length data)) 0 = Inr (len, int (length data) - int (length part)) \<and> sint len = int n"
proof -
  have p: "points data 0 (addVarInt [] (of_nat n) @ part)" by (simp add: assms(2))
  have "popVarInt data (int (length data)) 0 = Inr (of_nat n, int (length data) - int (length part))"
    using cd_varint.pop_enc [OF TrueI p] by (simp add: assms(2))
  moreover have "sint (of_nat n :: i32) = int n" using assms(1) by (intro sint_of_nat_i32) simp
  ultimately show ?thesis by blast
qed

text \<open>While at least two bytes of a packet are missing, the loop ends at once and the buffer is kept for the
next read.\<close>

theorem incomplete_packet_kept:
  assumes "w_clients w cid = Some c" and "cl_recvBuffer c = addVarInt [] (of_nat n) @ part"
    and "n < 2 ^ 31" and "length part + 2 \<le> n"
  shows "handlePacket E L cid w = Some (w, Inr ())"
proof -
  obtain len where "popVarInt (cl_recvBuffer c) (int (length (cl_recvBuffer c))) 0
      = Inr (len, int (length (cl_recvBuffer c)) - int (length part))" "sint len = int n"
    using pop_length [OF assms(3,2)] by blast
  moreover have "cl_recvBuffer c \<noteq> []" by (simp add: assms(2))
  moreover have "int n > int (length (cl_recvBuffer c)) - (int (length (cl_recvBuffer c)) - int (length part)) + 1"
    using assms(4) by simp
  ultimately have "packet_round E L cid w = (w, Inr False)"
    using assms(1) unfolding packet_round_def Let_def by simp
  then show ?thesis by (subst handlePacket.simps) simp
qed

theorem incomplete_packet_kept_witness:
  "handlePacket test_env test_login 0 (test_buffer Play (addVarInt [] (of_nat 5) @ [0, 1, 2]))
   = Some (test_buffer Play (addVarInt [] (of_nat 5) @ [0, 1, 2]), Inr ())"
  by (rule incomplete_packet_kept [OF test_buffer_client, where n = 5 and part = "[0, 1, 2]"]) simp_all

text \<open>C38: When exactly the last byte of a packet is missing, the comparison lets it through: the packet is cut out
of the buffer with an end beyond the last byte, which is undefined.\<close>

theorem last_byte_missing:
  assumes "w_clients w cid = Some c" and "cl_recvBuffer c @ [b] = finalize [] body i"
    and "body \<noteq> []" and "length body < 2 ^ 31 - 5"
  shows "handlePacket E L cid w = Some (w, Inl (UB InvalidIteratorRange))"
proof -
  let ?i = "addVarInt [] i" and ?d = "cl_recvBuffer c"
  define n where "n = length body + length ?i"
  have n: "n < 2 ^ 31" using assms(4) addVarInt_length [of i] by (simp add: n_def)
  obtain part where part: "body = part @ [b]"
    using assms(2,3) by (cases body rule: rev_cases) (simp_all add: finalize_eq flip: append_assoc)
  have d: "?d = addVarInt [] (of_nat n) @ ?i @ part"
    using assms(2) by (simp add: finalize_eq part n_def flip: append_assoc)
  obtain len where l: "popVarInt ?d (int (length ?d)) 0 = Inr (len, int (length (addVarInt [] (of_nat n :: i32))))" "sint len = int n"
    using pop_length [OF n d] by (auto simp: d)
  have p1: "points ?d (int (length (addVarInt [] (of_nat n :: i32)))) (?i @ part)" unfolding d by (rule points_append)
  have id: "popVarInt ?d (int (length ?d)) (int (length (addVarInt [] (of_nat n :: i32)))) = Inr (i, int (length (addVarInt [] (of_nat n :: i32)) + length ?i))"
    using cd_varint.pop_enc [OF TrueI p1] by (simp add: d)
  have "len \<noteq> 0" "?d \<noteq> []" using l(2) by (auto simp: n_def part d)
  moreover have "int (length ?d) + 1 = int (length (addVarInt [] (of_nat n :: i32))) + int n" by (simp add: d n_def part)
  ultimately have "packet_round E L cid w = (w, Inl (UB InvalidIteratorRange))"
    using l id assms(1) unfolding packet_round_def Let_def by simp
  then show ?thesis by (subst handlePacket.simps) simp
qed

theorem last_byte_missing_witness:
  "handlePacket test_env test_login 0 (test_buffer Play (butlast (finalize [] [0, 9] 0x28)))
   = Some (test_buffer Play (butlast (finalize [] [0, 9] 0x28)), Inl (UB InvalidIteratorRange))"
  by (rule last_byte_missing [OF test_buffer_client, where b = 9 and body = "[0, 9]" and i = "0x28"])
    (simp_all add: finalize_eq butlast_append)

section \<open>Packets of negative length\<close>

text \<open>A length of -5 takes five bytes, so nothing is cut out of the buffer; the packet is a status request.\<close>

definition negative_packet :: "byte list" where
  "negative_packet = [0xFB, 0xFF, 0xFF, 0xFF, 0x0F, 0x00]"

lemma negative_packet_reads:
  "popVarInt negative_packet 6 0 = Inr (- 5, 5)" "popVarInt negative_packet 6 5 = Inr (0, 6)"
  by code_simp+

definition stuck :: "nat \<Rightarrow> world \<Rightarrow> bool" where
  "stuck cid w \<longleftrightarrow> (\<exists>c. w_clients w cid = Some c \<and> cl_status c = Status \<and> cl_recvBuffer c = negative_packet)"

lemma status_sent: "length s \<le> MAX_STRING_SIZE \<Longrightarrow> \<exists>b. createStatusResponse \<lparr>StatusResponse_payload = s\<rparr> = Inr b"
  unfolding createStatusResponse_def by (rule fits_create) (simp add: fits_rules)

lemma stuck_round:
  assumes "stuck cid w" and "\<And>w. length (le_statusJson L w) \<le> MAX_STRING_SIZE"
  shows "\<exists>w'. packet_round E L cid w = (w', Inr True) \<and> stuck cid w'"
proof -
  obtain c where c: "w_clients w cid = Some c" "cl_status c = Status" "cl_recvBuffer c = negative_packet"
    using assms(1) by (auto simp: stuck_def)
  have w: "w\<lparr>w_clients := (w_clients w)(cid \<mapsto> c\<lparr>cl_recvBuffer := negative_packet\<rparr>)\<rparr> = w"
    using c by (simp add: fun_upd_idem flip: c(3))
  obtain b where b: "createStatusResponse \<lparr>StatusResponse_payload = le_statusJson L w\<rparr> = Inr b"
    using status_sent assms(2) by blast
  have "length negative_packet = 6" "negative_packet \<noteq> []" by (simp_all add: negative_packet_def)
  then have "packet_round E L cid w = (w\<lparr>w_clients := (w_clients w)(cid \<mapsto> doWrite b c)\<rparr>, Inr True)"
    using c w b unfolding packet_round_def Let_def
    by (simp add: negative_packet_reads packetIDToParseStatus_def parseStatusRequest_def handleParsedClientPacket_def
        with_cli_def onStatusRequest_def sendStatusResponse_def cli_write_def upd_cli_def)
  then show ?thesis using c by (simp add: stuck_def doWrite_def)
qed

text \<open>C39: A client in the status state can send six bytes that keep its thread busy for ever: a packet with the length
-5 is answered again and again, because cutting it out of the buffer removes nothing.\<close>

theorem negative_length_hangs:
  assumes "w_clients w cid = Some c" and "cl_status c = Status" and "cl_recvBuffer c = negative_packet"
    and "\<And>w. length (le_statusJson L w) \<le> MAX_STRING_SIZE"
  shows "handlePacket E L cid w = None"
proof (rule ccontr)
  assume "handlePacket E L cid w \<noteq> None"
  then obtain r where r: "handlePacket E L cid w = Some r" by blast
  have "L = L \<longrightarrow> \<not> stuck cid w"
  proof (rule handlePacket.raw_induct [of "\<lambda>E L' cid w _. L' = L \<longrightarrow> \<not> stuck cid w", OF _ r])
    fix handle E L' cid w r
    assume IH: "\<And>E L' cid w r. handle E L' cid w = Some r \<Longrightarrow> L' = L \<longrightarrow> \<not> stuck cid w"
      and body: "(case packet_round E L' cid w of (w', Inl e) \<Rightarrow> Some (w', Inl e)
        | (w', Inr goes_on) \<Rightarrow> if goes_on then handle E L' cid w' else Some (w', Inr ())) = Some r"
    show "L' = L \<longrightarrow> \<not> stuck cid w"
    proof (intro impI notI)
      assume "L' = L" "stuck cid w"
      then obtain w2 where "packet_round E L' cid w = (w2, Inr True)" "stuck cid w2"
        using stuck_round [of cid w L E] assms(4) by blast
      with body IH [of E L' cid w2] \<open>L' = L\<close> show False by simp
    qed
  qed
  with r assms(1-3) show False by (auto simp: stuck_def)
qed

theorem negative_length_hangs_witness:
  "handlePacket test_env test_login 0 (test_buffer Status negative_packet) = None"
  by (rule negative_length_hangs [OF test_buffer_client]) (simp_all add: test_login_def MAX_STRING_SIZE_def)

section \<open>A slot that is not there\<close>

definition select_packet :: "byte list" where
  "select_packet = finalize [] [0, 9] 0x28"

definition drop_packet :: "byte list" where
  "drop_packet = finalize [] [4, 0, 0, 0, 0, 0, 0, 0, 0, 0, 0] 0x1c"

lemma crash_packets:
  "upcast SP_SetHeldItem parseSetHeldItem [0, 9] = Inr (Some (SP_SetHeldItem \<lparr>SetHeldItem_slot = 9\<rparr>))"
  "\<exists>a. upcast SP_PlayerAction parsePlayerAction [4, 0, 0, 0, 0, 0, 0, 0, 0, 0, 0] = Inr (Some (SP_PlayerAction a)) \<and> PlayerAction_status a = 4"
proof -
  show "upcast SP_SetHeldItem parseSetHeldItem [0, 9] = Inr (Some (SP_SetHeldItem \<lparr>SetHeldItem_slot = 9\<rparr>))"
    by code_simp
  have "rbind (parsePlayerAction [4, 0, 0, 0, 0, 0, 0, 0, 0, 0, 0]) (\<lambda>a. Inr (PlayerAction_status a)) = Inr 4" by code_simp
  then show "\<exists>a. upcast SP_PlayerAction parsePlayerAction [4, 0, 0, 0, 0, 0, 0, 0, 0, 0, 0] = Inr (Some (SP_PlayerAction a)) \<and> PlayerAction_status a = 4"
    by (auto simp: upcast_def rbind_Inr_iff)
qed

text \<open>C40: A player can end the server with two packets: it selects slot 9 of its hotbar, which the handler stores
unchecked, and drops the item in its hand; \<open>std::array::at\<close> throws, and the exception leaves the loop of
the client's thread.\<close>

theorem held_slot_crash:
  assumes "w_clients w cid = Some c" and "cl_status c = Play" and "cl_player c = Some i" and "w_players w i = Some p"
    and "cl_recvBuffer c = select_packet @ drop_packet @ rest"
  shows "\<exists>w'. handlePacket E L cid w = Some (w', Inl StdOutOfRange)"
proof -
  define w1 where "w1 = w\<lparr>w_clients := (w_clients w)(cid \<mapsto> c\<lparr>cl_recvBuffer := drop_packet @ rest\<rparr>),
    w_players := (w_players w)(i \<mapsto> p\<lparr>pl_heldItem := 9\<rparr>)\<rparr>"
  obtain a where a: "upcast SP_PlayerAction parsePlayerAction [4, 0, 0, 0, 0, 0, 0, 0, 0, 0, 0] = Inr (Some (SP_PlayerAction a))" "PlayerAction_status a = 4"
    using crash_packets(2) by blast
  have "packet_round E L cid w = (w1, Inr True)"
    using round_frame [OF assms(1) assms(5) [unfolded select_packet_def], where parser = "upcast SP_SetHeldItem parseSetHeldItem"]
      crash_packets(1) assms(1-4)
    by (simp add: packetIDToParsePlay_def buffered_eq handleParsedClientPacket_def with_cli_def onSetHeldItem_def
        upd_player_def with_player_def w1_def)
  moreover have "packet_round E L cid w1 = (buffered cid rest w1, Inl StdOutOfRange)"
    using round_frame [where w = w1 and cid = cid and c = "c\<lparr>cl_recvBuffer := drop_packet @ rest\<rparr>" and i = "0x1c" and rest = rest
        and body = "[4, 0, 0, 0, 0, 0, 0, 0, 0, 0, 0]" and parser = "upcast SP_PlayerAction parsePlayerAction"] assms(2,3) a
    by (simp add: packetIDToParsePlay_def handleParsedClientPacket_def with_cli_def buffered_def drop_packet_def onPlayerAction_def
        drop_one_def with_held_def with_player_def w1_def HOTBAR_SIZE_def)
  ultimately have "handlePacket E L cid w = Some (buffered cid rest w1, Inl StdOutOfRange)"
    by (subst handlePacket.simps, simp) (subst handlePacket.simps, simp)
  then show ?thesis by blast
qed

theorem held_slot_crash_witness:
  "\<exists>w'. handlePacket test_env test_login 0 (test_buffer Play (select_packet @ drop_packet @ [])) = Some (w', Inl StdOutOfRange)"
  by (rule held_slot_crash [OF test_buffer_client, where i = 0 and p = test_player and rest = "[]"])
    (simp_all add: test_buffer_def test_world_def test_client_def test_player_def)

section \<open>Entering the game\<close>

definition outside :: "nat \<Rightarrow> world \<Rightarrow> bool" where
  "outside cid w \<longleftrightarrow> (\<forall>c. w_clients w cid = Some c \<longrightarrow> cl_status c \<noteq> Play)"

lemma outside_upd: "(\<And>c. cl_status c \<noteq> Play \<Longrightarrow> cl_status (f c) \<noteq> Play) \<Longrightarrow> outside cid w \<Longrightarrow> outside cid (fst (upd_cli cid f w))"
  by (auto simp: outside_def upd_cli_def with_cli_def split: option.splits)

lemma outside_write: "outside cid w \<Longrightarrow> outside cid (fst (cli_write cid pck w))"
  by (cases pck) (auto simp: cli_write_def doWrite_def intro!: outside_upd)

lemma outside_then:
  "outside cid (fst (f w)) \<Longrightarrow> (\<And>w. outside cid w \<Longrightarrow> outside cid (fst (g w))) \<Longrightarrow> outside cid (fst (act_then f g w))"
  by (auto simp: act_then_def split: prod.splits sum.splits)

lemma outside_disconnect: "outside cid w \<Longrightarrow> outside cid (fst (cli_disconnect E cid reason w))"
proof -
  assume w: "outside cid w"
  then have "outside cid (fst (act_then (cli_write cid pck) (upd_cli cid (\<lambda>c. c\<lparr>cl_isRunning := False\<rparr>)) w))" for pck
    by (intro outside_then outside_write outside_upd) simp_all
  with w show ?thesis by (auto simp: cli_disconnect_def with_cli_def outside_def split: option.splits)
qed

text \<open>
  What lets a client in: a login that is not refused, when the server is offline; or an answer to the
  encryption request with the right token whose key the authentication server knows for the name.
\<close>

definition admitted :: "login_env \<Rightarrow> LoginStart \<Rightarrow> bool" where
  "admitted L pck \<longleftrightarrow> \<not> le_onlineMode L \<and> le_initialized L \<and> (le_whitelistEnabled L \<longrightarrow>
     (\<exists>n. isPlayerWhitelisted (le_whitelist L) (LoginSuccess_uuid (login_answer L pck)) (LoginStart_name pck) = Inr (True, n)))"

definition authenticated :: "login_env \<Rightarrow> nat \<Rightarrow> string \<Rightarrow> EncryptionResponse \<Rightarrow> bool" where
  "authenticated L cid name pck \<longleftrightarrow> (\<exists>token key r.
     le_rsaDecrypt L (EncryptionResponse_verifyToken pck) = Some token \<and> length token = 4 \<and> of_le token = le_address L cid
     \<and> le_rsaDecrypt L (EncryptionResponse_sharedSecret pck) = Some key \<and> length key = 16
     \<and> le_hasJoined L name (digestToProtocol (le_sha1 L (key @ le_publicKey L))) = Inr (Some r))"

lemma login_refused:
  assumes "outside cid w" and "\<not> admitted L pck"
  shows "outside cid (fst (onLoginStart E L cid pck w))"
proof -
  have "outside cid (fst (act_then (upd_cli cid (\<lambda>c. c\<lparr>cl_resPck := r\<rparr>)) (sendEncryptionRequest L cid) w))" for r
    using assms(1) unfolding sendEncryptionRequest_def by (intro outside_then outside_upd outside_write) simp_all
  then show ?thesis
    using assms outside_disconnect [OF assms(1)]
    by (auto simp: onLoginStart_def admitted_def Let_def login_answer_def split: sum.splits prod.splits if_splits)
qed

lemma encryption_refused:
  assumes "outside cid w" and "w_clients w cid = Some c" and "\<not> authenticated L cid (LoginSuccess_username (cl_resPck c)) pck"
  shows "outside cid (fst (onEncryptionResponse E L cid pck w))"
proof -
  let ?w = "w\<lparr>w_clients := (w_clients w)(cid \<mapsto> c\<lparr>cl_isEncrypted := True\<rparr>)\<rparr>"
  have e: "outside cid ?w" using assms(1,2) by (simp add: outside_def)
  have "outside cid (fst (case handleOnline E L cid key ?w of (w', Inl e) \<Rightarrow> (w', Inl e) | (w', Inr False) \<Rightarrow> (w', Inr ())
      | (w', Inr True) \<Rightarrow> with_cli cid (\<lambda>c. loginSequence E L cid (cl_resPck c)) w'))"
    if "le_rsaDecrypt L (EncryptionResponse_verifyToken pck) = Some token" "length token = 4" "of_le token = le_address L cid"
      "le_rsaDecrypt L (EncryptionResponse_sharedSecret pck) = Some key" "length key = 16" for token key
    using that assms(3) e outside_disconnect [OF e, of E "''Disconnected''"]
    by (auto simp: authenticated_def handleOnline_def rbind_Inr_iff split: sum.splits option.splits prod.splits)
  moreover have "act_then (upd_cli cid (\<lambda>c. c\<lparr>cl_isEncrypted := True\<rparr>)) g w = g ?w" for g
    by (simp add: act_then_def upd_cli_def with_cli_def assms(2))
  ultimately show ?thesis
    using outside_disconnect [OF assms(1)] by (simp add: onEncryptionResponse_def split: option.splits)
qed

lemma handled_outside:
  assumes "w_clients w cid = Some c" and "cl_status c \<noteq> Play"
    and "\<And>pck. cl_status c = Login \<Longrightarrow> \<not> admitted L pck"
    and "\<And>pck. cl_status c = Login \<Longrightarrow> \<not> authenticated L cid (LoginSuccess_username (cl_resPck c)) pck"
  shows "outside cid (fst (handleParsedClientPacket E L cid packet w))"
proof -
  have w: "outside cid w" using assms(1,2) by (simp add: outside_def)
  have skip: "outside cid (fst (act_skip w))" using w by (simp add: act_skip_def)
  have shake: "outside cid (fst (onHandshake cid p w))" for p
    using w skip by (auto simp: onHandshake_def intro!: outside_upd)
  have status: "outside cid (fst (onStatusRequest L cid w))" "outside cid (fst (onPingRequest cid q w))" for q
    using w by (simp_all add: onStatusRequest_def sendStatusResponse_def onPingRequest_def sendPingResponse_def outside_write)
  have login: "outside cid (fst (onLoginStart E L cid l w))" "outside cid (fst (onEncryptionResponse E L cid r w))"
    if "cl_status c = Login" for l r
    using w that assms login_refused encryption_refused by blast+
  show ?thesis
    using assms(1,2) skip shake status login
    by (simp add: handleParsedClientPacket_def with_cli_def split: ClientStatus.splits option.splits server_packet.splits)
qed

end
