(* ===== verification/Client_Login.thy ===== *)
theory Client_Login
  imports Connection_Properties
begin

text \<open>
  From the first byte to the game: the handshake and the login packet of a client, through the cutting
  of the stream, the parsers, the login sequence and the chunks around the spawn point.
\<close>

section \<open>A client and its player\<close>

definition linked :: "nat \<Rightarrow> byte list \<Rightarrow> i32 \<Rightarrow> string \<Rightarrow> world \<Rightarrow> bool" where
  "linked cid bs i name w \<longleftrightarrow>
     (\<exists>c. w_clients w cid = Some c \<and> cl_status c = Play \<and> cl_recvBuffer c = bs \<and> cl_player c = Some i)
     \<and> (\<exists>p. w_players w i = Some p \<and> pl_username p = name)"

lemma linked_send: "preserves (linked cid bs i name) (player_send j d)"
  by (auto simp: preserves_def linked_def player_send_def with_client_def with_player_def doWrite_def rbind_Inr_iff
      split: option.splits sum.splits)

lemma linked_upd: "(\<And>p. pl_username (g p) = pl_username p) \<Longrightarrow> preserves (linked cid bs i name) (upd_player j g)"
  by (auto simp: preserves_def linked_def upd_player_def with_player_def split: option.splits)

lemma linked_with: "(\<And>p. preserves I (f p)) \<Longrightarrow> preserves I (with_player j f)"
  by (auto simp: preserves_def with_player_def split: option.splits)

lemma linked_for_players: "(\<And>j. preserves I (f j)) \<Longrightarrow> preserves I (for_players f)"
  using preserves_for [of _ I f] by (simp add: preserves_def for_players_def)

lemma linked_frame: "w_players w' = w_players w \<Longrightarrow> w_clients w' = w_clients w \<Longrightarrow> linked cid bs i name w' = linked cid bs i name w"
  by (simp add: linked_def)

lemmas linked_rules = linked_send linked_upd linked_with linked_for_players preserves_then preserves_if preserves_skip preserves_return

lemma linked_chunk: "preserves (linked cid bs i name) (sendChunkAndLightUpdate j pos)"
proof (rule preservesI)
  fix w assume w: "linked cid bs i name w"
  have l: "linked cid bs i name (loadOrGenerateChunk pos j w)"
    using w by (simp add: loadOrGenerateChunk_def pool_addJob_def Let_def linked_def split: option.splits)
  have u: "preserves (linked cid bs i name) (upd_player j (\<lambda>p. p\<lparr>pl_chunks := g p\<rparr>))" for g by (rule linked_upd) simp
  have "preserves (linked cid bs i name) (act_then (player_send j d) (upd_player j (\<lambda>p. p\<lparr>pl_chunks := g p\<rparr>)))" for d g
    by (intro preserves_then linked_send u)
  then have "linked cid bs i name (fst (sendChunk j c w))" for c
    using w by (auto simp: sendChunk_def with_player_def preserves_def split: option.splits)
  with w l u show "linked cid bs i name (fst (sendChunkAndLightUpdate j pos w))"
    by (auto simp: sendChunkAndLightUpdate_def preserves_def split: sum.splits)
qed

lemma linked_login: "preserves (linked cid bs i name) (continueLoginSequence E j)"
proof -
  let ?P = "preserves (linked cid bs i name)"
  have a: "?P (addEntity e)" "?P (addPlayer k)" for e k
    by (simp_all add: addEntity_def addPlayer_def act_do_def preserves_def linked_def)
  have t: "?P (teleport j pos)" for pos
    unfolding teleport_def sendSynchronizePosition_def forceSetPosition_def for_others_def sendTeleportEntity_def
    by (intro linked_rules) simp
  have u: "?P (\<lambda>w. sendPlayerInfoUpdate k (g w) w)" for k g
    using linked_send by (simp add: preserves_def sendPlayerInfoUpdate_def)
  have n: "?P (sendPlayerInfoAddPlayer j)"
    unfolding sendPlayerInfoAddPlayer_def by (intro linked_rules u)
  have s: "?P (spawnPlayer j)"
    unfolding spawnPlayer_def sendSpawnPlayer_def sendSkinLayers_def by (intro linked_rules)
  have y: "?P (sendSystem_all m v)" for m v
    unfolding sendSystem_all_def sendSystem_to_def sendSystemChatMessage_def by (intro linked_rules)
  have "?P (act_for cs (\<lambda>(x, z). sendChunkAndLightUpdate j (chunk_pos x z)))" for cs
    by (rule preserves_for) (simp add: split_beta linked_chunk)
  then have "?P (\<lambda>w. act_for (login_cells (uint (w_renderDistance w))) (\<lambda>(x, z). sendChunkAndLightUpdate j (chunk_pos x z)) w)"
    by (simp add: preserves_def)
  then have c: "?P (login_chunks j)"
    unfolding login_chunks_def sendSetCenterChunk_def by (intro linked_rules)
  have h: "?P (sendHealth j)" unfolding sendHealth_def by (intro linked_rules)
  show ?thesis
    unfolding continueLoginSequence_def login_settings_def login_state_def settings_defs
      sendInitializeWorldBorder_def sendSetDefaultSpawnPosition_def sendSetContainerContent_def sendUpdateAttributes_def
      sendUpdateAdvancements_def sendSetExperience_def act_seq.simps
    by (intro linked_rules a t n s y c h)
qed

section \<open>The login sequence\<close>

text \<open>What the others in the world must satisfy: names that can be sent, and loaded columns in good shape.\<close>

definition peaceful :: "world \<Rightarrow> bool" where
  "peaceful w \<longleftrightarrow> level_ok (d_level w) \<and> (\<forall>i \<in> set (d_players w). w_players w i \<noteq> None)
     \<and> (\<forall>i q. w_players w i = Some q \<longrightarrow> length (pl_username q) \<le> MAX_STRING_SIZE \<and> c_cariedItemIndex (pl_inventory q) = 0)"

lemma codec_serialized: "\<exists>b. serialize registryCodec out True = Inr b"
  by (simp add: registryCodec_def Let_def)

lemma login_play_fits:
  assumes "LoginPlay_registryCodec p = registryCodec" "LoginPlay_hasDeathLocation p = False"
    and "list_all (\<lambda>s. length s \<le> MAX_STRING_SIZE) (LoginPlay_dimensionNames p)"
    and "length (LoginPlay_dimensionType p) \<le> MAX_STRING_SIZE" "length (LoginPlay_dimensionName p) \<le> MAX_STRING_SIZE"
  shows "\<exists>b. createLoginPlay p = Inr b"
proof -
  have "fits (put addNBT registryCodec)" by (simp add: fits_def put_def addNBT_def codec_serialized)
  then show ?thesis unfolding createLoginPlay_def
    by (intro fits_create) (use assms in \<open>simp add: fits_rules list_all_iff\<close>)
qed

lemma login_success_fits:
  "length (LoginSuccess_username p) \<le> MAX_STRING_SIZE \<Longrightarrow> LoginSuccess_properties p = [] \<Longrightarrow> \<exists>b. createLoginSuccess p = Inr b"
  unfolding createLoginSuccess_def by (intro fits_create) (simp add: fits_rules)

lemma act_seq_step: "f s = (s', Inr ()) \<Longrightarrow> act_seq (f # fs) s = act_seq fs s'"
  by (simp add: act_then_def)

lemma act_seq_one: "act_seq [f] = f"
  by (rule ext) (auto simp: act_then_def act_skip_def split: prod.splits sum.splits)

lemma loginSequence_ok:
  assumes "w_clients w cid = Some c" "cl_recvBuffer c = bs" "peaceful w"
    and "length (LoginSuccess_username pck) \<le> MAX_STRING_SIZE" "LoginSuccess_properties pck = []"
    and "\<And>n. length n \<le> MAX_STRING_SIZE \<Longrightarrow> length (env_translated E MultiplayerPlayerJoined n '''') \<le> MAX_CHAT_SIZE"
  shows "\<exists>w' p. loginSequence E L cid pck w = (w', Inr ()) \<and> linked cid bs (w_nextId w) (LoginSuccess_username pck) w'
    \<and> d_players w' = d_players w @ [w_nextId w] \<and> w_players w' (w_nextId w) = Some p \<and> pl_pos p = spawn_point
    \<and> viewer w' (w_nextId w) (at_cells (square (uint (w_renderDistance w)) 0 0))"
proof -
  let ?i = "w_nextId w" and ?name = "LoginSuccess_username pck"
  define p0 where "p0 = newPlayer cid (LoginSuccess_uuid pck) ?name (?name \<in> set (le_operators L))"
  obtain b where b: "createLoginSuccess pck = Inr b" using login_success_fits [OF assms(4,5)] by blast
  define play where "play = \<lparr>LoginPlay_entityID = ?i, LoginPlay_isHardcore = False, LoginPlay_gamemode = gamemode_code (pl_gamemode p0),
        LoginPlay_previousGamemode = gamemode_code Survival, LoginPlay_dimensionNames = [''minecraft:overworld''],
        LoginPlay_registryCodec = registryCodec, LoginPlay_dimensionType = ''minecraft:overworld'',
        LoginPlay_dimensionName = ''overworld'', LoginPlay_hashedSeed = 0, LoginPlay_maxPlayers = 20,
        LoginPlay_viewDistance = ucast (w_renderDistance w), LoginPlay_simulationDistance = 16,
        LoginPlay_reducedDebugInfo = False, LoginPlay_enableRespawnScreen = True, LoginPlay_isDebug = False,
        LoginPlay_isFlat = False, LoginPlay_hasDeathLocation = False, LoginPlay_deathDimensionName = '''',
        LoginPlay_deathLocation = \<lparr>pos_x = 0, pos_y = 0, pos_z = 0\<rparr>\<rparr>"
  obtain d where d: "createLoginPlay play = Inr d"
    using login_play_fits [of play] by (auto simp: play_def MAX_STRING_SIZE_def)
  define c1 where "c1 = (doWrite b c)\<lparr>cl_status := Play, cl_player := Some ?i\<rparr>"
  define w1 where "w1 = w\<lparr>w_nextId := ?i + 1, w_players := (w_players w)(?i \<mapsto> p0), w_clients := (w_clients w)(cid \<mapsto> doWrite d c1)\<rparr>"
  have cli: "pl_cli p0 = cid" "pl_username p0 = ?name" "pl_chunks p0 = Map.empty" "c_cariedItemIndex (pl_inventory p0) = 0"
    by (simp_all add: p0_def newPlayer_def newInventory_def)
  define w0 where "w0 = w\<lparr>w_clients := (w_clients w)(cid \<mapsto> doWrite b c)\<rparr>"
  define ws where "ws = w\<lparr>w_nextId := ?i + 1, w_players := (w_players w)(?i \<mapsto> p0), w_clients := (w_clients w)(cid \<mapsto> c1)\<rparr>"
  have s1: "sendLoginSuccess cid pck w = (w0, Inr ())"
    using assms(1) b by (simp add: sendLoginSuccess_def cli_write_def upd_cli_def with_cli_def w0_def)
  have s2: "switchToPlayState L cid (LoginSuccess_uuid pck) ?name w0 = (ws, Inr ())"
    by (simp add: switchToPlayState_def act_then_def upd_cli_def with_cli_def create_player_def Let_def w0_def ws_def c1_def p0_def)
  have "sendLoginPlay_cli cid ws = sendLoginPlay ?i play ws"
    by (simp add: sendLoginPlay_cli_def with_cli_def with_player_def ws_def c1_def play_def)
  also have "\<dots> = (w1, Inr ())"
    using d by (simp add: sendLoginPlay_def player_send_def with_client_def with_player_def cli(1) ws_def w1_def)
  finally have s3: "sendLoginPlay_cli cid ws = (w1, Inr ())" .
  have s4: "with_cli cid (\<lambda>c. case cl_player c of None \<Rightarrow> (\<lambda>w. (w, Inl (UB NullDereference))) | Some i \<Rightarrow> continueLoginSequence E i) w1
      = continueLoginSequence E ?i w1"
    by (simp add: with_cli_def w1_def c1_def doWrite_def)
  have seq: "loginSequence E L cid pck w = continueLoginSequence E ?i w1"
    unfolding loginSequence_def act_seq_step [of "sendLoginSuccess cid pck" w w0, OF s1]
      act_seq_step [of "switchToPlayState L cid (LoginSuccess_uuid pck) ?name" w0 ws, OF s2]
      act_seq_step [of "sendLoginPlay_cli cid" ws w1, OF s3] act_seq_one s4 ..
  have w1: "w_players w1 ?i = Some p0" "w_clients w1 (pl_cli p0) = Some (doWrite d c1)" by (simp_all add: w1_def cli(1))
  have pe: "level_ok (d_level w1)" "\<And>j. j \<in> set (d_players w1) \<Longrightarrow> w_players w1 j \<noteq> None"
      "\<And>j q. w_players w1 j = Some q \<Longrightarrow> length (pl_username q) \<le> MAX_STRING_SIZE \<and> c_cariedItemIndex (pl_inventory q) = 0"
    using assms(3,4) cli by (auto simp: peaceful_def w1_def split: if_splits)
  obtain w' p' where w': "continueLoginSequence E ?i w1 = (w', Inr ())" "d_players w' = d_players w1 @ [?i]"
      "w_players w' ?i = Some p'" "pl_pos p' = spawn_point" "viewer w' ?i (at_cells (square (uint (w_renderDistance w1)) 0 0))"
    using login_completes [OF w1(1) cli(3) w1(2) pe(1)] pe(2,3) assms(6) by blast
  have "linked cid bs ?i ?name w1" using assms(2) w1 cli by (simp add: linked_def w1_def c1_def doWrite_def)
  then have "linked cid bs ?i ?name w'" using preservesD [OF linked_login _ w'(1)] by blast
  then show ?thesis using w' seq by (simp add: w1_def)
qed

section \<open>Over the wire\<close>

lemma empty_buffer_ends: "linked cid [] i name w \<Longrightarrow> handlePacket E L cid w = Some (w, Inr ())"
  by (subst handlePacket.simps) (auto simp: linked_def packet_round_def)

lemma handshake_round:
  assumes "w_clients w cid = Some c" "cl_status c = Initial" "cl_recvBuffer c = finalize [] hs 0 @ rest"
    and "length hs < 2 ^ 31 - 5" "parseHandshake hs = Inr h" "Handshake_nextState h = 2"
  shows "packet_round E L cid w = (w\<lparr>w_clients := (w_clients w)(cid \<mapsto> c\<lparr>cl_recvBuffer := rest, cl_status := Login\<rparr>)\<rparr>, Inr True)"
  using round_frame [OF assms(1,3,4), where parser = "upcast SP_Handshake parseHandshake"] assms
  by (simp add: packetIDToParseInitial_def upcast_def buffered_eq handleParsedClientPacket_def with_cli_def onHandshake_def upd_cli_def)

lemma login_round:
  assumes "w_clients w cid = Some c" "cl_status c = Login" "cl_recvBuffer c = finalize [] ls 0 @ rest"
    and "length ls < 2 ^ 31 - 5" "parseLoginStart ls = Inr l" "admitted L l"
  shows "packet_round E L cid w = (case loginSequence E L cid (login_answer L l) (buffered cid rest w) of
    (w', r) \<Rightarrow> (w', rbind r (\<lambda>_. Inr True)))"
proof -
  have "handleParsedClientPacket E L cid (Some (SP_LoginStart l)) (buffered cid rest w) = loginSequence E L cid (login_answer L l) (buffered cid rest w)"
    using assms(1,2,6)
    by (auto simp: handleParsedClientPacket_def with_cli_def buffered_client onLoginStart_def admitted_def Let_def login_answer_def)
  then show ?thesis
    using round_frame [OF assms(1,3,4), where parser = "upcast SP_LoginStart parseLoginStart"] assms(2,5)
    by (simp add: packetIDToParseLogin_def upcast_def)
qed


definition newcomer_packets :: "byte list" where
  "newcomer_packets = finalize [] [0, 0, 0, 0, 2] 0 @ finalize [] [1, 0x61, 0] 0"

lemma newcomer_parses:
  "\<exists>h. parseHandshake [0, 0, 0, 0, 2] = Inr h \<and> Handshake_nextState h = 2"
  "\<exists>l. parseLoginStart [1, 0x61, 0] = Inr l \<and> LoginStart_name l = ''a''"
proof -
  have "rbind (parseHandshake [0, 0, 0, 0, 2]) (\<lambda>h. Inr (Handshake_nextState h)) = Inr 2"
       "rbind (parseLoginStart [1, 0x61, 0]) (\<lambda>l. Inr (LoginStart_name l)) = Inr ''a''" by code_simp+
  then show "\<exists>h. parseHandshake [0, 0, 0, 0, 2] = Inr h \<and> Handshake_nextState h = 2"
      "\<exists>l. parseLoginStart [1, 0x61, 0] = Inr l \<and> LoginStart_name l = ''a''"
    by (auto simp: rbind_Inr_iff)
qed

lemma newcomer_world:
  "peaceful (test_buffer s bs)" "w_renderDistance (test_buffer s bs) = 2" "d_players (test_buffer s bs) = [0]" "admitted test_login l"
  "\<And>n. length n \<le> MAX_STRING_SIZE \<Longrightarrow> length (env_translated test_env MultiplayerPlayerJoined n '''') \<le> MAX_CHAT_SIZE"
  by (auto simp: peaceful_def test_buffer_def test_world_def level_ok_def test_player_def newInventory_def MAX_STRING_SIZE_def
      MAX_CHAT_SIZE_def test_env_def admitted_def test_login_def split: if_splits)


section \<open>Nobody enters otherwise\<close>



end
