(* ===== verification/Commands.thy ===== *)
theory Commands
  imports Player_Handlers Identity
begin

text \<open>
  \<open>command_parser/\<close>: the commands of players and of the console, and \<open>Permissions.cpp\<close>, the names of the
  operators. What the commands only write to the log is left out.
\<close>

section \<open>The state of the server\<close>

text \<open>
  The commands reach beyond the world: the set of operators and whether the server runs. \<open>ad_stops\<close>
  counts the requests to stop, the sixth of which ends the process.
\<close>

record admin =
  ad_world :: world
  ad_operators :: "string set"
  ad_running :: bool
  ad_stops :: nat
  ad_exited :: bool

text \<open>
  What the commands take from libraries and files: \<open>std::stod\<close>, the text of the message with the seed,
  the names of log levels and loggers, and the configuration and whitelist a reload reads.
\<close>

record command_env =
  ce_stod :: "string \<Rightarrow> f64 result"
  ce_seedMessage :: string
  ce_levels :: "string list"
  ce_loggers :: "string list"
  ce_whitelistEnabled :: bool
  ce_enforceWhitelist :: bool
  ce_whitelist :: "whitelist_entry list"

definition on_world :: "world act \<Rightarrow> admin act" where
  "on_world f a = (case f (ad_world a) of (w, r) \<Rightarrow> (a\<lparr>ad_world := w\<rparr>, r))"

definition with_invoker :: "i32 option \<Rightarrow> (i32 \<Rightarrow> Player \<Rightarrow> admin act) \<Rightarrow> admin act" where
  "with_invoker invoker f a =
     (case invoker of
        None \<Rightarrow> (a, Inl (UB NullDereference))
      | Some i \<Rightarrow> (case w_players (ad_world a) i of None \<Rightarrow> (a, Inl (UB NullDereference)) | Some p \<Rightarrow> f i p a))"

text \<open>\<open>sendSystemMessage(text, *invoker)\<close>.\<close>

definition tell :: "server_env \<Rightarrow> i32 option \<Rightarrow> string \<Rightarrow> admin act" where
  "tell E invoker message = with_invoker invoker (\<lambda>i _. on_world (sendSystem_to (env_text E message) False i))"

definition tell_if :: "server_env \<Rightarrow> i32 option \<Rightarrow> string \<Rightarrow> admin act" where
  "tell_if E invoker message = (if invoker = None then act_skip else tell E invoker message)"

text \<open>Commands that only operators may use, the console always.\<close>

definition for_operators :: "i32 option \<Rightarrow> admin act \<Rightarrow> admin act" where
  "for_operators invoker f =
     (if invoker = None then f else with_invoker invoker (\<lambda>i p. if pl_isOperator p then f else act_skip))"

section \<open>Operators\<close>

text \<open>
  \<open>std::getline\<close> until the end of the file: the text after the last line break is a line too, even when
  it is empty.
\<close>

fun split_on :: "char \<Rightarrow> string \<Rightarrow> string list" where
  "split_on d [] = [[]]"
| "split_on d (c # cs) =
     (if c = d then [] # split_on d cs
      else case split_on d cs of [] \<Rightarrow> [[c]] | x # xs \<Rightarrow> (c # x) # xs)"

definition load_operators :: "string \<Rightarrow> string set" where
  "load_operators file = set (split_on (CHR 0x0A) file)"

text \<open>\<open>names\<close> is the order in which the set is traversed.\<close>

definition save_operators :: "string list \<Rightarrow> string" where
  "save_operators names = concat (map (\<lambda>op. op @ [CHR 0x0A]) names)"

text \<open>The loops over the players keep the last one with the name.\<close>

definition find_named :: "string \<Rightarrow> world \<Rightarrow> i32 option" where
  "find_named name w = fold (\<lambda>i found. case w_players w i of
     None \<Rightarrow> found | Some p \<Rightarrow> if pl_username p = name then Some i else found) (d_players w) None"

definition setOperator :: "bool \<Rightarrow> i32 option \<Rightarrow> admin act" where
  "setOperator isOp selected =
     (case selected of None \<Rightarrow> act_skip | Some i \<Rightarrow> on_world (upd_player i (\<lambda>p. p\<lparr>pl_isOperator := isOp\<rparr>)))"

definition addOperator :: "string \<Rightarrow> admin act" where
  "addOperator name a =
     (if name \<in> ad_operators a then (a, Inr ())
      else setOperator True (find_named name (ad_world a)) (a\<lparr>ad_operators := insert name (ad_operators a)\<rparr>))"

definition removeOperator :: "string \<Rightarrow> admin act" where
  "removeOperator name a =
     (if name \<notin> ad_operators a then (a, Inr ())
      else setOperator False (find_named name (ad_world a)) (a\<lparr>ad_operators := ad_operators a - {name}\<rparr>))"

definition op_execute :: "server_env \<Rightarrow> string list \<Rightarrow> i32 option \<Rightarrow> admin act" where
  "op_execute E args invoker = for_operators invoker
     (case args of
        [name] \<Rightarrow> (\<lambda>a. if name \<in> ad_operators a then tell_if E invoker (name @ '' is already opped.'') a
                  else act_then (addOperator name) (tell_if E invoker (''opped '' @ name)) a)
      | _ \<Rightarrow> act_skip)"

definition deop_execute :: "server_env \<Rightarrow> string list \<Rightarrow> i32 option \<Rightarrow> admin act" where
  "deop_execute E args invoker = for_operators invoker
     (case args of
        [name] \<Rightarrow> (\<lambda>a. if name \<notin> ad_operators a then tell_if E invoker (name @ '' is not an operator.'') a
                  else act_then (tell_if E invoker (name @ '' deopped.'')) (removeOperator name) a)
      | _ \<Rightarrow> act_skip)"

section \<open>Game modes\<close>

text \<open>The constants of type \<open>float\<close> are 0.05, 1 and 0.1 for the abilities, and the code of the mode.\<close>

definition mode_abilities :: "Gamemode \<Rightarrow> PlayerAbilitiesClient" where
  "mode_abilities m = \<lparr>PlayerAbilitiesClient_flags =
       (case m of Creative \<Rightarrow> 0x01 OR 0x04 OR 0x08 | Spectator \<Rightarrow> 0x01 OR 0x02 OR 0x04 | _ \<Rightarrow> 0),
     PlayerAbilitiesClient_flyingSpeed = (if m = Spectator then 0x3F800000 else 0x3D4CCCCD),
     PlayerAbilitiesClient_fieldOfViewModifier = 0x3DCCCCCD\<rparr>"

definition mode_value :: "Gamemode \<Rightarrow> f32" where
  "mode_value m = (case m of Survival \<Rightarrow> 0 | Creative \<Rightarrow> 0x3F800000 | Adventure \<Rightarrow> 0x40000000 | Spectator \<Rightarrow> 0x40400000)"

definition mode_title :: "Gamemode \<Rightarrow> string" where
  "mode_title m = (case m of Survival \<Rightarrow> ''Survival'' | Creative \<Rightarrow> ''Creative'' | Adventure \<Rightarrow> ''Adventure'' | Spectator \<Rightarrow> ''Spectator'')"

definition updatePlayerInfo :: "PlayerInfoUpdate \<Rightarrow> world act" where
  "updatePlayerInfo d = for_players (\<lambda>player. sendPlayerInfoUpdate player d)"

definition change_mode :: "server_env \<Rightarrow> Gamemode \<Rightarrow> i32 \<Rightarrow> world act" where
  "change_mode E m i = act_seq
     [upd_player i (\<lambda>p. p\<lparr>pl_gamemode := m\<rparr>),
      sendPlayerAbilities i (mode_abilities m),
      with_player i (\<lambda>p. updatePlayerInfo \<lparr>PlayerInfoUpdate_actions = 0x04,
        PlayerInfoUpdate_actionSets = [\<lparr>act_uuid = pl_uuid p, act_name = '''', act_properties = [], act_hasSigData = False,
          act_gamemode = ucast (gamemode_code (pl_gamemode p)), act_listed = False, act_latency = 0,
          act_hasDisplayName = False, act_displayName = ''''\<rparr>]\<rparr>),
      sendGameEvent i \<lparr>GameEvent_event = 3, GameEvent_value = mode_value m\<rparr>,
      sendPlayerAbilities i (mode_abilities m),
      sendSystem_to (env_text E (''Set own game mode to '' @ mode_title m @ '' Mode'')) False i]"

text \<open>Without an argument \<open>args[0]\<close> is read from an empty vector.\<close>

definition gamemode_execute :: "server_env \<Rightarrow> string list \<Rightarrow> i32 option \<Rightarrow> admin act" where
  "gamemode_execute E args invoker =
     (if length args \<ge> 2 then act_skip
      else if invoker = None then act_skip
      else for_operators invoker
        (case args of
           [] \<Rightarrow> (\<lambda>a. (a, Inl (UB OutOfBoundsRead)))
         | mode # _ \<Rightarrow>
             if mode = ''adventure'' then on_world (change_mode E Adventure (the invoker))
             else if mode = ''creative'' then on_world (change_mode E Creative (the invoker))
             else if mode = ''spectator'' then on_world (change_mode E Spectator (the invoker))
             else if mode = ''survival'' then on_world (change_mode E Survival (the invoker))
             else act_skip))"

section \<open>Time\<close>

definition is_digit :: "char \<Rightarrow> bool" where
  "is_digit c \<longleftrightarrow> 48 \<le> (of_char c :: nat) \<and> (of_char c :: nat) \<le> 57"

text \<open>
  \<open>value.back()\<close> of an empty string is undefined. A failing conversion is caught; it is reported to the
  invoker, who may be missing, and the answer is -1.
\<close>

definition complain :: "server_env \<Rightarrow> i32 option \<Rightarrow> string \<Rightarrow> admin \<Rightarrow> admin \<times> i32 result" where
  "complain E invoker message a = (case tell E invoker message a of (a', r) \<Rightarrow> (a', rbind r (\<lambda>_. Inr (- 1))))"

definition setTimeFromArg :: "server_env \<Rightarrow> command_env \<Rightarrow> string \<Rightarrow> int \<Rightarrow> i32 option \<Rightarrow> admin \<Rightarrow> admin \<times> i32 result" where
  "setTimeFromArg E C value multiplier invoker a =
     (if value = [] then (a, Inl (UB OutOfBoundsRead))
      else
        case ce_stod C (if last value \<in> set ''dst'' then butlast value else value) of
          Inl e \<Rightarrow> complain E invoker ''Expected float'' a
        | Inr x \<Rightarrow> (a, rbind (f64_to_int (- (2 ^ 31)) (2 ^ 31 - 1) (d_mul (env_fpu E) x (d_of_i (env_fpu E) multiplier)))
                        (\<lambda>v. Inr (of_int v))))"

definition setMultiplier :: "char \<Rightarrow> int" where
  "setMultiplier c = (if c = CHR ''d'' then 24000 else if c = CHR ''s'' then 20 else if c = CHR ''t'' then 1 else - 1)"

definition setTimeToAdd :: "server_env \<Rightarrow> command_env \<Rightarrow> string \<Rightarrow> i32 option \<Rightarrow> admin \<Rightarrow> admin \<times> i32 result" where
  "setTimeToAdd E C timeToAdd invoker =
     (if list_all is_digit timeToAdd then setTimeFromArg E C timeToAdd 1 invoker
      else if last timeToAdd \<in> set ''dst'' \<and> hd timeToAdd \<noteq> CHR ''-''
      then setTimeFromArg E C timeToAdd (setMultiplier (last timeToAdd)) invoker
      else if hd timeToAdd = CHR ''-'' then complain E invoker ''Tick count must be non-negative''
      else complain E invoker ''Expected float'')"

definition setTimeToSet :: "server_env \<Rightarrow> command_env \<Rightarrow> string \<Rightarrow> i32 option \<Rightarrow> admin \<Rightarrow> admin \<times> i32 result" where
  "setTimeToSet E C timeToSet invoker =
     (if list_all is_digit timeToSet then setTimeFromArg E C timeToSet 1 invoker
      else if timeToSet = ''day'' then (\<lambda>a. (a, Inr 1000))
      else if timeToSet = ''night'' then (\<lambda>a. (a, Inr 13000))
      else if timeToSet = ''noon'' then (\<lambda>a. (a, Inr 6000))
      else if timeToSet = ''midnight'' then (\<lambda>a. (a, Inr 18000))
      else if last timeToSet = CHR ''d'' \<or> last timeToSet = CHR ''s'' \<or> (last timeToSet = CHR ''t'' \<and> hd timeToSet \<noteq> CHR ''-'')
      then setTimeFromArg E C timeToSet (setMultiplier (last timeToSet)) invoker
      else if hd timeToSet = CHR ''-'' then complain E invoker ''Tick count must be non-negative''
      else complain E invoker ''Expected float'')"

text \<open>The results fit the \<open>int\<close> they are stored in.\<close>

definition time_query :: "string \<Rightarrow> world \<Rightarrow> int option" where
  "time_query what w =
     (if what = ''daytime'' then Some (cmod (sint (w_time w)) 24000)
      else if what = ''gametime'' then Some (cmod (sint (w_age w)) (2 ^ 31 - 1))
      else if what = ''day'' then Some (cmod (cdiv (sint (w_time w)) 24000) (2 ^ 31 - 1))
      else None)"

definition checkArgsTime :: "server_env \<Rightarrow> command_env \<Rightarrow> string \<Rightarrow> string \<Rightarrow> i32 option \<Rightarrow> admin act" where
  "checkArgsTime E C verb arg invoker a =
     (if verb = ''add'' then
        (case setTimeToAdd E C arg invoker a of
           (a1, Inl e) \<Rightarrow> (a1, Inl e)
         | (a1, Inr time) \<Rightarrow>
             if time = - 1 then (a1, Inr ())
             else (case addTime time (ad_world a1) of
                     (w, added) \<Rightarrow> tell E invoker (''Set the time to '' @ to_string (sint added)) (a1\<lparr>ad_world := w\<rparr>)))
      else if verb = ''set'' then
        (case setTimeToSet E C arg invoker a of
           (a1, Inl e) \<Rightarrow> (a1, Inl e)
         | (a1, Inr time) \<Rightarrow>
             if time = - 1 then (a1, Inr ())
             else tell E invoker (''Set the time to '' @ to_string (sint time)) (a1\<lparr>ad_world := setTime time (ad_world a1)\<rparr>))
      else if verb = ''query'' then
        (case time_query arg (ad_world a) of
           None \<Rightarrow> tell E invoker ''Incorrect argument for command'' a
         | Some time \<Rightarrow> tell E invoker (''The time is '' @ to_string time) a)
      else (a, Inr ()))"

definition time_execute :: "server_env \<Rightarrow> command_env \<Rightarrow> string list \<Rightarrow> i32 option \<Rightarrow> admin act" where
  "time_execute E C args invoker =
     (case args of
        [verb, arg] \<Rightarrow> for_operators invoker (checkArgsTime E C verb arg invoker)
      | _ \<Rightarrow> act_skip)"

section \<open>The other commands\<close>

definition server_stop :: "admin act" where
  "server_stop a = (a\<lparr>ad_running := False, ad_stops := ad_stops a + 1, ad_exited := ad_exited a \<or> ad_stops a \<ge> 5\<rparr>, Inr ())"

definition stop_execute :: "server_env \<Rightarrow> i32 option \<Rightarrow> admin act" where
  "stop_execute E invoker = for_operators invoker (act_then (tell_if E invoker ''Stopping server...'') server_stop)"

definition seed_execute :: "command_env \<Rightarrow> i32 option \<Rightarrow> admin act" where
  "seed_execute C invoker = (if invoker = None then act_skip
     else for_operators invoker (with_invoker invoker (\<lambda>i _. on_world (sendSystem_to (ce_seedMessage C) False i))))"

text \<open>
  The level of a logger is the second argument, which is read without a test; anybody may use the
  command.
\<close>

definition log_execute :: "command_env \<Rightarrow> string list \<Rightarrow> admin act" where
  "log_execute C args a =
     (case args of
        [] \<Rightarrow> (a, Inr ())
      | name # others \<Rightarrow>
          if name \<in> set (ce_levels C) then (a, Inr ())
          else if name \<in> set (ce_loggers C) \<and> others = [] then (a, Inl (UB OutOfBoundsRead))
          else (a, Inr ()))"

definition enforceWhitelistOnReload :: "server_env \<Rightarrow> command_env \<Rightarrow> world act" where
  "enforceWhitelistOnReload E C =
     (if \<not> ce_whitelistEnabled C \<or> \<not> ce_enforceWhitelist C then act_skip
      else for_players (\<lambda>i. with_player i (\<lambda>p w.
        case isPlayerWhitelisted (ce_whitelist C) (pl_uuid p) (pl_username p) of
          Inl e \<Rightarrow> (w, Inl e)
        | Inr (found, _) \<Rightarrow>
            if found then (w, Inr ())
            else player_disconnect i (env_text E ''You are not whitelisted on this server.'') w)))"

definition reload_execute :: "server_env \<Rightarrow> command_env \<Rightarrow> i32 option \<Rightarrow> admin act" where
  "reload_execute E C invoker = for_operators invoker (act_then (on_world (enforceWhitelistOnReload E C))
     (tell_if E invoker ''Successfully reloaded loot tables, advancements and functions''))"

text \<open>\<open>std::stoi\<close>.\<close>

definition stoi :: "string \<Rightarrow> i32 result" where
  "stoi s =
     (case skip_sign (dropWhile isspace s) of (neg, t) \<Rightarrow>
        let ds = map (\<lambda>c. of_char c - 48) (takeWhile is_digit t); n = foldl (\<lambda>v d. v * 10 + d) 0 ds; v = (if neg then - n else n) in
        if ds = [] then Inl LogicError
        else if v < - (2 ^ 31) \<or> v > 2 ^ 31 - 1 then Inl StdOutOfRange
        else Inr (of_int v))"

text \<open>
  \<open>DumpChunk\<close>: the arguments, for a player without any its own chunk, are converted before the chunk is
  looked up, and one argument alone is not refused. What follows only writes to the log.
\<close>

definition dumpChunk_args :: "string list \<Rightarrow> i32 option \<Rightarrow> admin \<Rightarrow> string list result" where
  "dumpChunk_args args invoker a =
     (case invoker of
        None \<Rightarrow> Inr args
      | Some i \<Rightarrow> if args \<noteq> [] then Inr args
          else (case w_players (ad_world a) i of
                  None \<Rightarrow> Inl (UB NullDereference)
                | Some p \<Rightarrow> rbind (chunk_of_position (pl_pos p)) (\<lambda>c. Inr [to_string (sint (pos2_x c)), to_string (sint (pos2_z c))])))"

definition dumpChunk_execute :: "string list \<Rightarrow> i32 option \<Rightarrow> admin act" where
  "dumpChunk_execute args invoker a =
     (if length args \<noteq> 2 \<and> invoker = None then (a, Inr ())
      else (a, rbind (dumpChunk_args args invoker a) (\<lambda>args.
        case args of
          x # z # _ \<Rightarrow> rbind (stoi x) (\<lambda>_. rbind (stoi z) (\<lambda>_. Inr ()))
        | _ \<Rightarrow> Inl (UB OutOfBoundsRead))))"

section \<open>The interpreter\<close>

datatype command = Cmd_Help | Cmd_QuestionMark | Cmd_Stop | Cmd_Seed | Cmd_DumpChunk | Cmd_Log | Cmd_Op | Cmd_Deop | Cmd_Reload
  | Cmd_Time | Cmd_Loot | Cmd_Gamemode | Cmd_InventoryDump

text \<open>The commands in the order of the constructor of \<open>Server\<close>, with their names and help texts.\<close>

definition commands :: "(string \<times> string \<times> command) list" where
  "commands =
    [(''help'', ''/help [<command>] (help)'', Cmd_Help),
     (''?'', ''/? [<command>] (question mark)'', Cmd_QuestionMark),
     (''stop'', ''/stop'', Cmd_Stop),
     (''seed'', ''/seed'', Cmd_Seed),
     (''dumpChunk'', ''/dumpChunk <x> <z> (dumpChunk)'', Cmd_DumpChunk),
     (''log'', ''/log [logger_name] type'', Cmd_Log),
     (''op'', ''/op [<player>]'', Cmd_Op),
     (''deop'', ''/deop [<player>]'', Cmd_Deop),
     (''reload'', ''/reload'', Cmd_Reload),
     (''time'', ''/time'', Cmd_Time),
     (''loot'', ''/loot namespace path'', Cmd_Loot),
     (''gamemode'', ''/gamemode <adventure|creative|spectator|survival> (entity)'', Cmd_Gamemode),
     (''inventorydump'', ''/inventorydump (entity)'', Cmd_InventoryDump)]"

text \<open>\<open>help\<close> of a command; to the console it only writes to the log.\<close>

fun command_help :: "server_env \<Rightarrow> command \<Rightarrow> i32 option \<Rightarrow> admin act" where
  "command_help E Cmd_Help invoker = for_operators invoker (tell_if E invoker ''/help [<command>]'')"
| "command_help E Cmd_QuestionMark invoker = for_operators invoker (tell_if E invoker ''/? [<command>]'')"
| "command_help E Cmd_Stop invoker = for_operators invoker (tell_if E invoker ''/stop'')"
| "command_help E Cmd_Seed invoker = for_operators invoker (tell_if E invoker ''/seed'')"
| "command_help E Cmd_Reload invoker = for_operators invoker (tell_if E invoker ''/reload'')"
| "command_help E Cmd_Op invoker = tell_if E invoker ''/op [<player>]''"
| "command_help E Cmd_Deop invoker = tell_if E invoker ''Usage: /deop <player>''"
| "command_help E _ invoker = act_skip"

definition find_command :: "string \<Rightarrow> command option" where
  "find_command name = map_option snd (map_of commands name)"

definition help_execute :: "server_env \<Rightarrow> string list \<Rightarrow> i32 option \<Rightarrow> admin act" where
  "help_execute E args invoker =
     (case args of
        [] \<Rightarrow> for_operators invoker (act_for commands (\<lambda>(_, text, _). tell_if E invoker text))
      | name # _ \<Rightarrow> (case find_command name of
                      Some c \<Rightarrow> command_help E c invoker
                    | None \<Rightarrow> tell_if E invoker ''Unknown command or insufficient permissions''))"

text \<open>\<open>Loot\<close> and \<open>InventoryDump\<close> only write to the log.\<close>

fun command_execute :: "server_env \<Rightarrow> command_env \<Rightarrow> command \<Rightarrow> string list \<Rightarrow> i32 option \<Rightarrow> admin act" where
  "command_execute E C Cmd_Help args invoker = help_execute E args invoker"
| "command_execute E C Cmd_QuestionMark args invoker = help_execute E args invoker"
| "command_execute E C Cmd_Stop args invoker = stop_execute E invoker"
| "command_execute E C Cmd_Seed args invoker = seed_execute C invoker"
| "command_execute E C Cmd_DumpChunk args invoker = dumpChunk_execute args invoker"
| "command_execute E C Cmd_Log args invoker = log_execute C args"
| "command_execute E C Cmd_Op args invoker = op_execute E args invoker"
| "command_execute E C Cmd_Deop args invoker = deop_execute E args invoker"
| "command_execute E C Cmd_Reload args invoker = reload_execute E C invoker"
| "command_execute E C Cmd_Time args invoker = time_execute E C args invoker"
| "command_execute E C Cmd_Gamemode args invoker = gamemode_execute E args invoker"
| "command_execute E C Cmd_Loot args invoker = act_skip"
| "command_execute E C Cmd_InventoryDump args invoker = act_skip"

definition command_name :: "string \<Rightarrow> string" where
  "command_name first = (case first of c # cs \<Rightarrow> if c = CHR ''/'' then cs else first | [] \<Rightarrow> [])"

definition parseCommand :: "server_env \<Rightarrow> command_env \<Rightarrow> string \<Rightarrow> i32 option \<Rightarrow> admin act" where
  "parseCommand E C command invoker =
     (let args = split_on (CHR '' '') command; name = command_name (hd args) in
      case find_command name of
        Some c \<Rightarrow> command_execute E C c (tl args) invoker
      | None \<Rightarrow> act_then (tell_if E invoker ''Unknown or incomplete command, see below for error'')
          (tell_if E invoker (rev (dropWhile (\<lambda>c. c = CHR '' '') (rev name)) @ ''<--[HERE]'')))"

end
