(* ===== verification/Command_Properties.thy ===== *)
theory Command_Properties
  imports Commands Client_Login
begin

text \<open>
  What the commands of players keep: the locale \<open>quiet_rules\<close> states what a condition on the world must
  satisfy so that every command but \<open>op\<close> and \<open>deop\<close> keeps it, \<open>command_rules\<close> what these two need on top.
  Interpretations give the shape of the players, their names, and their badges of operators.
\<close>

section \<open>Conditions that commands keep\<close>

definition held :: "(world \<Rightarrow> bool) \<Rightarrow> string set \<Rightarrow> admin \<Rightarrow> bool" where
  "held I ops a \<longleftrightarrow> I (ad_world a) \<and> ad_operators a = ops"

lemma held_on_world: "preserves I f \<Longrightarrow> preserves (held I ops) (on_world f)"
  by (auto simp: preserves_def held_def on_world_def split: prod.splits)

lemma held_with_invoker: "(\<And>i p. preserves J (f i p)) \<Longrightarrow> preserves J (with_invoker invoker f)"
  by (auto simp: preserves_def with_invoker_def split: option.splits)

lemma held_for_operators: "preserves J f \<Longrightarrow> preserves J (for_operators invoker f)"
  unfolding for_operators_def by (intro preserves_if held_with_invoker preserves_skip)

locale quiet_rules =
  fixes I :: "world \<Rightarrow> bool"
  assumes send: "preserves I (player_send i d)"
    and kick: "preserves I (player_disconnect i m)"
    and mode: "preserves I (upd_player i (\<lambda>p. p\<lparr>pl_gamemode := g\<rparr>))"
    and time: "I w \<Longrightarrow> I (w\<lparr>w_time := t, w_age := n\<rparr>)"
begin

lemma keep_sendSystem: "preserves I (sendSystem_to m v i)"
  unfolding sendSystem_to_def sendSystemChatMessage_def by (intro linked_with preserves_if preserves_skip send)

lemma keep_tell: "preserves (held I ops) (tell E invoker m)"
  unfolding tell_def by (intro held_with_invoker held_on_world keep_sendSystem)

lemma keep_tell_if: "preserves (held I ops) (tell_if E invoker m)"
  unfolding tell_if_def by (intro preserves_if preserves_skip keep_tell)

lemma keep_change_mode: "preserves I (change_mode E m i)"
proof -
  have u: "preserves I (updatePlayerInfo d)" for d
    unfolding updatePlayerInfo_def sendPlayerInfoUpdate_def by (intro linked_for_players send)
  show ?thesis
    unfolding change_mode_def sendPlayerAbilities_def sendGameEvent_def act_seq.simps
    by (intro preserves_then preserves_skip mode send linked_with u keep_sendSystem)
qed

lemma keep_gamemode: "preserves (held I ops) (gamemode_execute E args invoker)"
  unfolding gamemode_execute_def
  by (cases args) (auto intro!: preserves_if preserves_skip preserves_return held_for_operators held_on_world keep_change_mode)

lemma keep_enforce: "preserves I (enforceWhitelistOnReload E C)"
  unfolding enforceWhitelistOnReload_def
  by (intro preserves_if preserves_skip linked_for_players linked_with)
    (auto simp: preserves_def split: sum.splits prod.splits intro: kick [unfolded preserves_def, rule_format])

lemma keep_complain: "held I ops a \<Longrightarrow> held I ops (fst (complain E invoker m a))"
  using keep_tell [of ops E invoker m] by (auto simp: complain_def preserves_def split: prod.splits)

lemma keep_fromArg: "held I ops a \<Longrightarrow> held I ops (fst (setTimeFromArg E C v k invoker a))"
  by (auto simp: setTimeFromArg_def keep_complain split: sum.splits)

lemma keep_times:
  "held I ops a \<Longrightarrow> held I ops (fst (setTimeToAdd E C v invoker a))"
  "held I ops a \<Longrightarrow> held I ops (fst (setTimeToSet E C v invoker a))"
  by (simp_all add: setTimeToAdd_def setTimeToSet_def keep_fromArg keep_complain)

lemma keep_world_time:
  "I w \<Longrightarrow> I (fst (addTime t w))" "I w \<Longrightarrow> I (setTime t w)"
proof -
  have "w\<lparr>w_time := x\<rparr> = w\<lparr>w_time := x, w_age := w_age w\<rparr>" for x by simp
  then show "I w \<Longrightarrow> I (setTime t w)" unfolding setTime_def by (metis time)
qed (auto simp: addTime_def Let_def time)

lemma keep_time_command: "preserves (held I ops) (time_execute E C args invoker)"
proof -
  have h: "held I ops a \<Longrightarrow> I w \<Longrightarrow> held I ops (a\<lparr>ad_world := w\<rparr>)" for a w by (simp add: held_def)
  have i: "held I ops a \<Longrightarrow> I (ad_world a)" for a by (simp add: held_def)
  have t: "held I ops b \<Longrightarrow> held I ops (fst (tell E invoker m b))" for b m using keep_tell by (simp add: preserves_def)
  have "preserves (held I ops) (checkArgsTime E C v x invoker)" for v x
  proof (rule preservesI)
    fix a assume a: "held I ops a"
    have add: "held I ops (fst (case r of Inl e \<Rightarrow> (a1, Inl e) | Inr k \<Rightarrow> if k = - 1 then (a1, Inr ())
        else case addTime k (ad_world a1) of (w, added) \<Rightarrow> tell E invoker (m added) (a1\<lparr>ad_world := w\<rparr>)))"
      if "held I ops a1" for a1 r m
      using that t [OF h [OF that keep_world_time(1) [OF i [OF that]]]]
      by (auto split: sum.splits prod.splits) (metis fst_conv)
    have set: "held I ops (fst (case r of Inl e \<Rightarrow> (a1, Inl e) | Inr k \<Rightarrow> if k = - 1 then (a1, Inr ())
        else tell E invoker (m k) (a1\<lparr>ad_world := setTime k (ad_world a1)\<rparr>)))" if "held I ops a1" for a1 r m
      using that t [OF h [OF that keep_world_time(2) [OF i [OF that]]]] by (auto split: sum.splits)
    obtain a1 r1 a2 r2 where e: "setTimeToAdd E C x invoker a = (a1, r1)" "setTimeToSet E C x invoker a = (a2, r2)" by fastforce
    then have "held I ops a1" "held I ops a2" using keep_times [OF a, of E C x invoker] by simp_all
    then show "held I ops (fst (checkArgsTime E C v x invoker a))"
      using a t by (simp add: checkArgsTime_def e add set split: option.splits)
  qed
  then show ?thesis
    by (auto simp: time_execute_def preserves_skip held_for_operators split: list.splits)
qed

lemma keep_command_help: "preserves (held I ops) (command_help E c invoker)"
  by (cases c) (simp_all add: held_for_operators keep_tell_if preserves_skip)

lemma keep_help: "preserves (held I ops) (help_execute E args invoker)"
proof -
  have "preserves (held I ops) (act_for xs (\<lambda>(_, t, _). tell_if E invoker t))" for xs :: "(string \<times> string \<times> command) list"
    by (rule preserves_for) (simp add: split_beta keep_tell_if)
  then show ?thesis
    by (auto simp: help_execute_def held_for_operators keep_command_help keep_tell_if split: list.splits option.splits)
qed

lemma keep_stop: "preserves (held I ops) (stop_execute E invoker)"
  unfolding stop_execute_def
  by (intro held_for_operators preserves_then keep_tell_if) (simp add: preserves_def server_stop_def held_def)

lemma keep_seed: "preserves (held I ops) (seed_execute C invoker)"
  unfolding seed_execute_def
  by (intro preserves_if preserves_skip held_for_operators held_with_invoker held_on_world keep_sendSystem)

lemma keep_reload: "preserves (held I ops) (reload_execute E C invoker)"
  unfolding reload_execute_def
  by (intro held_for_operators preserves_then keep_tell_if held_on_world keep_enforce)

lemma keep_logs: "preserves (held I ops) (log_execute C args)" "preserves (held I ops) (dumpChunk_execute args invoker)"
  by (auto simp: preserves_def log_execute_def dumpChunk_execute_def split: list.splits)

lemma keep_execute:
  "c \<noteq> Cmd_Op \<Longrightarrow> c \<noteq> Cmd_Deop \<Longrightarrow> preserves (held I ops) (command_execute E C c args invoker)"
  by (cases c) (simp_all add: keep_help keep_stop keep_seed keep_reload keep_logs keep_time_command keep_gamemode preserves_skip)

lemma keep_unknown: "preserves (held I ops) (act_then (tell_if E invoker m) (tell_if E invoker n))"
  by (intro preserves_then keep_tell_if)

end

locale command_rules = quiet_rules +
  assumes badge: "preserves I (upd_player i (\<lambda>p. p\<lparr>pl_isOperator := b\<rparr>))"
begin

lemma keep_setOperator: "preserves (held I ops) (setOperator b s)"
  by (auto simp: setOperator_def preserves_skip intro!: held_on_world badge split: option.splits)

lemma keep_op: "I (ad_world a) \<Longrightarrow> I (ad_world (fst (op_execute E args invoker a)))"
  and keep_deop: "I (ad_world a) \<Longrightarrow> I (ad_world (fst (deop_execute E args invoker a)))"
proof -
  let ?J = "\<lambda>a :: admin. I (ad_world a)"
  have up: "preserves ?J f" if "\<And>ops. preserves (held I ops) f" for f
  proof (rule preservesI)
    fix a :: admin assume "I (ad_world a)"
    then have "held I (ad_operators a) a" by (simp add: held_def)
    with that show "I (ad_world (fst (f a)))" by (auto simp: preserves_def held_def)
  qed
  note s = up [OF keep_setOperator] and t = up [OF keep_tell_if]
  have add: "preserves ?J (addOperator name)" "preserves ?J (removeOperator name)" for name
    using s by (simp_all add: preserves_def addOperator_def removeOperator_def)
  have "preserves ?J (\<lambda>a. if name \<in> ad_operators a then tell_if E invoker m a else act_then (addOperator name) (tell_if E invoker n) a)"
       "preserves ?J (\<lambda>a. if name \<notin> ad_operators a then tell_if E invoker m a else act_then (tell_if E invoker n) (removeOperator name) a)" for name m n
    using preserves_then [OF add(1) t] preserves_then [OF t add(2)] t by (simp_all add: preserves_def)
  then have "preserves ?J (op_execute E args invoker)" "preserves ?J (deop_execute E args invoker)"
    by (auto simp: op_execute_def deop_execute_def preserves_skip intro!: held_for_operators split: list.splits)
  then show "?J a \<Longrightarrow> ?J (fst (op_execute E args invoker a))" "?J a \<Longrightarrow> ?J (fst (deop_execute E args invoker a))"
    by (simp_all add: preserves_def)
qed

lemma keep_parseCommand: "I (ad_world a) \<Longrightarrow> I (ad_world (fst (parseCommand E C c invoker a)))"
proof -
  assume a: "I (ad_world a)"
  have up: "I (ad_world (fst (f a)))" if "preserves (held I (ad_operators a)) f" for f
    using that a by (auto simp: preserves_def held_def)
  have "I (ad_world (fst (command_execute E C k args invoker a)))" for k args
    using up [OF keep_execute] keep_op [OF a] keep_deop [OF a]
    by (cases "k = Cmd_Op \<or> k = Cmd_Deop") auto
  then show ?thesis using up [OF keep_unknown]
    by (auto simp: parseCommand_def Let_def split: option.splits)
qed

end

interpretation shaped_commands: command_rules "all_players player_shape"
proof
  show "preserves (all_players player_shape) (player_send i d)" for i d by (rule shaped.keep_send)
  show "preserves (all_players player_shape) (player_disconnect i m)" for i m
    unfolding player_disconnect_def by (rule shaped.keep_with_client)
  show "preserves (all_players player_shape) (upd_player i (\<lambda>p. p\<lparr>pl_gamemode := g\<rparr>))"
      "preserves (all_players player_shape) (upd_player i (\<lambda>p. p\<lparr>pl_isOperator := b\<rparr>))" for i g b
    by (auto intro!: shaped.keep_upd simp: player_shape_def food_ok_def)
  show "all_players player_shape w \<Longrightarrow> all_players player_shape (w\<lparr>w_time := t, w_age := n\<rparr>)" for w t n
    by (simp add: all_players_def)
qed

section \<open>Commands of a player without rights\<close>

definition harmless :: "admin \<Rightarrow> admin \<Rightarrow> bool" where
  "harmless a b \<longleftrightarrow> b = a\<lparr>ad_world := ad_world b\<rparr> \<and> same_but_clients (ad_world a) (ad_world b)"

lemma harmless_refl: "harmless a a"
  by (simp add: harmless_def same_but_clients_def)

lemma same_but_clients_trans: "same_but_clients u v \<Longrightarrow> same_but_clients v w \<Longrightarrow> same_but_clients u w"
  unfolding same_but_clients_def by (metis world.surjective world.update_convs(2) world.select_convs(2))

lemma harmless_tell: "preserves (harmless a) (tell_if E invoker m)"
proof -
  have s: "same_but_clients w (fst (sendSystem_to t v i w))" for t v i w
  proof -
    have "same_but_clients w (fst (player_send i d w))" for d
      using player_send_frame [of i d w] by (cases "player_send i d w") simp
    then show ?thesis
      by (auto simp: sendSystem_to_def sendSystemChatMessage_def with_player_def act_skip_def same_but_clients_def split: option.splits)
  qed
  have "preserves (harmless a) (on_world (sendSystem_to t v i))" for t v i
  proof (rule preservesI)
    fix b assume b: "harmless a b"
    then have "same_but_clients (ad_world a) (fst (sendSystem_to t v i (ad_world b)))"
      using s [of "ad_world b" t v i] same_but_clients_trans by (auto simp: harmless_def)
    moreover have "b\<lparr>ad_world := x\<rparr> = a\<lparr>ad_world := x\<rparr>" for x
      using b unfolding harmless_def by (metis admin.update_convs(1) admin.surjective)
    ultimately show "harmless a (fst (on_world (sendSystem_to t v i) b))"
      by (auto simp: on_world_def harmless_def split: prod.splits)
  qed
  then show ?thesis unfolding tell_if_def tell_def by (intro preserves_if preserves_skip held_with_invoker)
qed

lemma command_harmless:
  assumes "\<And>p. w_players (ad_world a) i = Some p \<Longrightarrow> \<not> pl_isOperator p"
  shows "harmless a (fst (parseCommand E C c (Some i) a))"
proof -
  have none: "fst (for_operators (Some i) f a) = a" for f
    using assms by (simp add: for_operators_def with_invoker_def act_skip_def split: option.splits)
  have t: "harmless a (fst (tell_if E (Some i) m a))" for m
    using harmless_tell harmless_refl by (simp add: preserves_def)
  have h: "harmless a (fst (command_help E k (Some i) a))" for k
    using none t harmless_refl by (cases k) (simp_all add: act_skip_def)
  have "harmless a (fst (help_execute E args (Some i) a))" for args
    using none t h harmless_refl by (simp add: help_execute_def split: list.splits option.splits)
  moreover have "harmless a (fst (time_execute E C args (Some i) a))" "harmless a (fst (gamemode_execute E args (Some i) a))"
      "harmless a (fst (op_execute E args (Some i) a))" "harmless a (fst (deop_execute E args (Some i) a))"
      "harmless a (fst (stop_execute E (Some i) a))" "harmless a (fst (seed_execute C (Some i) a))" "harmless a (fst (reload_execute E C (Some i) a))"
      "harmless a (fst (log_execute C args a))" "harmless a (fst (dumpChunk_execute args (Some i) a))" for args
    using none harmless_refl
    by (simp_all add: time_execute_def gamemode_execute_def op_execute_def deop_execute_def stop_execute_def seed_execute_def
        reload_execute_def log_execute_def dumpChunk_execute_def act_skip_def split: list.splits)
  ultimately have "harmless a (fst (command_execute E C k args (Some i) a))" for k args
    by (cases k) (simp_all add: act_skip_def harmless_refl)
  moreover have "preserves (harmless a) (act_then (tell_if E (Some i) m) (tell_if E (Some i) n))" for m n
    by (intro preserves_then harmless_tell)
  then have "harmless a (fst (act_then (tell_if E (Some i) m) (tell_if E (Some i) n) a))" for m n
    using harmless_refl by (simp add: preserves_def)
  ultimately show ?thesis by (simp add: parseCommand_def Let_def split: option.splits)
qed

text \<open>The interpreter as the handler of a chat command runs it, on the world of a server.\<close>

definition commanded :: "command_env \<Rightarrow> admin \<Rightarrow> server_env \<Rightarrow> server_env" where
  "commanded C a E = E\<lparr>env_parseCommand := (\<lambda>c i w. case parseCommand E C c (Some i) (a\<lparr>ad_world := w\<rparr>) of (a', r) \<Rightarrow> (ad_world a', r))\<rparr>"

lemma commanded_run:
  "env_parseCommand (commanded C a E) c i w = (case parseCommand E C c (Some i) (a\<lparr>ad_world := w\<rparr>) of (a', r) \<Rightarrow> (ad_world a', r))"
  by (simp add: commanded_def)

lemma commanded_shape: "preserves (all_players player_shape) (env_parseCommand (commanded C a E) c i)"
  using shaped_commands.keep_parseCommand [of "a\<lparr>ad_world := w\<rparr>" for w]
  by (auto simp: preserves_def commanded_run split: prod.splits) (metis admin.select_convs(1) admin.surjective admin.update_convs(1) fst_conv)

lemma commanded_plain: "preserves (all_players unprivileged) (env_parseCommand (commanded C a E) c i)"
proof (rule preservesI)
  fix w assume w: "all_players unprivileged w"
  obtain b r where b: "parseCommand E C c (Some i) (a\<lparr>ad_world := w\<rparr>) = (b, r)" by fastforce
  have "harmless (a\<lparr>ad_world := w\<rparr>) b"
    using command_harmless [of "a\<lparr>ad_world := w\<rparr>" i E C c] w b by (auto simp: all_players_def unprivileged_def)
  then have "w_players (ad_world b) = w_players w" by (auto simp: harmless_def dest: same_but_clients_fields)
  with w show "all_players unprivileged (fst (env_parseCommand (commanded C a E) c i w))"
    by (simp add: commanded_run b all_players_def)
qed

text \<open>C3: The arrays of every player's inventory keep their sizes, the food level stays between 0 and 20 and its
timer between 0 and 80, whatever packet a client in the play state sends, commands of operators included,
on every tick, and through a login, even when a handler ends with an exception; a new player starts that
way.\<close>

theorem players_keep_shape:
  assumes "all_players player_shape w"
  shows "all_players player_shape (fst (handle_play (commanded C a E) i pck w))
    \<and> all_players player_shape (fst (dimension_tick E w))
    \<and> all_players player_shape (fst (continueLoginSequence E i w))
    \<and> all_players player_shape (fst (create_player cli uuid name op w))"
proof (intro conjI)
  show "all_players player_shape (fst (handle_play (commanded C a E) i pck w))"
    using shaped.keep_handle_play [OF commanded_shape, of C a E i pck] assms by (simp add: preserves_def)
  show "all_players player_shape (fst (dimension_tick E w))"
    using shaped.keep_dimension_tick [of E] assms by (simp add: preserves_def)
  show "all_players player_shape (fst (continueLoginSequence E i w))"
    using shaped.keep_login [of E i] assms by (simp add: preserves_def)
  show "all_players player_shape (fst (create_player cli uuid name op w))"
    using assms newPlayer_shape by (simp add: create_player_def all_players_def Let_def)
qed

definition test_commands :: command_env where
  "test_commands = \<lparr>ce_stod = (\<lambda>_. Inr 0), ce_seedMessage = ''1'', ce_levels = [''info''], ce_loggers = [''server''],
     ce_whitelistEnabled = False, ce_enforceWhitelist = False, ce_whitelist = []\<rparr>"

definition test_admin :: admin where
  "test_admin = \<lparr>ad_world = test_world 2 Map.empty, ad_operators = {}, ad_running = True, ad_stops = 0, ad_exited = False\<rparr>"

theorem players_keep_shape_witness:
  "all_players player_shape (fst (handle_play (commanded test_commands test_admin test_env) 0
     (SP_SetHeldItem \<lparr>SetHeldItem_slot = 9\<rparr>) (test_world 2 Map.empty)))"
proof -
  have "all_players player_shape (test_world 2 Map.empty)"
    using test_world_players [of 2 Map.empty] by (auto simp: all_players_def unprivileged_def)
  then show ?thesis using players_keep_shape by blast
qed

text \<open>C7: No packet of the play state makes a player an operator or puts one into creative mode, chat commands
included: when no player has these privileges, none has them after the packet.\<close>

theorem no_escalation:
  assumes "all_players unprivileged w"
    and "handle_play (commanded C a E) i pck w = (w', r)" "w_players w' j = Some p"
  shows "\<not> pl_isOperator p \<and> pl_gamemode p \<noteq> Creative"
  using preservesD [OF plain.keep_handle_play [OF commanded_plain] assms(1,2)] assms(3)
  by (auto simp: all_players_def unprivileged_def)

theorem no_escalation_witness:
  "\<not> pl_isOperator (the (w_players (fst (handle_play (commanded test_commands test_admin test_env) 0
     (SP_PlayerAbilities \<lparr>PlayerAbilities_flags = 0x0F\<rparr>) (test_world 2 Map.empty))) 0))"
proof -
  obtain w' r where h: "handle_play (commanded test_commands test_admin test_env) 0
      (SP_PlayerAbilities \<lparr>PlayerAbilities_flags = 0x0F\<rparr>) (test_world 2 Map.empty) = (w', r)"
    by fastforce
  then have "w_players w' 0 \<noteq> None"
    by (auto simp: onPlayerAbilities_def act_then_def upd_player_def with_player_def test_world_def
        sendPlayerAbilities_def player_send_def with_client_def test_player_def Let_def split: sum.splits if_splits)
  then obtain p where p: "w_players w' 0 = Some p" by blast
  from no_escalation [OF test_world_players h p] p h show ?thesis by simp
qed



section \<open>The badges of operators\<close>

text \<open>
  Who is in the dimension, with names and badges; the badge of a player is to say whether its name is
  among the operators, and no two players have the same name.
\<close>

definition badges :: "world \<Rightarrow> i32 list \<times> (i32 \<Rightarrow> (string \<times> bool) option)" where
  "badges w = (d_players w, \<lambda>i. map_option (\<lambda>p. (pl_username p, pl_isOperator p)) (w_players w i))"

definition agree :: "i32 list \<times> (i32 \<Rightarrow> (string \<times> bool) option) \<Rightarrow> string set \<Rightarrow> bool" where
  "agree = (\<lambda>(ps, f) ops. (\<forall>i\<in>set ps. \<forall>n b. f i = Some (n, b) \<longrightarrow> b = (n \<in> ops))
     \<and> (\<forall>i\<in>set ps. \<forall>j\<in>set ps. \<forall>n b c. f i = Some (n, b) \<longrightarrow> f j = Some (n, c) \<longrightarrow> i = j))"

interpretation badge_rules: quiet_rules "\<lambda>w. badges w = B" for B
proof
  have c: "badges (fst (with_client i f w)) = badges w" for i f w
    by (cases "with_client i f w") (auto simp: badges_def dest!: with_client_frame simp: same_but_clients_fields)
  show "preserves (\<lambda>w. badges w = B) (player_send i d)" "preserves (\<lambda>w. badges w = B) (player_disconnect i m)" for i d m
    using c by (simp_all add: preserves_def player_send_def player_disconnect_def)
  show "preserves (\<lambda>w. badges w = B) (upd_player i (\<lambda>p. p\<lparr>pl_gamemode := g\<rparr>))" for i g
    by (auto simp: preserves_def badges_def upd_player_def with_player_def fun_eq_iff split: option.splits)
  show "badges w = B \<Longrightarrow> badges (w\<lparr>w_time := t, w_age := n\<rparr>) = B" for w t n
    by (simp add: badges_def)
qed

abbreviation agreed :: "admin \<Rightarrow> bool" where
  "agreed a \<equiv> agree (badges (ad_world a)) (ad_operators a)"

lemma agreed_quiet:
  assumes "\<And>B ops. preserves (held (\<lambda>w. badges w = B) ops) f"
  shows "preserves agreed f"
proof (rule preservesI)
  fix a assume "agreed a"
  then show "agreed (fst (f a))"
    using assms [of "badges (ad_world a)" "ad_operators a"] by (simp add: preserves_def held_def)
qed

lemma find_named_fold:
  "case fold (\<lambda>i found. case f i of None \<Rightarrow> found | Some p \<Rightarrow> if pl_username p = name then Some i else found) ks z of
     Some i \<Rightarrow> (i \<in> set ks \<and> (\<exists>p. f i = Some p \<and> pl_username p = name)) \<or> z = Some i
   | None \<Rightarrow> z = None \<and> (\<forall>i\<in>set ks. \<forall>p. f i = Some p \<longrightarrow> pl_username p \<noteq> name)"
proof (induction ks arbitrary: z)
  case (Cons i ks)
  show ?case
    using Cons.IH [of "case f i of None \<Rightarrow> z | Some p \<Rightarrow> if pl_username p = name then Some i else z"]
    by (auto split: option.splits if_splits)
qed (simp split: option.split)

lemma agreed_setOperator:
  assumes "agreed a" and "ops = (if b then insert name (ad_operators a) else ad_operators a - {name})"
  shows "agreed (fst (setOperator b (find_named name (ad_world a)) (a\<lparr>ad_operators := ops\<rparr>)))"
proof -
  let ?w = "ad_world a"
  have l: "case find_named name ?w of Some i \<Rightarrow> (i \<in> set (d_players ?w) \<and> (\<exists>p. w_players ?w i = Some p \<and> pl_username p = name))
      | None \<Rightarrow> (\<forall>i\<in>set (d_players ?w). \<forall>p. w_players ?w i = Some p \<longrightarrow> pl_username p \<noteq> name)"
    using find_named_fold [where f = "w_players ?w" and name = name and ks = "d_players ?w" and z = None] by (fastforce simp: find_named_def split: option.splits)
  show ?thesis
  proof (cases "find_named name ?w")
    case None
    with l assms show ?thesis by (auto simp: setOperator_def act_skip_def agree_def badges_def split: if_splits) 
  next
    case (Some i)
    with l obtain p where i: "i \<in> set (d_players ?w)" "w_players ?w i = Some p" "pl_username p = name" by auto
    have only: "j = i" if "j \<in> set (d_players ?w)" "w_players ?w j = Some q" "pl_username q = name" for j q
      using assms(1) i that by (fastforce simp: agree_def badges_def)
    from assms i only show ?thesis
      by (auto simp: Some setOperator_def on_world_def upd_player_def with_player_def agree_def badges_def split: if_splits)
  qed
qed

lemma agreed_commands:
  "preserves agreed (addOperator name)" "preserves agreed (removeOperator name)"
  "preserves agreed (op_execute E args invoker)" "preserves agreed (deop_execute E args invoker)"
proof -
  have t: "preserves agreed (tell_if E invoker m)" for m by (rule agreed_quiet [OF badge_rules.keep_tell_if])
  show add: "preserves agreed (addOperator name)" "preserves agreed (removeOperator name)" for name
    using agreed_setOperator [where b = True] agreed_setOperator [where b = False]
    by (auto simp: preserves_def addOperator_def removeOperator_def)
  have "preserves agreed (\<lambda>a. if name \<in> ad_operators a then tell_if E invoker m a else act_then (addOperator name) (tell_if E invoker n) a)"
       "preserves agreed (\<lambda>a. if name \<notin> ad_operators a then tell_if E invoker m a else act_then (tell_if E invoker n) (removeOperator name) a)" for name m n
    using preserves_then [OF add(1) t] preserves_then [OF t add(2)] t by (simp_all add: preserves_def)
  then show "preserves agreed (op_execute E args invoker)" "preserves agreed (deop_execute E args invoker)"
    by (auto simp: op_execute_def deop_execute_def preserves_skip intro!: held_for_operators split: list.splits)
qed

text \<open>C9: When the names of the players are distinct and every badge tells whether its player is among the
operators, every command, of a player or of the console, leaves it that way.\<close>

theorem operators_agree:
  assumes "agree (badges (ad_world a)) (ad_operators a)" and "parseCommand E C c invoker a = (b, r)"
  shows "agree (badges (ad_world b)) (ad_operators b)"
proof -
  have "preserves agreed (command_execute E C k args invoker)" for k args
    using agreed_quiet [OF badge_rules.keep_execute] agreed_commands
    by (cases "k = Cmd_Op \<or> k = Cmd_Deop") auto
  moreover have "preserves agreed (act_then (tell_if E invoker m) (tell_if E invoker n))" for m n
    by (rule agreed_quiet [OF badge_rules.keep_unknown])
  ultimately have "preserves agreed (parseCommand E C c invoker)"
    by (auto simp: parseCommand_def Let_def split: option.splits)
  with assms show ?thesis by (auto simp: preserves_def)
qed

theorem operators_agree_witness:
  "agree (badges (ad_world (fst (parseCommand test_env test_commands ''/op eve'' None test_admin))))
     (ad_operators (fst (parseCommand test_env test_commands ''/op eve'' None test_admin)))
   \<and> ad_operators (fst (parseCommand test_env test_commands ''/op eve'' None test_admin)) = {''eve''}"
proof -
  obtain b r where b: "parseCommand test_env test_commands ''/op eve'' None test_admin = (b, r)" by fastforce
  have "agree (badges (ad_world test_admin)) (ad_operators test_admin)"
    by (auto simp: agree_def badges_def test_admin_def test_world_def test_player_def split: if_splits)
  from operators_agree [OF this b] have "agree (badges (ad_world b)) (ad_operators b)" .
  moreover have "ad_operators b = {''eve''}"
    using b by (auto simp: parseCommand_def command_name_def find_command_def commands_def op_execute_def for_operators_def
        addOperator_def setOperator_def act_then_def tell_if_def act_skip_def test_admin_def on_world_def split: option.splits prod.splits sum.splits)
  ultimately show ?thesis using b by simp
qed

section \<open>The file of operators\<close>

lemma split_on_line: "d \<notin> set x \<Longrightarrow> split_on d (x @ d # y) = x # split_on d y"
  by (induction x) auto

text \<open>
  The file the server writes ends with a line break, after which the reader finds one more, empty name:
  what is saved comes back with the empty name added.
\<close>

lemma operators_file:
  assumes "\<And>n. n \<in> set names \<Longrightarrow> CHR 0x0A \<notin> set n"
  shows "load_operators (save_operators names) = insert [] (set names)"
proof -
  have "split_on (CHR 0x0A) (save_operators names) = names @ [[]]"
    using assms by (induction names) (auto simp: save_operators_def split_on_line)
  then show ?thesis by (auto simp: load_operators_def)
qed

text \<open>Any player can raise an exception that no handler on the way catches.\<close>

lemma dumpChunk_throws:
  "w_players (ad_world a) i = Some p \<Longrightarrow> snd (parseCommand E C ''/dumpChunk a b'' (Some i) a) = Inl LogicError"
  by (simp add: parseCommand_def command_name_def find_command_def commands_def dumpChunk_execute_def dumpChunk_args_def
      stoi_def isspace_def is_digit_def Let_def)

end
