(* ===== verification/Saved_Data.thy ===== *)
theory Saved_Data
  imports Identity Nbt
begin

text \<open>
  \<open>world_storage/Persistence.cpp\<close>, first part: what a saved world says of the level and of a player,
  \<open>LevelData.hpp\<close> and \<open>PlayerData.hpp\<close>. The files are read by libnbt, a library: \<open>libnbt\<close> holds the two of
  its functions that matter, on the tag trees of \<open>nbt.hpp\<close>, which have the same constructors. The law
  \<open>compound_law\<close> is what its documentation says of the lookup in a compound.
\<close>

section \<open>The library\<close>

record libnbt =
  nbt_parse :: "byte list \<Rightarrow> nbt option"
  nbt_tag_compound_get :: "nbt \<Rightarrow> string \<Rightarrow> nbt option"

definition compound_law :: "libnbt \<Rightarrow> bool" where
  "compound_law L \<longleftrightarrow> (\<forall>name ts key. nbt_tag_compound_get L (CompoundTag name ts) key = getValue ts key)"

section \<open>Reading memory\<close>

text \<open>A pointer is the offset from the start of the file in memory.\<close>

definition mem_slice :: "byte list \<Rightarrow> int \<Rightarrow> nat \<Rightarrow> byte list result" where
  "mem_slice mem start n =
     (if n \<noteq> 0 \<and> (start < 0 \<or> start + int n > int (length mem)) then Inl (UB OutOfBoundsRead)
      else Inr (take n (drop (nat start) mem)))"

text \<open>\<open>_readMem\<close>: the reader the library calls, with the pointers to the next and to the last byte.\<close>

definition readMem :: "byte list \<Rightarrow> int \<times> int \<Rightarrow> nat \<Rightarrow> (byte list \<times> (int \<times> int)) result" where
  "readMem mem u s =
     (case u of (start, stop) \<Rightarrow>
        if start > stop then Inr ([], u)
        else let toCopy = min (nat (stop - start + 1)) s in
          rbind (mem_slice mem start toCopy) (\<lambda>d. Inr (d, (start + int toCopy, stop))))"

text \<open>All that the reader delivers between the pointers, the input of \<open>nbt_parse\<close>.\<close>

definition parse_range :: "libnbt \<Rightarrow> byte list \<Rightarrow> int \<Rightarrow> int \<Rightarrow> nbt option result" where
  "parse_range L mem start stop =
     rbind (readMem mem (start, stop) (nat (stop - start + 1))) (\<lambda>(d, _). Inr (nbt_parse L d))"

section \<open>Values\<close>

definition get_tag :: "libnbt \<Rightarrow> nbt \<Rightarrow> string \<Rightarrow> (nbt \<Rightarrow> 'a option) \<Rightarrow> 'a result" where
  "get_tag L root src accessor =
     (case nbt_tag_compound_get L root src of
        None \<Rightarrow> Inl AssertionFailed
      | Some t \<Rightarrow> (case accessor t of None \<Rightarrow> Inl AssertionFailed | Some v \<Rightarrow> Inr v))"

definition get_byte :: "libnbt \<Rightarrow> nbt \<Rightarrow> string \<Rightarrow> i8 result" where
  "get_byte L root src = get_tag L root src (\<lambda>t. case t of ByteTag _ v \<Rightarrow> Some v | _ \<Rightarrow> None)"

definition get_short :: "libnbt \<Rightarrow> nbt \<Rightarrow> string \<Rightarrow> i16 result" where
  "get_short L root src = get_tag L root src (\<lambda>t. case t of ShortTag _ v \<Rightarrow> Some v | _ \<Rightarrow> None)"

definition get_int :: "libnbt \<Rightarrow> nbt \<Rightarrow> string \<Rightarrow> i32 result" where
  "get_int L root src = get_tag L root src (\<lambda>t. case t of IntTag _ v \<Rightarrow> Some v | _ \<Rightarrow> None)"

definition get_long :: "libnbt \<Rightarrow> nbt \<Rightarrow> string \<Rightarrow> i64 result" where
  "get_long L root src = get_tag L root src (\<lambda>t. case t of LongTag _ v \<Rightarrow> Some v | _ \<Rightarrow> None)"

definition get_float :: "libnbt \<Rightarrow> nbt \<Rightarrow> string \<Rightarrow> f32 result" where
  "get_float L root src = get_tag L root src (\<lambda>t. case t of FloatTag _ v \<Rightarrow> Some v | _ \<Rightarrow> None)"

definition get_double :: "libnbt \<Rightarrow> nbt \<Rightarrow> string \<Rightarrow> f64 result" where
  "get_double L root src = get_tag L root src (\<lambda>t. case t of DoubleTag _ v \<Rightarrow> Some v | _ \<Rightarrow> None)"

definition get_string :: "libnbt \<Rightarrow> nbt \<Rightarrow> string \<Rightarrow> string result" where
  "get_string L root src = get_tag L root src (\<lambda>t. case t of StringTag _ v \<Rightarrow> Some v | _ \<Rightarrow> None)"

definition get_compound :: "libnbt \<Rightarrow> nbt \<Rightarrow> string \<Rightarrow> nbt result" where
  "get_compound L root src = get_tag L root src (\<lambda>t. case t of CompoundTag _ _ \<Rightarrow> Some t | _ \<Rightarrow> None)"

text \<open>The elements of a list have the type of the list.\<close>

definition get_doubles3 :: "libnbt \<Rightarrow> nbt \<Rightarrow> string \<Rightarrow> (f64 \<times> f64 \<times> f64) result" where
  "get_doubles3 L root src = get_tag L root src (\<lambda>t. case t of
     ListTag _ [DoubleTag _ x, DoubleTag _ y, DoubleTag _ z] \<Rightarrow> Some (x, y, z) | _ \<Rightarrow> None)"

definition get_floats2 :: "libnbt \<Rightarrow> nbt \<Rightarrow> string \<Rightarrow> (f32 \<times> f32) result" where
  "get_floats2 L root src = get_tag L root src (\<lambda>t. case t of
     ListTag _ [FloatTag _ yaw, FloatTag _ pitch] \<Rightarrow> Some (yaw, pitch) | _ \<Rightarrow> None)"

text \<open>Two neighbouring numbers are read as one of 64 bits, the first being the lower half.\<close>

definition get_uuid :: "libnbt \<Rightarrow> nbt \<Rightarrow> string \<Rightarrow> u128 result" where
  "get_uuid L root src = get_tag L root src (\<lambda>t. case t of
     IntArrayTag _ [a, b, c, d] \<Rightarrow>
       Some (swapEndianness \<lparr>u128_most = ucast a OR push_bit 32 (ucast b), u128_least = ucast c OR push_bit 32 (ucast d)\<rparr>)
     | _ \<Rightarrow> None)"

section \<open>Levels and players\<close>

record mcVersion =
  mv_id :: i32
  mv_name :: string
  mv_series :: string
  mv_snapshot :: i8

record worldGenSettings =
  wg_bonus_chest :: i8
  wg_generateFeatures :: i8
  wg_seed :: i64

record LevelData =
  ld_borderCenterX :: f64
  ld_borderCenterZ :: f64
  ld_borderDamagePerBlock :: f64
  ld_borderSafeZone :: f64
  ld_borderSize :: f64
  ld_borderSizeLerpTarget :: f64
  ld_borderSizeLerpTime :: i64
  ld_borderWarningBlocks :: f64
  ld_borderWarningTime :: f64
  ld_dataVersion :: i32
  ld_dayTime :: i64
  ld_difficulty :: i8
  ld_difficultyLocked :: i8
  ld_gameType :: i32
  ld_lastPlayed :: i64
  ld_levelName :: string
  ld_spawnAngle :: f32
  ld_spawnX :: i32
  ld_spawnY :: i32
  ld_spawnZ :: i32
  ld_time :: i64
  ld_mcVersion :: mcVersion
  ld_wanderingTraderSpawnChance :: i32
  ld_wanderingTraderSpawnDelay :: i32
  ld_wasModded :: i8
  ld_worldGenSettings :: worldGenSettings
  ld_allowCommands :: i8
  ld_clearWeatherTime :: i32
  ld_hardcore :: i8
  ld_initialized :: i8
  ld_rainTime :: i32
  ld_raining :: i8
  ld_thunderTime :: i32
  ld_thundering :: i8
  ld_version :: i32

definition loadVersion :: "libnbt \<Rightarrow> nbt \<Rightarrow> mcVersion result" where
  "loadVersion L root =
     rbind (get_int L root ''Id'') (\<lambda>v_id.
     rbind (get_string L root ''Name'') (\<lambda>v_name.
     rbind (get_string L root ''Series'') (\<lambda>v_series.
     rbind (get_byte L root ''Snapshot'') (\<lambda>v_snapshot.
       Inr \<lparr>mv_id = v_id, mv_name = v_name, mv_series = v_series, mv_snapshot = v_snapshot\<rparr>))))"

definition loadWorldGenSettings :: "libnbt \<Rightarrow> nbt \<Rightarrow> worldGenSettings result" where
  "loadWorldGenSettings L root =
     rbind (get_byte L root ''bonus_chest'') (\<lambda>v_bonus_chest.
     rbind (get_byte L root ''generate_features'') (\<lambda>v_generateFeatures.
     rbind (get_long L root ''seed'') (\<lambda>v_seed.
       Inr \<lparr>wg_bonus_chest = v_bonus_chest, wg_generateFeatures = v_generateFeatures, wg_seed = v_seed\<rparr>)))"

definition readLevelData :: "libnbt \<Rightarrow> nbt \<Rightarrow> LevelData result" where
  "readLevelData L data =
     rbind (get_double L data ''BorderCenterX'') (\<lambda>v_borderCenterX.
     rbind (get_double L data ''BorderCenterZ'') (\<lambda>v_borderCenterZ.
     rbind (get_double L data ''BorderDamagePerBlock'') (\<lambda>v_borderDamagePerBlock.
     rbind (get_double L data ''BorderSafeZone'') (\<lambda>v_borderSafeZone.
     rbind (get_double L data ''BorderSize'') (\<lambda>v_borderSize.
     rbind (get_double L data ''BorderSizeLerpTarget'') (\<lambda>v_borderSizeLerpTarget.
     rbind (get_long L data ''BorderSizeLerpTime'') (\<lambda>v_borderSizeLerpTime.
     rbind (get_double L data ''BorderWarningBlocks'') (\<lambda>v_borderWarningBlocks.
     rbind (get_double L data ''BorderWarningTime'') (\<lambda>v_borderWarningTime.
     rbind (get_int L data ''DataVersion'') (\<lambda>v_dataVersion.
     rbind (get_long L data ''DayTime'') (\<lambda>v_dayTime.
     rbind (get_byte L data ''Difficulty'') (\<lambda>v_difficulty.
     rbind (get_byte L data ''DifficultyLocked'') (\<lambda>v_difficultyLocked.
     rbind (get_int L data ''GameType'') (\<lambda>v_gameType.
     rbind (get_long L data ''LastPlayed'') (\<lambda>v_lastPlayed.
     rbind (get_string L data ''LevelName'') (\<lambda>v_levelName.
     rbind (get_float L data ''SpawnAngle'') (\<lambda>v_spawnAngle.
     rbind (get_int L data ''SpawnX'') (\<lambda>v_spawnX.
     rbind (get_int L data ''SpawnY'') (\<lambda>v_spawnY.
     rbind (get_int L data ''SpawnZ'') (\<lambda>v_spawnZ.
     rbind (get_long L data ''Time'') (\<lambda>v_time.
     rbind (rbind (get_compound L data ''Version'') (loadVersion L)) (\<lambda>v_mcVersion.
     rbind (get_int L data ''WanderingTraderSpawnChance'') (\<lambda>v_wanderingTraderSpawnChance.
     rbind (get_int L data ''WanderingTraderSpawnDelay'') (\<lambda>v_wanderingTraderSpawnDelay.
     rbind (get_byte L data ''WasModded'') (\<lambda>v_wasModded.
     rbind (rbind (get_compound L data ''WorldGenSettings'') (loadWorldGenSettings L)) (\<lambda>v_worldGenSettings.
     rbind (get_byte L data ''allowCommands'') (\<lambda>v_allowCommands.
     rbind (get_int L data ''clearWeatherTime'') (\<lambda>v_clearWeatherTime.
     rbind (get_byte L data ''hardcore'') (\<lambda>v_hardcore.
     rbind (get_byte L data ''initialized'') (\<lambda>v_initialized.
     rbind (get_int L data ''rainTime'') (\<lambda>v_rainTime.
     rbind (get_byte L data ''raining'') (\<lambda>v_raining.
     rbind (get_int L data ''thunderTime'') (\<lambda>v_thunderTime.
     rbind (get_byte L data ''thundering'') (\<lambda>v_thundering.
     rbind (get_int L data ''version'') (\<lambda>v_version.
       Inr \<lparr>ld_borderCenterX = v_borderCenterX, ld_borderCenterZ = v_borderCenterZ,
         ld_borderDamagePerBlock = v_borderDamagePerBlock, ld_borderSafeZone = v_borderSafeZone,
         ld_borderSize = v_borderSize, ld_borderSizeLerpTarget = v_borderSizeLerpTarget,
         ld_borderSizeLerpTime = v_borderSizeLerpTime, ld_borderWarningBlocks = v_borderWarningBlocks,
         ld_borderWarningTime = v_borderWarningTime, ld_dataVersion = v_dataVersion, ld_dayTime = v_dayTime,
         ld_difficulty = v_difficulty, ld_difficultyLocked = v_difficultyLocked, ld_gameType = v_gameType,
         ld_lastPlayed = v_lastPlayed, ld_levelName = v_levelName, ld_spawnAngle = v_spawnAngle, ld_spawnX = v_spawnX,
         ld_spawnY = v_spawnY, ld_spawnZ = v_spawnZ, ld_time = v_time, ld_mcVersion = v_mcVersion,
         ld_wanderingTraderSpawnChance = v_wanderingTraderSpawnChance,
         ld_wanderingTraderSpawnDelay = v_wanderingTraderSpawnDelay, ld_wasModded = v_wasModded,
         ld_worldGenSettings = v_worldGenSettings, ld_allowCommands = v_allowCommands,
         ld_clearWeatherTime = v_clearWeatherTime, ld_hardcore = v_hardcore, ld_initialized = v_initialized,
         ld_rainTime = v_rainTime, ld_raining = v_raining, ld_thunderTime = v_thunderTime,
         ld_thundering = v_thundering, ld_version = v_version\<rparr>)))))))))))))))))))))))))))))))))))"

record PlayerData =
  pd_absorptionAmount :: f32
  pd_air :: i16
  pd_dataVersion :: i32
  pd_deathTime :: i16
  pd_dimension :: string
  pd_fallDistance :: f32
  pd_fallFlying :: i8
  pd_fire :: i32
  pd_health :: f32
  pd_hurtByTimestamp :: i32
  pd_hurtTime :: i16
  pd_invulnerable :: i8
  pd_motion :: "f64 \<times> f64 \<times> f64"
  pd_onGround :: i8
  pd_portalCooldown :: i32
  pd_pos :: "f64 \<times> f64 \<times> f64"
  pd_rotation :: "f32 \<times> f32"
  pd_score :: i32
  pd_selectedItemSlot :: i32
  pd_sleepTimer :: i16
  pd_uuid :: u128
  pd_xpLevel :: i32
  pd_xpP :: f32
  pd_xpSeed :: i32
  pd_xpTotal :: i32
  pd_foodExhaustionLevel :: f32
  pd_foodLevel :: i32
  pd_foodSaturationLevel :: f32
  pd_foodTickTimer :: i32
  pd_playerGameType :: i32
  pd_seenCredits :: i8

definition readPlayerData :: "libnbt \<Rightarrow> nbt \<Rightarrow> PlayerData result" where
  "readPlayerData L root =
     rbind (get_float L root ''AbsorptionAmount'') (\<lambda>v_absorptionAmount.
     rbind (get_short L root ''Air'') (\<lambda>v_air.
     rbind (get_int L root ''DataVersion'') (\<lambda>v_dataVersion.
     rbind (get_short L root ''DeathTime'') (\<lambda>v_deathTime.
     rbind (get_string L root ''Dimension'') (\<lambda>v_dimension.
     rbind (get_float L root ''FallDistance'') (\<lambda>v_fallDistance.
     rbind (get_byte L root ''FallFlying'') (\<lambda>v_fallFlying.
     rbind (get_short L root ''Fire'') (\<lambda>v_fire.
     rbind (get_float L root ''Health'') (\<lambda>v_health.
     rbind (get_int L root ''HurtByTimestamp'') (\<lambda>v_hurtByTimestamp.
     rbind (get_short L root ''HurtTime'') (\<lambda>v_hurtTime.
     rbind (get_byte L root ''Invulnerable'') (\<lambda>v_invulnerable.
     rbind (get_doubles3 L root ''Motion'') (\<lambda>v_motion.
     rbind (get_byte L root ''OnGround'') (\<lambda>v_onGround.
     rbind (get_int L root ''PortalCooldown'') (\<lambda>v_portalCooldown.
     rbind (get_doubles3 L root ''Pos'') (\<lambda>v_pos.
     rbind (get_floats2 L root ''Rotation'') (\<lambda>v_rotation.
     rbind (get_int L root ''Score'') (\<lambda>v_score.
     rbind (get_int L root ''SelectedItemSlot'') (\<lambda>v_selectedItemSlot.
     rbind (get_short L root ''SleepTimer'') (\<lambda>v_sleepTimer.
     rbind (get_uuid L root ''Rotation'') (\<lambda>v_uuid.
     rbind (get_int L root ''XpLevel'') (\<lambda>v_xpLevel.
     rbind (get_float L root ''XpP'') (\<lambda>v_xpP.
     rbind (get_int L root ''XpSeed'') (\<lambda>v_xpSeed.
     rbind (get_int L root ''XpTotal'') (\<lambda>v_xpTotal.
     rbind (get_float L root ''foodExhaustionLevel'') (\<lambda>v_foodExhaustionLevel.
     rbind (get_int L root ''foodLevel'') (\<lambda>v_foodLevel.
     rbind (get_float L root ''foodSaturationLevel'') (\<lambda>v_foodSaturationLevel.
     rbind (get_int L root ''foodTickTimer'') (\<lambda>v_foodTickTimer.
     rbind (get_int L root ''playerGameType'') (\<lambda>v_playerGameType.
     rbind (get_byte L root ''seenCredits'') (\<lambda>v_seenCredits.
       Inr \<lparr>pd_absorptionAmount = v_absorptionAmount, pd_air = v_air, pd_dataVersion = v_dataVersion,
         pd_deathTime = v_deathTime, pd_dimension = v_dimension, pd_fallDistance = v_fallDistance,
         pd_fallFlying = v_fallFlying, pd_fire = scast v_fire, pd_health = v_health,
         pd_hurtByTimestamp = v_hurtByTimestamp, pd_hurtTime = v_hurtTime, pd_invulnerable = v_invulnerable,
         pd_motion = v_motion, pd_onGround = v_onGround, pd_portalCooldown = v_portalCooldown, pd_pos = v_pos,
         pd_rotation = v_rotation, pd_score = v_score, pd_selectedItemSlot = v_selectedItemSlot,
         pd_sleepTimer = v_sleepTimer, pd_uuid = v_uuid, pd_xpLevel = v_xpLevel, pd_xpP = v_xpP, pd_xpSeed = v_xpSeed,
         pd_xpTotal = v_xpTotal, pd_foodExhaustionLevel = v_foodExhaustionLevel, pd_foodLevel = v_foodLevel,
         pd_foodSaturationLevel = v_foodSaturationLevel, pd_foodTickTimer = v_foodTickTimer,
         pd_playerGameType = v_playerGameType, pd_seenCredits = v_seenCredits\<rparr>)))))))))))))))))))))))))))))))"

text \<open>
  The files of a world by their path, \<open>None\<close> for one that is missing or cannot be read whole. Everything
  the two functions fill in is read from the file.
\<close>

type_synonym files = "string \<Rightarrow> byte list option"

definition parse_file :: "libnbt \<Rightarrow> files \<Rightarrow> string \<Rightarrow> nbt result" where
  "parse_file L fs path =
     (case fs path of
        None \<Rightarrow> Inl RuntimeError
      | Some fileData \<Rightarrow> rbind (parse_range L fileData 0 (int (length fileData) - 1)) (\<lambda>root.
          case root of
            Some (CompoundTag n ts) \<Rightarrow> Inr (CompoundTag n ts)
          | _ \<Rightarrow> Inl AssertionFailed))"

definition loadLevelData :: "libnbt \<Rightarrow> files \<Rightarrow> string \<Rightarrow> LevelData result" where
  "loadLevelData L fs folder = rbind (parse_file L fs (folder @ ''/level.dat'')) (\<lambda>root.
     rbind (get_compound L root ''Data'') (readLevelData L))"

definition loadPlayerData :: "libnbt \<Rightarrow> files \<Rightarrow> string \<Rightarrow> u128 \<Rightarrow> PlayerData result" where
  "loadPlayerData L fs folder uuid = rbind (u128_toString uuid) (\<lambda>name.
     rbind (parse_file L fs (folder @ ''/playerdata/'' @ name @ ''.dat'')) (readPlayerData L))"

section \<open>Properties\<close>

lemma mem_slice_split:
  "0 \<le> a \<Longrightarrow> mem_slice mem a (m + n) = Inr d \<Longrightarrow> mem_slice mem a m = Inr (take m d) \<and> mem_slice mem (a + int m) n = Inr (drop m d)"
proof -
  assume a: "0 \<le> a" and d: "mem_slice mem a (m + n) = Inr d"
  then have d': "d = take (m + n) (drop (nat a) mem)" and le: "m + n \<noteq> 0 \<Longrightarrow> a + int (m + n) \<le> int (length mem)"
    by (auto simp: mem_slice_def not_less split: if_splits)
  have "nat (a + int m) = nat a + m" using a by simp
  then have "drop m d = take n (drop (nat (a + int m)) mem)" by (simp add: d' drop_take add.commute)
  moreover have "take m d = take m (drop (nat a) mem)" by (simp add: d')
  ultimately show ?thesis using a le by (auto simp: mem_slice_def)
qed

text \<open>
  However the library cuts its reads, it gets the same bytes: a read of \<open>s\<close> bytes and then one of \<open>t\<close>
  deliver what one read of \<open>s + t\<close> delivers, and leave the same pointers.
\<close>

lemma readMem_split:
  assumes "0 \<le> a" and "readMem mem (a, e) (s + t) = Inr (d, u)"
  shows "\<exists>d1 d2 v. readMem mem (a, e) s = Inr (d1, v) \<and> readMem mem v t = Inr (d2, u) \<and> d = d1 @ d2"
proof (cases "a > e")
  case True
  with assms(2) have "u = (a, e)" "d = []" by (simp_all add: readMem_def)
  moreover have "readMem mem (a, e) k = Inr ([], (a, e))" for k using True by (simp add: readMem_def)
  ultimately show ?thesis by blast
next
  case False
  let ?k = "nat (e - a + 1)"
  let ?m = "min ?k s" and ?n = "min (?k - min ?k s) t"
  have sum: "min ?k (s + t) = ?m + ?n" by auto
  from assms(2) False have sl: "mem_slice mem a (?m + ?n) = Inr d" and u: "u = (a + int (?m + ?n), e)"
    by (auto simp: readMem_def Let_def rbind_Inr_iff sum)
  note cut = mem_slice_split [OF assms(1) sl]
  have "readMem mem (a, e) s = Inr (take ?m d, (a + int ?m, e))"
    using cut False by (simp add: readMem_def Let_def)
  moreover have "readMem mem (a + int ?m, e) t = Inr (drop ?m d, u)"
  proof (cases "a + int ?m > e")
    case True
    then have "?n = 0" by auto
    with True u cut show ?thesis by (auto simp: readMem_def mem_slice_def)
  next
    case F: False
    then have "nat (e - (a + int ?m) + 1) = ?k - ?m" by auto
    with F cut u show ?thesis by (simp add: readMem_def Let_def)
  qed
  ultimately show ?thesis by (metis append_take_drop_id)
qed

text \<open>The tags of the compound \<open>Data\<close> of a level, by the format of the game.\<close>

definition level_tags :: "LevelData \<Rightarrow> nbt list" where
  "level_tags d =
    [DoubleTag ''BorderCenterX'' (ld_borderCenterX d),
     DoubleTag ''BorderCenterZ'' (ld_borderCenterZ d),
     DoubleTag ''BorderDamagePerBlock'' (ld_borderDamagePerBlock d),
     DoubleTag ''BorderSafeZone'' (ld_borderSafeZone d),
     DoubleTag ''BorderSize'' (ld_borderSize d),
     DoubleTag ''BorderSizeLerpTarget'' (ld_borderSizeLerpTarget d),
     LongTag ''BorderSizeLerpTime'' (ld_borderSizeLerpTime d),
     DoubleTag ''BorderWarningBlocks'' (ld_borderWarningBlocks d),
     DoubleTag ''BorderWarningTime'' (ld_borderWarningTime d),
     IntTag ''DataVersion'' (ld_dataVersion d),
     LongTag ''DayTime'' (ld_dayTime d),
     ByteTag ''Difficulty'' (ld_difficulty d),
     ByteTag ''DifficultyLocked'' (ld_difficultyLocked d),
     IntTag ''GameType'' (ld_gameType d),
     LongTag ''LastPlayed'' (ld_lastPlayed d),
     StringTag ''LevelName'' (ld_levelName d),
     FloatTag ''SpawnAngle'' (ld_spawnAngle d),
     IntTag ''SpawnX'' (ld_spawnX d),
     IntTag ''SpawnY'' (ld_spawnY d),
     IntTag ''SpawnZ'' (ld_spawnZ d),
     LongTag ''Time'' (ld_time d),
     CompoundTag ''Version'' [IntTag ''Id'' (mv_id (ld_mcVersion d)), StringTag ''Name'' (mv_name (ld_mcVersion d)), StringTag ''Series'' (mv_series (ld_mcVersion d)), ByteTag ''Snapshot'' (mv_snapshot (ld_mcVersion d))],
     IntTag ''WanderingTraderSpawnChance'' (ld_wanderingTraderSpawnChance d),
     IntTag ''WanderingTraderSpawnDelay'' (ld_wanderingTraderSpawnDelay d),
     ByteTag ''WasModded'' (ld_wasModded d),
     CompoundTag ''WorldGenSettings'' [ByteTag ''bonus_chest'' (wg_bonus_chest (ld_worldGenSettings d)), ByteTag ''generate_features'' (wg_generateFeatures (ld_worldGenSettings d)), LongTag ''seed'' (wg_seed (ld_worldGenSettings d))],
     ByteTag ''allowCommands'' (ld_allowCommands d),
     IntTag ''clearWeatherTime'' (ld_clearWeatherTime d),
     ByteTag ''hardcore'' (ld_hardcore d),
     ByteTag ''initialized'' (ld_initialized d),
     IntTag ''rainTime'' (ld_rainTime d),
     ByteTag ''raining'' (ld_raining d),
     IntTag ''thunderTime'' (ld_thunderTime d),
     ByteTag ''thundering'' (ld_thundering d),
     IntTag ''version'' (ld_version d)]"
lemma get_tag_present:
  assumes "compound_law L" "getValue ts key = Some t" "accessor t = Some v"
  shows "get_tag L (CompoundTag n ts) key accessor = Inr v"
  using assms by (simp add: get_tag_def compound_law_def)

lemmas get_defs = get_byte_def get_short_def get_int_def get_long_def get_float_def get_double_def get_string_def get_compound_def

lemma readLevelData_ok:
  assumes L: "compound_law L" and "\<forall>t\<in>set (level_tags d). getValue ts (getName t) = Some t"
  shows "readLevelData L (CompoundTag n ts) = Inr d"
proof -
  have v: "loadVersion L (CompoundTag n' [IntTag ''Id'' a, StringTag ''Name'' b, StringTag ''Series'' c, ByteTag ''Snapshot'' e])
      = Inr \<lparr>mv_id = a, mv_name = b, mv_series = c, mv_snapshot = e\<rparr>" for n' a b c e
    using L by (simp add: loadVersion_def get_defs get_tag_def compound_law_def)
  have w: "loadWorldGenSettings L (CompoundTag n' [ByteTag ''bonus_chest'' a, ByteTag ''generate_features'' b, LongTag ''seed'' c])
      = Inr \<lparr>wg_bonus_chest = a, wg_generateFeatures = b, wg_seed = c\<rparr>" for n' a b c
    using L by (simp add: loadWorldGenSettings_def get_defs get_tag_def compound_law_def)
  from assms(2) show ?thesis
    by (simp add: level_tags_def readLevelData_def get_defs get_tag_present [OF L] v w)
qed

text \<open>C31: A \<open>level.dat\<close> whose compound \<open>Data\<close> holds the tags of a level, in any order and among others, is read
back as that level.\<close>

theorem level_data_read:
  assumes "compound_law L" "fs (folder @ ''/level.dat'') = Some fd"
    and "nbt_parse L fd = Some (CompoundTag n rs)" "getValue rs ''Data'' = Some (CompoundTag m ts)"
    and "\<forall>t\<in>set (level_tags d). getValue ts (getName t) = Some t"
  shows "loadLevelData L fs folder = Inr d"
proof -
  have "parse_range L fd 0 (int (length fd) - 1) = Inr (nbt_parse L fd)"
    by (cases fd) (simp_all add: parse_range_def readMem_def mem_slice_def Let_def)
  then have "parse_file L fs (folder @ ''/level.dat'') = Inr (CompoundTag n rs)"
    using assms(2,3) by (simp add: parse_file_def)
  moreover have "get_compound L (CompoundTag n rs) ''Data'' = Inr (CompoundTag m ts)"
    using assms(1,4) by (simp add: get_compound_def get_tag_present)
  ultimately show ?thesis using readLevelData_ok [OF assms(1,5)] by (simp add: loadLevelData_def)
qed

definition tree_lib :: "nbt \<Rightarrow> libnbt" where
  "tree_lib root = \<lparr>nbt_parse = (\<lambda>_. Some root), nbt_tag_compound_get = (\<lambda>t key. case t of CompoundTag _ ts \<Rightarrow> getValue ts key | _ \<Rightarrow> None)\<rparr>"

lemma tree_lib_law: "compound_law (tree_lib root)"
  by (simp add: compound_law_def tree_lib_def)

definition test_level :: LevelData where
  "test_level = \<lparr>ld_borderCenterX = 0, ld_borderCenterZ = 0, ld_borderDamagePerBlock = 0, ld_borderSafeZone = 0, ld_borderSize = 0,
     ld_borderSizeLerpTarget = 0, ld_borderSizeLerpTime = 0, ld_borderWarningBlocks = 0, ld_borderWarningTime = 0,
     ld_dataVersion = 3218, ld_dayTime = 6000, ld_difficulty = 2, ld_difficultyLocked = 0, ld_gameType = 1, ld_lastPlayed = 0,
     ld_levelName = ''world'', ld_spawnAngle = 0, ld_spawnX = 8, ld_spawnY = 64, ld_spawnZ = - 8, ld_time = 12345,
     ld_mcVersion = \<lparr>mv_id = 3218, mv_name = ''1.19.3'', mv_series = ''main'', mv_snapshot = 0\<rparr>,
     ld_wanderingTraderSpawnChance = 25, ld_wanderingTraderSpawnDelay = 24000, ld_wasModded = 0,
     ld_worldGenSettings = \<lparr>wg_bonus_chest = 0, wg_generateFeatures = 1, wg_seed = 42\<rparr>,
     ld_allowCommands = 1, ld_clearWeatherTime = 0, ld_hardcore = 0, ld_initialized = 1, ld_rainTime = 7, ld_raining = 0,
     ld_thunderTime = 9, ld_thundering = 0, ld_version = 19133\<rparr>"

theorem level_data_read_witness:
  "loadLevelData (tree_lib (CompoundTag '''' [CompoundTag ''Data'' (level_tags test_level)]))
     (\<lambda>f. if f = ''world/level.dat'' then Some [10] else None) ''world'' = Inr test_level"
  by (rule level_data_read [OF tree_lib_law, where fd = "[10]" and rs = "[CompoundTag ''Data'' (level_tags test_level)]"
        and m = "''Data''" and ts = "level_tags test_level" and n = "''''"])
    (simp_all add: tree_lib_def level_tags_def)

text \<open>
  The UUID of a player is looked for under the name of the rotation, which has been read as a list before:
  no file of a player can be read.
\<close>

lemma player_data_never_loads: "loadPlayerData L fs folder uuid \<noteq> Inr d"
proof -
  have r: "\<exists>v. get_floats2 L root ''Rotation'' = Inr v" "\<exists>v. get_uuid L root ''Rotation'' = Inr v"
    if "readPlayerData L root = Inr d" for root
    using that by (auto simp: readPlayerData_def rbind_Inr_iff)
  have "False" if "get_floats2 L root ''Rotation'' = Inr v" "get_uuid L root ''Rotation'' = Inr u" for root v u
    using that by (auto simp: get_floats2_def get_uuid_def get_tag_def split: option.splits nbt.splits list.splits)
  then have "readPlayerData L root \<noteq> Inr d" for root using r [of root] by blast
  then show ?thesis by (simp add: loadPlayerData_def rbind_Inr_iff)
qed

end
