(* ===== verification/Block_States.thy ===== *)
theory Block_States
  imports Chunk_Column
begin

text \<open>
  \<open>protocol_id_converter/\<close>: the numbers the protocol gives to the states of blocks and to items. The state
  of a block is numbered in mixed radix, one digit per property, above the first number of the block.
\<close>

section \<open>Blocks\<close>

record InternalProperty =
  ip_name :: string
  ip_values :: "string list"
  ip_baseWeight :: byte

record InternalBlock =
  ib_name :: string
  ib_properties :: "InternalProperty list"
  ib_defaultProperties :: "(string \<times> string) list"
  ib_baseProtocolId :: u16
  ib_maxProtocolId :: u16

record Block =
  blk_name :: string
  blk_properties :: "(string \<times> string) list"

text \<open>
  What the JSON library reads from the file of a block: the properties with their values in the order of
  the keys, when there are any, and the states.
\<close>

record json_state =
  js_id :: u16
  js_default :: bool
  js_properties :: "(string \<times> string) list"

record json_block =
  jb_name :: string
  jb_properties :: "(string \<times> string list) list option"
  jb_states :: "json_state list"

text \<open>
  The loop over the properties, from the last one: \<open>maxThingy\<close> and \<open>weight\<close> are \<open>int\<close>s, the weight that is
  kept is a \<open>uint8_t\<close>.
\<close>

fun weigh :: "(string \<times> string list) list \<Rightarrow> int \<Rightarrow> int \<Rightarrow> InternalProperty list" where
  "weigh [] maxThingy weight = []"
| "weigh ((name, vs) # ps) maxThingy weight =
     (let m = maxThingy + weight * (int (length vs) - 1) in
      \<lparr>ip_name = name, ip_values = vs, ip_baseWeight = of_int weight\<rparr> # weigh ps m (m + 1))"

definition init_block :: "json_block \<Rightarrow> InternalBlock option result" where
  "init_block j =
     (case jb_states j of
        [] \<Rightarrow> Inl (UB OutOfBoundsRead)
      | s # _ \<Rightarrow> Inr (map_option (\<lambda>d.
          \<lparr>ib_name = jb_name j,
           ib_properties = (case jb_properties j of None \<Rightarrow> [] | Some ps \<Rightarrow> weigh (rev ps) 0 1),
           ib_defaultProperties = js_properties d,
           ib_baseProtocolId = js_id s,
           ib_maxProtocolId = js_id (last (jb_states j))\<rparr>) (List.find js_default (jb_states j))))"

text \<open>A block without a default state ends the loop.\<close>

fun palette_initialize :: "json_block list \<Rightarrow> InternalBlock list \<Rightarrow> InternalBlock list result" where
  "palette_initialize [] bs = Inr bs"
| "palette_initialize (j # js) bs = rbind (init_block j) (\<lambda>b.
     case b of None \<Rightarrow> Inr bs | Some b \<Rightarrow> palette_initialize js (bs @ [b]))"

definition find_block :: "InternalBlock list \<Rightarrow> string \<Rightarrow> InternalBlock option" where
  "find_block bs name = List.find (\<lambda>b. ib_name b = name) bs"

fun fill_defaults :: "(string \<times> string) list \<Rightarrow> (string \<times> string) list \<Rightarrow> (string \<times> string) list" where
  "fill_defaults [] ps = ps"
| "fill_defaults ((h, hh) # ds) ps = fill_defaults ds (if h \<in> fst ` set ps then ps else ps @ [(h, hh)])"

text \<open>The sum over the properties of a block; \<open>None\<close> when a property or a value is unknown.\<close>

fun state_sum :: "InternalProperty list \<Rightarrow> (string \<times> string) list \<Rightarrow> i32 \<Rightarrow> i32 option" where
  "state_sum ips [] pid = Some pid"
| "state_sum ips ((name, v) # ps) pid =
     (case List.find (\<lambda>p. ip_name p = name) ips of
        None \<Rightarrow> None
      | Some p \<Rightarrow>
          if v \<notin> set (ip_values p) then None
          else state_sum ips ps (pid + ucast (ip_baseWeight p) * of_nat (find_idx (ip_values p) v)))"

definition fromBlockToProtocolId :: "InternalBlock list \<Rightarrow> Block \<Rightarrow> i32" where
  "fromBlockToProtocolId bs block =
     (case find_block bs (blk_name block) of
        None \<Rightarrow> 0
      | Some b \<Rightarrow>
          let ps = (if length (blk_properties block) \<noteq> length (ib_properties b)
                    then fill_defaults (ib_defaultProperties b) (blk_properties block) else blk_properties block) in
          if ps = [] \<and> ib_properties b = [] then ucast (ib_baseProtocolId b)
          else case state_sum (ib_properties b) ps (ucast (ib_baseProtocolId b)) of None \<Rightarrow> 0 | Some pid \<Rightarrow> pid)"

definition fromBlockNameToProtocolId :: "InternalBlock list \<Rightarrow> string \<Rightarrow> i32" where
  "fromBlockNameToProtocolId bs blockName =
     (case find_block bs blockName of
        None \<Rightarrow> 0
      | Some b \<Rightarrow> fromBlockToProtocolId bs \<lparr>blk_name = blockName, blk_properties = ib_defaultProperties b\<rparr>)"

text \<open>The digits, from the property of the largest weight.\<close>

fun decode_state :: "InternalProperty list \<Rightarrow> int \<Rightarrow> (string \<times> string) list result" where
  "decode_state [] pid = Inr []"
| "decode_state (p # ps) pid =
     (let w = uint (ip_baseWeight p) in
      if w = 0 then Inl (UB DivisionByZero)
      else if cdiv pid w < 0 \<or> cdiv pid w \<ge> int (length (ip_values p)) then Inl (UB OutOfBoundsRead)
      else rbind (decode_state ps (cmod pid w)) (\<lambda>r. Inr ((ip_name p, ip_values p ! nat (cdiv pid w)) # r)))"

fun fromProtocolIdToBlock :: "InternalBlock list \<Rightarrow> i32 \<Rightarrow> Block result" where
  "fromProtocolIdToBlock [] pid = Inr \<lparr>blk_name = ''minecraft:air'', blk_properties = []\<rparr>"
| "fromProtocolIdToBlock (b # bs) pid =
     (if sint pid < uint (ib_baseProtocolId b) \<or> sint pid > uint (ib_maxProtocolId b) then fromProtocolIdToBlock bs pid
      else if ib_properties b = [] then Inr \<lparr>blk_name = ib_name b, blk_properties = []\<rparr>
      else rbind (decode_state (rev (ib_properties b)) (sint pid - uint (ib_baseProtocolId b)))
        (\<lambda>ps. Inr \<lparr>blk_name = ib_name b, blk_properties = ps\<rparr>))"

section \<open>Items\<close>

record InternalItem =
  it_name :: string
  it_protocolId :: u16

text \<open>The entries of the file, by name with their numbers.\<close>

definition items_initialize :: "(string \<times> u16) list \<Rightarrow> InternalItem list \<Rightarrow> InternalItem list" where
  "items_initialize entries items = items @ map (\<lambda>(name, n). \<lparr>it_name = name, it_protocolId = n\<rparr>) entries"

definition fromItemToProtocolId :: "InternalItem list \<Rightarrow> string \<Rightarrow> i32" where
  "fromItemToProtocolId items name =
     (case List.find (\<lambda>i. it_name i = name) items of None \<Rightarrow> 0 | Some i \<Rightarrow> ucast (it_protocolId i))"

definition fromProtocolIdToItem :: "InternalItem list \<Rightarrow> i32 \<Rightarrow> string" where
  "fromProtocolIdToItem items pid =
     (case List.find (\<lambda>i. ucast (it_protocolId i) = pid) items of None \<Rightarrow> ''minecraft:air'' | Some i \<Rightarrow> it_name i)"

section \<open>Mixed radix\<close>

fun weighted :: "int \<Rightarrow> InternalProperty list \<Rightarrow> bool" where
  "weighted w [] = True"
| "weighted w (p # ps) \<longleftrightarrow> uint (ip_baseWeight p) = w \<and> 0 < w \<and> ip_values p \<noteq> [] \<and> distinct (ip_values p)
     \<and> weighted (w * int (length (ip_values p))) ps"

definition span :: "InternalProperty list \<Rightarrow> int" where
  "span ps = prod_list (map (\<lambda>p. int (length (ip_values p))) ps)"

lemma weighted_snoc:
  "weighted w (ps @ [p]) \<longleftrightarrow> weighted w ps \<and> uint (ip_baseWeight p) = w * span ps \<and> 0 < w * span ps
     \<and> ip_values p \<noteq> [] \<and> distinct (ip_values p)"
  by (induction ps arbitrary: w) (auto simp: span_def mult.assoc)

lemma decode_sum:
  assumes "weighted 1 ps" "0 \<le> pid" "pid < span ps"
    and "\<And>p. p \<in> set ps \<Longrightarrow> List.find (\<lambda>q. ip_name q = ip_name p) ips = Some p"
  shows "\<exists>r. decode_state (rev ps) pid = Inr r \<and> length r = length ps \<and> (\<forall>x. state_sum ips r x = Some (x + of_int pid))"
  using assms
proof (induction ps arbitrary: pid rule: rev_induct)
  case Nil
  then have "pid = 0" by (simp add: span_def)
  then show ?case by simp
next
  case (snoc p ps)
  let ?w = "span ps" and ?n = "length (ip_values p)"
  from snoc.prems(1) have w: "weighted 1 ps" "uint (ip_baseWeight p) = ?w" "0 < ?w" "distinct (ip_values p)"
    by (simp_all add: weighted_snoc)
  have d: "cdiv pid ?w = pid div ?w" "cmod pid ?w = pid mod ?w"
    using snoc.prems(2) w(3) by (simp_all add: cdiv_nonneg cmod_nonneg)
  have "pid < ?w * int ?n" using snoc.prems(3) by (simp add: span_def)
  moreover have "?w * (pid div ?w) \<le> pid"
    using mult_div_mod_eq [of ?w pid] pos_mod_sign [OF w(3), of pid] by linarith
  ultimately have "?w * (pid div ?w) < ?w * int ?n" by linarith
  then have q: "0 \<le> pid div ?w" "pid div ?w < int ?n"
    using snoc.prems(2) w(3) by (simp_all add: pos_imp_zdiv_nonneg_iff mult_less_cancel_left)
  obtain r where r: "decode_state (rev ps) (pid mod ?w) = Inr r" "length r = length ps"
      "\<And>x. state_sum ips r x = Some (x + of_int (pid mod ?w))"
    using snoc.IH [OF w(1), of "pid mod ?w"] w(3) snoc.prems(4) by auto
  have f: "find_idx (ip_values p) (ip_values p ! nat (pid div ?w)) = nat (pid div ?w)"
    using find_idx_nth [OF w(4)] q by simp
  have "ucast (ip_baseWeight p) = (of_int ?w :: i32)"
    by (metis w(2) of_int_uint)
  moreover have "(of_int ?w :: i32) * of_int (pid div ?w) + of_int (pid mod ?w) = of_int pid"
    by (simp flip: of_int_mult of_int_add)
  ultimately have "(x + ucast (ip_baseWeight p) * of_nat (nat (pid div ?w))) + of_int (pid mod ?w) = (x :: i32) + of_int pid" for x
    using q by (simp add: add.assoc)
  then show ?case
    using r q w(3) f snoc.prems(4) [of p] by (simp add: Let_def w(2) d nth_mem)
qed

section \<open>The table\<close>

definition wf_block :: "InternalBlock \<Rightarrow> bool" where
  "wf_block b \<longleftrightarrow> weighted 1 (ib_properties b) \<and> distinct (map ip_name (ib_properties b))
     \<and> uint (ib_maxProtocolId b) = uint (ib_baseProtocolId b) + span (ib_properties b) - 1"

lemma find_distinct:
  "distinct (map f xs) \<Longrightarrow> x \<in> set xs \<Longrightarrow> List.find (\<lambda>y. f y = f x) xs = Some x"
  by (induction xs) auto

lemma block_ids:
  assumes "distinct (map ib_name bs)" "list_all wf_block bs" "b \<in> set bs"
    and "uint (ib_baseProtocolId b) \<le> sint pid" "sint pid \<le> uint (ib_maxProtocolId b)"
  shows "\<exists>blk. fromProtocolIdToBlock bs pid = Inr blk \<and> fromBlockToProtocolId bs blk = pid"
proof -
  let ?in = "\<lambda>b. uint (ib_baseProtocolId b) \<le> sint pid \<and> sint pid \<le> uint (ib_maxProtocolId b)"
  define blk where "blk b = (if ib_properties b = [] then Inr \<lparr>blk_name = ib_name b, blk_properties = []\<rparr>
      else rbind (decode_state (rev (ib_properties b)) (sint pid - uint (ib_baseProtocolId b)))
        (\<lambda>ps. Inr \<lparr>blk_name = ib_name b, blk_properties = ps\<rparr>))" for b :: InternalBlock
  have step: "fromProtocolIdToBlock (a # as) pid = (if ?in a then blk a else fromProtocolIdToBlock as pid)" for a as
    by (auto simp: blk_def)
  have "\<exists>c \<in> set bs. ?in c \<and> fromProtocolIdToBlock bs pid = blk c"
    using assms(3-5) by (induction bs) (auto simp: step simp del: fromProtocolIdToBlock.simps)
  then obtain c where c: "c \<in> set bs" "?in c" "fromProtocolIdToBlock bs pid = blk c" by blast
  have wf: "wf_block c" using assms(2) c(1) by (simp add: list_all_iff)
  have f: "find_block bs (ib_name c) = Some c" unfolding find_block_def by (rule find_distinct [OF assms(1) c(1)])
  show ?thesis
  proof (cases "ib_properties c = []")
    case True
    then have "sint pid = uint (ib_baseProtocolId c)" using c(2) wf by (simp add: wf_block_def span_def)
    moreover have "pid = of_int (sint pid)" by simp
    ultimately have "pid = ucast (ib_baseProtocolId c)" by (metis of_int_uint)
    with True c(3) [unfolded blk_def] f show ?thesis by (simp add: fromBlockToProtocolId_def)
  next
    case False
    let ?k = "sint pid - uint (ib_baseProtocolId c)"
    obtain r where r: "decode_state (rev (ib_properties c)) ?k = Inr r" "length r = length (ib_properties c)"
        "\<And>x. state_sum (ib_properties c) r x = Some (x + of_int ?k)"
      using decode_sum [of "ib_properties c" ?k "ib_properties c"] wf c(2) find_distinct [of ip_name "ib_properties c"]
      by (auto simp: wf_block_def)
    have "(ucast (ib_baseProtocolId c) :: i32) + of_int ?k = pid"
      by (simp add: of_int_uint)
    with r False c(3) [unfolded blk_def] f show ?thesis by (simp add: fromBlockToProtocolId_def)
  qed
qed

subsection \<open>What initialize builds\<close>

abbreviation props_of :: "json_block \<Rightarrow> (string \<times> string list) list" where
  "props_of j \<equiv> (case jb_properties j of None \<Rightarrow> [] | Some ps \<Rightarrow> ps)"

text \<open>
  The file gives the states of a block consecutive numbers and one default; the weights, the products of
  the numbers of values of the later properties, have to fit into eight bits.
\<close>

definition json_ok :: "json_block \<Rightarrow> bool" where
  "json_ok j \<longleftrightarrow> (\<exists>s\<in>set (jb_states j). js_default s) \<and> distinct (map fst (props_of j))
     \<and> (\<forall>(n, vs)\<in>set (props_of j). vs \<noteq> [] \<and> distinct vs)
     \<and> prod_list (map (\<lambda>(n, vs). int (length vs)) (tl (props_of j))) < 256
     \<and> uint (js_id (last (jb_states j))) = uint (js_id (hd (jb_states j))) + prod_list (map (\<lambda>(n, vs). int (length vs)) (props_of j)) - 1"

lemma weigh_shape: "map ip_name (weigh ps m w) = map fst ps" "span (weigh ps m w) = prod_list (map (\<lambda>(n, vs). int (length vs)) ps)"
  by (induction ps m w rule: weigh.induct) (simp_all add: Let_def span_def)

lemma weigh_weighted:
  assumes "\<forall>(n, vs)\<in>set ps. vs \<noteq> [] \<and> distinct vs" "0 < w"
    and "ps \<noteq> [] \<Longrightarrow> w * prod_list (map (\<lambda>(n, vs). int (length vs)) (butlast ps)) < 256"
  shows "weighted w (weigh ps (w - 1) w)"
  using assms
proof (induction ps arbitrary: w)
  case (Cons a ps)
  obtain n vs where a: "a = (n, vs)" by fastforce
  let ?l = "int (length vs)" and ?q = "prod_list (map (\<lambda>(n, vs). int (length vs)) (butlast ps))"
  have l: "1 \<le> ?l" using Cons.prems(1) a by (cases vs) auto
  have q: "1 \<le> ?q"
  proof -
    have "\<forall>x\<in>set (map (\<lambda>(n, vs). int (length vs)) (butlast ps)). 1 \<le> x"
      using Cons.prems(1) by (auto dest!: in_set_butlastD simp: Suc_le_eq)
    moreover have "\<forall>x\<in>set xs. 1 \<le> x \<Longrightarrow> 1 \<le> prod_list xs" for xs :: "int list"
    proof (induction xs)
      case (Cons x xs)
      then have "1 * 1 \<le> x * prod_list xs" by (intro mult_mono) auto
      then show ?case by simp
    qed simp
    ultimately show ?thesis by blast
  qed
  have e: "w - 1 + w * (?l - 1) = w * ?l - 1" by (simp add: algebra_simps)
  have small: "w < 256"
  proof (cases "ps = []")
    case False
    have "1 * 1 \<le> ?l * ?q" using l q by (intro mult_mono) auto
    then have "w * 1 \<le> w * (?l * ?q)" using Cons.prems(2) by (intro mult_left_mono) auto
    with Cons.prems(3) False a show ?thesis by (simp add: mult.assoc)
  qed (use Cons.prems(3) in simp)
  have "weighted (w * ?l) (weigh ps (w * ?l - 1) (w * ?l))"
    using Cons.IH [of "w * ?l"] Cons.prems l a by (cases "ps = []") (simp_all add: mult.assoc)
  then show ?case
    using small Cons.prems(1,2) a by (auto simp: Let_def e word_of_int_eq_iff take_bit_int_eq_self uint_word_of_int_eq)
qed simp

lemma init_block_wf:
  assumes "json_ok j"
  shows "\<exists>b. init_block j = Inr (Some b) \<and> wf_block b \<and> ib_name b = jb_name j
    \<and> ib_baseProtocolId b = js_id (hd (jb_states j)) \<and> ib_maxProtocolId b = js_id (last (jb_states j))"
proof -
  obtain d where d: "List.find js_default (jb_states j) = Some d"
    using assms by (auto simp: json_ok_def find_None_iff2 [symmetric] simp flip: not_None_eq) (metis find_None_iff option.exhaust)
  obtain s ss where s: "jb_states j = s # ss" using d by (cases "jb_states j") auto
  let ?ps = "props_of j"
  have p: "(case jb_properties j of None \<Rightarrow> [] | Some ps \<Rightarrow> weigh (rev ps) 0 1) = weigh (rev ?ps) 0 1"
    by (simp split: option.splits)
  have "butlast (rev ?ps) = rev (tl ?ps)" by (cases ?ps) (simp_all)
  then have "weighted 1 (weigh (rev ?ps) 0 1)"
    using weigh_weighted [of "rev ?ps" 1] assms by (simp add: json_ok_def rev_map [symmetric] prod_list.rev)
  moreover have "span (weigh (rev ?ps) 0 1) = prod_list (map (\<lambda>(n, vs). int (length vs)) ?ps)"
    by (simp add: weigh_shape rev_map [symmetric] prod_list.rev)
  ultimately show ?thesis
    using assms d s p by (simp add: init_block_def wf_block_def weigh_shape json_ok_def rev_map [symmetric])
qed

lemma palette_initialize_ok:
  assumes "list_all json_ok js"
  shows "\<exists>bs. palette_initialize js acc = Inr (acc @ bs) \<and> list_all wf_block bs \<and> map ib_name bs = map jb_name js
    \<and> map (\<lambda>b. (ib_baseProtocolId b, ib_maxProtocolId b)) bs = map (\<lambda>j. (js_id (hd (jb_states j)), js_id (last (jb_states j)))) js"
  using assms
proof (induction js arbitrary: acc)
  case (Cons j js)
  then obtain b where b: "init_block j = Inr (Some b)" "wf_block b" "ib_name b = jb_name j"
      "ib_baseProtocolId b = js_id (hd (jb_states j))" "ib_maxProtocolId b = js_id (last (jb_states j))"
    using init_block_wf [of j] by auto
  from Cons.IH [of "acc @ [b]"] Cons.prems obtain bs where "palette_initialize js (acc @ [b]) = Inr (acc @ b # bs)"
      "list_all wf_block bs" "map ib_name bs = map jb_name js"
      "map (\<lambda>b. (ib_baseProtocolId b, ib_maxProtocolId b)) bs = map (\<lambda>j. (js_id (hd (jb_states j)), js_id (last (jb_states j)))) js"
    by auto
  with b show ?case by (intro exI [of _ "b # bs"]) simp
qed simp

text \<open>C13: When the file of blocks gives the states of every block consecutive numbers and the weights of its
properties fit into eight bits, the tables built from it number the states consistently: every number of
a block is converted to a state that is converted back to the number, without leaving the tables.\<close>

theorem block_ids_roundtrip:
  assumes "list_all json_ok js" "distinct (map jb_name js)"
    and "palette_initialize js [] = Inr bs" "j \<in> set js"
    and "uint (js_id (hd (jb_states j))) \<le> sint pid" "sint pid \<le> uint (js_id (last (jb_states j)))"
  shows "\<exists>blk. fromProtocolIdToBlock bs pid = Inr blk \<and> fromBlockToProtocolId bs blk = pid"
proof -
  have bs: "list_all wf_block bs" "map ib_name bs = map jb_name js"
      "map (\<lambda>b. (ib_baseProtocolId b, ib_maxProtocolId b)) bs = map (\<lambda>j. (js_id (hd (jb_states j)), js_id (last (jb_states j)))) js"
    using palette_initialize_ok [OF assms(1), of "[]"] assms(3) by auto
  have "(js_id (hd (jb_states j)), js_id (last (jb_states j))) \<in> set (map (\<lambda>b. (ib_baseProtocolId b, ib_maxProtocolId b)) bs)"
    using assms(4) by (auto simp: bs(3))
  then obtain b where "b \<in> set bs" "ib_baseProtocolId b = js_id (hd (jb_states j))" "ib_maxProtocolId b = js_id (last (jb_states j))"
    by auto
  with block_ids [of bs b pid] bs(1,2) assms(2,5,6) show ?thesis by simp
qed

text \<open>A block as the file describes it, with the states from \<open>base\<close> on and the first as default.\<close>

definition listed_block :: "string \<Rightarrow> (string \<times> string list) list \<Rightarrow> nat \<Rightarrow> nat \<Rightarrow> json_block" where
  "listed_block name ps base n = \<lparr>jb_name = name, jb_properties = Some ps,
     jb_states = map (\<lambda>i. \<lparr>js_id = of_nat (base + i), js_default = (i = 0),
       js_properties = map (\<lambda>(p, vs). (p, hd vs)) ps\<rparr>) [0..<n]\<rparr>"

definition furnace :: json_block where
  "furnace = listed_block ''minecraft:furnace'' [(''facing'', [''north'', ''south'', ''west'', ''east'']), (''lit'', [''true'', ''false''])] 3873 8"

theorem block_ids_roundtrip_witness:
  "\<exists>blk. fromProtocolIdToBlock (projr (palette_initialize [furnace] [])) 3878 = Inr blk
    \<and> fromBlockToProtocolId (projr (palette_initialize [furnace] [])) blk = 3878"
proof -
  have ok: "json_ok furnace" by (simp add: furnace_def listed_block_def json_ok_def upt_rec)
  then obtain bs where "palette_initialize [furnace] [] = Inr bs" using palette_initialize_ok [of "[furnace]" "[]"] by auto
  with block_ids_roundtrip [OF _ _ this, of furnace 3878] ok show ?thesis
    by (simp add: furnace_def listed_block_def upt_rec)
qed

text \<open>
  Redstone wire has weights beyond eight bits: the weight 432 of its first property is kept as 176, so two
  states get the same number and the conversion of the last number leaves the table of values.
\<close>

definition redstone_props :: "(string \<times> string list) list" where
  "redstone_props =
     [(''east'', [''up'', ''side'', ''none'']), (''north'', [''up'', ''side'', ''none'']),
      (''power'', [''0'', ''1'', ''2'', ''3'', ''4'', ''5'', ''6'', ''7'', ''8'', ''9'', ''10'', ''11'', ''12'', ''13'', ''14'', ''15'']),
      (''south'', [''up'', ''side'', ''none'']), (''west'', [''up'', ''side'', ''none''])]"

definition redstone_wire :: json_block where
  "redstone_wire = listed_block ''minecraft:redstone_wire'' redstone_props 2978 1296"

lemma listed_init:
  assumes "0 < n"
  shows "init_block (listed_block name ps base n) = Inr (Some \<lparr>ib_name = name, ib_properties = weigh (rev ps) 0 1,
    ib_defaultProperties = map (\<lambda>(p, vs). (p, hd vs)) ps, ib_baseProtocolId = of_nat base, ib_maxProtocolId = of_nat (base + (n - 1))\<rparr>)"
proof -
  let ?st = "\<lambda>i. \<lparr>js_id = of_nat (base + i), js_default = (i = 0), js_properties = map (\<lambda>(p, vs). (p, hd vs)) ps\<rparr> :: json_state"
  have "map ?st [0..<n] = ?st 0 # map ?st [Suc 0..<n]" by (subst upt_conv_Cons [OF assms]) simp
  moreover have "last (map ?st [0..<n]) = ?st (n - 1)" using assms by (simp add: last_map)
  ultimately show ?thesis by (simp add: init_block_def listed_block_def)
qed

lemma redstone_collides:
  "\<exists>bs. palette_initialize [redstone_wire] [] = Inr bs
    \<and> fromBlockToProtocolId bs \<lparr>blk_name = ''minecraft:redstone_wire'',
        blk_properties = [(''east'', ''side''), (''north'', ''up''), (''power'', ''0''), (''south'', ''up''), (''west'', ''up'')]\<rparr> = 3154
    \<and> fromBlockToProtocolId bs \<lparr>blk_name = ''minecraft:redstone_wire'',
        blk_properties = [(''east'', ''up''), (''north'', ''side''), (''power'', ''3''), (''south'', ''side''), (''west'', ''none'')]\<rparr> = 3154
    \<and> fromProtocolIdToBlock bs 4273 = Inl (UB OutOfBoundsRead)"
proof -
  have "init_block redstone_wire = Inr (Some \<lparr>ib_name = ''minecraft:redstone_wire'', ib_properties = weigh (rev redstone_props) 0 1,
      ib_defaultProperties = map (\<lambda>(p, vs). (p, hd vs)) redstone_props, ib_baseProtocolId = 2978, ib_maxProtocolId = 4273\<rparr>)"
    unfolding redstone_wire_def by (subst listed_init) simp_all
  then show ?thesis
    by (simp add: redstone_props_def Let_def fromBlockToProtocolId_def find_block_def cdiv_def cmod_def)
qed

text \<open>Items whose names and numbers are distinct are found by either.\<close>

lemma item_ids_roundtrip:
  assumes "distinct (map fst entries)" "distinct (map snd entries)" "(name, n) \<in> set entries" "items = items_initialize entries []"
  shows "fromProtocolIdToItem items (fromItemToProtocolId items name) = name"
proof -
  define i where "i = \<lparr>it_name = name, it_protocolId = n\<rparr>"
  have m: "map it_name items = map fst entries" "map it_protocolId items = map snd entries" and i: "i \<in> set items"
    using assms(3,4) by (auto simp: items_initialize_def i_def)
  have "(ucast x :: i32) = ucast y \<longleftrightarrow> x = y" for x y :: u16
    by (rule iffI, drule arg_cong [where f = "ucast :: i32 \<Rightarrow> u16"]) (simp_all add: ucast_down_ucast_id is_down)
  then show ?thesis
    using find_distinct [of it_name items i] find_distinct [of it_protocolId items i] assms(1,2) m i
    by (simp add: fromProtocolIdToItem_def fromItemToProtocolId_def i_def)
qed

end
