(* ===== verification/Regions.thy ===== *)
theory Regions
  imports Saved_Data Block_States Level
begin

text \<open>
  \<open>world_storage/Persistence\<close>, second part: the region files of a saved world. A region holds 32 by 32 chunks; a
  table at its start says where each of them is, and a chunk is a compressed tag tree with the palettes
  and packed arrays of its sections. The chunks of a region are loaded together, when one is asked for.
\<close>

section \<open>The table of a region\<close>

definition maxXPerRegion :: nat where "maxXPerRegion = 32"
definition maxZPerRegion :: nat where "maxZPerRegion = 32"
definition regionChunkAlignment :: int where "regionChunkAlignment = 0x1000"

text \<open>\<open>RegionLocation\<close> is one \<open>uint32_t\<close>, as it is in the memory of a little-endian machine.\<close>

definition getOffset :: "u32 \<Rightarrow> u32" where
  "getOffset d = drop_bit 16 (d AND 0x00FF0000) OR (d AND 0x0000FF00) OR push_bit 16 (d AND 0x000000FF)"

definition getSize :: "u32 \<Rightarrow> byte" where
  "getSize d = ucast (drop_bit 24 d)"

definition isEmpty :: "u32 \<Rightarrow> bool" where
  "isEmpty d \<longleftrightarrow> d = 0"

definition host_u32 :: "byte list \<Rightarrow> int \<Rightarrow> u32 result" where
  "host_u32 mem p = rbind (mem_slice mem p 4) (\<lambda>d.
     Inr (ucast (d ! 0) OR push_bit 8 (ucast (d ! 1)) OR push_bit 16 (ucast (d ! 2)) OR push_bit 24 (ucast (d ! 3))))"

definition ntohl :: "u32 \<Rightarrow> u32" where
  "ntohl x = push_bit 24 (x AND 0xFF) OR push_bit 8 (x AND 0xFF00) OR (drop_bit 8 x AND 0xFF00) OR drop_bit 24 x"

definition sizeof_ChunkHeader :: int where "sizeof_ChunkHeader = 5"

section \<open>The parts of a chunk\<close>

fun load_properties :: "nbt list \<Rightarrow> (string \<times> string) list result" where
  "load_properties [] = Inr []"
| "load_properties (StringTag n v # ts) = rbind (load_properties ts) (\<lambda>ps. Inr ((n, v) # ps))"
| "load_properties (t # ts) = Inl AssertionFailed"

definition load_state :: "libnbt \<Rightarrow> nbt \<Rightarrow> Block result" where
  "load_state L pal =
     (case pal of
        CompoundTag _ _ \<Rightarrow> rbind (get_string L pal ''Name'') (\<lambda>name.
          case nbt_tag_compound_get L pal ''Properties'' of
            None \<Rightarrow> Inr \<lparr>blk_name = name, blk_properties = []\<rparr>
          | Some (CompoundTag _ ps) \<Rightarrow> rbind (load_properties ps) (\<lambda>ps. Inr \<lparr>blk_name = name, blk_properties = ps\<rparr>)
          | Some _ \<Rightarrow> Inl AssertionFailed)
      | _ \<Rightarrow> Inl AssertionFailed)"

fun add_states :: "libnbt \<Rightarrow> InternalBlock list \<Rightarrow> nbt list \<Rightarrow> palette \<Rightarrow> palette result" where
  "add_states L G [] p = Inr p"
| "add_states L G (t # ts) p = rbind (load_state L t) (\<lambda>b. add_states L G ts (palette_add p (fromBlockToProtocolId G b)))"

definition regionLoadPalette :: "libnbt \<Rightarrow> InternalBlock list \<Rightarrow> nbt \<Rightarrow> palette \<Rightarrow> palette result" where
  "regionLoadPalette L G blockStates p =
     rbind (get_tag L blockStates ''palette'' (\<lambda>t. case t of ListTag _ ts \<Rightarrow> Some ts | _ \<Rightarrow> None)) (\<lambda>ts. add_states L G ts p)"

text \<open>Without \<open>data\<close>, as in a section of one block, only the palette is replaced.\<close>

definition load_block_data :: "libnbt \<Rightarrow> nbt \<Rightarrow> Section act" where
  "load_block_data L blockStates s =
     (case nbt_tag_compound_get L blockStates ''data'' of
        None \<Rightarrow> (s, Inr ())
      | Some (LongArrayTag _ ws) \<Rightarrow>
          (case setValueSize SECTION_3D_SIZE (blocks s) (block_getBits (blockPalette s)) of
             Inl e \<Rightarrow> (s, Inl e)
           | Inr ds \<Rightarrow> (s\<lparr>blocks := ds\<lparr>ds_store := ws\<rparr>\<rparr>, Inr ()))
      | Some _ \<Rightarrow> (s, Inl AssertionFailed))"

definition regionLoadBlocks :: "libnbt \<Rightarrow> InternalBlock list \<Rightarrow> nat \<Rightarrow> nbt \<Rightarrow> ChunkColumn act" where
  "regionLoadBlocks L G sectionY section chunk =
     (case nbt_tag_compound_get L section ''block_states'' of
        None \<Rightarrow> (chunk, Inr ())
      | Some (CompoundTag n ts) \<Rightarrow>
          on_section sectionY (\<lambda>s.
            case regionLoadPalette L G (CompoundTag n ts) [] of
              Inl e \<Rightarrow> (s\<lparr>blockPalette := []\<rparr>, Inl e)
            | Inr p \<Rightarrow> load_block_data L (CompoundTag n ts) (s\<lparr>blockPalette := p\<rparr>)) chunk
      | Some _ \<Rightarrow> (chunk, Inl AssertionFailed))"

definition load_block_light :: "nbt option \<Rightarrow> Section act" where
  "load_block_light t s =
     (case t of
        None \<Rightarrow> (recalculateBlockLight s, Inr ())
      | Some (ByteArrayTag _ bs) \<Rightarrow>
          (case setValueSize SECTION_3D_SIZE (blockLight s) 4 of
             Inl e \<Rightarrow> (s, Inl e)
           | Inr ds \<Rightarrow> (recalculateBlockLightCount (s\<lparr>blockLight := ds\<lparr>ds_store := bs\<rparr>\<rparr>), Inr ()))
      | Some _ \<Rightarrow> (s, Inl AssertionFailed))"

definition load_sky_light :: "nbt option \<Rightarrow> Section act" where
  "load_sky_light t s =
     (case t of
        None \<Rightarrow> (recalculateSkyLight s, Inr ())
      | Some (ByteArrayTag _ bs) \<Rightarrow>
          (case setValueSize SECTION_3D_SIZE (skyLight s) 4 of
             Inl e \<Rightarrow> (s, Inl e)
           | Inr ds \<Rightarrow> (recalculateSkyLightCount (s\<lparr>skyLight := ds\<lparr>ds_store := bs\<rparr>\<rparr>), Inr ()))
      | Some _ \<Rightarrow> (s, Inl AssertionFailed))"

definition regionLoadLights :: "libnbt \<Rightarrow> nat \<Rightarrow> nbt \<Rightarrow> ChunkColumn act" where
  "regionLoadLights L sectionY section =
     act_then (on_section sectionY (load_block_light (nbt_tag_compound_get L section ''BlockLight'')))
       (on_section sectionY (load_sky_light (nbt_tag_compound_get L section ''SkyLight'')))"

text \<open>The number of a section starts at -5 in the file; the sum is cut to \<open>uint8_t\<close>.\<close>

definition regionLoadSection :: "libnbt \<Rightarrow> InternalBlock list \<Rightarrow> nbt \<Rightarrow> ChunkColumn act" where
  "regionLoadSection L G section chunk =
     (case get_byte L section ''Y'' of
        Inl e \<Rightarrow> (chunk, Inl e)
      | Inr y \<Rightarrow> act_then (regionLoadBlocks L G (unat (y + 5)) section) (regionLoadLights L (unat (y + 5)) section) chunk)"

definition load_section_tag :: "libnbt \<Rightarrow> InternalBlock list \<Rightarrow> nbt \<Rightarrow> ChunkColumn act" where
  "load_section_tag L G section =
     (case section of CompoundTag _ _ \<Rightarrow> regionLoadSection L G section | _ \<Rightarrow> (\<lambda>chunk. (chunk, Inl AssertionFailed)))"

definition load_heightmap :: "libnbt \<Rightarrow> nbt \<Rightarrow> string \<Rightarrow> ChunkColumn act" where
  "load_heightmap L heightmaps name chunk =
     (case get_tag L heightmaps name (\<lambda>t. case t of LongArrayTag _ vs \<Rightarrow> Some vs | _ \<Rightarrow> None) of
        Inl e \<Rightarrow> (chunk, Inl e)
      | Inr vs \<Rightarrow> (chunk\<lparr>heightMap := addValue (heightMap chunk) (LongArrayTag name vs)\<rparr>, Inr ()))"

definition regionLoadHeightmaps :: "libnbt \<Rightarrow> nbt \<Rightarrow> ChunkColumn act" where
  "regionLoadHeightmaps L data chunk =
     (case get_compound L data ''Heightmaps'' of
        Inl e \<Rightarrow> (chunk, Inl e)
      | Inr heightmaps \<Rightarrow> act_then (load_heightmap L heightmaps ''MOTION_BLOCKING'') (load_heightmap L heightmaps ''WORLD_SURFACE'') chunk)"

text \<open>What is done to the column of a chunk whose status is full.\<close>

definition fill_column :: "libnbt \<Rightarrow> InternalBlock list \<Rightarrow> nbt \<Rightarrow> ChunkColumn act" where
  "fill_column L G data chunk =
     (case get_tag L data ''sections'' (\<lambda>t. case t of ListTag _ ts \<Rightarrow> Some ts | _ \<Rightarrow> None) of
        Inl e \<Rightarrow> (chunk, Inl e)
      | Inr ts \<Rightarrow> act_then (act_for ts (load_section_tag L G))
          (act_then (regionLoadHeightmaps L data) (set_state READY)) chunk)"

section \<open>Regions\<close>

record storage =
  st_regions :: "Position2D list"
  st_level :: level

definition region_chunk :: "i32 \<Rightarrow> i32 \<Rightarrow> nat \<Rightarrow> nat \<Rightarrow> Position2D" where
  "region_chunk x z cx cz = \<lparr>pos2_x = of_nat cx + x * 32, pos2_z = of_nat cz + z * 32\<rparr>"

text \<open>
  The status is taken for a string without a test. \<open>t\<close> is the first value of the uninitialised tick
  counter of a new column.
\<close>

definition regionLoadChunk :: "libnbt \<Rightarrow> InternalBlock list \<Rightarrow> i64 \<Rightarrow> Position2D \<Rightarrow> nbt \<Rightarrow> storage act" where
  "regionLoadChunk L G t pos data st =
     (case nbt_tag_compound_get L data ''Status'' of
        None \<Rightarrow> (st, Inl AssertionFailed)
      | Some (StringTag _ v) \<Rightarrow>
          if v \<noteq> ''full'' then (st, Inr ())
          else (case newChunkColumn t pos of
                  Inl e \<Rightarrow> (st, Inl e)
                | Inr c \<Rightarrow>
                    let l = level_addChunkColumn pos c (st_level st) in
                    case fill_column L G data (the (l pos)) of
                      (c', r) \<Rightarrow> (st\<lparr>st_level := l(pos \<mapsto> c')\<rparr>, r))
      | Some _ \<Rightarrow> (st, Inl (UB OutOfBoundsRead)))"

definition load_cell :: "libnbt \<Rightarrow> InternalBlock list \<Rightarrow> i64 \<Rightarrow> byte list \<Rightarrow> i32 \<Rightarrow> i32 \<Rightarrow> nat \<times> nat \<Rightarrow> storage act" where
  "load_cell L G t fileContents x z = (\<lambda>(cx, cz) st.
     case host_u32 fileContents (int (4 * (cx + cz * maxXPerRegion))) of
       Inl e \<Rightarrow> (st, Inl e)
     | Inr loc \<Rightarrow>
         if isEmpty loc then (st, Inr ())
         else let cHeader = uint (getOffset loc) * regionChunkAlignment in
           case host_u32 fileContents cHeader of
             Inl e \<Rightarrow> (st, Inl e)
           | Inr len \<Rightarrow>
               (case parse_range L fileContents (cHeader + sizeof_ChunkHeader) (cHeader + sizeof_ChunkHeader + uint (ntohl len) - 1) of
                  Inl e \<Rightarrow> (st, Inl e)
                | Inr None \<Rightarrow> (st, Inl (UB NullDereference))
                | Inr (Some data) \<Rightarrow>
                    if getType data \<noteq> TCompound then (st, Inl AssertionFailed)
                    else regionLoadChunk L G t (region_chunk x z cx cz) data st))"

text \<open>A region is loaded once, whether or not it has a file.\<close>

definition region_file :: "string \<Rightarrow> i32 \<Rightarrow> i32 \<Rightarrow> string" where
  "region_file folder x z = folder @ ''/region/r.'' @ to_string (sint x) @ ''.'' @ to_string (sint z) @ ''.mca''"

definition loadRegion :: "libnbt \<Rightarrow> InternalBlock list \<Rightarrow> files \<Rightarrow> string \<Rightarrow> i64 \<Rightarrow> i32 \<Rightarrow> i32 \<Rightarrow> storage act" where
  "loadRegion L G fs folder t x z st =
     (let pos = \<lparr>pos2_x = x, pos2_z = z\<rparr> in
      if pos \<in> set (st_regions st) then (st, Inr ())
      else let st1 = st\<lparr>st_regions := st_regions st @ [pos]\<rparr> in
        case fs (region_file folder x z) of
          None \<Rightarrow> (st1, Inr ())
        | Some fileContents \<Rightarrow> act_for (List.product [0..<maxXPerRegion] [0..<maxZPerRegion]) (load_cell L G t fileContents x z) st1)"

definition isChunkLoaded :: "libnbt \<Rightarrow> InternalBlock list \<Rightarrow> files \<Rightarrow> string \<Rightarrow> i64 \<Rightarrow> i32 \<Rightarrow> i32 \<Rightarrow> storage \<Rightarrow> storage \<times> bool result" where
  "isChunkLoaded L G fs folder t x z st =
     (let rx = transformChunkPosToRegionPos (scast x); rz = transformChunkPosToRegionPos (scast z) in
      case loadRegion L G fs folder t rx rz st of
        (st1, Inl e) \<Rightarrow> (st1, Inl e)
      | (st1, Inr _) \<Rightarrow>
          if \<lparr>pos2_x = rx, pos2_z = rz\<rparr> \<notin> set (st_regions st1) then (st1, Inr False)
          else (st1, Inr (level_hasChunkColumn (st_level st1) \<lparr>pos2_x = x, pos2_z = z\<rparr>)))"

section \<open>The table\<close>

text \<open>The offset is a number of three bytes, the most significant first.\<close>

lemma getOffset_bytes:
  fixes a b c d :: byte
  shows "getOffset (ucast a OR push_bit 8 (ucast b) OR push_bit 16 (ucast c) OR push_bit 24 (ucast d))
    = push_bit 16 (ucast a) OR push_bit 8 (ucast b) OR ucast c"
proof -
  have m: "(0x00FF0000 :: u32) = push_bit 16 (mask 8)" "(0x0000FF00 :: u32) = push_bit 8 (mask 8)" "(0x000000FF :: u32) = mask 8"
    by (simp_all add: mask_eq_exp_minus_1 push_bit_eq_mult)
  have b: "8 \<le> n \<Longrightarrow> \<not> bit x n" for x :: byte and n using bit_imp_le_length [of x n] by auto
  note bits = bit_or_iff bit_and_iff bit_push_bit_iff bit_drop_bit_eq bit_mask_iff bit_unsigned_iff
  show ?thesis
  proof (rule bit_word_eqI)
    fix n assume "n < LENGTH(32)"
    then consider "n < 8" | "8 \<le> n" "n < 16" | "16 \<le> n" "n < 24" | "24 \<le> n" "n < 32" by fastforce
    then show "bit (getOffset (ucast a OR push_bit 8 (ucast b) OR push_bit 16 (ucast c) OR push_bit 24 (ucast d))) n
        = bit (push_bit 16 (ucast a) OR push_bit 8 (ucast b) OR ucast c :: u32) n"
      unfolding getOffset_def m by cases (auto simp: bits b)
  qed
qed

section \<open>The blocks of a section\<close>

text \<open>The width of the entries in a file, and how a file packs the numbers of the states.\<close>

definition file_bits :: "nat \<Rightarrow> nat" where
  "file_bits n = max 4 (bitsNeeded n)"

definition packs :: "nat \<Rightarrow> u64 list \<Rightarrow> (nat \<Rightarrow> nat) \<Rightarrow> bool" where
  "packs w ws f \<longleftrightarrow> SECTION_3D_SIZE \<le> length ws * (64 div w)
     \<and> (\<forall>i<SECTION_3D_SIZE. unat (get_field ((i mod (64 div w)) * w) w (ws ! (i div (64 div w)))) = f i)"

lemma block_getBits_file:
  assumes "1 < length p" "length p \<le> 256"
  shows "block_getBits p = file_bits (length p)" "file_bits (length p) \<le> 8" "4 \<le> file_bits (length p)"
proof -
  have "(2::nat) ^ (bitsNeeded (length p) - 1) < 2 ^ 8" using bitsNeeded_bounds [of "length p"] assms by simp
  then have "bitsNeeded (length p) - 1 < 8" by (rule power_less_imp_less_exp [rotated]) simp
  then have "bitsNeeded (length p) \<le> 8" by simp
  then show "block_getBits p = file_bits (length p)" "file_bits (length p) \<le> 8" "4 \<le> file_bits (length p)"
    using assms by (auto simp: block_getBits_def file_bits_def Let_def)
qed

lemma packs_get:
  assumes "packs w ws f" "i < SECTION_3D_SIZE" "4 \<le> w" "w \<le> 8" "f i < length p"
  shows "paletted_get SECTION_3D_SIZE p \<lparr>ds_store = ws, ds_valueSize = w\<rparr> i = Inr (p ! f i)"
proof -
  let ?n = "64 div w"
  have n: "0 < ?n" using assms(3,4) by (simp add: div_greater_zero_iff)
  have "i div ?n < length ws" using assms(1,2) n by (simp add: packs_def div_less_iff_less_mult)
  moreover have "unat (drop_bit (i mod ?n * w) (ws ! (i div ?n)) AND mask w) = f i"
    using assms(1,2) by (simp add: packs_def get_field_def)
  ultimately show ?thesis
    using assms(2-5) by (simp add: paletted_get_def canContainData_def ds_get_def Let_def value_mask_def mask_of_nat getGlobalId_def)
qed

text \<open>The states of a palette in the file, and the numbers the tables give them.\<close>

definition state_ids :: "libnbt \<Rightarrow> InternalBlock list \<Rightarrow> nbt list \<Rightarrow> i32 list \<Rightarrow> bool" where
  "state_ids L G ts ids \<longleftrightarrow> list_all2 (\<lambda>t i. \<exists>b. load_state L t = Inr b \<and> fromBlockToProtocolId G b = i) ts ids"

lemma add_states_ids:
  "state_ids L G ts ids \<Longrightarrow> distinct (p @ ids) \<Longrightarrow> add_states L G ts p = Inr (p @ ids)"
proof (induction ts arbitrary: p ids)
  case (Cons t ts)
  then obtain b i js where b: "load_state L t = Inr b" "fromBlockToProtocolId G b = i" "ids = i # js" "state_ids L G ts js"
    by (auto simp: state_ids_def list_all2_Cons1)
  moreover have "palette_add p i = p @ [i]" using Cons.prems(2) b(3) by (simp add: palette_add_def find_idx_eq_length)
  ultimately show ?case using Cons.IH [of js "p @ [i]"] Cons.prems(2) by simp
qed (simp add: state_ids_def)

section \<open>The column of a saved chunk\<close>

text \<open>
  A section as a file describes it: its number, the states of its palette with their numbers in the
  protocol, and which of them each of its 4096 blocks has.
\<close>

record saved_section =
  sv_y :: byte
  sv_ids :: "i32 list"
  sv_index :: "nat \<Rightarrow> nat"

definition saved_ok :: "saved_section \<Rightarrow> bool" where
  "saved_ok sv \<longleftrightarrow> distinct (sv_ids sv) \<and> 1 < length (sv_ids sv) \<and> length (sv_ids sv) \<le> 256
     \<and> (\<forall>i<SECTION_3D_SIZE. sv_index sv i < length (sv_ids sv)) \<and> unat (sv_y sv + 5) < 26"

abbreviation light_tag :: "nbt option \<Rightarrow> bool" where
  "light_tag t \<equiv> t = None \<or> (\<exists>n bs. t = Some (ByteArrayTag n bs))"

definition saved_as :: "libnbt \<Rightarrow> InternalBlock list \<Rightarrow> saved_section \<Rightarrow> nbt \<Rightarrow> bool" where
  "saved_as L G sv tag \<longleftrightarrow> (\<exists>n ts bn bs pn ps wn ws. tag = CompoundTag n ts
     \<and> getValue ts ''Y'' = Some (ByteTag ''Y'' (sv_y sv))
     \<and> getValue ts ''block_states'' = Some (CompoundTag bn bs)
     \<and> getValue bs ''palette'' = Some (ListTag pn ps) \<and> state_ids L G ps (sv_ids sv)
     \<and> getValue bs ''data'' = Some (LongArrayTag wn ws) \<and> packs (file_bits (length (sv_ids sv))) ws (sv_index sv)
     \<and> light_tag (getValue ts ''BlockLight'') \<and> light_tag (getValue ts ''SkyLight''))"

definition fresh :: "Section \<Rightarrow> bool" where
  "fresh s \<longleftrightarrow> ds_valueSize (blocks s) = 0 \<and> ds_valueSize (blockLight s) = 4 \<and> ds_valueSize (skyLight s) = 4"

definition shows_saved :: "saved_section \<Rightarrow> Section \<Rightarrow> bool" where
  "shows_saved sv s \<longleftrightarrow> (\<forall>p. in_cube 16 p \<longrightarrow>
     getBlock s p = Inr (sv_ids sv ! sv_index sv (nat (sint (pos_x p) + sint (pos_z p) * 16 + sint (pos_y p) * 256))))"

lemma shows_savedI:
  assumes "saved_ok sv" "packs (file_bits (length (sv_ids sv))) ws (sv_index sv)"
    and "blockPalette s = sv_ids sv" "blocks s = \<lparr>ds_store = ws, ds_valueSize = file_bits (length (sv_ids sv))\<rparr>"
  shows "shows_saved sv s"
  unfolding shows_saved_def
proof (intro allI impI)
  fix p assume p: "in_cube 16 p"
  note i = block_idx_less [OF p]
  note w = block_getBits_file [of "sv_ids sv"]
  have "paletted_get SECTION_3D_SIZE (sv_ids sv) (blocks s) (unat (calculateSectionBlockIdx p))
      = Inr (sv_ids sv ! sv_index sv (unat (calculateSectionBlockIdx p)))"
    unfolding assms(4) using assms(1) i w by (intro packs_get [OF assms(2) i]) (auto simp: saved_ok_def)
  then show "getBlock s p = Inr (sv_ids sv ! sv_index sv (nat (sint (pos_x p) + sint (pos_z p) * 16 + sint (pos_y p) * 256)))"
    using in_cube_guards(1) [OF p] assms(3) by (simp add: getBlock_def unat_block_idx [OF p])
qed

lemma load_lights_ok:
  assumes "light_tag t" "ds_valueSize (blockLight s) = 4" "light_tag u" "ds_valueSize (skyLight s) = 4"
  shows "\<exists>s1 s2. load_block_light t s = (s1, Inr ()) \<and> load_sky_light u s1 = (s2, Inr ())
    \<and> blocks s2 = blocks s \<and> blockPalette s2 = blockPalette s"
  using assms
  by (auto simp: load_block_light_def load_sky_light_def setValueSize_def recalculateBlockLight_def recalculateSkyLight_def
      recalculateBlockLightCount_def recalculateSkyLightCount_def)

lemma load_blocks_ok:
  assumes L: "compound_law L" and ok: "saved_ok sv"
    and t: "getValue bs ''palette'' = Some (ListTag pn ps)" "state_ids L G ps (sv_ids sv)" "getValue bs ''data'' = Some (LongArrayTag wn ws)"
    and fr: "fresh s"
  shows "(case regionLoadPalette L G (CompoundTag bn bs) [] of
      Inl e \<Rightarrow> (s\<lparr>blockPalette := []\<rparr>, Inl e)
    | Inr p \<Rightarrow> load_block_data L (CompoundTag bn bs) (s\<lparr>blockPalette := p\<rparr>))
    = (s\<lparr>blockPalette := sv_ids sv, blocks := \<lparr>ds_store = ws, ds_valueSize = file_bits (length (sv_ids sv))\<rparr>\<rparr>, Inr ())"
proof -
  have p: "regionLoadPalette L G (CompoundTag bn bs) [] = Inr (sv_ids sv)"
    using add_states_ids [OF t(2), of "[]"] ok t(1) by (simp add: regionLoadPalette_def get_tag_present [OF L] saved_ok_def)
  note w = block_getBits_file [of "sv_ids sv"]
  obtain ds :: "64 DynamicStorage" where ds: "setValueSize SECTION_3D_SIZE (blocks s) (block_getBits (sv_ids sv)) = Inr ds"
      "ds_valueSize ds = file_bits (length (sv_ids sv))"
    using w ok fr by (auto simp: setValueSize_def newDynamicStorage_def Let_def fresh_def saved_ok_def)
  have "ds\<lparr>ds_store := ws\<rparr> = \<lparr>ds_store = ws, ds_valueSize = file_bits (length (sv_ids sv))\<rparr>"
    using ds(2) by (cases ds) simp
  with p ds(1) t(3) L show ?thesis by (simp add: load_block_data_def compound_law_def)
qed

lemma load_section_ok:
  assumes L: "compound_law L" and sv: "saved_ok sv" "saved_as L G sv tag"
    and i: "unat (sv_y sv + 5) < length (sections c)" and fr: "fresh (sections c ! unat (sv_y sv + 5))"
  shows "\<exists>s. load_section_tag L G tag c = (c\<lparr>sections := (sections c)[unat (sv_y sv + 5) := s]\<rparr>, Inr ()) \<and> shows_saved sv s"
proof -
  let ?i = "unat (sv_y sv + 5)" and ?s = "sections c ! unat (sv_y sv + 5)"
  obtain n ts bn bs pn ps wn ws where tag: "tag = CompoundTag n ts" and y: "getValue ts ''Y'' = Some (ByteTag ''Y'' (sv_y sv))"
      and b: "getValue ts ''block_states'' = Some (CompoundTag bn bs)"
      and t: "getValue bs ''palette'' = Some (ListTag pn ps)" "state_ids L G ps (sv_ids sv)" "getValue bs ''data'' = Some (LongArrayTag wn ws)"
      and w: "packs (file_bits (length (sv_ids sv))) ws (sv_index sv)"
      and l: "light_tag (getValue ts ''BlockLight'')" "light_tag (getValue ts ''SkyLight'')"
    using sv(2) unfolding saved_as_def by blast
  let ?s1 = "?s\<lparr>blockPalette := sv_ids sv, blocks := \<lparr>ds_store = ws, ds_valueSize = file_bits (length (sv_ids sv))\<rparr>\<rparr>"
  let ?c1 = "c\<lparr>sections := (sections c)[?i := ?s1]\<rparr>"
  have get: "nbt_tag_compound_get L (CompoundTag n ts) k = getValue ts k" for k using L by (simp add: compound_law_def)
  have 1: "regionLoadBlocks L G ?i tag c = (?c1, Inr ())"
    using i by (simp add: regionLoadBlocks_def tag get b on_section_def load_blocks_ok [OF L sv(1) t fr])
  obtain s2 s3 where s: "load_block_light (getValue ts ''BlockLight'') ?s1 = (s2, Inr ())" "load_sky_light (getValue ts ''SkyLight'') s2 = (s3, Inr ())"
      "blocks s3 = blocks ?s1" "blockPalette s3 = blockPalette ?s1"
    using load_lights_ok [OF l(1) _ l(2), of ?s1] fr by (auto simp: fresh_def)
  have 2: "regionLoadLights L ?i tag ?c1 = (c\<lparr>sections := (sections c)[?i := s3]\<rparr>, Inr ())"
    using i s(1,2) by (simp add: regionLoadLights_def act_then_def on_section_def tag get)
  have "shows_saved sv s3" using s(3,4) by (intro shows_savedI [OF sv(1) w]) simp_all
  moreover have "load_section_tag L G tag c = (c\<lparr>sections := (sections c)[?i := s3]\<rparr>, Inr ())"
    using 1 2 by (simp add: load_section_tag_def tag regionLoadSection_def get_byte_def get_tag_present [OF L y] act_then_def)
  ultimately show ?thesis by blast
qed

lemma load_sections_ok:
  assumes L: "compound_law L" and "list_all2 (saved_as L G) svs tags" "list_all saved_ok svs" "distinct (map sv_y svs)"
    and "length (sections c) = 26" "\<And>sv. sv \<in> set svs \<Longrightarrow> fresh (sections c ! unat (sv_y sv + 5))"
  shows "\<exists>ss. act_for tags (load_section_tag L G) c = (c\<lparr>sections := ss\<rparr>, Inr ()) \<and> length ss = 26
    \<and> (\<forall>sv\<in>set svs. shows_saved sv (ss ! unat (sv_y sv + 5)))
    \<and> (\<forall>i<26. i \<notin> (\<lambda>sv. unat (sv_y sv + 5)) ` set svs \<longrightarrow> ss ! i = sections c ! i)"
  using assms(2-)
proof (induction tags arbitrary: svs c rule: list.induct)
  case Nil
  then have "svs = []" by simp
  with Nil.prems(4) show ?case by (intro exI [of _ "sections c"]) simp
next
  case (Cons tag tags)
  then obtain sv rest where svs: "svs = sv # rest" "saved_as L G sv tag" "list_all2 (saved_as L G) rest tags"
    by (auto simp: list_all2_Cons2)
  let ?at = "\<lambda>sv. unat (sv_y sv + 5)"
  have inj: "?at a = ?at b \<longleftrightarrow> sv_y a = sv_y b" for a b :: saved_section by (metis add_right_cancel word_unat_eq_iff)
  have ok: "saved_ok sv" using Cons.prems(2) svs(1) by simp
  obtain s where s: "load_section_tag L G tag c = (c\<lparr>sections := (sections c)[?at sv := s]\<rparr>, Inr ())" "shows_saved sv s"
    using load_section_ok [OF L ok svs(2), of c] Cons.prems(4,5) ok svs(1) by (auto simp: saved_ok_def)
  have other: "?at sv \<noteq> ?at sv'" if "sv' \<in> set rest" for sv'
    using Cons.prems(3) svs(1) that inj [of sv sv'] by (auto simp: image_iff)
  obtain ss where ss: "act_for tags (load_section_tag L G) (c\<lparr>sections := (sections c)[?at sv := s]\<rparr>) = (c\<lparr>sections := ss\<rparr>, Inr ())"
      "length ss = 26" "\<forall>sv\<in>set rest. shows_saved sv (ss ! ?at sv)"
      "\<forall>i<26. i \<notin> ?at ` set rest \<longrightarrow> ss ! i = (sections c)[?at sv := s] ! i"
    using Cons.IH [OF svs(3), of "c\<lparr>sections := (sections c)[?at sv := s]\<rparr>"] Cons.prems svs(1) other by auto
  have lt: "?at sv < 26" using ok by (simp add: saved_ok_def)
  have "?at sv \<notin> ?at ` set rest" using other by blast
  then have "ss ! ?at sv = (sections c)[?at sv := s] ! ?at sv" using ss(4) lt by blast
  then have "ss ! ?at sv = s" using lt Cons.prems(4) by simp
  then have "\<forall>sv\<in>set svs. shows_saved sv (ss ! ?at sv)" using ss(3) s(2) svs(1) by auto
  moreover have "\<forall>i<26. i \<notin> ?at ` set svs \<longrightarrow> ss ! i = sections c ! i" using ss(4) svs(1) by auto
  ultimately show ?case using s(1) ss(1,2) by auto
qed

lemma new_sections_fresh:
  "\<exists>c. newChunkColumn t pos = Inr c \<and> length (sections c) = 26 \<and> (\<forall>i<26. fresh (sections c ! i))"
proof -
  have "\<exists>s. newSection = Inr s \<and> fresh s" by (simp add: newSection_def newDynamicStorage_def fresh_def Let_def)
  then obtain s where s: "newSection = Inr s" "fresh s" by blast
  have "nat NB_OF_SECTIONS = 26" by (simp add: section_sizes cdiv_def)
  with s(2) show ?thesis by (simp add: newChunkColumn_def s(1))
qed


definition test_blocks2 :: "InternalBlock list" where
  "test_blocks2 =
    [\<lparr>ib_name = ''minecraft:stone'', ib_properties = [], ib_defaultProperties = [], ib_baseProtocolId = 1, ib_maxProtocolId = 1\<rparr>,
     \<lparr>ib_name = ''minecraft:bedrock'', ib_properties = [], ib_defaultProperties = [], ib_baseProtocolId = 74, ib_maxProtocolId = 74\<rparr>]"

definition test_chunk :: "nbt list" where
  "test_chunk =
    [StringTag ''Status'' ''full'',
     ListTag ''sections'' [CompoundTag '''' [ByteTag ''Y'' 0, CompoundTag ''block_states''
       [ListTag ''palette'' [CompoundTag '''' [StringTag ''Name'' ''minecraft:bedrock''], CompoundTag '''' [StringTag ''Name'' ''minecraft:stone'']],
        LongArrayTag ''data'' (replicate 256 0)]]],
     CompoundTag ''Heightmaps'' [LongArrayTag ''MOTION_BLOCKING'' [], LongArrayTag ''WORLD_SURFACE'' []]]"

definition test_saved :: saved_section where
  "test_saved = \<lparr>sv_y = 0, sv_ids = [74, 1], sv_index = (\<lambda>_. 0)\<rparr>"


section \<open>Regions\<close>

abbreviation region_of :: "Position2D \<Rightarrow> i32 \<times> i32" where
  "region_of p \<equiv> (transformChunkPosToRegionPos (scast (pos2_x p)), transformChunkPosToRegionPos (scast (pos2_z p)))"

lemma sint_widen: "sint (scast (x :: i32) :: i64) = sint x"
  by (rule sint_up_scast) (simp add: is_up)

lemma region_coordinate:
  fixes x :: i32
  assumes "- (2 ^ 26) \<le> sint x" "sint x < 2 ^ 26" "c < 32"
  shows "transformChunkPosToRegionPos (scast (of_nat c + x * 32)) = x"
proof -
  have e: "of_nat c + x * 32 = (of_int (int c + sint x * 32) :: i32)" by simp
  have s: "sint (of_int (int c + sint x * 32) :: i32) = int c + sint x * 32"
    using assms by (intro sint_of_int32) auto
  have "sint (scast (of_int (int c + sint x * 32) :: i32) :: i64) = int c + sint x * 32"
    by (subst sint_widen) (rule s)
  then show ?thesis unfolding e transformChunkPosToRegionPos_floor using assms(3) by simp
qed

lemma regionLoadChunk_frame:
  assumes "regionLoadChunk L G t pos d st = (st', r)"
  shows "st_regions st' = st_regions st \<and> (\<forall>p. p \<noteq> pos \<longrightarrow> st_level st' p = st_level st p)"
  using assms
  by (auto simp: regionLoadChunk_def Let_def level_addChunkColumn_def split: option.splits nbt.splits if_splits sum.splits prod.splits)

lemma load_cell_frame:
  assumes "load_cell L G t fc x z (cx, cz) st = (st', r)"
  shows "st_regions st' = st_regions st \<and> (\<forall>p. p \<noteq> region_chunk x z cx cz \<longrightarrow> st_level st' p = st_level st p)"
proof -
  have "st' = st \<or> (\<exists>d. regionLoadChunk L G t (region_chunk x z cx cz) d st = (st', r))"
    using assms by (auto simp: load_cell_def Let_def split: sum.splits option.splits if_splits)
  then show ?thesis using regionLoadChunk_frame by blast
qed

lemma load_cells_frame:
  assumes "act_for cs (load_cell L G t fc x z) st = (st', r)"
  shows "st_regions st' = st_regions st \<and> (\<forall>p. p \<notin> (\<lambda>(cx, cz). region_chunk x z cx cz) ` set cs \<longrightarrow> st_level st' p = st_level st p)"
  using assms
proof (induction cs arbitrary: st)
  case (Cons k cs)
  obtain cx cz where k: "k = (cx, cz)" by fastforce
  obtain st1 r1 where s1: "load_cell L G t fc x z (cx, cz) st = (st1, r1)" by fastforce
  from Cons.prems k s1 have "(st' = st1) \<or> act_for cs (load_cell L G t fc x z) st1 = (st', r)"
    by (auto split: sum.splits)
  then show ?case using Cons.IH [of st1] load_cell_frame [OF s1] k by auto
qed simp

lemma loadRegion_frame:
  assumes "loadRegion L G fs folder t x z st = (st', r)"
  shows "\<lparr>pos2_x = x, pos2_z = z\<rparr> \<in> set (st_regions st')"
    "- (2 ^ 26) \<le> sint x \<Longrightarrow> sint x < 2 ^ 26 \<Longrightarrow> - (2 ^ 26) \<le> sint z \<Longrightarrow> sint z < 2 ^ 26 \<Longrightarrow>
     region_of p \<noteq> (x, z) \<Longrightarrow> st_level st' p = st_level st p"
proof -
  let ?cs = "List.product [0..<maxXPerRegion] [0..<maxZPerRegion]"
  let ?pos = "\<lparr>pos2_x = x, pos2_z = z\<rparr>"
  consider "?pos \<in> set (st_regions st)" "st' = st" | "st' = st\<lparr>st_regions := st_regions st @ [?pos]\<rparr>"
    | fc where "act_for ?cs (load_cell L G t fc x z) (st\<lparr>st_regions := st_regions st @ [?pos]\<rparr>) = (st', r)"
    using assms by (auto simp: loadRegion_def Let_def split: if_splits option.splits)
  note cases = this
  show "?pos \<in> set (st_regions st')"
    using cases by cases (simp_all add: load_cells_frame [THEN conjunct1])
  assume xz: "- (2 ^ 26) \<le> sint x" "sint x < 2 ^ 26" "- (2 ^ 26) \<le> sint z" "sint z < 2 ^ 26" and p: "region_of p \<noteq> (x, z)"
  have "p \<notin> (\<lambda>(cx, cz). region_chunk x z cx cz) ` set ?cs"
    using p region_coordinate [OF xz(1,2)] region_coordinate [OF xz(3,4)]
    by (auto simp: region_chunk_def maxXPerRegion_def maxZPerRegion_def)
  note out = this
  from cases show "st_level st' p = st_level st p"
  proof cases
    case (3 fc)
    then have "st_level st' p = st_level (st\<lparr>st_regions := st_regions st @ [?pos]\<rparr>) p"
      using load_cells_frame [OF 3] out by blast
    then show ?thesis by simp
  qed simp_all
qed

lemma region_range: "- (2 ^ 26) \<le> sint (transformChunkPosToRegionPos (scast (x :: i32))) \<and> sint (transformChunkPosToRegionPos (scast x)) < 2 ^ 26"
proof -
  have "- (2 ^ 31) \<le> sint x" "sint x < 2 ^ 31" using sint_ge [of x] sint_lt [of x] by simp_all
  then have d: "- (2 ^ 26) \<le> sint x div 32" "sint x div 32 < 2 ^ 26" by auto
  then have "sint (of_int (sint x div 32) :: i32) = sint x div 32" by (intro sint_of_int32) auto
  with d show ?thesis by (simp add: transformChunkPosToRegionPos_floor sint_widen)
qed

text \<open>C30: Asking for a chunk reads at most the region the chunk lies in, and changes only columns of that region; asking
again changes nothing and gives the same answer.\<close>

theorem region_loaded_once:
  assumes "isChunkLoaded L G fs folder t x z st = (st', Inr b)"
  shows "isChunkLoaded L G fs folder t x z st' = (st', Inr b)
    \<and> (\<forall>p. st_level st' p \<noteq> st_level st p \<longrightarrow>
        transformChunkPosToRegionPos (scast (pos2_x p)) = transformChunkPosToRegionPos (scast x)
      \<and> transformChunkPosToRegionPos (scast (pos2_z p)) = transformChunkPosToRegionPos (scast z))"
proof -
  let ?x = "transformChunkPosToRegionPos (scast x)" and ?z = "transformChunkPosToRegionPos (scast z)"
  obtain r where r: "loadRegion L G fs folder t ?x ?z st = (st', Inr r)" and b: "b = level_hasChunkColumn (st_level st') \<lparr>pos2_x = x, pos2_z = z\<rparr>"
    using assms loadRegion_frame(1) [of L G fs folder t ?x ?z st]
    by (auto simp: isChunkLoaded_def Let_def split: prod.splits sum.splits if_splits)
  note f = loadRegion_frame [OF r]
  have "isChunkLoaded L G fs folder t x z st' = (st', Inr b)"
    using f(1) by (simp add: isChunkLoaded_def Let_def loadRegion_def b)
  moreover have "region_of p = (?x, ?z)" if "st_level st' p \<noteq> st_level st p" for p
    using f(2) [of p] region_range that by blast
  ultimately show ?thesis by auto
qed

theorem region_loaded_once_witness:
  "isChunkLoaded (tree_lib (CompoundTag '''' [])) [] (\<lambda>_. None) ''world'' 0 (- 1) 40 \<lparr>st_regions = [\<lparr>pos2_x = - 1, pos2_z = 1\<rparr>], st_level = Map.empty\<rparr>
    = (\<lparr>st_regions = [\<lparr>pos2_x = - 1, pos2_z = 1\<rparr>], st_level = Map.empty\<rparr>, Inr False)"
proof -
  have "isChunkLoaded (tree_lib (CompoundTag '''' [])) [] (\<lambda>_. None) ''world'' 0 (- 1) 40 \<lparr>st_regions = [], st_level = Map.empty\<rparr>
    = (\<lparr>st_regions = [\<lparr>pos2_x = - 1, pos2_z = 1\<rparr>], st_level = Map.empty\<rparr>, Inr False)"
    by (simp add: isChunkLoaded_def Let_def loadRegion_def transformChunkPosToRegionPos_def cdiv_def level_hasChunkColumn_def)
  from region_loaded_once [OF this] show ?thesis by simp
qed

text \<open>A world without region files: nothing is loaded, whatever is asked for.\<close>

lemma fresh_world:
  assumes "\<And>x z. fs (region_file folder x z) = None"
  shows "\<exists>st'. isChunkLoaded L G fs folder t x z st = (st', Inr (level_hasChunkColumn (st_level st) \<lparr>pos2_x = x, pos2_z = z\<rparr>))
    \<and> st_level st' = st_level st"
  using assms by (auto simp: isChunkLoaded_def Let_def loadRegion_def)

section \<open>Sections the loader does not keep\<close>

text \<open>A section of one block has a palette of one state and no array: it is loaded as air.\<close>

lemma uniform_section_lost:
  assumes "compound_law L" "getValue bs ''palette'' = Some (ListTag pn ps)" "state_ids L G ps [g]" "getValue bs ''data'' = None" "fresh s"
  shows "\<exists>s'. (case regionLoadPalette L G (CompoundTag bn bs) [] of
      Inl e \<Rightarrow> (s\<lparr>blockPalette := []\<rparr>, Inl e)
    | Inr p \<Rightarrow> load_block_data L (CompoundTag bn bs) (s\<lparr>blockPalette := p\<rparr>)) = (s', Inr ()) \<and> (\<forall>p. in_cube 16 p \<longrightarrow> getBlock s' p = Inr 0)"
proof -
  have "regionLoadPalette L G (CompoundTag bn bs) [] = Inr [g]"
    using add_states_ids [OF assms(3), of "[]"] assms(2) by (simp add: regionLoadPalette_def get_tag_present [OF assms(1)])
  then show ?thesis
    using assms(1,4,5) in_cube_guards(1)
    by (auto simp: load_block_data_def compound_law_def getBlock_def paletted_get_def canContainData_def fresh_def)
qed

text \<open>
  With 257 to 512 states a file packs nine bits per block into 586 words; they are taken for entries of
  fifteen bits, so that the upper part of the section cannot be read.
\<close>

lemma wide_palette_unreadable:
  assumes "256 < length p" "length ws = 586" "2344 \<le> i" "i < SECTION_3D_SIZE"
  shows "paletted_get SECTION_3D_SIZE p \<lparr>ds_store = ws, ds_valueSize = block_getBits p\<rparr> i = Inl StdOutOfRange"
proof -
  have "\<not> bitsNeeded (length p) \<le> 8"
    using bitsNeeded_bounds [of "length p"] assms(1) power_increasing [of "bitsNeeded (length p)" 8 "2::nat"] by auto
  then have "block_getBits p = 15" using assms(1) by (simp add: block_getBits_def Let_def)
  then show ?thesis using assms(2-4) by (simp add: paletted_get_def canContainData_def ds_get_def Let_def value_mask_def)
qed

end
