(* ===== verification/Server_Loop.thy ===== *)
theory Server_Loop
  imports Cubic_Prelude
begin

text \<open>
  \<open>Server.cpp\<close>: the clients of the server and the thread that writes to their sockets. The threads meet in
  the queue \<open>_toSend\<close> and in the map of clients, which a mutex guards: a run of the server is a sequence
  of steps of the threads, each atomic. What the sockets took is the log \<open>io_written\<close>.
\<close>

section \<open>The state\<close>

record server_io =
  io_clients :: "nat \<Rightarrow> bool option"
  io_toSend :: "(nat \<times> byte list) list"
  io_written :: "(nat \<times> byte list) list"
  io_currentClientID :: nat
  io_running :: bool
  io_accepting :: bool
  io_hasTerminated :: bool

text \<open>
  A client is its \<open>_isRunning\<close>. The counter of identifiers is a \<open>size_t\<close>; \<open>launch\<close> starts to accept.
\<close>

definition launched :: server_io where
  "launched = \<lparr>io_clients = Map.empty, io_toSend = [], io_written = [], io_currentClientID = 0, io_running = True,
     io_accepting = True, io_hasTerminated = False\<rparr>"

section \<open>The operations\<close>

text \<open>The handler of an accepted connection; the new client starts to run, and the next one is awaited.\<close>

definition accept_done :: "bool \<Rightarrow> server_io \<Rightarrow> server_io" where
  "accept_done error s =
     (let s1 = (if error then s
        else s\<lparr>io_clients := (case io_clients s (io_currentClientID s) of
                 None \<Rightarrow> (io_clients s)(io_currentClientID s \<mapsto> True) | Some _ \<Rightarrow> io_clients s),
               io_currentClientID := (io_currentClientID s + 1) mod 2 ^ 64\<rparr>) in
      s1\<lparr>io_accepting := io_running s1\<rparr>)"

definition sendData :: "nat \<Rightarrow> byte list \<Rightarrow> server_io \<Rightarrow> server_io" where
  "sendData clientID data s = s\<lparr>io_toSend := io_toSend s @ [(clientID, data)]\<rparr>"

text \<open>Without an identifier, \<open>triggerClientCleanup\<close> removes every client that is disconnected.\<close>

definition triggerClientCleanup :: "server_io \<Rightarrow> server_io" where
  "triggerClientCleanup s = s\<lparr>io_clients := (\<lambda>i. if io_clients s i = Some True then Some True else None)\<rparr>"

definition triggerClientCleanup_id :: "nat \<Rightarrow> server_io \<Rightarrow> server_io result" where
  "triggerClientCleanup_id clientID s =
     (case io_clients s clientID of None \<Rightarrow> Inl StdOutOfRange | Some _ \<Rightarrow> Inr (s\<lparr>io_clients := (io_clients s)(clientID := None)\<rparr>))"

text \<open>One round of the loop of \<open>_writeLoop\<close>; \<open>ec\<close> tells whether writing to the socket fails.\<close>

definition write_round :: "bool \<Rightarrow> server_io \<Rightarrow> server_io result" where
  "write_round ec s =
     (case io_toSend s of
        [] \<Rightarrow> Inr s
      | (cid, data) # q \<Rightarrow>
          let s1 = triggerClientCleanup (s\<lparr>io_toSend := q\<rparr>) in
          case io_clients s1 cid of
            None \<Rightarrow> Inr s1
          | Some isRunning \<Rightarrow>
              if \<not> isRunning then triggerClientCleanup_id cid s1
              else if ec then Inr s1
              else Inr (s1\<lparr>io_written := io_written s1 @ [(cid, data)]\<rparr>))"

text \<open>A client whose connection ends, or that the server disconnects, stops running.\<close>

definition client_stops :: "nat \<Rightarrow> server_io \<Rightarrow> server_io" where
  "client_stops cid s = s\<lparr>io_clients := (case io_clients s cid of None \<Rightarrow> io_clients s | Some _ \<Rightarrow> (io_clients s)(cid \<mapsto> False))\<rparr>"

definition io_stop :: "server_io \<Rightarrow> server_io" where
  "io_stop s = s\<lparr>io_running := False, io_accepting := False\<rparr>"

text \<open>
  \<open>_stop\<close> under the mutex of the clients: every client of \<open>ids\<close> is sent the reason and stops running. The
  rest waits for the queue, ends the writing thread and forgets what is left.
\<close>

fun disconnect_all :: "byte list \<Rightarrow> nat list \<Rightarrow> server_io \<Rightarrow> server_io" where
  "disconnect_all reason [] s = s"
| "disconnect_all reason (cid # ids) s = disconnect_all reason ids (client_stops cid (sendData cid reason s))"

definition stop_finish :: "server_io \<Rightarrow> server_io" where
  "stop_finish s = s\<lparr>io_hasTerminated := True, io_toSend := [], io_clients := Map.empty\<rparr>"

section \<open>Runs\<close>

datatype io_event = Accepted | AcceptFailed | Sent nat "byte list" | Closed nat | Wrote bool | Stopped

text \<open>
  The runs of the server, as the list of their steps and the state they lead to. Only clients that exist
  or existed send, with their own identifier.
\<close>

inductive runs :: "io_event list \<Rightarrow> server_io \<Rightarrow> bool" where
  launch: "runs [] launched"
| accept: "runs es s \<Longrightarrow> io_accepting s \<Longrightarrow> runs (es @ [Accepted]) (accept_done False s)"
| refuse: "runs es s \<Longrightarrow> io_accepting s \<Longrightarrow> runs (es @ [AcceptFailed]) (accept_done True s)"
| send: "runs es s \<Longrightarrow> cid < io_currentClientID s \<Longrightarrow> runs (es @ [Sent cid d]) (sendData cid d s)"
| closed: "runs es s \<Longrightarrow> runs (es @ [Closed cid]) (client_stops cid s)"
| wrote: "runs es s \<Longrightarrow> write_round ec s = Inr s' \<Longrightarrow> runs (es @ [Wrote ec]) s'"
| stop: "runs es s \<Longrightarrow> runs (es @ [Stopped]) (io_stop s)"

inductive_cases runs_write_elim: "runs (es @ [Wrote ec]) s"

definition of_client :: "nat \<Rightarrow> (nat \<times> byte list) list \<Rightarrow> byte list list" where
  "of_client cid xs = map snd (filter (\<lambda>x. fst x = cid) xs)"

lemma of_client_simps [simp]:
  "of_client cid [] = []" "of_client cid (xs @ ys) = of_client cid xs @ of_client cid ys"
  "of_client cid ((c, d) # xs) = (if c = cid then d # of_client cid xs else of_client cid xs)"
  by (simp_all add: of_client_def)

fun sent_to :: "nat \<Rightarrow> io_event list \<Rightarrow> byte list list" where
  "sent_to cid [] = []"
| "sent_to cid (Sent c d # es) = (if c = cid then d # sent_to cid es else sent_to cid es)"
| "sent_to cid (_ # es) = sent_to cid es"

lemma sent_to_append [simp]: "sent_to cid (es @ fs) = sent_to cid es @ sent_to cid fs"
proof (induction es)
  case (Cons e es)
  then show ?case by (cases e) simp_all
qed simp

section \<open>Delivery\<close>

lemma write_round_cases:
  obtains (empty) "io_toSend s = []" "write_round ec s = Inr s"
  | (gone) cid d q where "io_toSend s = (cid, d) # q" "io_clients s cid \<noteq> Some True"
      "write_round ec s = Inr (triggerClientCleanup (s\<lparr>io_toSend := q\<rparr>))"
  | (failed) cid d q where "io_toSend s = (cid, d) # q" "io_clients s cid = Some True" ec
      "write_round ec s = Inr (triggerClientCleanup (s\<lparr>io_toSend := q\<rparr>))"
  | (written) cid d q where "io_toSend s = (cid, d) # q" "io_clients s cid = Some True" "\<not> ec"
      "write_round ec s = Inr ((triggerClientCleanup (s\<lparr>io_toSend := q\<rparr>))\<lparr>io_written := io_written s @ [(cid, d)]\<rparr>)"
  by (cases "io_toSend s"; cases ec)
    (auto simp: write_round_def triggerClientCleanup_def Let_def split: prod.splits if_splits)

definition delivery :: "io_event list \<Rightarrow> server_io \<Rightarrow> bool" where
  "delivery es s \<longleftrightarrow> io_currentClientID s \<le> length es
     \<and> (\<forall>cid. io_currentClientID s \<le> cid \<longrightarrow> io_clients s cid = None \<and> of_client cid (io_toSend s) = []
          \<and> of_client cid (io_written s) = [] \<and> sent_to cid es = [])
     \<and> (\<forall>cid. io_clients s cid = Some True \<longrightarrow> of_client cid (io_written s) @ of_client cid (io_toSend s) = sent_to cid es)"

lemma runs_delivery:
  "runs es s \<Longrightarrow> length es < 2 ^ 64 \<Longrightarrow> Wrote True \<notin> set es \<Longrightarrow> delivery es s"
proof (induction rule: runs.induct)
  case launch
  then show ?case by (simp add: delivery_def launched_def)
next
  case (accept es s)
  then show ?case by (auto simp: delivery_def accept_done_def Let_def less_imp_le split: option.splits)
next
  case (refuse es s)
  then show ?case by (auto simp: delivery_def accept_done_def Let_def)
next
  case (send es s cid d)
  then show ?case by (auto simp: delivery_def sendData_def)
next
  case (closed es s cid)
  then show ?case by (auto simp: delivery_def client_stops_def split: option.splits if_splits)
next
  case (wrote es s ec s')
  then have d: "delivery es s" and ec: "\<not> ec" by auto
  show ?case
    by (rule write_round_cases [of s ec]) (use d ec wrote.hyps(2) in \<open>auto simp: delivery_def triggerClientCleanup_def split: if_splits\<close>)
next
  case (stop es s)
  then show ?case by (auto simp: delivery_def io_stop_def)
qed



text \<open>The writing thread empties the queue when nothing is added.\<close>

fun drain :: "nat \<Rightarrow> server_io \<Rightarrow> server_io result" where
  "drain 0 s = Inr s"
| "drain (Suc n) s = rbind (write_round False s) (drain n)"

lemma queue_drains:
  "\<exists>t. drain (length (io_toSend s)) s = Inr t \<and> io_toSend t = []
    \<and> (\<forall>cid. io_clients s cid = Some True \<longrightarrow> io_clients t cid = Some True
        \<and> of_client cid (io_written t) = of_client cid (io_written s) @ of_client cid (io_toSend s))"
proof (induction "length (io_toSend s)" arbitrary: s)
  case (Suc n)
  have "\<exists>s1. write_round False s = Inr s1 \<and> length (io_toSend s1) = n \<and> (\<forall>cid. io_clients s cid = Some True \<longrightarrow> io_clients s1 cid = Some True
      \<and> of_client cid (io_written s1) @ of_client cid (io_toSend s1) = of_client cid (io_written s) @ of_client cid (io_toSend s))"
  proof (cases rule: write_round_cases [of s False])
    case (gone cid d q)
    then show ?thesis using Suc.hyps(2) by (auto simp: triggerClientCleanup_def)
  next
    case (written cid d q)
    then show ?thesis using Suc.hyps(2) by (auto simp: triggerClientCleanup_def)
  qed (use Suc.hyps(2) in simp_all)
  then obtain s1 where s1: "write_round False s = Inr s1" "length (io_toSend s1) = n"
      "\<And>cid. io_clients s cid = Some True \<Longrightarrow> io_clients s1 cid = Some True
        \<and> of_client cid (io_written s1) @ of_client cid (io_toSend s1) = of_client cid (io_written s) @ of_client cid (io_toSend s)"
    by blast
  from Suc.hyps(1) [of s1] s1 obtain t where "drain n s1 = Inr t" "io_toSend t = []"
      "\<And>cid. io_clients s1 cid = Some True \<Longrightarrow> io_clients t cid = Some True
        \<and> of_client cid (io_written t) = of_client cid (io_written s1) @ of_client cid (io_toSend s1)"
    by auto
  with s1 show ?case by (auto simp flip: Suc.hyps(2))
qed simp

section \<open>Last words\<close>

text \<open>A client that has stopped is never written to again.\<close>

inductive steps :: "server_io \<Rightarrow> server_io \<Rightarrow> bool" where
  none: "steps s s"
| accepts: "steps s t \<Longrightarrow> io_currentClientID t + 1 < 2 ^ 64 \<Longrightarrow> steps s (accept_done e t)"
| sends: "steps s t \<Longrightarrow> steps s (sendData c d t)"
| closes: "steps s t \<Longrightarrow> steps s (client_stops c t)"
| writes: "steps s t \<Longrightarrow> write_round ec t = Inr u \<Longrightarrow> steps s u"
| stops: "steps s t \<Longrightarrow> steps s (io_stop t)"

lemma stopped_stays:
  assumes "steps s t" "io_clients s cid \<noteq> Some True" "cid < io_currentClientID s"
  shows "io_clients t cid \<noteq> Some True \<and> cid < io_currentClientID t \<and> of_client cid (io_written t) = of_client cid (io_written s)"
  using assms
proof (induction rule: steps.induct)
  case (accepts s t e)
  then show ?case by (auto simp: accept_done_def Let_def split: option.splits)
next
  case (writes s t ec u)
  then have t: "io_clients t cid \<noteq> Some True" "cid < io_currentClientID t" "of_client cid (io_written t) = of_client cid (io_written s)" by auto
  show ?case
    by (rule write_round_cases [of t ec]) (use t writes.hyps(2) in \<open>auto simp: triggerClientCleanup_def split: if_splits\<close>)
qed (auto simp: sendData_def client_stops_def io_stop_def split: option.splits if_splits)

text \<open>C34: When the server stops, the reason it sends to every client reaches none of them: whatever the threads do
afterwards, nothing more is written to the clients it disconnected.\<close>

theorem closing_reason_lost:
  assumes "cid \<in> set ids" "cid < io_currentClientID s" "steps (disconnect_all reason ids s) t"
  shows "of_client cid (io_written t) = of_client cid (io_written s)"
proof -
  have keep: "io_clients u cid \<noteq> Some True \<Longrightarrow> io_clients (disconnect_all reason js u) cid \<noteq> Some True" for js u
    by (induction js arbitrary: u) (auto simp: client_stops_def sendData_def split: option.splits if_splits)
  have frame: "io_currentClientID (disconnect_all reason js u) = io_currentClientID u \<and> io_written (disconnect_all reason js u) = io_written u" for js u
    by (induction js arbitrary: u) (simp_all add: client_stops_def sendData_def)
  have "io_clients (disconnect_all reason ids s) cid \<noteq> Some True"
    using assms(1)
  proof (induction ids arbitrary: s)
    case (Cons i ids)
    then show ?case using keep [of "client_stops i (sendData i reason s)" ids]
      by (auto simp: client_stops_def sendData_def split: option.splits)
  qed simp
  from stopped_stays [OF assms(3) this] assms(2) frame show ?thesis by simp
qed

theorem closing_reason_lost_witness:
  "\<exists>t. steps (disconnect_all [7] [0] (accept_done False launched)) t \<and> io_toSend t = [] \<and> of_client 0 (io_written t) = []"
proof -
  let ?s = "accept_done False launched"
  let ?t = "triggerClientCleanup ((disconnect_all [7] [0] ?s)\<lparr>io_toSend := []\<rparr>)"
  have "write_round False (disconnect_all [7] [0] ?s) = Inr ?t"
    by (simp add: write_round_def launched_def accept_done_def sendData_def client_stops_def triggerClientCleanup_def)
  then have st: "steps (disconnect_all [7] [0] ?s) ?t" by (rule steps.writes [OF steps.none])
  then have "of_client 0 (io_written ?t) = of_client 0 (io_written ?s)"
    by (intro closing_reason_lost [of 0 "[0]" ?s "[7]"]) (simp_all add: launched_def accept_done_def)
  then have "of_client 0 (io_written ?t) = []" by (simp add: launched_def accept_done_def)
  with st show ?thesis by (intro exI [of _ ?t]) (simp add: triggerClientCleanup_def)
qed

end
