(* ===== verification/Loot_Tables.thy ===== *)
theory Loot_Tables
  imports Floats
begin

text \<open>
  \<open>loot_tables/\<close>: what polling a loot table yields. A table has pools, a pool a number of rolls and weighted
  entries, an entry an item or further entries. The tables as they are after the JSON files are read; the
  numbers \<open>rand()\<close> gives are the argument \<open>rnd\<close>, and the state counts how many were taken.
\<close>

section \<open>Tables\<close>

text \<open>\<open>verify\<close> of each of them answers true, whatever the context.\<close>

datatype condition = C_Alternative | C_BlockStateProperties | C_DamageSourceProperties | C_EntityProperties
  | C_EntityScores | C_Inverted | C_KilledByPlayer | C_LocationCheck | C_MatchTool | C_RandomChance
  | C_RandomChanceWithLooting | C_Reference | C_SurvivesExplosion | C_TableBonus | C_TimeCheck | C_ValueCheck | C_WeatherCheck

definition verify :: "condition \<Rightarrow> bool" where
  "verify c \<longleftrightarrow> True"

text \<open>
  The weight of an entry from the fields \<open>weight\<close> and \<open>quality\<close> of the file: the second one is stored as
  the weight too. Weights are \<open>int64_t\<close>; those of the files are small.
\<close>

definition entry_weight :: "int option \<Rightarrow> int option \<Rightarrow> int" where
  "entry_weight weight quality =
     (case quality of Some q \<Rightarrow> q | None \<Rightarrow> (case weight of Some w \<Rightarrow> w | None \<Rightarrow> 1))"

text \<open>
  The entry of another table looks for a table of empty name before it takes the one it names; there is
  none, so it stays without a table.
\<close>

datatype loot_entry =
    E_Item (weight_of: int) "condition list" i32
  | E_Empty (weight_of: int) "condition list"
  | E_ItemTag (weight_of: int) string
  | E_Dynamic (weight_of: int)
  | E_LootTable (weight_of: int) string
  | E_Group (weight_of: int) "condition list" "loot_entry list"
  | E_Alternative (weight_of: int) "condition list" "loot_entry list"
  | E_Sequence (weight_of: int) "condition list" "loot_entry list"

type_synonym rolled = "i32 \<Rightarrow> byte option"

definition addRolledItem :: "i32 \<Rightarrow> byte \<Rightarrow> rolled \<Rightarrow> rolled" where
  "addRolledItem item count m = (case m item of None \<Rightarrow> m(item \<mapsto> count) | Some c \<Rightarrow> m(item \<mapsto> c + count))"

section \<open>Polling an entry\<close>

text \<open>
  \<open>continue\<close> in the loops over the conditions of a group and of an alternative goes on with the next
  condition, so the conditions have no effect there.
\<close>

fun entry_poll :: "loot_entry \<Rightarrow> rolled \<Rightarrow> rolled \<times> bool"
  and poll_all :: "loot_entry list \<Rightarrow> rolled \<Rightarrow> rolled"
  and poll_sequence :: "condition list \<Rightarrow> loot_entry list \<Rightarrow> rolled \<Rightarrow> bool \<Rightarrow> rolled \<times> bool" where
  "entry_poll (E_Item w cs item) m = (if list_all verify cs then (addRolledItem item 1 m, True) else (m, False))"
| "entry_poll (E_Empty w cs) m = (m, list_all verify cs)"
| "entry_poll (E_ItemTag w name) m = (m, True)"
| "entry_poll (E_Dynamic w) m = (m, True)"
| "entry_poll (E_LootTable w name) m = (m, False)"
| "entry_poll (E_Group w cs es) m = (poll_all es m, True)"
| "entry_poll (E_Alternative w cs es) m = (case es of [] \<Rightarrow> (m, False) | e # _ \<Rightarrow> (fst (entry_poll e m), True))"
| "entry_poll (E_Sequence w cs es) m = poll_sequence cs es m False"
| "poll_all [] m = m"
| "poll_all (e # es) m = poll_all es (fst (entry_poll e m))"
| "poll_sequence cs [] m polled = (m, polled)"
| "poll_sequence cs (e # es) m polled =
     (if list_all verify cs then poll_sequence cs es (fst (entry_poll e m)) True else (m, polled))"

section \<open>Rolls\<close>

datatype roll = R_Constant int | R_Uniform int int | R_Binomial int f64 | R_Score

definition one64 :: f64 where "one64 = 0x3FF0000000000000"
definition tenthousand64 :: f64 where "tenthousand64 = 0x40C3880000000000"

text \<open>The number of rolls, the probability of each, and the numbers taken from \<open>rand()\<close>.\<close>

fun roll_poll :: "(nat \<Rightarrow> nat) \<Rightarrow> nat \<Rightarrow> roll \<Rightarrow> int \<times> f64 \<times> nat" where
  "roll_poll rnd k (R_Constant n) = (n, one64, k)"
| "roll_poll rnd k (R_Uniform lo hi) =
     (if hi \<le> lo then (lo, one64, k) else (lo + int (rnd k) mod (hi - lo + 1), one64, Suc k))"
| "roll_poll rnd k (R_Binomial n p) = (n, p, k)"
| "roll_poll rnd k R_Score = (1, one64, k)"

section \<open>Pools\<close>

record loot_pool =
  po_roll :: roll
  po_entries :: "loot_entry list"

definition getTotalWeight :: "loot_pool \<Rightarrow> int" where
  "getTotalWeight p = sum_list (map weight_of (po_entries p))"

text \<open>
  The loop that looks for the entry of the rolled weight: \<open>elapsedWeight\<close> stays 0, and it is the rolled
  weight that grows.
\<close>

fun choose_entry :: "int \<Rightarrow> int \<Rightarrow> loot_entry list \<Rightarrow> loot_entry option" where
  "choose_entry totalWeight rolledWeight [] = None"
| "choose_entry totalWeight rolledWeight (e # es) =
     (if totalWeight \<le> 1 \<or> rolledWeight < 0 + weight_of e then Some e
      else choose_entry totalWeight (rolledWeight + weight_of e) es)"

definition pool_round :: "fpu \<Rightarrow> (nat \<Rightarrow> nat) \<Rightarrow> loot_pool \<Rightarrow> f64 \<Rightarrow> rolled \<times> nat \<Rightarrow> rolled \<times> nat" where
  "pool_round F rnd p probability = (\<lambda>(m, k).
     let sure = f64_le one64 probability;
         k1 = (if sure then k else Suc k);
         totalWeight = getTotalWeight p in
     if sure \<or> f64_less (d_of_i F (int (rnd k) mod 10000)) (d_mul F probability tenthousand64) then
       let rolledWeight = (if totalWeight > 1 then int (rnd k1) mod totalWeight else 0);
           k2 = (if totalWeight > 1 then Suc k1 else k1) in
       case choose_entry totalWeight rolledWeight (po_entries p) of
         None \<Rightarrow> (m, k2)
       | Some e \<Rightarrow> (fst (entry_poll e m), k2)
     else (m, k1))"

text \<open>The loop counts in \<open>int\<close>: more rolls than that overflow it.\<close>

definition pool_poll :: "fpu \<Rightarrow> (nat \<Rightarrow> nat) \<Rightarrow> loot_pool \<Rightarrow> rolled \<times> nat \<Rightarrow> (rolled \<times> nat) result" where
  "pool_poll F rnd p = (\<lambda>(m, k). case roll_poll rnd k (po_roll p) of (nbr, probability, k1) \<Rightarrow>
     if nbr > 2 ^ 31 - 1 then Inl (UB SignedOverflow)
     else Inr ((pool_round F rnd p probability ^^ nat nbr) (m, k1)))"

fun table_poll :: "fpu \<Rightarrow> (nat \<Rightarrow> nat) \<Rightarrow> loot_pool list \<Rightarrow> rolled \<times> nat \<Rightarrow> (rolled \<times> nat) result" where
  "table_poll F rnd [] s = Inr s"
| "table_poll F rnd (p # ps) s = rbind (pool_poll F rnd p s) (table_poll F rnd ps)"

section \<open>Properties\<close>

fun entry_items :: "loot_entry \<Rightarrow> i32 set"
  and all_items :: "loot_entry list \<Rightarrow> i32 set" where
  "entry_items (E_Item w cs item) = {item}"
| "entry_items (E_Group w cs es) = all_items es"
| "entry_items (E_Alternative w cs es) = all_items es"
| "entry_items (E_Sequence w cs es) = all_items es"
| "entry_items _ = {}"
| "all_items [] = {}"
| "all_items (e # es) = entry_items e \<union> all_items es"

lemma entry_poll_items:
  "dom (fst (entry_poll e m)) \<subseteq> dom m \<union> entry_items e"
  "dom (poll_all es m) \<subseteq> dom m \<union> all_items es"
  "dom (fst (poll_sequence cs es m b)) \<subseteq> dom m \<union> all_items es"
proof (induction e m and es m and cs es m b rule: entry_poll_poll_all_poll_sequence.induct)
  case (7 w cs es m)
  then show ?case by (cases es) auto
next
  case (10 e es m)
  then show ?case by simp blast
qed (auto simp: addRolledItem_def split: option.splits if_splits)

lemma choose_entry_in: "choose_entry totalWeight r es = Some e \<Longrightarrow> e \<in> set es"
  by (induction es arbitrary: r) (auto split: if_splits)

lemma entry_items_all: "e \<in> set es \<Longrightarrow> entry_items e \<subseteq> all_items es"
  by (induction es) auto

lemma pool_round_items:
  assumes "\<And>r e. 0 \<le> r \<Longrightarrow> choose_entry (getTotalWeight p) r (po_entries p) = Some e \<Longrightarrow> entry_items e \<subseteq> X"
  shows "dom (fst (pool_round F rnd p q s)) \<subseteq> dom (fst s) \<union> X"
proof -
  obtain m k where s: "s = (m, k)" by fastforce
  have "dom (fst (case choose_entry (getTotalWeight p) r (po_entries p) of None \<Rightarrow> (m, k2) | Some e \<Rightarrow> (fst (entry_poll e m), k2))) \<subseteq> dom m \<union> X"
    if "0 \<le> r" for r and k2 :: nat
    using assms [OF that] entry_poll_items(1) [of _ m] by (fastforce split: option.splits)
  then show ?thesis by (simp add: s pool_round_def Let_def)
qed

lemma pool_poll_items:
  assumes "\<And>r e. 0 \<le> r \<Longrightarrow> choose_entry (getTotalWeight p) r (po_entries p) = Some e \<Longrightarrow> entry_items e \<subseteq> X"
    and "pool_poll F rnd p s = Inr s'"
  shows "dom (fst s') \<subseteq> dom (fst s) \<union> X"
proof -
  have "dom (fst ((pool_round F rnd p q ^^ n) t)) \<subseteq> dom (fst t) \<union> X" for n q t
  proof (induction n)
    case (Suc n)
    then show ?case using pool_round_items [OF assms(1), where s = "(pool_round F rnd p q ^^ n) t"] by fastforce
  qed simp
  from this [where t = "(fst s, k)" for k] assms(2) show ?thesis
    by (fastforce simp: pool_poll_def split: prod.splits if_splits)
qed

text \<open>A table yields only items of its entries.\<close>

lemma table_items:
  "table_poll F rnd ps s = Inr s' \<Longrightarrow> dom (fst s') \<subseteq> dom (fst s) \<union> (\<Union>p\<in>set ps. all_items (po_entries p))"
proof (induction ps arbitrary: s)
  case (Cons p ps)
  then obtain t where t: "pool_poll F rnd p s = Inr t" "table_poll F rnd ps t = Inr s'" by (auto simp: rbind_Inr_iff)
  have "dom (fst t) \<subseteq> dom (fst s) \<union> all_items (po_entries p)"
    by (rule pool_poll_items [OF _ t(1)]) (meson choose_entry_in entry_items_all order_refl order_trans)
  with Cons.IH [OF t(2)] show ?case by auto
qed simp

lemma choose_first:
  assumes "list_all (\<lambda>f. 1 \<le> weight_of f \<and> weight_of f \<le> w) es" "w \<le> r" "1 < totalWeight"
  shows "choose_entry totalWeight r es = None"
  using assms by (induction es arbitrary: r) auto


definition test_pool :: loot_pool where
  "test_pool = \<lparr>po_roll = R_Constant 2, po_entries = [E_Item 1 [] 5, E_Item 1 [] 6]\<rparr>"

definition loot_fpu :: fpu where
  "loot_fpu = \<lparr>d_add = (+), d_sub = (-), d_mul = (*), d_div = (\<lambda>x y. x), d_sqrt = id, d_of_f = ucast, d_of_i = of_int,
     f_of_d = ucast, f_of_i = of_int, f_add = (+), f_sub = (-)\<rparr>"


end
