(* ===== verification/Configuration.thy ===== *)
theory Configuration
  imports Cubic_Prelude
begin

text \<open>
  \<open>configuration/\<close>: where the settings of the server come from. A setting is taken from the command line,
  the environment or the configuration file. A file is the tree a YAML library reads, the command line
  what an argument parser finds; both libraries are not modelled. \<open>ConfigurationError\<close> and the exception
  of the library for a key of a scalar are runtime errors.
\<close>

section \<open>The tree of a file\<close>

datatype yaml = Y_Undefined | Y_Null | Y_Scalar string | Y_Sequence "string list" | Y_Map "(string \<times> yaml) list"

definition yaml_has :: "yaml \<Rightarrow> string \<Rightarrow> bool result" where
  "yaml_has y key =
     (case y of
        Y_Map kvs \<Rightarrow> Inr (map_of kvs key \<noteq> None \<and> map_of kvs key \<noteq> Some Y_Undefined)
      | Y_Scalar _ \<Rightarrow> Inl RuntimeError
      | _ \<Rightarrow> Inr False)"

definition yaml_at :: "yaml \<Rightarrow> string \<Rightarrow> yaml result" where
  "yaml_at y key = (case y of Y_Map kvs \<Rightarrow> (case map_of kvs key of None \<Rightarrow> Inl RuntimeError | Some z \<Rightarrow> Inr z) | _ \<Rightarrow> Inl RuntimeError)"

text \<open>The walk of \<open>parse\<close> along the keys stops at the first one that is missing.\<close>

fun yaml_walk :: "yaml \<Rightarrow> string list \<Rightarrow> yaml result" where
  "yaml_walk node [] = Inr node"
| "yaml_walk node (key # keys) = rbind (yaml_has node key) (\<lambda>h.
     if h then rbind (yaml_at node key) (\<lambda>n. yaml_walk n keys) else Inr node)"

section \<open>A setting\<close>

record setting =
  cv_name :: string
  cv_required :: bool
  cv_implicit :: bool
  cv_value :: "string list"
  cv_defaultValue :: "string list"
  cv_possibleValue :: "string list"
  cv_config :: "string list"
  cv_argument :: string
  cv_environment :: string

definition newSetting :: "string \<Rightarrow> setting" where
  "newSetting name = \<lparr>cv_name = name, cv_required = False, cv_implicit = False, cv_value = [], cv_defaultValue = [],
     cv_possibleValue = [], cv_config = [], cv_argument = [], cv_environment = []\<rparr>"

definition set_required :: "setting \<Rightarrow> setting" where
  "set_required v = v\<lparr>cv_required := True\<rparr>"

definition set_default :: "string \<Rightarrow> setting \<Rightarrow> setting" where
  "set_default d v = v\<lparr>cv_defaultValue := cv_defaultValue v @ [d]\<rparr>"

definition valueFromArgument :: "string \<Rightarrow> setting \<Rightarrow> setting" where
  "valueFromArgument a v = v\<lparr>cv_argument := a\<rparr>"

definition valueFromEnvironmentVariable :: "string \<Rightarrow> setting \<Rightarrow> setting" where
  "valueFromEnvironmentVariable e v = v\<lparr>cv_environment := e\<rparr>"

definition valueFromConfig :: "string \<Rightarrow> string list \<Rightarrow> setting \<Rightarrow> setting result" where
  "valueFromConfig node keys v =
     (if keys = [] then Inr (v\<lparr>cv_config := [node]\<rparr>)
      else if [] \<in> set (node # keys) then Inl RuntimeError
      else Inr (v\<lparr>cv_config := node # keys\<rparr>))"

definition set_implicit :: "setting \<Rightarrow> setting" where
  "set_implicit v = v\<lparr>cv_implicit := True, cv_defaultValue := [''false'']\<rparr>"

text \<open>The list is made as long as the values are many, and the values are appended after that.\<close>

definition possibleValues :: "string list \<Rightarrow> setting \<Rightarrow> setting" where
  "possibleValues vs v = v\<lparr>cv_possibleValue := replicate (length vs) [] @ vs\<rparr>"

definition cv_the_value :: "setting \<Rightarrow> string result" where
  "cv_the_value v = (case cv_value v of x # _ \<Rightarrow> Inr x | [] \<Rightarrow> (case cv_defaultValue v of d # _ \<Rightarrow> Inr d | [] \<Rightarrow> Inl RuntimeError))"

definition cv_values :: "setting \<Rightarrow> string list" where
  "cv_values v = (if cv_value v \<noteq> [] then cv_value v else cv_defaultValue v)"

definition isDefault :: "setting \<Rightarrow> bool" where
  "isDefault v \<longleftrightarrow> cv_value v = []"

definition isArray :: "setting \<Rightarrow> bool" where
  "isArray v \<longleftrightarrow> length (cv_value v) > 1"

text \<open>\<open>Convertor<bool>\<close>.\<close>

definition as_bool :: "setting \<Rightarrow> bool result" where
  "as_bool v = rbind (cv_the_value v) (\<lambda>s. Inr (s = ''true''))"

section \<open>Where its value comes from\<close>

record sources =
  src_arguments :: "string \<Rightarrow> string option"
  src_environment :: "string \<Rightarrow> string option"
  src_files :: "string \<Rightarrow> string option"

definition from_argument :: "sources \<Rightarrow> setting \<Rightarrow> setting" where
  "from_argument S v =
     (if cv_argument v = [] then v
      else case src_arguments S (cv_argument v) of None \<Rightarrow> v | Some x \<Rightarrow> v\<lparr>cv_value := [x]\<rparr>)"

text \<open>A variable with the suffix \<open>_FILE\<close> names a file that holds the value.\<close>

definition environment_value :: "sources \<Rightarrow> string \<Rightarrow> string option" where
  "environment_value S var =
     (case Option.bind (src_environment S (var @ ''_FILE'')) (src_files S) of
        Some x \<Rightarrow> Some x
      | None \<Rightarrow> src_environment S var)"

definition from_environment :: "sources \<Rightarrow> setting \<Rightarrow> setting" where
  "from_environment S v =
     (if cv_environment v = [] \<or> cv_value v \<noteq> [] then v
      else case environment_value S (cv_environment v) of None \<Rightarrow> v | Some x \<Rightarrow> v\<lparr>cv_value := [x]\<rparr>)"

text \<open>The text of a null is the word.\<close>

definition config_value :: "yaml \<Rightarrow> string list result" where
  "config_value node =
     (case node of
        Y_Sequence vs \<Rightarrow> Inr vs
      | Y_Scalar x \<Rightarrow> Inr [x]
      | Y_Null \<Rightarrow> Inr [''null'']
      | _ \<Rightarrow> Inl RuntimeError)"

definition from_config :: "yaml \<Rightarrow> setting \<Rightarrow> setting result" where
  "from_config root v =
     (if cv_config v = [] \<or> cv_value v \<noteq> [] then Inr v
      else rbind (rbind (yaml_walk root (cv_config v)) config_value) (\<lambda>vs. Inr (v\<lparr>cv_value := vs\<rparr>)))"

definition check_possible :: "setting \<Rightarrow> setting result" where
  "check_possible v =
     (if cv_possibleValue v = [] then Inr v
      else if cv_value v = [] \<and> cv_defaultValue v = [] \<and> cv_required v then Inl RuntimeError
      else if list_all (\<lambda>x. x \<in> set (cv_possibleValue v)) (cv_value v) then Inr v
      else Inl RuntimeError)"

definition setting_parse :: "sources \<Rightarrow> yaml \<Rightarrow> setting \<Rightarrow> setting result" where
  "setting_parse S root v = rbind (from_config root (from_environment S (from_argument S v))) check_possible"

text \<open>\<open>ConfigHandler::parse\<close>: every setting in turn.\<close>

fun handler_parse :: "sources \<Rightarrow> yaml \<Rightarrow> setting list \<Rightarrow> setting list result" where
  "handler_parse S root [] = Inr []"
| "handler_parse S root (v # vs) = rbind (setting_parse S root v) (\<lambda>v'. rbind (handler_parse S root vs) (\<lambda>vs'. Inr (v' # vs')))"

section \<open>Properties\<close>

text \<open>The sources of a setting in the order of their priority.\<close>

definition argument_of :: "sources \<Rightarrow> setting \<Rightarrow> string option" where
  "argument_of S v = (if cv_argument v = [] then None else src_arguments S (cv_argument v))"

definition environment_of :: "sources \<Rightarrow> setting \<Rightarrow> string option" where
  "environment_of S v = (if cv_environment v = [] then None else environment_value S (cv_environment v))"

lemma from_argument_eq:
  "cv_value v = [] \<Longrightarrow> from_argument S v = v\<lparr>cv_value := (case argument_of S v of None \<Rightarrow> [] | Some x \<Rightarrow> [x])\<rparr>"
  by (cases v) (auto simp: from_argument_def argument_of_def split: option.splits)

lemma from_environment_eq:
  "from_environment S (v\<lparr>cv_value := xs\<rparr>)
   = v\<lparr>cv_value := (if xs \<noteq> [] then xs else case environment_of S v of None \<Rightarrow> [] | Some x \<Rightarrow> [x])\<rparr>"
  by (auto simp: from_environment_def environment_of_def split: option.splits)

lemma from_config_eq:
  "from_config root (v\<lparr>cv_value := xs\<rparr>) = (if xs \<noteq> [] \<or> cv_config v = [] then Inr (v\<lparr>cv_value := xs\<rparr>)
     else rbind (rbind (yaml_walk root (cv_config v)) config_value) (\<lambda>vs. Inr (v\<lparr>cv_value := vs\<rparr>)))"
  by (auto simp: from_config_def)

lemmas source_eqs = from_argument_eq from_environment_eq from_config_eq

text \<open>C32: A setting that is parsed for the first time takes the argument of the command line; without one, the variable
of the environment; without that, the value the configuration file has at its keys; and its default when it
has no keys. An empty list of possible values restricts nothing.\<close>

theorem setting_priority:
  assumes "cv_value v = []" "setting_parse S root v = Inr v'"
  shows "cv_values v' =
    (case argument_of S v of
       Some x \<Rightarrow> [x]
     | None \<Rightarrow> (case environment_of S v of
         Some x \<Rightarrow> [x]
       | None \<Rightarrow>
           if cv_config v = [] then cv_defaultValue v
           else case rbind (yaml_walk root (cv_config v)) config_value of
             Inr (x # xs) \<Rightarrow> x # xs | _ \<Rightarrow> cv_defaultValue v))"
proof -
  obtain u where u: "from_config root (from_environment S (from_argument S v)) = Inr u" "check_possible u = Inr v'"
    using assms(2) by (auto simp: setting_parse_def rbind_Inr_iff)
  then have "v' = u" by (auto simp: check_possible_def split: if_splits)
  have p: "from_config root (v\<lparr>cv_value := (if xs \<noteq> [] then xs else ys)\<rparr>) = Inr v'"
    if "xs = (case argument_of S v of None \<Rightarrow> [] | Some x \<Rightarrow> [x])" "ys = (case environment_of S v of None \<Rightarrow> [] | Some x \<Rightarrow> [x])" for xs ys
    using u(1) \<open>v' = u\<close> that by (auto simp: from_argument_eq [OF assms(1)] from_environment_eq)
  show ?thesis
  proof (cases "argument_of S v")
    case (Some x)
    with p [of "[x]"] show ?thesis by (auto simp: from_config_eq cv_values_def)
  next
    case None
    show ?thesis
    proof (cases "environment_of S v")
      case (Some x)
      with None p [of "[]" "[x]"] show ?thesis by (auto simp: from_config_eq cv_values_def)
    next
      case N: None
      with None p [of "[]" "[]"] have f: "from_config root (v\<lparr>cv_value := []\<rparr>) = Inr v'" by simp
      show ?thesis
      proof (cases "cv_config v = []")
        case True
        with f None N show ?thesis by (auto simp: from_config_eq cv_values_def)
      next
        case False
        with f obtain vs where vs: "rbind (yaml_walk root (cv_config v)) config_value = Inr vs" "v' = v\<lparr>cv_value := vs\<rparr>"
          by (auto simp: from_config_eq rbind_Inr_iff)
        with None N False show ?thesis by (cases vs) (auto simp: cv_values_def)
      qed
    qed
  qed
qed

definition test_sources :: sources where
  "test_sources = \<lparr>src_arguments = Map.empty, src_environment = [''CBSRV_PORT_FILE'' \<mapsto> ''/run/port''], src_files = [''/run/port'' \<mapsto> ''25570'']\<rparr>"

definition port_setting :: setting where
  "port_setting = set_default ''25565'' ((newSetting ''port'')\<lparr>cv_config := [''network'', ''port''], cv_argument := ''--port'', cv_environment := ''CBSRV_PORT''\<rparr>)"

theorem setting_priority_witness:
  "map_sum id cv_values (setting_parse test_sources (Y_Map [(''network'', Y_Map [(''port'', Y_Scalar ''1'')])]) port_setting) = Inr [''25570'']"
proof -
  let ?root = "Y_Map [(''network'', Y_Map [(''port'', Y_Scalar ''1'')])]"
  obtain v' where v: "setting_parse test_sources ?root port_setting = Inr v'"
    by (auto simp: setting_parse_def from_argument_def from_environment_def from_config_def check_possible_def port_setting_def newSetting_def
        set_default_def test_sources_def environment_value_def)
  have "cv_values v' = [''25570'']"
    using setting_priority [OF _ v] by (simp add: port_setting_def newSetting_def set_default_def argument_of_def environment_of_def
        environment_value_def test_sources_def)
  with v show ?thesis by simp
qed

text \<open>An empty file is a null: every setting with keys becomes the word null, its default is not used.\<close>

lemma empty_file_null:
  "cv_value v = [] \<Longrightarrow> cv_config v \<noteq> [] \<Longrightarrow> argument_of S v = None \<Longrightarrow> environment_of S v = None \<Longrightarrow> cv_possibleValue v = []
   \<Longrightarrow> \<exists>v'. setting_parse S Y_Null v = Inr v' \<and> cv_values v' = [''null'']"
  by (cases "cv_config v") (simp_all add: setting_parse_def source_eqs yaml_has_def config_value_def check_possible_def cv_values_def)

text \<open>A setting restricted to some values accepts the empty text as well.\<close>

lemma possible_empty: "vs \<noteq> [] \<Longrightarrow> check_possible ((possibleValues vs v)\<lparr>cv_value := [[]]\<rparr>) = Inr ((possibleValues vs v)\<lparr>cv_value := [[]]\<rparr>)"
  by (simp add: check_possible_def possibleValues_def)

end
