(* ===== verification/Spec2Isabelle.thy ===== *)
theory Spec2Isabelle
  imports Wire_Properties Nbt_Roundtrip Server_Dispatch Server_Roundtrip Chunk_Column
    Container_Properties Client_Properties Chunk_Delivery Client_Login Command_Properties
    Regions Server_Loop Loot_Tables Configuration
begin

text \<open>
  A verification development for \<^emph>\<open>cubic-server\<close>, a Minecraft server in C++ (sources under
  \<open>src/cubic-server/\<close>).

  \<^bold>\<open>The program.\<close> A client sends a stream of bytes; \<open>Client\<close> cuts it into packets, looks the parser of a
  packet up by the state of the connection and the packet's identifier (\<open>protocol/ServerPackets\<close>), and
  the parsers read the fields with the \<open>pop\<close> functions of \<open>protocol/serialization\<close>. The handlers
  change the world, whose blocks are kept in packed arrays with palettes (\<open>world_storage\<close>), and answer
  with packets built from the \<open>add\<close> functions. Persistent data are NBT trees (\<open>nbt\<close>).

  \<^bold>\<open>Theories and sources.\<close>
  \<^item> \<open>Cubic_Prelude\<close>: machine integers, bytes and buffers, the errors a C++ function can end with
    (exceptions and undefined behaviour as values), the result type and its bind.
  \<^item> \<open>Structures\<close>: \<open>types.hpp\<close>, \<open>protocol/Structures.hpp\<close> (positions, UUIDs, inventory slots and their
    swap operations).
  \<^item> \<open>Pop_Primary\<close>, \<open>Add_Primary\<close>: \<open>popPrimaryType.hpp\<close>, \<open>pop.hpp\<close>, \<open>addPrimaryType.hpp\<close>. A pop function
    takes the buffer, the index \<open>eof\<close> of its last byte and the index it reads from, and returns the
    value and the new index; an add function returns the extended vector.
  \<^item> \<open>Wire\<close>: the locale \<open>codec\<close> (a writer, a reader and the encoding between them) and its
    interpretations on every pair of pop and add functions; \<open>Wire_Properties\<close>: what follows for the wire
    format.
  \<^item> \<open>Packet_Utils\<close>: \<open>PacketUtils.hpp\<close>, the variadic \<open>parse\<close> and \<open>serialize\<close> as lists of steps, and
    \<open>finalize\<close>.
  \<^item> \<open>Server_Packets\<close>, \<open>Server_Dispatch\<close>, \<open>Server_Roundtrip\<close>: the structs and parse functions of
    \<open>ServerPackets\<close>, the four tables from identifiers to parsers, and their properties.
  \<^item> \<open>Nbt\<close>, \<open>Nbt_Roundtrip\<close>: \<open>nbt.hpp\<close> and \<open>nbt.cpp\<close>, the tag tree, its serializer and its parser.
  \<^item> \<open>Dynamic_Storage\<close>, \<open>Palette\<close>, \<open>Section\<close>, \<open>Chunk_Column\<close>: the files of these names under
    \<open>world_storage/\<close>, from the packed array up to a column and its generation.
  \<^item> \<open>Actions\<close>: steps on a state that end normally or with an error, and their sequences.
  \<^item> \<open>Containers\<close>, \<open>Container_Properties\<close>: \<open>protocol/container/\<close>, the clicks of a player on the slots of a
    window; the locale \<open>slot_container\<close> states what a container promises of its slots, and is
    interpreted on the inventory.
  \<^item> \<open>Add_Structures\<close>, \<open>Client_Packets\<close>, \<open>Client_Properties\<close>: \<open>serialization/add.hpp\<close> and
    \<open>protocol/ClientPackets\<close>, the packets the server builds.
  \<^item> \<open>Floats\<close>: floating-point numbers as their bits: comparison and truncation to integers are defined,
    the rounded operations are the fields of the record \<open>fpu\<close>, a parameter.
  \<^item> \<open>Level\<close>, \<open>Server_State\<close>: \<open>world_storage/Level\<close>, and the state that the handlers share: clocks
    (\<open>TickClock\<close>), players, clients, the dimension and the queue of the generation pool. An object is a
    record in a map from identifiers; a method takes the identifier of \<open>this\<close>.
  \<^item> \<open>Player_Sends\<close>: the functions of \<open>Player.cpp\<close> that send a packet. \<open>Dimension\<close>: \<open>Dimension.cpp\<close>,
    \<open>Item.cpp\<close>, \<open>thread_pool/PriorityThreadPool\<close>. \<open>Player_Chunks\<close>: which chunks a player holds.
    \<open>Dimension_Properties\<close>, \<open>Chunk_Delivery\<close>: block updates, and the protocol between players, requests
    and generation jobs with the locale \<open>chunk_generator\<close>, interpreted on \<open>default/Overworld.cpp\<close>.
  \<^item> \<open>Worlds\<close>: \<open>World.cpp\<close> (time, the list of players) and \<open>Chat.cpp\<close> (who is sent a message).
    \<open>Player_Actions\<close>: what a player does on its own in \<open>Player.cpp\<close>, \<open>Entity.cpp\<close> and \<open>LivingEntity.cpp\<close>
    (construction, movement, keep-alive, food, damage, sounds). \<open>Player_Handlers\<close>: the handlers of the play
    state and the login sequence.
  \<^item> \<open>Player_Invariants\<close>: the locale \<open>player_rules\<close> of what may be said of a player so that every handler
    keeps it, interpreted twice: for the shape of a player, and for its privileges. \<open>Player_Properties\<close>,
    \<open>Player_Login\<close>: keep-alive, the login sequence and movement.
  \<^item> \<open>Identity\<close>: the text of a UUID (\<open>types.cpp\<close>), \<open>Checksum::digestToProtocol\<close> and \<open>whitelist/Whitelist.cpp\<close>.
  \<^item> \<open>Client_Connection\<close>: \<open>Client.cpp\<close>, from the received bytes to the handlers of every state.
    \<open>Connection_Properties\<close>, \<open>Client_Login\<close>: how the stream is cut, and who enters the game.
  \<^item> \<open>Commands\<close>: \<open>command_parser/\<close>, the interpreter and the commands, and \<open>Permissions.cpp\<close>, the operators.
    \<open>Command_Properties\<close>: the locales \<open>quiet_rules\<close> and \<open>command_rules\<close> of what a command keeps, interpreted
    for the shape of players and for the badges of operators; \<open>commanded\<close> puts the interpreter into the
    handler of a chat command.
  \<^item> \<open>Block_States\<close>: \<open>protocol_id_converter/\<close>, the numbers of block states and items.
  \<^item> \<open>Saved_Data\<close>, \<open>Regions\<close>: \<open>world_storage/Persistence\<close> with \<open>LevelData.hpp\<close> and \<open>PlayerData.hpp\<close>: what a saved
    world says of the level and of a player, and its region files, from the table of a region down to
    the palettes and arrays of a section.
  \<^item> \<open>Loot_Tables\<close>: \<open>loot_tables/\<close>, polling tables, pools, entries and rolls. \<open>Configuration\<close>: \<open>configuration/\<close>, where a
    setting gets its value.
  \<^item> \<open>Server_Loop\<close>: the clients, the queue and the writing thread of \<open>Server.cpp\<close>, as an inductive relation over
    the interleavings of their steps.

  \<^bold>\<open>What is shown.\<close> Every value that is written can be read back from the same place of the buffer
  (\<open>Wire_Properties\<close>, \<open>Nbt_Roundtrip\<close>, \<open>Server_Roundtrip\<close>); no parser reads outside the buffer, whatever
  the bytes (\<open>Server_Dispatch\<close>, \<open>Nbt_Roundtrip\<close>); a packed array, a section and a column refine a plain
  array of blocks (\<open>Dynamic_Storage\<close>, \<open>Section\<close>, \<open>Chunk_Column\<close>), the light counters are the numbers of
  lit blocks, the generators produce the layers of the code, and the generation machine reaches its
  goal. A player that moves holds exactly the chunks around it, the generation jobs deliver every chunk
  that is waited for, and a block update reaches the block and every player. A complete packet is handled
  and exactly its bytes are consumed; a client enters the game only by an admitted or authenticated login,
  and the bytes of an admitted login do bring it there. No packet, command, tick or login brings a player
  out of shape; no packet or command gives rights to players who have none, a command of such a player
  changes nothing but what is sent, and the badges of players agree with the set of operators. A player
  that does not answer is disconnected at a known tick. A saved chunk becomes a column with the blocks
  of the file, the region of a chunk is loaded once, and block states are numbered without loss where the
  weights fit their type. What is sent to a client is written to it in
  order, and a setting takes its sources by their priority. Places where the code departs from its intent are stated as theorems too.

  \<^bold>\<open>Bounds and fuel.\<close> The loops of the sources are structural or have a measure. The two mutually
  recursive parsers of NBT run on fuel: the depth is \<open>length b + 2\<close>, enough because each level reads at
  least one byte, and the compound loop has one round per byte; \<open>nbt_parse_safe\<close> shows that the fuel
  never runs out. The loop that cuts a stream into packets may run for ever: \<open>handlePacket\<close> is a partial
  function whose value is \<open>None\<close> then, and the theorems on it give its value.

  \<^bold>\<open>Parameters.\<close> The block identifiers come from a header the build generates; the terrain generator and
  the trees are arguments of the generation steps. Rounded floating-point arithmetic is the record \<open>fpu\<close>,
  \<open>Persistence::isChunkLoaded\<close> an argument of \<open>overworld_generateChunk\<close>. The record \<open>libnbt\<close> stands for the
  library that reads compressed tag trees, with the law \<open>compound_law\<close> on its lookup; files are functions
  from paths to bytes, and the JSON files of blocks and items come parsed. The record \<open>server_env\<close> holds
  the clocks, the JSON text of messages, the table from items to blocks, the answers of plugins to events they may
  cancel and the command interpreter, which \<open>commanded\<close> fills in; \<open>command_env\<close> the conversion of numbers,
  the message with the seed, the names of loggers and the files a reload reads; \<open>login_env\<close> the
  configuration of a login and what the cryptography, hashing and HTTP libraries answer. One world with
  one dimension is modelled, the one the server creates.

  \<^bold>\<open>Concurrency.\<close> Methods run one after the other, each as one step: the code holds a mutex over what
  it changes. Places where it does not are listed in the findings, not modelled. The loop bounds of
  \<open>_updateRenderedChunks\<close> are computed without overflow, which holds for chunk coordinates below \<open>2 ^ 30\<close>.

  \<^bold>\<open>Not modelled.\<close> Sockets and locks, logging, the terminal and graphical interface, HTTP and cryptography,
  plugins: they call libraries and keep no state of the game. Of the configuration, the YAML library, the
  argument parser and writing the file; of the loot tables, how they are built from JSON. The noise of the
  terrain generator is floating-point arithmetic; recipes are read from JSON into classes that the server
  never uses; the list of sounds is a table of constants.
\<close>

end
